(* ===== verification/Prelude.thy ===== *)
theory Prelude
  imports
    Main
    "HOL-Library.Sublist"
    "HOL-Library.Multiset"
    "HOL-Library.Char_ord"
    "HOL-Library.List_Lexorder"
begin

text \<open>
  The part of the Go language and of its standard library that KubeWhy uses, as executable
  functions, with the lemmas the components share:
  \<^item> 32-bit integer arithmetic (\<open>wrap32\<close>), points in time and saturating time differences;
  \<^item> decimal rendering and reading (\<open>fmt\<close> verb d, \<open>strconv.Atoi\<close>), Go quoting (verb q);
  \<^item> the functions of package \<open>strings\<close> and the four regular expressions of the program.

  A Go string is a byte sequence; the model is a list of the 256 characters, so lengths and
  slices are byte lengths and byte slices as in Go. The case conversions and the trimming of
  white space act on the ASCII range only and leave every other byte alone: they agree with Go
  on every ASCII text, which is what Kubernetes component names and the wording the program
  matches on are made of.
\<close>

named_theorems go_simps
named_theorems snap_simps
named_theorems finding_simps

section \<open>Integers and time\<close>

text \<open>An \<open>int32\<close> is an integer in two's complement range; arithmetic wraps around.\<close>

definition wrap32 :: "int \<Rightarrow> int" where
  "wrap32 x = (x + 2 ^ 31) mod 2 ^ 32 - 2 ^ 31"

lemma wrap32_id: "- (2 ^ 31) \<le> x \<Longrightarrow> x < 2 ^ 31 \<Longrightarrow> wrap32 x = x"
  by (simp add: wrap32_def)

lemma wrap32_range: "- (2 ^ 31) \<le> wrap32 x \<and> wrap32 x < 2 ^ 31"
  by (simp add: wrap32_def)

lemma wrap32_wrap32_add: "wrap32 (wrap32 x + y) = wrap32 (x + y)"
  unfolding wrap32_def by (simp add: mod_simps ac_simps)

text \<open>
  A \<open>time.Time\<close> is the number of nanoseconds since Go's zero time, so \<open>IsZero\<close> is
  equality with 0. \<open>Sub\<close> saturates at the range of \<open>time.Duration\<close> (an \<open>int64\<close>).
\<close>

type_synonym gotime = int
type_synonym duration = int

definition max_duration :: duration where "max_duration = 2 ^ 63 - 1"
definition min_duration :: duration where "min_duration = - (2 ^ 63)"

definition time_Sub :: "gotime \<Rightarrow> gotime \<Rightarrow> duration" where
  "time_Sub t u = max min_duration (min max_duration (t - u))"

definition go_Second :: duration where "go_Second = 1000000000"
definition go_Minute :: duration where "go_Minute = 60 * go_Second"
definition go_Hour :: duration where "go_Hour = 60 * go_Minute"

lemmas duration_units [go_simps] = go_Second_def go_Minute_def go_Hour_def

lemma time_Sub_bounds: "min_duration \<le> time_Sub t u \<and> time_Sub t u \<le> max_duration"
  by (simp add: time_Sub_def min_duration_def max_duration_def)

lemma time_Sub_mono: "u \<le> v \<Longrightarrow> time_Sub t v \<le> time_Sub t u"
  by (simp add: time_Sub_def)

section \<open>Decimal numbers\<close>

definition is_digit :: "char \<Rightarrow> bool" where
  "is_digit c \<longleftrightarrow> (48::nat) \<le> of_char c \<and> of_char c \<le> (57::nat)"

definition digit_val :: "char \<Rightarrow> nat" where
  "digit_val c = of_char c - 48"

definition digit_char :: "nat \<Rightarrow> char" where
  "digit_char n = char_of (48 + n)"

lemma is_digit_digit_char [simp]: "n < 10 \<Longrightarrow> is_digit (digit_char n)"
  by (simp add: is_digit_def digit_char_def)

lemma digit_val_digit_char [simp]: "n < 10 \<Longrightarrow> digit_val (digit_char n) = n"
  by (simp add: digit_val_def digit_char_def)

fun nat_str :: "nat \<Rightarrow> string" where
  "nat_str n = (if n < 10 then [digit_char n] else nat_str (n div 10) @ [digit_char (n mod 10)])"

declare nat_str.simps [simp del]

text \<open>The verb d of \<open>fmt.Sprintf\<close>, and \<open>strconv.Itoa\<close>.\<close>

definition int_str :: "int \<Rightarrow> string" where
  "int_str i = (if i < 0 then CHR ''-'' # nat_str (nat (- i)) else nat_str (nat i))"

definition dec_val :: "string \<Rightarrow> nat" where
  "dec_val s = foldl (\<lambda>a c. 10 * a + digit_val c) 0 s"

lemma dec_val_snoc [simp]: "dec_val (s @ [c]) = 10 * dec_val s + digit_val c"
  by (simp add: dec_val_def)

lemma dec_val_nat_str [simp]: "dec_val (nat_str n) = n"
proof (induction n rule: nat_str.induct)
  case (1 n)
  show ?case
  proof (cases "n < 10")
    case True
    then show ?thesis by (simp add: nat_str.simps [of n] dec_val_def)
  next
    case False
    with 1 show ?thesis by (simp add: nat_str.simps [of n])
  qed
qed

lemma nat_str_digits: "list_all is_digit (nat_str n)"
proof (induction n rule: nat_str.induct)
  case (1 n)
  then show ?case
    by (cases "n < 10") (auto simp: nat_str.simps [of n])
qed

lemma nat_str_not_Nil [simp]: "nat_str n \<noteq> []"
  by (subst nat_str.simps) simp

lemma int_str_not_Nil [simp]: "int_str i \<noteq> []"
  by (simp add: int_str_def)

lemma int_str_of_nat [simp]: "int_str (int n) = nat_str n"
  by (simp add: int_str_def)

text \<open>
  \<open>strconv.Atoi\<close> on a string of digits: the value and whether it was in range. Out of range
  it returns the largest \<open>int64\<close> together with an error.
\<close>

definition atoi_digits :: "string \<Rightarrow> int \<times> bool" where
  "atoi_digits s = (if int (dec_val s) < 2 ^ 63 then (int (dec_val s), True) else (2 ^ 63 - 1, False))"

lemma atoi_digits_nat_str: "int n < 2 ^ 63 \<Longrightarrow> atoi_digits (nat_str n) = (int n, True)"
  by (simp add: atoi_digits_def)

text \<open>\<open>strconv.Atoi\<close>: an optional sign and digits that fit 64 bits.\<close>

definition go_Atoi :: "string \<Rightarrow> int option" where
  "go_Atoi s =
     (let (sgn, digits) = (case s of c # cs \<Rightarrow> (if c = CHR ''-'' then (- 1, cs) else if c = CHR ''+'' then (1, cs) else (1, s)) | [] \<Rightarrow> (1, []));
          n = sgn * int (dec_val digits)
      in if digits \<noteq> [] \<and> list_all is_digit digits \<and> - (2 ^ 63) \<le> n \<and> n < 2 ^ 63 then Some n else None)"

section \<open>Strings\<close>

definition newline :: char where "newline = CHR 0x0A"

definition is_space :: "char \<Rightarrow> bool" where
  "is_space c \<longleftrightarrow>
     c \<in> set [CHR 0x09, CHR 0x0A, CHR 0x0B, CHR 0x0C, CHR 0x0D, CHR '' '']"

text \<open>The class s of Go's regular expressions, which lacks the vertical tab.\<close>

definition is_re_space :: "char \<Rightarrow> bool" where
  "is_re_space c \<longleftrightarrow> c \<in> set [CHR 0x09, CHR 0x0A, CHR 0x0C, CHR 0x0D, CHR '' '']"

definition trim :: "(char \<Rightarrow> bool) \<Rightarrow> string \<Rightarrow> string" where
  "trim P s = rev (dropWhile P (rev (dropWhile P s)))"

definition str_TrimSpace :: "string \<Rightarrow> string" where
  "str_TrimSpace = trim is_space"

definition str_Trim :: "string \<Rightarrow> string \<Rightarrow> string" where
  "str_Trim s cutset = trim (\<lambda>c. c \<in> set cutset) s"

definition nl_to_space :: "string \<Rightarrow> string" where
  "nl_to_space = map (\<lambda>c. if c = newline then CHR '' '' else c)"

definition lower_char :: "char \<Rightarrow> char" where
  "lower_char c = (if (65::nat) \<le> of_char c \<and> of_char c \<le> (90::nat) then char_of (of_char c + (32::nat)) else c)"

definition upper_char :: "char \<Rightarrow> char" where
  "upper_char c = (if (97::nat) \<le> of_char c \<and> of_char c \<le> (122::nat) then char_of (of_char c - (32::nat)) else c)"

definition str_ToLower :: "string \<Rightarrow> string" where
  "str_ToLower = map lower_char"

fun str_Index :: "string \<Rightarrow> string \<Rightarrow> nat option" where
  "str_Index [] sub = (if sub = [] then Some 0 else None)"
| "str_Index (c # s) sub =
     (if prefix sub (c # s) then Some 0 else map_option Suc (str_Index s sub))"

definition str_Contains :: "string \<Rightarrow> string \<Rightarrow> bool" where
  "str_Contains s sub \<longleftrightarrow> str_Index s sub \<noteq> None"

fun str_Split :: "char \<Rightarrow> string \<Rightarrow> string list" where
  "str_Split sep [] = [[]]"
| "str_Split sep (c # s) =
     (if c = sep then [] # str_Split sep s
      else (case str_Split sep s of [] \<Rightarrow> [[c]] | w # ws \<Rightarrow> (c # w) # ws))"

fun str_Join :: "string \<Rightarrow> string list \<Rightarrow> string" where
  "str_Join sep [] = []"
| "str_Join sep [x] = x"
| "str_Join sep (x # y # xs) = x @ sep @ str_Join sep (y # xs)"

text \<open>Go's quoting of a string (verb q of \<open>fmt\<close>), for bytes that need no Unicode escape.\<close>

definition hex_char :: "nat \<Rightarrow> char" where
  "hex_char n = (if n < 10 then char_of (48 + n) else char_of (87 + n))"

definition quote_char :: "char \<Rightarrow> string" where
  "quote_char c =
     (if c = CHR 0x22 then [CHR 0x5C, CHR 0x22]
      else if c = CHR 0x5C then [CHR 0x5C, CHR 0x5C]
      else if c = CHR 0x07 then [CHR 0x5C, CHR ''a'']
      else if c = CHR 0x08 then [CHR 0x5C, CHR ''b'']
      else if c = CHR 0x0C then [CHR 0x5C, CHR ''f'']
      else if c = CHR 0x0A then [CHR 0x5C, CHR ''n'']
      else if c = CHR 0x0D then [CHR 0x5C, CHR ''r'']
      else if c = CHR 0x09 then [CHR 0x5C, CHR ''t'']
      else if c = CHR 0x0B then [CHR 0x5C, CHR ''v'']
      else if of_char c < (32::nat) \<or> of_char c = (127::nat)
        then [CHR 0x5C, CHR ''x'', hex_char (of_char c div 16), hex_char (of_char c mod 16)]
      else [c])"

definition quote_str :: "string \<Rightarrow> string" where
  "quote_str s = [CHR 0x22] @ concat (map quote_char s) @ [CHR 0x22]"

lemma quote_str_not_Nil [simp]: "quote_str s \<noteq> []"
  by (simp add: quote_str_def)

text \<open>The three UTF-8 bytes of the ellipsis and of the em dash, used in string literals.\<close>

definition ellipsis :: string where "ellipsis = [CHR 0xE2, CHR 0x80, CHR 0xA6]"
definition em_dash :: string where "em_dash = [CHR 0xE2, CHR 0x80, CHR 0x94]"

subsection \<open>Lemmas on the string functions\<close>

lemma length_trim_le: "length (trim P s) \<le> length s"
proof -
  have "length (trim P s) \<le> length (rev (dropWhile P s))"
    unfolding trim_def length_rev [of "dropWhile P (rev (dropWhile P s))"]
    by (rule length_dropWhile_le)
  also have "\<dots> \<le> length s"
    by (simp add: length_dropWhile_le)
  finally show ?thesis .
qed

lemma trim_id:
  assumes "s = [] \<or> (\<not> P (hd s) \<and> \<not> P (last s))"
  shows "trim P s = s"
proof (cases "s = []")
  case True
  then show ?thesis by (simp add: trim_def)
next
  case False
  with assms have "dropWhile P s = s" and "dropWhile P (rev s) = rev s"
    by (auto simp: dropWhile_eq_self_iff hd_rev)
  then show ?thesis by (simp add: trim_def)
qed

lemma trim_strip:
  assumes "list_all P a" "list_all P b" "s \<noteq> []" "\<not> P (hd s)" "\<not> P (last s)"
  shows "trim P (a @ s @ b) = s"
proof -
  have "dropWhile P (a @ s @ b) = s @ b"
    using assms(1,3,4) by (auto simp: list_all_iff dropWhile_append2 dropWhile_eq_self_iff)
  moreover have "dropWhile P (rev b @ rev s) = rev s"
    using assms(2,3,5) by (subst dropWhile_append2) (auto simp: list_all_iff dropWhile_eq_self_iff hd_rev)
  ultimately show ?thesis by (simp add: trim_def)
qed

lemma str_Index_char: "c \<notin> set p \<Longrightarrow> str_Index (p @ c # q) [c] = Some (length p)"
  by (induction p) auto

lemma str_Index_char_None: "c \<notin> set s \<Longrightarrow> str_Index s [c] = None"
  by (induction s) auto

lemma str_Index_Some:
  "str_Index s sub = Some i \<Longrightarrow> prefix sub (drop i s) \<and> i \<le> length s"
  by (induction s sub arbitrary: i rule: str_Index.induct) (auto split: if_splits)

lemma str_Contains_iff: "str_Contains s sub \<longleftrightarrow> sublist sub s"
proof -
  have "str_Index s sub \<noteq> None \<longleftrightarrow> sublist sub s"
    by (induction s sub rule: str_Index.induct) (auto simp: sublist_Cons_right split: if_splits)
  then show ?thesis by (simp add: str_Contains_def)
qed

lemma str_Split_not_Nil [simp]: "str_Split sep s \<noteq> []"
  by (induction sep s rule: str_Split.induct) (auto split: list.splits)

lemma str_Split_single: "sep \<notin> set s \<Longrightarrow> str_Split sep s = [s]"
  by (induction sep s rule: str_Split.induct) auto

lemma str_Split_append:
  "sep \<notin> set s \<Longrightarrow> str_Split sep (s @ sep # t) = s # str_Split sep t"
  by (induction sep s rule: str_Split.induct) auto

lemma str_Split_Join:
  "ws \<noteq> [] \<Longrightarrow> list_all (\<lambda>w. sep \<notin> set w) ws \<Longrightarrow> str_Split sep (str_Join [sep] ws) = ws"
  by (induction "[sep]" ws rule: str_Join.induct) (auto simp: str_Split_single str_Split_append)

lemma str_Index_Nil: "str_Index s [] = Some 0"
  by (cases s) auto

lemma length_nl_to_space [simp]: "length (nl_to_space s) = length s"
  by (simp add: nl_to_space_def)

lemma newline_notin_nl_to_space: "newline \<notin> set (nl_to_space s)"
  by (auto simp: nl_to_space_def newline_def)

section \<open>The regular expressions of the program\<close>

text \<open>The submatches of \<open>quotedNameRe\<close>: a quote, a non-empty run without quotes, a quote.\<close>

function quoted_names :: "string \<Rightarrow> string list" where
  "quoted_names [] = []"
| "quoted_names (c # s) =
     (if c = CHR 0x22 then
        (let body = takeWhile (\<lambda>x. x \<noteq> CHR 0x22) s;
             rest = dropWhile (\<lambda>x. x \<noteq> CHR 0x22) s
         in if body \<noteq> [] \<and> rest \<noteq> [] then body # quoted_names (tl rest) else quoted_names s)
      else quoted_names s)"
  by pat_completeness auto
termination
proof (relation "measure length", goal_cases)
  case (2 c s body rest)
  have "length rest \<le> length s" unfolding 2 by (rule length_dropWhile_le)
  then show ?case by simp
qed auto

text \<open>\<open>ordinalRe\<close>: a dash followed by digits up to the end; the digits.\<close>

definition trailing_ordinal :: "string \<Rightarrow> string option" where
  "trailing_ordinal s =
     (let ds = takeWhile is_digit (rev s); rest = dropWhile is_digit (rev s)
      in if ds \<noteq> [] \<and> rest \<noteq> [] \<and> hd rest = CHR ''-'' then Some (rev ds) else None)"

text \<open>\<open>leadingCountRe\<close>: digits, white space, then the rest of the line.\<close>

definition leading_count :: "string \<Rightarrow> (string \<times> string) option" where
  "leading_count s =
     (let ds = takeWhile is_digit s; rest = dropWhile is_digit s;
          text = dropWhile is_re_space rest
      in if ds \<noteq> [] \<and> rest \<noteq> [] \<and> is_re_space (hd rest) \<and> newline \<notin> set text
         then Some (ds, text) else None)"

text \<open>\<open>nodesAvailableRe\<close>: the second number of the leftmost n/m nodes are available.\<close>

definition nodes_available_here :: "string \<Rightarrow> string option" where
  "nodes_available_here s =
     (let a = takeWhile is_digit s; r = dropWhile is_digit s in
      if a \<noteq> [] \<and> r \<noteq> [] \<and> hd r = CHR ''/'' then
        (let b = takeWhile is_digit (tl r); q = dropWhile is_digit (tl r) in
         if b \<noteq> [] \<and> prefix '' nodes are available'' q then Some b else None)
      else None)"

fun nodes_available :: "string \<Rightarrow> string option" where
  "nodes_available [] = None"
| "nodes_available (c # s) =
     (case nodes_available_here (c # s) of Some m \<Rightarrow> Some m | None \<Rightarrow> nodes_available s)"

lemma takeWhile_digits_append:
  "list_all is_digit ds \<Longrightarrow> r = [] \<or> \<not> is_digit (hd r) \<Longrightarrow>
   takeWhile is_digit (ds @ r) = ds \<and> dropWhile is_digit (ds @ r) = r"
  by (induction ds) (auto simp: takeWhile_eq_Nil_iff dropWhile_eq_self_iff)

lemma not_digit_dash [simp]: "\<not> is_digit CHR ''-''"
  by (simp add: is_digit_def)

lemma not_digit_slash [simp]: "\<not> is_digit CHR ''/''"
  by (simp add: is_digit_def)

lemma not_digit_space [simp]: "\<not> is_digit CHR '' ''"
  by (simp add: is_digit_def)

lemma trailing_ordinal_nat_str: "trailing_ordinal (s @ ''-'' @ nat_str n) = Some (nat_str n)"
proof -
  have "list_all is_digit (rev (nat_str n))"
    using nat_str_digits [of n] by (simp add: list_all_iff)
  from takeWhile_digits_append [OF this, of "CHR ''-'' # rev s"] show ?thesis
    by (simp add: trailing_ordinal_def Let_def)
qed

section \<open>Sublists\<close>

lemma sorted_wrt_subseq: "sorted_wrt P ys \<Longrightarrow> subseq xs ys \<Longrightarrow> sorted_wrt P xs"
proof (induction ys arbitrary: xs)
  case Nil
  then show ?case by (cases xs) auto
next
  case (Cons y ys)
  show ?case
  proof (cases xs)
    case Nil
    then show ?thesis by simp
  next
    case (Cons x zs)
    show ?thesis
    proof (cases "x = y")
      case True
      with Cons Cons.prems have "subseq zs ys" by simp
      moreover from this have "set zs \<subseteq> set ys"
        by (auto elim: list_emb_set)
      ultimately show ?thesis using Cons True Cons.IH Cons.prems by auto
    next
      case False
      with Cons Cons.prems have "subseq xs ys" by simp
      with Cons.IH Cons.prems show ?thesis by simp
    qed
  qed
qed

section \<open>Maps whose iteration order is not specified\<close>

text \<open>
  Go iterates over a map in an unspecified order. A map is modelled as an association list with
  distinct keys whose order is the order of iteration; a theorem that holds for every
  permutation of the list holds for every order.
\<close>

type_synonym 'v gomap = "(string \<times> 'v) list"

definition gomap_ok :: "'v gomap \<Rightarrow> bool" where
  "gomap_ok m \<longleftrightarrow> distinct (map fst m)"

lemma sort_cong_mset: "mset xs = mset ys \<Longrightarrow> sort xs = sort ys"
  by (metis properties_for_sort sorted_sort mset_sort)

lemma map_of_perm:
  assumes "gomap_ok m" and "mset m = mset m'"
  shows "map_of m = map_of m'"
proof -
  have "mset (map fst m) = mset (map fst m')" using assms(2) by simp
  then have "distinct (map fst m')"
    using assms(1) unfolding gomap_ok_def by (metis mset_eq_imp_distinct_iff)
  with assms show ?thesis
    unfolding gomap_ok_def by (metis map_of_inject_set mset_eq_setD)
qed

end
