(* ===== verification/KubeTypes.thy ===== *)
theory KubeTypes
  imports Prelude
begin

text \<open>
  The Kubernetes API objects as the program sees them: for each type of \<open>k8s.io/api\<close> a record
  with the fields KubeWhy reads, pointers as options. These types and the functions of
  \<open>k8s.io/apimachinery\<close> on resource quantities and on integer-or-string values are not part of
  the repository, so the functions are parameters, collected in the record \<open>kube_lib\<close>, and
  quantities are a type variable.
\<close>

datatype intstr = IntVal int | StrVal string

record 'q kube_lib =
  q_String :: "'q \<Rightarrow> string"
  q_Add :: "'q \<Rightarrow> 'q \<Rightarrow> 'q"
  q_Cmp :: "'q \<Rightarrow> 'q \<Rightarrow> int"
  q_IsZero :: "'q \<Rightarrow> bool"
  q_zero :: 'q
  rl_Cpu :: "'q gomap \<Rightarrow> 'q"
  rl_Memory :: "'q gomap \<Rightarrow> 'q"
  intstr_String :: "intstr \<Rightarrow> string"

section \<open>Metadata and references\<close>

record k_owner_ref =
  or_Kind :: string
  or_Name :: string
  or_UID :: string
  or_Controller :: "bool option"

text \<open>A reference to a ConfigMap or Secret by name, and whether it is optional.\<close>

record k_config_ref =
  cr_Name :: string
  cr_Optional :: "bool option"

record k_env_from =
  ef_ConfigMapRef :: "k_config_ref option"
  ef_SecretRef :: "k_config_ref option"

text \<open>The sources of an environment variable, \<open>None\<close> for a plain value.\<close>

record k_env_source =
  en_ConfigMapKeyRef :: "k_config_ref option"
  en_SecretKeyRef :: "k_config_ref option"

text \<open>One source of a projected volume.\<close>

record k_projection =
  pj_ConfigMap :: "k_config_ref option"
  pj_Secret :: "k_config_ref option"

record k_volume =
  vol_ClaimName :: "string option" \<comment> \<open>of the claim source, if the volume has one\<close>
  vol_ConfigMap :: "k_config_ref option"
  vol_Secret :: "k_config_ref option"
  vol_Projected :: "k_projection list option"

record k_label_requirement =
  lr_Key :: string
  lr_Operator :: string
  lr_Values :: "string list"

record k_label_selector =
  ls_MatchLabels :: "string gomap"
  ls_MatchExpressions :: "k_label_requirement list"

section \<open>Containers\<close>

record k_http_get =
  hg_Scheme :: string
  hg_Path :: string
  hg_Port :: intstr

record k_probe =
  pb_HTTPGet :: "k_http_get option"
  pb_TCPSocket :: "intstr option"
  pb_GRPC :: "int option"
  pb_Exec :: "string list option"
  pb_InitialDelaySeconds :: int
  pb_PeriodSeconds :: int
  pb_TimeoutSeconds :: int
  pb_FailureThreshold :: int

record 'q k_container =
  c_Name :: string
  c_Image :: string
  c_RestartPolicy :: "string option"
  c_Requests :: "'q gomap"
  c_Limits :: "'q gomap"
  c_ReadinessProbe :: "k_probe option"
  c_LivenessProbe :: "k_probe option"
  c_StartupProbe :: "k_probe option"
  c_PortNames :: "string list"
  c_EnvFrom :: "k_env_from list"
  c_Env :: "k_env_source option list"

record k_waiting =
  w_Reason :: string
  w_Message :: string

record k_terminated =
  t_ExitCode :: int
  t_Signal :: int
  t_Reason :: string
  t_Message :: string
  t_StartedAt :: gotime
  t_FinishedAt :: gotime

record k_container_status =
  cs_Name :: string
  cs_Ready :: bool
  cs_RestartCount :: int
  cs_Waiting :: "k_waiting option"
  cs_Running :: "gotime option"
  cs_Terminated :: "k_terminated option"
  cs_LastTerminated :: "k_terminated option"

record k_condition =
  cond_Type :: string
  cond_Status :: string
  cond_Reason :: string
  cond_Message :: string

section \<open>Pods, nodes and claims\<close>

record 'q k_pod =
  pod_Name :: string
  pod_Namespace :: string
  pod_CreationTimestamp :: gotime
  pod_DeletionTimestamp :: "gotime option"
  pod_NodeName :: string
  pod_RestartPolicy :: string
  pod_InitContainers :: "'q k_container list"
  pod_Containers :: "'q k_container list"
  pod_SchedulingGates :: "string list"
  pod_Phase :: string
  pod_Reason :: string
  pod_Message :: string
  pod_Conditions :: "k_condition list"
  pod_InitContainerStatuses :: "k_container_status list"
  pod_ContainerStatuses :: "k_container_status list"
  pod_UID :: string
  pod_OwnerReferences :: "k_owner_ref list"
  pod_Volumes :: "k_volume list"
  pod_ImagePullSecrets :: "string list"

record k_node =
  node_Name :: string
  node_Conditions :: "k_condition list"

record 'q k_pvc =
  pvc_Name :: string
  pvc_Namespace :: string
  pvc_CreationTimestamp :: gotime
  pvc_VolumeName :: string
  pvc_AccessModes :: "string list"
  pvc_Requests :: "'q gomap"
  pvc_Phase :: string
  pvc_UID :: string
  pvc_Annotations :: "string gomap"
  pvc_StorageClassName :: "string option"

section \<open>Services, Ingresses and workloads\<close>

record k_service_port =
  sp_Name :: string
  sp_Port :: int
  sp_Protocol :: string
  sp_TargetPort :: intstr
  sp_NodePort :: int

record k_service =
  svc_Name :: string
  svc_Namespace :: string
  svc_Selector :: "string gomap"
  svc_Type :: string
  svc_ClusterIP :: string
  svc_ExternalName :: string
  svc_Ports :: "k_service_port list"
  svc_UID :: string

record k_service_backend =
  sb_Name :: string
  sb_PortName :: string
  sb_PortNumber :: int

record k_http_path =
  hp_Path :: string
  hp_PathType :: "string option"
  hp_Service :: "k_service_backend option"

text \<open>A host with its paths, \<open>None\<close> for a rule without an HTTP section.\<close>

record k_ingress_rule =
  ir_Host :: string
  ir_HTTP :: "k_http_path list option"

record k_ingress =
  ing_Name :: string
  ing_Namespace :: string
  ing_CreationTimestamp :: gotime
  ing_TLSHosts :: "string list list"
  ing_LoadBalancer :: "(string \<times> string) list" \<comment> \<open>hostname and IP of each entry\<close>
  ing_UID :: string
  ing_Annotations :: "string gomap"
  ing_IngressClassName :: "string option"
  ing_DefaultBackend :: "k_service_backend option option" \<comment> \<open>the backend, and its Service if it has one\<close>
  ing_Rules :: "k_ingress_rule list"

record k_deployment =
  dep_Name :: string
  dep_Namespace :: string
  dep_CreationTimestamp :: gotime
  dep_Replicas :: "int option"
  dep_Paused :: bool
  dep_ProgressDeadlineSeconds :: "int option"
  dep_StrategyType :: string
  dep_MaxSurge :: "intstr option"
  dep_MaxUnavailable :: "intstr option"
  dep_AvailableReplicas :: int
  dep_ReadyReplicas :: int
  dep_UpdatedReplicas :: int
  dep_Conditions :: "k_condition list"
  dep_UID :: string
  dep_Annotations :: "string gomap"
  dep_Selector :: "k_label_selector option"

record k_replica_set =
  rs_Name :: string
  rs_UID :: string
  rs_Annotations :: "string gomap"
  rs_Replicas :: int
  rs_ReadyReplicas :: int
  rs_OwnerReferences :: "k_owner_ref list"

record k_stateful_set =
  sts_Name :: string
  sts_Namespace :: string
  sts_CreationTimestamp :: gotime
  sts_Replicas :: "int option"
  sts_PodManagementPolicy :: string
  sts_UpdateStrategyType :: string
  sts_Partition :: "int option" \<comment> \<open>nil also when there is no rolling update section\<close>
  sts_VolumeClaimTemplates :: "string list"
  sts_CurrentRevision :: string
  sts_UpdateRevision :: string
  sts_ReadyReplicas :: int
  sts_CurrentReplicas :: int
  sts_UpdatedReplicas :: int
  sts_UID :: string
  sts_Selector :: "k_label_selector option"
  sts_ServiceName :: string
  sts_TemplateLabels :: "string gomap"

section \<open>Objects only collectors read\<close>

record k_event =
  ke_Type :: string
  ke_Reason :: string
  ke_Message :: string
  ke_Count :: int
  ke_FirstTimestamp :: gotime
  ke_LastTimestamp :: gotime
  ke_EventTime :: gotime
  ke_Series :: "(int \<times> gotime) option" \<comment> \<open>count and last observed time\<close>
  ke_Kind :: string
  ke_Namespace :: string
  ke_Name :: string
  ke_UID :: string
  ke_FieldPath :: string

record k_object_ref =
  kr_Kind :: string
  kr_Namespace :: string
  kr_Name :: string

record k_slice_endpoint =
  se_Addresses :: "string list"
  se_Ready :: "bool option"
  se_NodeName :: "string option"
  se_TargetRef :: "k_object_ref option"

record k_endpoint_address =
  ea_IP :: string
  ea_NodeName :: "string option"
  ea_TargetRef :: "k_object_ref option"

record k_endpoint_subset =
  sub_Addresses :: "k_endpoint_address list"
  sub_NotReadyAddresses :: "k_endpoint_address list"

record k_storage_class =
  sc_Name :: string
  sc_Annotations :: "string gomap"
  sc_VolumeBindingMode :: "string option"
  sc_Provisioner :: string

record k_ingress_class =
  kic_Name :: string
  kic_Annotations :: "string gomap"

text \<open>Zero values, used to write concrete objects with only the fields that matter.\<close>

definition status0 :: k_container_status where
  "status0 = \<lparr>cs_Name = [], cs_Ready = False, cs_RestartCount = 0, cs_Waiting = None,
     cs_Running = None, cs_Terminated = None, cs_LastTerminated = None\<rparr>"

definition container_spec0 :: "'q k_container" where
  "container_spec0 = \<lparr>c_Name = [], c_Image = [], c_RestartPolicy = None, c_Requests = [],
     c_Limits = [], c_ReadinessProbe = None, c_LivenessProbe = None, c_StartupProbe = None,
     c_PortNames = [], c_EnvFrom = [], c_Env = []\<rparr>"

definition pod0 :: "'q k_pod" where
  "pod0 = \<lparr>pod_Name = [], pod_Namespace = [], pod_CreationTimestamp = 0,
     pod_DeletionTimestamp = None, pod_NodeName = [], pod_RestartPolicy = [],
     pod_InitContainers = [], pod_Containers = [], pod_SchedulingGates = [], pod_Phase = [],
     pod_Reason = [], pod_Message = [], pod_Conditions = [], pod_InitContainerStatuses = [],
     pod_ContainerStatuses = [], pod_UID = [], pod_OwnerReferences = [], pod_Volumes = [],
     pod_ImagePullSecrets = []\<rparr>"

text \<open>An instance of the library functions with integers for quantities, for concrete examples.\<close>

definition int_lib :: "int kube_lib" where
  "int_lib = \<lparr>q_String = int_str, q_Add = (+), q_Cmp = (\<lambda>a b. if a < b then - 1 else if a = b then 0 else 1),
     q_IsZero = (\<lambda>q. q = 0), q_zero = 0,
     rl_Cpu = (\<lambda>m. case map_of m ''cpu'' of Some q \<Rightarrow> q | None \<Rightarrow> 0),
     rl_Memory = (\<lambda>m. case map_of m ''memory'' of Some q \<Rightarrow> q | None \<Rightarrow> 0),
     intstr_String = (\<lambda>v. case v of IntVal i \<Rightarrow> int_str i | StrVal s \<Rightarrow> s)\<rparr>"

end
