(* ===== verification/Format.thy ===== *)
theory Format
  imports Prelude
begin

text \<open>
  Package \<open>format\<close>: durations and counts as text. Go computes the hours, minutes and seconds
  of a duration in \<open>float64\<close> and truncates: \<open>float64(d/Hour) + float64(d%Hour)/(60*60*1e9)\<close>.
  The division and the sum are each rounded to 53 significant bits, to the nearest value and to
  the even one on a tie. A non-negative float is written here as an integer number of
  \<open>2 ^ -100\<close>, which is finer than the last bit of every value involved (a quotient of these is
  zero or more than \<open>2 ^ -42\<close>, so its last bit is at least \<open>2 ^ -94\<close>). The lemmas show where the
  truncated value is the integer quotient and how precise the rendered text is.
\<close>

function bit_len :: "int \<Rightarrow> nat" where
  "bit_len n = (if n \<le> 0 then 0 else Suc (bit_len (n div 2)))"
  by auto
termination by (relation "measure nat") auto

declare bit_len.simps [simp del]

definition fl_one :: int where
  "fl_one = 2 ^ 100"

definition fl_ulp :: "int \<Rightarrow> int" where
  "fl_ulp x = 2 ^ (bit_len x - 53)"

definition round_even :: "int \<Rightarrow> int \<Rightarrow> int" where
  "round_even a b =
     (let q = a div b; r = a mod b in
      if 2 * r < b \<or> 2 * r = b \<and> even q then q else q + 1)"

text \<open>The float nearest to a quotient.\<close>

definition fl_round :: "int \<Rightarrow> int \<Rightarrow> int" where
  "fl_round a b = (let u = fl_ulp (a div b) in round_even a (b * u) * u)"

definition Duration_in :: "duration \<Rightarrow> duration \<Rightarrow> int" where
  "Duration_in unit d =
     fl_round (d div unit * fl_one + fl_round (d mod unit * fl_one) unit) 1"

definition fl_int :: "int \<Rightarrow> int" where
  "fl_int f = f div fl_one"

abbreviation "Duration_Seconds \<equiv> Duration_in go_Second"
abbreviation "Duration_Minutes \<equiv> Duration_in go_Minute"
abbreviation "Duration_Hours \<equiv> Duration_in go_Hour"

definition format_Duration :: "duration \<Rightarrow> string" where
  "format_Duration d0 =
     (let d = (if d0 < 0 then 0 else d0) in
      if d < go_Minute then int_str (fl_int (Duration_Seconds d)) @ ''s''
      else if d < go_Hour then int_str (fl_int (Duration_Minutes d)) @ ''m''
      else if d < 24 * go_Hour then
        (let hours = fl_int (Duration_Hours d);
             minutes = fl_int (Duration_Minutes d) - hours * 60 in
         if minutes = 0 then int_str hours @ ''h''
         else int_str hours @ ''h'' @ int_str minutes @ ''m'')
      else
        (let days = fl_int (Duration_Hours d) div 24; hours = fl_int (Duration_Hours d) mod 24 in
         if hours = 0 \<or> days > 7 then int_str days @ ''d''
         else int_str days @ ''d'' @ int_str hours @ ''h''))"

definition format_Count :: "int \<Rightarrow> string \<Rightarrow> string \<Rightarrow> string" where
  "format_Count n singular plural =
     (if n = 1 then int_str n @ '' '' @ singular else int_str n @ '' '' @ plural)"

lemma format_Duration_not_Nil [simp]: "format_Duration d \<noteq> []"
  by (simp add: format_Duration_def Let_def)

lemma format_Count_not_Nil [simp]: "format_Count n s p \<noteq> []"
  by (simp add: format_Count_def)

section \<open>Reading a rendered duration back\<close>

definition unit_val :: "char \<Rightarrow> duration" where
  "unit_val c =
     (if c = CHR ''s'' then go_Second else if c = CHR ''m'' then go_Minute
      else if c = CHR ''h'' then go_Hour else if c = CHR ''d'' then 24 * go_Hour else 0)"

fun read_parts :: "nat \<Rightarrow> string \<Rightarrow> duration" where
  "read_parts acc [] = 0"
| "read_parts acc (c # s) =
     (if is_digit c then read_parts (10 * acc + digit_val c) s
      else unit_val c * int acc + read_parts 0 s)"

text \<open>How coarse the text is for a duration: the value of its last digit.\<close>

definition duration_unit :: "duration \<Rightarrow> duration" where
  "duration_unit d =
     (if d < go_Minute then go_Second
      else if d < 24 * go_Hour then go_Minute
      else if d < 8 * 24 * go_Hour then go_Hour
      else 24 * go_Hour)"

lemma read_parts_digits:
  "list_all is_digit ds \<Longrightarrow>
   read_parts acc (ds @ r) = read_parts (foldl (\<lambda>a c. 10 * a + digit_val c) acc ds) r"
  by (induction ds arbitrary: acc) auto

lemma read_parts_int_str:
  assumes "0 \<le> i" and "\<not> is_digit c"
  shows "read_parts 0 (int_str i @ c # s) = unit_val c * i + read_parts 0 s"
  using assms read_parts_digits [OF nat_str_digits, of 0 "nat i" "c # s"] dec_val_nat_str [of "nat i"]
  by (simp add: int_str_def dec_val_def)

lemma unit_chars:
  "\<not> is_digit CHR ''s''" "\<not> is_digit CHR ''m''" "\<not> is_digit CHR ''h''" "\<not> is_digit CHR ''d''"
  by (simp_all add: is_digit_def)

lemma div_split: "0 \<le> k \<Longrightarrow> c * k * (d div (c * k)) + c * (d div c mod k) = d - d mod (c::int)"
proof -
  assume "0 \<le> k"
  then have "c * k * (d div (c * k)) + c * (d div c mod k) = c * (k * (d div c div k) + d div c mod k)"
    by (simp only: zdiv_zmult2_eq distrib_left mult.assoc)
  also have "k * (d div c div k) + d div c mod k = d div c"
    by (rule mult_div_mod_eq)
  finally show ?thesis by (simp add: minus_mod_eq_mult_div)
qed

lemma less_div_iff: "0 < c \<Longrightarrow> n < d div c \<longleftrightarrow> (n + 1) * c \<le> (d::int)"
proof
  assume c: "0 < c" and "n < d div c"
  then have "(n + 1) * c \<le> d div c * c" by (intro mult_right_mono) auto
  also have "\<dots> \<le> d" using c by (simp add: minus_mod_eq_div_mult [symmetric])
  finally show "(n + 1) * c \<le> d" .
next
  assume "0 < c" and "(n + 1) * c \<le> d"
  then have "n + 1 \<le> d div c"
    using zdiv_mono1 [of "(n + 1) * c" d c] by simp
  then show "n < d div c" by simp
qed

section \<open>Truncated floats\<close>

lemma bit_len_le: "n < 2 ^ k \<Longrightarrow> bit_len n \<le> k"
proof (induction k arbitrary: n)
  case 0
  then show ?case by (simp add: bit_len.simps)
next
  case (Suc k)
  from Suc.prems have "n div 2 < 2 ^ k" by simp
  from Suc.IH [OF this] show ?case by (subst bit_len.simps) simp
qed

lemma fl_ulp_pos [simp]: "0 < fl_ulp x"
  by (simp add: fl_ulp_def)

lemma fl_ulp_le: "x < 2 ^ (53 + k) \<Longrightarrow> fl_ulp x \<le> 2 ^ k"
  using bit_len_le [of x "53 + k"] by (simp add: fl_ulp_def)

lemma fl_ulp_dvd_one: "x < 2 ^ 153 \<Longrightarrow> fl_ulp x dvd fl_one"
  unfolding fl_ulp_def fl_one_def by (drule bit_len_le) (simp add: le_imp_power_dvd del: power_numeral)

lemma round_even_ge: "0 < b \<Longrightarrow> y * b \<le> a \<Longrightarrow> y \<le> round_even a b"
proof -
  assume "0 < b" "y * b \<le> a"
  then have "y \<le> a div b" using zdiv_mono1 [of "y * b" a b] by simp
  then show ?thesis by (simp add: round_even_def Let_def)
qed

lemma round_even_le: "0 < b \<Longrightarrow> a \<le> y * b \<Longrightarrow> round_even a b \<le> y"
proof -
  assume b: "0 < b" and a: "a \<le> y * b"
  have "a div b \<le> y" using b zdiv_mono1 [OF a, of b] by simp
  moreover have "a mod b = 0" if "a div b = y"
    using mult_div_mod_eq [of b a] a pos_mod_sign [OF b, of a] unfolding that
    by (simp only: mult.commute [of y b])
  ultimately show ?thesis using b by (cases "a div b = y") (simp_all add: round_even_def Let_def)
qed

lemma round_even_near: "0 < b \<Longrightarrow> 2 * (b * round_even a b) \<le> 2 * a + b"
proof -
  assume b: "0 < b"
  have a: "b * (a div b) + a mod b = a" by (rule mult_div_mod_eq)
  have "round_even a b = a div b \<or> round_even a b = a div b + 1 \<and> b \<le> 2 * (a mod b)"
    by (auto simp: round_even_def Let_def)
  then show ?thesis
  proof
    assume eq: "round_even a b = a div b"
    show ?thesis unfolding eq using a b pos_mod_sign [OF b, of a] by linarith
  next
    assume "round_even a b = a div b + 1 \<and> b \<le> 2 * (a mod b)"
    then have eq: "round_even a b = a div b + 1" and r: "b \<le> 2 * (a mod b)" by auto
    show ?thesis unfolding eq distrib_left using a r by linarith
  qed
qed

lemma fl_round_ge:
  assumes "0 < b" and "y * fl_one * b \<le> a" and "a div b < 2 ^ 153"
  shows "y * fl_one \<le> fl_round a b"
proof -
  let ?u = "fl_ulp (a div b)"
  obtain m where m: "fl_one = ?u * m" using fl_ulp_dvd_one [OF assms(3)] by (elim dvdE)
  have "y * m \<le> round_even a (b * ?u)"
    using assms(1,2) by (intro round_even_ge) (simp_all add: m algebra_simps)
  then have "y * m * ?u \<le> round_even a (b * ?u) * ?u"
    by (rule mult_right_mono) (simp add: less_imp_le)
  then show ?thesis by (simp add: fl_round_def Let_def m algebra_simps)
qed

lemma fl_round_le:
  assumes "0 < b" and "a \<le> y * fl_one * b" and "a div b < 2 ^ 153"
  shows "fl_round a b \<le> y * fl_one"
proof -
  let ?u = "fl_ulp (a div b)"
  obtain m where m: "fl_one = ?u * m" using fl_ulp_dvd_one [OF assms(3)] by (elim dvdE)
  have "round_even a (b * ?u) \<le> y * m"
    using assms(1,2) by (intro round_even_le) (simp_all add: m algebra_simps)
  then have "round_even a (b * ?u) * ?u \<le> y * m * ?u"
    by (rule mult_right_mono) (simp add: less_imp_le)
  then show ?thesis by (simp add: fl_round_def Let_def m algebra_simps)
qed

lemma fl_round_near:
  assumes b: "0 < b" and "a div b < 2 ^ (53 + k)"
  shows "2 * (b * fl_round a b) \<le> 2 * a + b * 2 ^ k"
proof -
  let ?u = "fl_ulp (a div b)"
  have "2 * (b * ?u * round_even a (b * ?u)) \<le> 2 * a + b * ?u"
    using b by (intro round_even_near) simp
  moreover have "b * ?u \<le> b * 2 ^ k" using b fl_ulp_le [OF assms(2)] by simp
  ultimately show ?thesis by (simp add: fl_round_def Let_def algebra_simps)
qed

text \<open>The fraction of a unit, rounded, lies between zero and one.\<close>

lemma fraction_bounds:
  fixes unit d :: int
  assumes u: "0 < unit"
  defines "p \<equiv> fl_round (d mod unit * fl_one) unit"
  shows "0 \<le> p" and "p \<le> fl_one"
    and "2 * (unit * p) \<le> 2 * (d mod unit * fl_one) + unit * 2 ^ 47"
proof -
  have n: "0 \<le> d mod unit" "d mod unit < unit" using u by simp_all
  then have le: "d mod unit * fl_one \<le> 1 * fl_one * unit" by (simp add: fl_one_def)
  have "d mod unit * fl_one < fl_one * unit" using n by (simp add: fl_one_def)
  then have "\<not> 2 ^ 100 - 1 < d mod unit * fl_one div unit"
    unfolding less_div_iff [OF u] by (simp add: fl_one_def)
  then have small: "d mod unit * fl_one div unit < 2 ^ (53 + 47)" by simp
  then have "d mod unit * fl_one div unit < 2 ^ 153" by (rule less_trans) simp
  then show "0 \<le> p" "p \<le> fl_one"
    using u n fl_round_ge [of unit 0] fl_round_le [OF u le] by (simp_all add: p_def fl_one_def)
  show "2 * (unit * p) \<le> 2 * (d mod unit * fl_one) + unit * 2 ^ 47"
    unfolding p_def by (rule fl_round_near [OF u small])
qed


lemma fl_int_bounds:
  "y * fl_one \<le> f \<Longrightarrow> y \<le> fl_int f" "f < (y + 1) * fl_one \<Longrightarrow> fl_int f \<le> y"
proof -
  have pos: "0 < fl_one" by (simp add: fl_one_def)
  show "y \<le> fl_int f" if "y * fl_one \<le> f"
    using zdiv_mono1 [OF that pos] pos by (simp add: fl_int_def)
  show "fl_int f \<le> y" if "f < (y + 1) * fl_one"
    using less_div_iff [OF pos, of y f] that by (simp add: fl_int_def not_less [symmetric])
qed

lemma unit_sum_le:
  assumes "0 < unit" and "d div unit < 2 ^ k"
  shows "d div unit * fl_one + fl_round (d mod unit * fl_one) unit \<le> 2 ^ (k + 100)"
proof -
  have "(d div unit + 1) * fl_one \<le> 2 ^ k * fl_one"
    using assms(2) by (intro mult_right_mono) (simp_all add: fl_one_def)
  then show ?thesis
    using fraction_bounds(2) [OF assms(1), of d] by (simp add: distrib_right power_add fl_one_def)
qed

lemma Duration_in_bounds:
  assumes u: "0 < unit" and h: "d div unit < 2 ^ 50"
  shows "fl_int (Duration_in unit d) \<in> {d div unit, d div unit + 1}"
proof -
  let ?x = "d div unit * fl_one + fl_round (d mod unit * fl_one) unit"
  note p = fraction_bounds(1,2) [OF u, of d]
  have "?x \<le> 2 ^ 150" using unit_sum_le [OF u h] by simp
  then have small: "?x div 1 < 2 ^ 153" by simp
  have "d div unit * fl_one \<le> Duration_in unit d"
    unfolding Duration_in_def using p(1) by (intro fl_round_ge [OF _ _ small]) simp_all
  moreover have "Duration_in unit d \<le> (d div unit + 1) * fl_one"
    unfolding Duration_in_def using p(2) by (intro fl_round_le [OF _ _ small]) (simp_all add: distrib_right)
  then have "Duration_in unit d < (d div unit + 1 + 1) * fl_one"
    by (rule le_less_trans) (simp add: fl_one_def)
  ultimately show ?thesis
    using fl_int_bounds(1) [of "d div unit"] fl_int_bounds(2) [of _ "d div unit + 1"] by fastforce
qed

text \<open>
  The truncated value is the integer quotient unless the sum is so close to the next unit that
  half of its last bit reaches it.
\<close>

lemma Duration_in_exact:
  assumes u: "0 < unit" and h: "d div unit < 2 ^ k" and k: "k \<le> 50"
    and far: "(1 + 2 ^ k) * unit < (unit - d mod unit) * 2 ^ 54"
  shows "fl_int (Duration_in unit d) = d div unit"
proof -
  let ?p = "fl_round (d mod unit * fl_one) unit"
  let ?x = "d div unit * fl_one + ?p"
  let ?R = "Duration_in unit d"
  note p = fraction_bounds [OF u, of d]
  have far': "2 * (d mod unit * fl_one) + unit * 2 ^ 47 + unit * 2 ^ (k + 47) < unit * (2 * fl_one)"
    using far by (simp add: fl_one_def power_add algebra_simps)
  have "unit * (2 * ?p + 2 ^ (k + 47)) < unit * (2 * fl_one)"
    using p(3) far' by (simp add: distrib_left)
  then have half: "2 * ?p + 2 ^ (k + 47) < 2 * fl_one" using u by simp
  have "(d div unit + 1) * fl_one \<le> 2 ^ k * fl_one"
    using h by (intro mult_right_mono) (simp_all add: fl_one_def)
  moreover have "?p < fl_one" using half by (smt (verit) zero_less_power)
  ultimately have "?x div 1 < 2 ^ (53 + (k + 47))"
    by (simp add: distrib_right power_add fl_one_def)
  from fl_round_near [OF zero_less_one this]
  have "2 * ?R \<le> 2 * ?x + 2 ^ (k + 47)" by (simp add: Duration_in_def)
  then have "?R < (d div unit + 1) * fl_one" using half by (simp add: distrib_right)
  then have "fl_int ?R \<le> d div unit" by (rule fl_int_bounds(2))
  moreover have "d div unit < 2 ^ 50" using h k by (smt (verit) power_increasing)
  ultimately show ?thesis using Duration_in_bounds [OF u] by fastforce
qed

lemma fl_hours:
  assumes "0 \<le> d" and "d < 2 ^ 63"
  shows "fl_int (Duration_Hours d) \<in> {d div go_Hour, d div go_Hour + 1}"
    and "fl_int (Duration_Hours d) = d div go_Hour + 1 \<Longrightarrow> go_Hour * (d div go_Hour + 1) \<le> d + 839"
    and "d < 4096 * go_Hour \<Longrightarrow> fl_int (Duration_Hours d) = d div go_Hour"
proof -
  have h: "d div go_Hour < 2 ^ 22" using assms by (simp add: go_simps)
  then show "fl_int (Duration_Hours d) \<in> {d div go_Hour, d div go_Hour + 1}"
    by (intro Duration_in_bounds) (simp_all add: go_simps)
  show "go_Hour * (d div go_Hour + 1) \<le> d + 839"
    if "fl_int (Duration_Hours d) = d div go_Hour + 1"
  proof -
    have "\<not> (1 + 2 ^ 22) * go_Hour < (go_Hour - d mod go_Hour) * 2 ^ 54"
      using that Duration_in_exact [OF _ h] by (auto simp: go_simps)
    then have "go_Hour - d mod go_Hour \<le> 839" by (simp add: go_simps)
    then show ?thesis using mult_div_mod_eq [of go_Hour d] unfolding distrib_left by linarith
  qed
  show "fl_int (Duration_Hours d) = d div go_Hour" if "d < 4096 * go_Hour"
  proof (rule Duration_in_exact [where k = 12])
    show "d div go_Hour < 2 ^ 12" using that by (simp add: go_simps)
    show "(1 + 2 ^ 12) * go_Hour < (go_Hour - d mod go_Hour) * 2 ^ 54"
      using pos_mod_bound [of go_Hour d] by (simp add: go_simps)
  qed (simp_all add: go_simps)
qed

lemma fl_minutes:
  "d < 24 * go_Hour \<Longrightarrow> fl_int (Duration_Minutes d) = d div go_Minute"
proof (rule Duration_in_exact [where k = 11])
  show "d div go_Minute < 2 ^ 11" if "d < 24 * go_Hour" using that by (simp add: go_simps)
  show "(1 + 2 ^ 11) * go_Minute < (go_Minute - d mod go_Minute) * 2 ^ 54"
    using pos_mod_bound [of go_Minute d] by (simp add: go_simps)
qed (simp_all add: go_simps)

lemma fl_seconds:
  "d < go_Minute \<Longrightarrow> fl_int (Duration_Seconds d) = d div go_Second"
proof (rule Duration_in_exact [where k = 6])
  show "d div go_Second < 2 ^ 6" if "d < go_Minute" using that by (simp add: go_simps)
  show "(1 + 2 ^ 6) * go_Second < (go_Second - d mod go_Second) * 2 ^ 54"
    using pos_mod_bound [of go_Second d] by (simp add: go_simps)
qed (simp_all add: go_simps)

section \<open>The same text from integer quotients\<close>

definition whole_Duration :: "duration \<Rightarrow> string" where
  "whole_Duration d0 =
     (let d = (if d0 < 0 then 0 else d0) in
      if d < go_Minute then int_str (d div go_Second) @ ''s''
      else if d < go_Hour then int_str (d div go_Minute) @ ''m''
      else if d < 24 * go_Hour then
        (let hours = d div go_Hour; minutes = d div go_Minute - hours * 60 in
         if minutes = 0 then int_str hours @ ''h''
         else int_str hours @ ''h'' @ int_str minutes @ ''m'')
      else
        (let days = d div go_Hour div 24; hours = d div go_Hour mod 24 in
         if hours = 0 \<or> days > 7 then int_str days @ ''d''
         else int_str days @ ''d'' @ int_str hours @ ''h''))"

lemma format_Duration_whole:
  assumes "d < 4096 * go_Hour"
  shows "format_Duration d = whole_Duration d"
proof -
  let ?d = "if d < 0 then 0 else d"
  have d: "0 \<le> ?d" "?d < 2 ^ 63" "?d < 4096 * go_Hour" using assms by (simp_all add: go_simps)
  show ?thesis
    unfolding format_Duration_def whole_Duration_def Let_def
    using fl_hours(3) [OF d] fl_minutes [of ?d] fl_seconds [of ?d]
    by (simp only: refl if_cancel cong: if_cong) (auto simp: go_simps)
qed

text \<open>An equation that computes with floats only where they differ.\<close>

lemma format_Duration_code [code]:
  "format_Duration d =
     (if d < 4096 * go_Hour then whole_Duration d
      else (let hours = fl_int (Duration_Hours d); days = hours div 24 in
            if hours mod 24 = 0 \<or> days > 7 then int_str days @ ''d''
            else int_str days @ ''d'' @ int_str (hours mod 24) @ ''h''))"
  using format_Duration_whole [of d] by (auto simp: format_Duration_def Let_def go_simps)

lemma format_Duration_171d: "format_Duration (171 * 24 * go_Hour - 1) = ''171d''"
  by code_simp

lemma read_format_days:
  assumes d: "24 * go_Hour \<le> d"
  shows "read_parts 0 (whole_Duration d) = d - d mod duration_unit d"
proof -
  let ?h = "d div go_Hour"
  have nn: "0 \<le> d" using d by (simp add: go_simps)
  have "read_parts 0 (whole_Duration d) =
      24 * go_Hour * (?h div 24) + (if ?h div 24 > 7 then 0 else go_Hour * (?h mod 24))"
    using d nn by (simp add: whole_Duration_def read_parts_int_str unit_chars unit_val_def Let_def go_simps)
  moreover have "?h div 24 = d div (24 * go_Hour)"
    using zdiv_zmult2_eq [of 24 d go_Hour] by (simp add: mult.commute)
  moreover have "7 < d div (24 * go_Hour) \<longleftrightarrow> \<not> d < 8 * 24 * go_Hour"
    by (subst less_div_iff) (simp_all add: go_simps not_less)
  moreover have "24 * go_Hour * (d div (24 * go_Hour)) + go_Hour * (?h mod 24) = d - d mod go_Hour"
    using div_split [of 24 go_Hour d] by (simp only: mult.commute [of 24 go_Hour])
  moreover have "24 * go_Hour * (d div (24 * go_Hour)) = d - d mod (24 * go_Hour)"
    by (rule minus_mod_eq_mult_div [symmetric])
  moreover have "\<not> d < go_Minute" using d by (simp add: go_simps)
  ultimately show ?thesis
    using d by (simp only: duration_unit_def not_less [symmetric] if_False not_True_eq_False if_cancel) presburger
qed

lemma read_whole_Duration:
  "read_parts 0 (whole_Duration d) = max 0 d - max 0 d mod duration_unit (max 0 d)"
proof -
  let ?d = "max 0 d"
  have d: "(if d < 0 then 0 else d) = ?d" by simp
  have nn: "0 \<le> ?d" by simp
  have minutes: "?d div go_Minute - ?d div go_Hour * 60 = ?d div go_Minute mod 60"
    by (simp add: go_simps div_mult2_eq [symmetric] minus_div_mult_eq_mod [symmetric]
        zdiv_zmult2_eq [of 60 ?d 60000000000, symmetric])
  consider "?d < go_Minute" | "go_Minute \<le> ?d" "?d < go_Hour"
    | "go_Hour \<le> ?d" "?d < 24 * go_Hour" | "24 * go_Hour \<le> ?d"
    by linarith
  then show ?thesis
  proof cases
    case 1
    then show ?thesis
      using nn by (simp add: whole_Duration_def d read_parts_int_str unit_chars unit_val_def
          duration_unit_def Let_def minus_mod_eq_mult_div go_simps)
  next
    case 2
    then show ?thesis
      using nn by (simp add: whole_Duration_def d read_parts_int_str unit_chars unit_val_def
          duration_unit_def Let_def minus_mod_eq_mult_div go_simps)
  next
    case 3
    have "read_parts 0 (whole_Duration d) =
        go_Hour * (?d div go_Hour) + go_Minute * (?d div go_Minute mod 60)"
      using 3 nn minutes by (simp add: whole_Duration_def d read_parts_int_str unit_chars unit_val_def
          Let_def go_simps)
    also have "\<dots> = ?d - ?d mod duration_unit ?d"
      using 3 div_split [of 60 go_Minute ?d] by (simp add: duration_unit_def go_simps)
    finally show ?thesis .
  next
    case 4
    then have "0 \<le> d" by (simp add: go_simps)
    with 4 show ?thesis using read_format_days [of d] by simp
  qed
qed

lemma read_format_long:
  assumes d: "4096 * go_Hour \<le> d" "d < 2 ^ 63"
  shows "read_parts 0 (format_Duration d) = 24 * go_Hour * (fl_int (Duration_Hours d) div 24)"
proof -
  have h: "d div go_Hour \<le> fl_int (Duration_Hours d)"
    using fl_hours(1) [of d] d by (auto simp: go_simps)
  moreover have "4096 \<le> d div go_Hour"
    using d zdiv_mono1 [of "4096 * go_Hour" d go_Hour] by (simp add: go_simps)
  ultimately have "4096 \<le> fl_int (Duration_Hours d)" by simp
  then have "7 < fl_int (Duration_Hours d) div 24" by simp
  then show ?thesis
    using d by (simp add: format_Duration_def read_parts_int_str unit_chars unit_val_def Let_def go_simps)
qed

text \<open>
  C40. A rendered duration, read back, is the duration (or zero when it is negative) rounded down
  to the unit of its last digit: seconds below a minute, minutes below a day, hours up to a
  week, and whole days from then on. Below 4096 hours the text never says more than the true
  duration; beyond that, where Go's floats no longer tell the last nanoseconds of an hour from
  the next hour, it says at most 839 nanoseconds more, up to the longest duration of an int64. In
  both ranges it is short of the truth by less than one unit.
\<close>

theorem format_Duration_precise:
  assumes "d < 2 ^ 63"
  shows "read_parts 0 (format_Duration d) \<le> max 0 d + (if d < 4096 * go_Hour then 0 else 839) \<and>
    max 0 d < read_parts 0 (format_Duration d) + duration_unit (max 0 d)"
proof (cases "d < 4096 * go_Hour")
  case True
  have "0 < duration_unit (max 0 d)" by (simp add: duration_unit_def go_simps)
  then have "0 \<le> max 0 d mod duration_unit (max 0 d)"
    and "max 0 d mod duration_unit (max 0 d) < duration_unit (max 0 d)"
    by simp_all
  then show ?thesis
    using True unfolding format_Duration_whole [OF True] read_whole_Duration by (simp; linarith)
next
  case False
  let ?h = "fl_int (Duration_Hours d)"
  have nn: "0 \<le> d" using False by (simp add: go_simps)
  note h = fl_hours(1,2) [OF nn assms]
  have "go_Hour * ?h \<le> d + 839"
    using h mult_div_mod_eq [of go_Hour d] pos_mod_sign [of go_Hour d] by (auto simp: go_simps)
  moreover have "d < go_Hour * (?h + 1)"
    using h(1) mult_div_mod_eq [of go_Hour d] pos_mod_bound [of go_Hour d] by (auto simp: go_simps)
  moreover have "24 * (?h div 24) \<le> ?h" "?h + 1 \<le> 24 * (?h div 24) + 24" by simp_all
  then have "24 * go_Hour * (?h div 24) \<le> go_Hour * ?h"
    "go_Hour * (?h + 1) \<le> 24 * go_Hour * (?h div 24) + 24 * go_Hour"
    by (simp_all add: go_simps)
  moreover have "duration_unit d = 24 * go_Hour"
    using False by (simp add: duration_unit_def go_simps)
  ultimately show ?thesis
    using False nn unfolding read_format_long [OF leI [OF False] assms] by simp
qed

theorem format_Duration_precise_witness:
  "read_parts 0 (format_Duration (171 * 24 * go_Hour - 1)) \<le> 171 * 24 * go_Hour - 1 + 839 \<and>
   171 * 24 * go_Hour - 1 < read_parts 0 (format_Duration (171 * 24 * go_Hour - 1)) + 24 * go_Hour"
  using format_Duration_precise [of "171 * 24 * go_Hour - 1"] by (simp add: go_simps duration_unit_def)

end
