(* ===== verification/Diagnosis.thy ===== *)
theory Diagnosis
  imports Format
begin

text \<open>
  Package \<open>diagnosis\<close>, data model: findings with their evidence and suggestions (\<open>model.go\<close>),
  rules and their metadata (\<open>rule.go\<close>), reports and the derivation of their status
  (\<open>report.go\<close>). A Go composite literal is a record update of the zero value. The lemmas
  characterise the derived status.
\<close>

section \<open>Severity and confidence\<close>

datatype severity = SeverityInfo | SeverityWarning | SeverityCritical | SeverityOther string

fun severity_rank :: "severity \<Rightarrow> int" where
  "severity_rank SeverityCritical = 0"
| "severity_rank SeverityWarning = 1"
| "severity_rank SeverityInfo = 2"
| "severity_rank (SeverityOther _) = 3"

datatype confidence = ConfidenceCertain | ConfidenceLikely | ConfidencePossible | ConfidenceOther string

fun confidence_rank :: "confidence \<Rightarrow> int" where
  "confidence_rank ConfidenceCertain = 0"
| "confidence_rank ConfidenceLikely = 1"
| "confidence_rank ConfidencePossible = 2"
| "confidence_rank (ConfidenceOther _) = 3"

definition known_severity :: "severity \<Rightarrow> bool" where
  "known_severity s \<longleftrightarrow> severity_rank s < 3"

definition known_confidence :: "confidence \<Rightarrow> bool" where
  "known_confidence c \<longleftrightarrow> confidence_rank c < 3"

lemma severity_rank_inj:
  "known_severity a \<Longrightarrow> known_severity b \<Longrightarrow> severity_rank a = severity_rank b \<Longrightarrow> a = b"
  by (cases a; cases b) (auto simp: known_severity_def)

lemma known_severity_simps [simp]:
  "known_severity SeverityInfo" "known_severity SeverityWarning" "known_severity SeverityCritical"
  by (simp_all add: known_severity_def)

lemma known_confidence_simps [simp]:
  "known_confidence ConfidenceCertain" "known_confidence ConfidenceLikely"
  "known_confidence ConfidencePossible"
  by (simp_all add: known_confidence_def)

section \<open>Findings\<close>

record resource_ref =
  ref_Kind :: string
  ref_Namespace :: string
  ref_Name :: string

definition resource_ref_String :: "resource_ref \<Rightarrow> string" where
  "resource_ref_String r =
     (if ref_Kind r = [] then ref_Name r else ref_Kind r @ ''/'' @ ref_Name r)"

record evidence =
  e_Source :: string
  e_Field :: string
  e_Value :: string
  e_Message :: string

abbreviation Evid :: "string \<Rightarrow> string \<Rightarrow> string \<Rightarrow> string \<Rightarrow> evidence" where
  "Evid s f v m \<equiv> \<lparr>e_Source = s, e_Field = f, e_Value = v, e_Message = m\<rparr>"

record suggestion =
  s_Description :: string
  s_Commands :: "string list"

abbreviation Sugg :: "string \<Rightarrow> string list \<Rightarrow> suggestion" where
  "Sugg d cs \<equiv> \<lparr>s_Description = d, s_Commands = cs\<rparr>"

record aggregate =
  agg_Count :: int
  agg_Total :: int
  agg_Subjects :: "resource_ref list"

record diagnosis =
  d_ID :: string
  d_Subject :: resource_ref
  d_Component :: string
  d_Severity :: severity
  d_Confidence :: confidence
  d_Summary :: string
  d_Explanation :: string
  d_Evidence :: "evidence list"
  d_PossibleCauses :: "string list"
  d_Suggestions :: "suggestion list"
  d_CausedBy :: string
  d_Aggregate :: "aggregate option"

definition resource_ref0 :: resource_ref where
  "resource_ref0 = \<lparr>ref_Kind = [], ref_Namespace = [], ref_Name = []\<rparr>"

text \<open>The zero value of the struct.\<close>

definition diagnosis0 :: diagnosis where
  "diagnosis0 = \<lparr>d_ID = [], d_Subject = resource_ref0, d_Component = [],
     d_Severity = SeverityOther [], d_Confidence = ConfidenceOther [], d_Summary = [],
     d_Explanation = [], d_Evidence = [], d_PossibleCauses = [], d_Suggestions = [],
     d_CausedBy = [], d_Aggregate = None\<rparr>"

lemma diagnosis0_simps [simp]:
  "d_CausedBy diagnosis0 = []" "d_Component diagnosis0 = []" "d_Evidence diagnosis0 = []"
  "d_Suggestions diagnosis0 = []" "d_Aggregate diagnosis0 = None" "d_PossibleCauses diagnosis0 = []"
  by (simp_all add: diagnosis0_def)

section \<open>Rules\<close>

record rule_meta =
  m_ID :: string
  m_Title :: string
  m_Description :: string
  m_Emits :: "string list"

definition rule_meta_IDs :: "rule_meta \<Rightarrow> string list" where
  "rule_meta_IDs m = (if m_Emits m = [] then [m_ID m] else m_Emits m)"

text \<open>
  A \<open>RuleFunc\<close>. Every rule of the program ignores the context it is handed, so the function
  takes the snapshot only.
\<close>

record 's rule =
  rule_Metadata :: rule_meta
  rule_Fn :: "'s \<Rightarrow> diagnosis list"

abbreviation RuleFunc :: "rule_meta \<Rightarrow> ('s \<Rightarrow> diagnosis list) \<Rightarrow> 's rule" where
  "RuleFunc m f \<equiv> \<lparr>rule_Metadata = m, rule_Fn = f\<rparr>"

section \<open>Reports\<close>

datatype status = StatusHealthy | StatusDegraded | StatusUnhealthy | StatusUnknown

record item =
  i_Key :: string
  i_Value :: string
  i_Note :: string

abbreviation Item :: "string \<Rightarrow> string \<Rightarrow> string \<Rightarrow> item" where
  "Item k v n \<equiv> \<lparr>i_Key = k, i_Value = v, i_Note = n\<rparr>"

record report_section =
  sec_Title :: string
  sec_Items :: "item list"
  sec_Tree :: "string list"

record degradation =
  deg_Resource :: string
  deg_Reason :: string
  deg_RequiredFor :: string
  deg_Detail :: string

record report =
  r_Resource :: resource_ref
  r_Status :: status
  r_Headline :: string
  r_Diagnoses :: "diagnosis list"
  r_Overview :: "report_section list"
  r_Degradations :: "degradation list"
  r_Inspected :: "string list"

definition AddSection :: "report \<Rightarrow> report_section \<Rightarrow> report" where
  "AddSection r s =
     (if sec_Items s = [] \<and> sec_Tree s = [] then r
      else r\<lparr>r_Overview := r_Overview r @ [s]\<rparr>)"

text \<open>One iteration of the loop over the findings in \<open>DeriveStatus\<close>.\<close>

definition derive_step :: "status \<Rightarrow> diagnosis \<Rightarrow> status" where
  "derive_step st d =
     (case d_Severity d of
        SeverityCritical \<Rightarrow> StatusUnhealthy
      | SeverityWarning \<Rightarrow> (if st \<noteq> StatusUnhealthy then StatusDegraded else st)
      | _ \<Rightarrow> st)"

definition DeriveStatus :: "report \<Rightarrow> report" where
  "DeriveStatus r =
     (let st = foldl derive_step StatusHealthy (r_Diagnoses r) in
      r\<lparr>r_Status := (if st = StatusHealthy \<and> r_Degradations r \<noteq> [] then StatusUnknown else st)\<rparr>)"

lemma DeriveStatus_frame [simp]:
  "r_Diagnoses (DeriveStatus r) = r_Diagnoses r" "r_Overview (DeriveStatus r) = r_Overview r"
  "r_Degradations (DeriveStatus r) = r_Degradations r" "r_Resource (DeriveStatus r) = r_Resource r"
  "r_Inspected (DeriveStatus r) = r_Inspected r"
  by (simp_all add: DeriveStatus_def Let_def)

lemma AddSection_frame [simp]:
  "r_Diagnoses (AddSection r s) = r_Diagnoses r" "r_Status (AddSection r s) = r_Status r"
  "r_Degradations (AddSection r s) = r_Degradations r" "r_Headline (AddSection r s) = r_Headline r"
  "r_Resource (AddSection r s) = r_Resource r" "r_Inspected (AddSection r s) = r_Inspected r"
  by (simp_all add: AddSection_def)

lemma foldl_derive_step:
  "st \<in> {StatusHealthy, StatusDegraded, StatusUnhealthy} \<Longrightarrow>
   foldl derive_step st ds =
     (if st = StatusUnhealthy \<or> SeverityCritical \<in> d_Severity ` set ds then StatusUnhealthy
      else if st = StatusDegraded \<or> SeverityWarning \<in> d_Severity ` set ds then StatusDegraded
      else StatusHealthy)"
proof (induction ds arbitrary: st)
  case Nil
  then show ?case by auto
next
  case (Cons d ds)
  have "derive_step st d \<in> {StatusHealthy, StatusDegraded, StatusUnhealthy}"
    using Cons.prems by (auto simp: derive_step_def split: severity.splits)
  from Cons.IH [OF this] Cons.prems show ?case
    by (auto simp: derive_step_def split: severity.splits if_splits)
qed

lemma DeriveStatus_cases:
  "r_Status (DeriveStatus r) =
     (if SeverityCritical \<in> d_Severity ` set (r_Diagnoses r) then StatusUnhealthy
      else if SeverityWarning \<in> d_Severity ` set (r_Diagnoses r) then StatusDegraded
      else if r_Degradations r \<noteq> [] then StatusUnknown
      else StatusHealthy)"
  by (simp add: DeriveStatus_def foldl_derive_step)

text \<open>
  C3. The verdict of a report does not depend on the order of its findings: it is unhealthy
  exactly when some finding is critical, degraded exactly when none is critical and some is a
  warning, unknown exactly when there is neither but evidence could not be read, and healthy
  only when there is neither a critical nor a warning finding and nothing was left unread.
\<close>

theorem DeriveStatus_verdict:
  "(r_Status (DeriveStatus r) = StatusUnhealthy \<longleftrightarrow>
      (\<exists>d. d \<in> set (r_Diagnoses r) \<and> d_Severity d = SeverityCritical)) \<and>
   (r_Status (DeriveStatus r) = StatusDegraded \<longleftrightarrow>
      (\<nexists>d. d \<in> set (r_Diagnoses r) \<and> d_Severity d = SeverityCritical) \<and>
      (\<exists>d. d \<in> set (r_Diagnoses r) \<and> d_Severity d = SeverityWarning)) \<and>
   (r_Status (DeriveStatus r) = StatusUnknown \<longleftrightarrow>
      (\<nexists>d. d \<in> set (r_Diagnoses r) \<and> d_Severity d \<in> {SeverityCritical, SeverityWarning}) \<and>
      r_Degradations r \<noteq> []) \<and>
   (r_Status (DeriveStatus r) = StatusHealthy \<longleftrightarrow>
      (\<nexists>d. d \<in> set (r_Diagnoses r) \<and> d_Severity d \<in> {SeverityCritical, SeverityWarning}) \<and>
      r_Degradations r = [])"
  unfolding DeriveStatus_cases by (auto simp: image_iff)

end
