(* ===== verification/GoLoops.thy ===== *)
theory GoLoops
  imports Prelude
begin

text \<open>
  Two loops that recur in the program and the contracts their users rely on.
  \<^item> \<open>slice_stable\<close> is \<open>sort.SliceStable\<close>: elements are inserted one by one from the right,
    as Go's insertion sort does. The locale \<open>sort_order\<close> states what the comparison
    function has to satisfy, and proves that the result is then an ordered permutation that
    keeps the relative order of equivalent elements, and is the only such list: the outcome
    does not depend on the algorithm.
  \<^item> \<open>group_loop\<close> is the loop that collapses repeated elements: a map from keys to positions
    in the output slice, with either an append or an update in place for each element. The
    locale \<open>keyed_group\<close> proves that it computes the recursive specification
    \<open>group_spec\<close>.
\<close>

section \<open>Stable sorting\<close>

fun insert_back :: "('a \<Rightarrow> 'a \<Rightarrow> bool) \<Rightarrow> 'a \<Rightarrow> 'a list \<Rightarrow> 'a list" where
  "insert_back lt x [] = [x]"
| "insert_back lt x (y # ys) =
     (if lt x y then y # insert_back lt x ys else x # y # ys)"

text \<open>The accumulator is the sorted prefix of the slice, read from its end.\<close>

definition slice_stable :: "('a \<Rightarrow> 'a \<Rightarrow> bool) \<Rightarrow> 'a list \<Rightarrow> 'a list" where
  "slice_stable lt xs = rev (fold (insert_back lt) xs [])"

definition equivalent :: "('a \<Rightarrow> 'a \<Rightarrow> bool) \<Rightarrow> 'a \<Rightarrow> 'a \<Rightarrow> bool" where
  "equivalent lt x y \<longleftrightarrow> \<not> lt x y \<and> \<not> lt y x"

definition ordered_by :: "('a \<Rightarrow> 'a \<Rightarrow> bool) \<Rightarrow> 'a list \<Rightarrow> bool" where
  "ordered_by lt xs \<longleftrightarrow> sorted_wrt (\<lambda>a b. \<not> lt b a) xs"

lemma mset_insert_back [simp]: "mset (insert_back lt x ys) = add_mset x (mset ys)"
  by (induction lt x ys rule: insert_back.induct) auto

lemma mset_fold_insert_back: "mset (fold (insert_back lt) xs acc) = mset xs + mset acc"
  by (induction xs arbitrary: acc) auto

lemma mset_slice_stable [simp]: "mset (slice_stable lt xs) = mset xs"
  by (simp add: slice_stable_def mset_fold_insert_back)

lemma set_slice_stable [simp]: "set (slice_stable lt xs) = set xs"
  by (metis mset_slice_stable set_mset_mset)

lemma length_slice_stable [simp]: "length (slice_stable lt xs) = length xs"
  by (metis mset_slice_stable size_mset)

lemma slice_stable_Nil_iff [simp]: "slice_stable lt xs = [] \<longleftrightarrow> xs = []"
  by (metis length_0_conv length_slice_stable)

lemma set_insert_back: "set (insert_back lt x ys) = insert x (set ys)"
  by (metis mset_insert_back set_mset_add_mset_insert set_mset_mset)

text \<open>
  The contract of a comparison function on the elements that satisfy \<open>ok\<close>: a strict weak
  order.
\<close>

locale sort_order =
  fixes ok :: "'a \<Rightarrow> bool"
    and lt :: "'a \<Rightarrow> 'a \<Rightarrow> bool"
  assumes less_asym: "ok x \<Longrightarrow> ok y \<Longrightarrow> lt x y \<Longrightarrow> \<not> lt y x"
    and less_negtrans: "ok x \<Longrightarrow> ok y \<Longrightarrow> ok z \<Longrightarrow> lt x z \<Longrightarrow> lt x y \<or> lt y z"
begin

lemma equivalent_refl: "ok x \<Longrightarrow> equivalent lt x x"
  using less_asym by (auto simp: equivalent_def)

lemma insert_back_sorted:
  assumes "ok x" and "\<forall>y\<in>set ys. ok y" and "sorted_wrt (\<lambda>a b. \<not> lt a b) ys"
  shows "sorted_wrt (\<lambda>a b. \<not> lt a b) (insert_back lt x ys)"
  using assms
proof (induction ys)
  case Nil
  then show ?case by simp
next
  case (Cons y ys)
  show ?case
  proof (cases "lt x y")
    case True
    with Cons show ?thesis by (auto simp: set_insert_back less_asym)
  next
    case False
    have "\<not> lt x z" if "z \<in> set ys" for z
      using Cons.prems False that less_negtrans [of x y z] by auto
    with False Cons.prems show ?thesis by auto
  qed
qed

lemma insert_back_filter:
  assumes "ok x" and "ok k" and "\<forall>y\<in>set ys. ok y"
  shows "filter (equivalent lt k) (insert_back lt x ys) =
         (if equivalent lt k x then x # filter (equivalent lt k) ys
          else filter (equivalent lt k) ys)"
  using assms
proof (induction ys)
  case Nil
  then show ?case by simp
next
  case (Cons y ys)
  have "\<not> equivalent lt k y" if "lt x y" and "equivalent lt k x"
    using that Cons.prems less_negtrans [of x k y] by (auto simp: equivalent_def)
  with Cons show ?case by auto
qed

lemma fold_sorted:
  assumes "\<forall>x\<in>set xs. ok x" and "\<forall>y\<in>set acc. ok y" and "sorted_wrt (\<lambda>a b. \<not> lt a b) acc"
  shows "sorted_wrt (\<lambda>a b. \<not> lt a b) (fold (insert_back lt) xs acc)"
  using assms
  by (induction xs arbitrary: acc) (auto simp: insert_back_sorted set_insert_back)

lemma slice_stable_ordered: "\<forall>x\<in>set xs. ok x \<Longrightarrow> ordered_by lt (slice_stable lt xs)"
  using fold_sorted [of xs "[]"] by (simp add: ordered_by_def slice_stable_def sorted_wrt_rev)

lemma fold_filter:
  assumes "\<forall>x\<in>set xs. ok x" and "\<forall>y\<in>set acc. ok y" and "ok k"
  shows "filter (equivalent lt k) (fold (insert_back lt) xs acc) =
         rev (filter (equivalent lt k) xs) @ filter (equivalent lt k) acc"
  using assms
  by (induction xs arbitrary: acc) (auto simp: insert_back_filter set_insert_back)

lemma slice_stable_stable:
  "\<forall>x\<in>set xs. ok x \<Longrightarrow> ok k \<Longrightarrow>
   filter (equivalent lt k) (slice_stable lt xs) = filter (equivalent lt k) xs"
  using fold_filter [of xs "[]" k] by (simp add: slice_stable_def rev_filter [symmetric])

text \<open>An ordered list is determined by its equivalence classes.\<close>

lemma ordered_unique:
  assumes "\<forall>x\<in>set xs. ok x" and "\<forall>y\<in>set ys. ok y"
    and "ordered_by lt xs" and "ordered_by lt ys" and "mset xs = mset ys"
    and "\<And>k. ok k \<Longrightarrow> filter (equivalent lt k) xs = filter (equivalent lt k) ys"
  shows "xs = ys"
  using assms
proof (induction xs arbitrary: ys)
  case Nil
  then show ?case by simp
next
  case (Cons x xs)
  then obtain y zs where ys: "ys = y # zs"
    by (cases ys) auto
  have "x \<in> set ys" and "y \<in> set (x # xs)"
    using Cons.prems(5) ys by (metis list.set_intros(1) mset_eq_setD)+
  with Cons.prems ys have "equivalent lt x y"
    using equivalent_refl by (auto simp: ordered_by_def equivalent_def)
  with Cons.prems(6) [of x] Cons.prems(1) ys have xy: "x = y"
    using equivalent_refl [of x] by simp
  have "filter (equivalent lt k) xs = filter (equivalent lt k) zs" if "ok k" for k
    using Cons.prems(6) [OF that] ys xy by (simp split: if_splits)
  then have "xs = zs"
    using Cons.prems ys by (intro Cons.IH) (simp_all add: ordered_by_def xy)
  with ys xy show ?case by simp
qed

theorem slice_stable_unique:
  assumes "\<forall>x\<in>set xs. ok x" and "mset ys = mset xs" and "ordered_by lt ys"
    and "\<And>k. ok k \<Longrightarrow> filter (equivalent lt k) ys = filter (equivalent lt k) xs"
  shows "ys = slice_stable lt xs"
proof (rule ordered_unique)
  show "\<forall>y\<in>set ys. ok y" using assms(1,2) by (metis mset_eq_setD)
qed (use assms slice_stable_ordered slice_stable_stable in auto)

lemma slice_stable_ordered_id: "\<forall>x\<in>set xs. ok x \<Longrightarrow> ordered_by lt xs \<Longrightarrow> slice_stable lt xs = xs"
  using slice_stable_unique [of xs xs] by simp

end

text \<open>
  When no two different elements are equivalent the result does not depend on the order of the
  input, and an unstable sort gives the same list.
\<close>

locale total_sort_order = sort_order +
  assumes equivalent_eq: "ok x \<Longrightarrow> ok y \<Longrightarrow> equivalent lt x y \<Longrightarrow> x = y"
begin

lemma filter_equivalent:
  "ok k \<Longrightarrow> \<forall>x\<in>set xs. ok x \<Longrightarrow> filter (equivalent lt k) xs = replicate (count (mset xs) k) k"
  by (induction xs) (auto simp: equivalent_refl dest: equivalent_eq)

lemma slice_stable_perm:
  assumes "\<forall>x\<in>set xs. ok x" and "mset xs = mset ys"
  shows "slice_stable lt xs = slice_stable lt ys"
proof (rule slice_stable_unique)
  have ys: "\<forall>y\<in>set ys. ok y" using assms by (metis mset_eq_setD)
  then show "\<forall>y\<in>set ys. ok y" .
  show "ordered_by lt (slice_stable lt xs)" by (rule slice_stable_ordered [OF assms(1)])
  show "filter (equivalent lt k) (slice_stable lt xs) = filter (equivalent lt k) ys" if "ok k" for k
    using that assms ys by (simp add: filter_equivalent)
qed (simp add: assms(2))

end

text \<open>Comparing an integer key, in either direction, always satisfies the contract.\<close>

interpretation descending: sort_order "\<lambda>_. True" "\<lambda>x y. (f y :: int) < f x" for f
  by unfold_locales auto

interpretation ascending: sort_order "\<lambda>_. True" "\<lambda>x y. (f x :: int) < f y" for f
  by unfold_locales auto

section \<open>Collapsing repeated elements\<close>

definition group_step ::
  "('a \<Rightarrow> 'k) \<Rightarrow> ('a \<Rightarrow> 'b) \<Rightarrow> ('b \<Rightarrow> 'a \<Rightarrow> 'b) \<Rightarrow> ('k \<rightharpoonup> nat) \<times> 'b list \<Rightarrow> 'a \<Rightarrow> ('k \<rightharpoonup> nat) \<times> 'b list"
where
  "group_step key start merge st x =
     (let (index, out) = st in
      case index (key x) of
        Some pos \<Rightarrow> (index, out[pos := merge (out ! pos) x])
      | None \<Rightarrow> (index(key x \<mapsto> length out), out @ [start x]))"

definition group_loop :: "('a \<Rightarrow> 'k) \<Rightarrow> ('a \<Rightarrow> 'b) \<Rightarrow> ('b \<Rightarrow> 'a \<Rightarrow> 'b) \<Rightarrow> 'a list \<Rightarrow> 'b list" where
  "group_loop key start merge xs = snd (foldl (group_step key start merge) (Map.empty, []) xs)"

text \<open>The specification: the first element of each key absorbs the later ones in order.\<close>

function group_spec :: "('a \<Rightarrow> 'k) \<Rightarrow> ('a \<Rightarrow> 'b) \<Rightarrow> ('b \<Rightarrow> 'a \<Rightarrow> 'b) \<Rightarrow> 'a list \<Rightarrow> 'b list" where
  "group_spec key start merge [] = []"
| "group_spec key start merge (x # xs) =
     foldl merge (start x) (filter (\<lambda>y. key y = key x) xs) #
     group_spec key start merge (filter (\<lambda>y. key y \<noteq> key x) xs)"
  by pat_completeness auto
termination
  by (relation "measure (\<lambda>(k, s, m, xs). length xs)") (auto simp: less_Suc_eq_le)

locale keyed_group =
  fixes key :: "'a \<Rightarrow> 'k"
    and start :: "'a \<Rightarrow> 'b"
    and merge :: "'b \<Rightarrow> 'a \<Rightarrow> 'b"
    and bkey :: "'b \<Rightarrow> 'k"
  assumes start_key [simp]: "bkey (start x) = key x"
    and merge_key [simp]: "bkey (merge b x) = bkey b"
begin

lemma foldl_merge_key [simp]: "bkey (foldl merge b xs) = bkey b"
  by (induction xs arbitrary: b) auto

definition index_ok :: "('k \<rightharpoonup> nat) \<Rightarrow> 'b list \<Rightarrow> bool" where
  "index_ok index out \<longleftrightarrow>
     distinct (map bkey out) \<and>
     (\<forall>k i. index k = Some i \<longleftrightarrow> i < length out \<and> bkey (out ! i) = k)"

lemma index_ok_None:
  assumes "index_ok index out"
  shows "index k = None \<longleftrightarrow> k \<notin> bkey ` set out"
proof
  assume "index k = None"
  then have "\<not> (i < length out \<and> bkey (out ! i) = k)" for i
    using assms unfolding index_ok_def by (metis option.distinct(1))
  then show "k \<notin> bkey ` set out" by (metis imageE in_set_conv_nth)
next
  assume "k \<notin> bkey ` set out"
  then have "index k \<noteq> Some i" for i
    using assms unfolding index_ok_def by auto
  then show "index k = None" by (cases "index k") auto
qed

lemma index_ok_update:
  assumes "index_ok index out" and "index (key x) = Some i"
  shows "index_ok index (out[i := merge (out ! i) x])"
proof -
  have i: "i < length out" "bkey (out ! i) = key x"
    using assms by (auto simp: index_ok_def)
  then have "map bkey (out[i := merge (out ! i) x]) = map bkey out"
    by (simp add: map_update list_update_same_conv)
  moreover have "bkey (out[i := merge (out ! i) x] ! j) = bkey (out ! j)" if "j < length out" for j
    using i that by (cases "j = i") auto
  ultimately show ?thesis
    using assms(1) by (auto simp: index_ok_def)
qed

lemma index_ok_append:
  assumes "index_ok index out" and "index (key x) = None"
  shows "index_ok (index(key x \<mapsto> length out)) (out @ [start x])"
proof -
  have new: "key x \<notin> bkey ` set out"
    using assms index_ok_None by blast
  then have "bkey (out ! i) \<noteq> key x" if "i < length out" for i
    using that by (metis imageI nth_mem)
  with assms new show ?thesis
    by (auto simp: index_ok_def nth_append less_Suc_eq split: if_splits)
qed

text \<open>What is left for the groups of \<open>out\<close> when the next element starts a group of its own.\<close>

lemma group_spec_new:
  assumes new: "key x \<notin> bkey ` set out"
  shows "map (\<lambda>b. foldl merge b (filter (\<lambda>y. key y = bkey b) (x # xs))) out @
      group_spec key start merge (filter (\<lambda>y. key y \<notin> bkey ` set out) (x # xs)) =
    map (\<lambda>b. foldl merge b (filter (\<lambda>y. key y = bkey b) xs)) (out @ [start x]) @
      group_spec key start merge (filter (\<lambda>y. key y \<notin> bkey ` set (out @ [start x])) xs)"
proof -
  have "filter (\<lambda>y. key y = bkey b) (x # xs) = filter (\<lambda>y. key y = bkey b) xs" if "b \<in> set out" for b
    using new that by auto
  then have "map (\<lambda>b. foldl merge b (filter (\<lambda>y. key y = bkey b) (x # xs))) out =
      map (\<lambda>b. foldl merge b (filter (\<lambda>y. key y = bkey b) xs)) out"
    by (intro map_cong refl) (simp only:)
  moreover have "filter (\<lambda>y. key y = key x) (filter (\<lambda>y. key y \<notin> bkey ` set out) xs) = filter (\<lambda>y. key y = key x) xs"
    unfolding filter_filter using new by (intro filter_cong refl) metis
  moreover have "filter (\<lambda>y. key y \<noteq> key x) (filter (\<lambda>y. key y \<notin> bkey ` set out) xs) =
      filter (\<lambda>y. key y \<notin> bkey ` set (out @ [start x])) xs"
    unfolding filter_filter by (intro filter_cong) (simp_all add: conj_commute)
  ultimately show ?thesis
    using new by (simp del: filter_filter set_append)
qed

text \<open>Merging the next element into its group now or later is the same.\<close>

lemma merge_group:
  assumes i: "i < length out" "bkey (out ! i) = key x" and d: "distinct (map bkey out)"
  shows "map (\<lambda>b. foldl merge b (filter (\<lambda>y. key y = bkey b) xs)) (out[i := merge (out ! i) x]) =
         map (\<lambda>b. foldl merge b (filter (\<lambda>y. key y = bkey b) (x # xs))) out"
proof (rule nth_equalityI)
  fix j assume j: "j < length (map (\<lambda>b. foldl merge b (filter (\<lambda>y. key y = bkey b) xs)) (out[i := merge (out ! i) x]))"
  have "bkey (out ! j) \<noteq> key x" if "j \<noteq> i"
    using i j that nth_eq_iff_index_eq [OF d, of j i] by simp
  with i j show "map (\<lambda>b. foldl merge b (filter (\<lambda>y. key y = bkey b) xs)) (out[i := merge (out ! i) x]) ! j =
      map (\<lambda>b. foldl merge b (filter (\<lambda>y. key y = bkey b) (x # xs))) out ! j"
    by (cases "j = i") auto
qed simp

lemma foldl_group_step:
  assumes "index_ok index out"
  shows "snd (foldl (group_step key start merge) (index, out) xs) =
         map (\<lambda>b. foldl merge b (filter (\<lambda>y. key y = bkey b) xs)) out @
         group_spec key start merge (filter (\<lambda>y. key y \<notin> bkey ` set out) xs)"
  using assms
proof (induction xs arbitrary: index out)
  case (Cons x xs)
  show ?case
  proof (cases "index (key x)")
    case None
    then have "group_step key start merge (index, out) x = (index(key x \<mapsto> length out), out @ [start x])"
      by (simp add: group_step_def)
    moreover have new: "key x \<notin> bkey ` set out"
      using index_ok_None [OF Cons.prems] None by simp
    ultimately show ?thesis
      using Cons.IH [OF index_ok_append [OF Cons.prems None]] by (simp only: foldl_Cons group_spec_new [OF new])
  next
    case (Some i)
    then have i: "i < length out" "bkey (out ! i) = key x" and d: "distinct (map bkey out)"
      using Cons.prems by (auto simp: index_ok_def)
    have "bkey ` set (out[i := merge (out ! i) x]) = bkey ` set out"
      using i by (metis image_set list_update_id map_update merge_key)
    moreover have "key x \<in> bkey ` set out" using i by (metis imageI nth_mem)
    ultimately show ?thesis
      using Cons.IH [OF index_ok_update [OF Cons.prems Some]] merge_group [OF i d, of xs] Some
      by (simp add: group_step_def)
  qed
qed simp

theorem group_loop_spec: "group_loop key start merge xs = group_spec key start merge xs"
  using foldl_group_step [of Map.empty "[]" xs] by (simp add: group_loop_def index_ok_def)

lemma group_induct:
  assumes "P []" and "\<And>x xs. P (filter (\<lambda>y. key y \<noteq> key x) xs) \<Longrightarrow> P (x # xs)"
  shows "P xs"
proof (induction xs rule: length_induct)
  case (1 xs)
  show ?case
  proof (cases xs)
    case Nil
    with assms(1) show ?thesis by simp
  next
    case (Cons x ys)
    then have "length (filter (\<lambda>y. key y \<noteq> key x) ys) < length xs"
      by (simp add: less_Suc_eq_le)
    with 1 Cons assms(2) show ?thesis by blast
  qed
qed

lemma group_spec_keys: "bkey ` set (group_spec key start merge xs) = key ` set xs"
  by (induction xs rule: group_induct) auto

lemma group_spec_distinct: "distinct (map bkey (group_spec key start merge xs))"
proof (induction xs rule: group_induct)
  case 1
  show ?case by simp
next
  case (2 x xs)
  have "key x \<notin> bkey ` set (group_spec key start merge (filter (\<lambda>y. key y \<noteq> key x) xs))"
    unfolding group_spec_keys by auto
  with 2 show ?case by simp
qed

lemma group_spec_Nil_iff: "group_spec key start merge xs = [] \<longleftrightarrow> xs = []"
  by (cases xs) auto

text \<open>Each entry of the result is the first element of its key with the rest merged in.\<close>

lemma group_spec_entry:
  "b \<in> set (group_spec key start merge xs) \<Longrightarrow>
   \<exists>x ys. filter (\<lambda>y. key y = bkey b) xs = x # ys \<and> b = foldl merge (start x) ys"
proof (induction xs rule: group_induct)
  case 1
  then show ?case by simp
next
  case (2 x ys)
  let ?r = "filter (\<lambda>y. key y \<noteq> key x) ys"
  show ?case
  proof (cases "b = foldl merge (start x) (filter (\<lambda>y. key y = key x) ys)")
    case True
    then have "bkey b = key x" by simp
    with True show ?thesis by auto
  next
    case False
    with 2(2) have b: "b \<in> set (group_spec key start merge ?r)" by simp
    then have "bkey b \<in> key ` set ?r"
      using group_spec_keys by (metis imageI)
    then have "bkey b \<noteq> key x" by auto
    then have "filter (\<lambda>y. key y = bkey b) ?r = filter (\<lambda>y. key y = bkey b) (x # ys)"
      by (auto intro: filter_cong)
    with 2(1) [OF b] show ?thesis by metis
  qed
qed

end

section \<open>Taking each key once\<close>

text \<open>The loop that skips an element whose key is in the map \<open>seen\<close> and records it otherwise.\<close>

fun first_seen :: "('a \<Rightarrow> 'k) \<Rightarrow> 'k list \<Rightarrow> 'a list \<Rightarrow> 'a list" where
  "first_seen key seen [] = []"
| "first_seen key seen (x # xs) =
     (if key x \<in> set seen then first_seen key seen xs else x # first_seen key (key x # seen) xs)"

lemma first_seen_keys: "key ` set (first_seen key seen xs) = key ` set xs - set seen"
  by (induction key seen xs rule: first_seen.induct) auto

lemma first_seen_distinct: "distinct (map key (first_seen key seen xs))"
proof (induction key seen xs rule: first_seen.induct)
  case (2 key seen x xs)
  then show ?case using first_seen_keys [of key "key x # seen" xs] by auto
qed simp

lemma first_seen_subset: "set (first_seen key seen xs) \<subseteq> set xs"
  by (induction key seen xs rule: first_seen.induct) auto

lemma first_seen_first:
  "x \<in> set (first_seen key seen xs) \<Longrightarrow> \<exists>ys. filter (\<lambda>y. key y = key x) xs = x # ys"
proof (induction key seen xs rule: first_seen.induct)
  case (2 key seen z xs)
  show ?case
  proof (cases "key z \<in> set seen")
    case True
    with 2 have "x \<in> set (first_seen key seen xs)" by simp
    moreover from this have "key x \<notin> set seen" using first_seen_keys [of key seen xs] by blast
    ultimately show ?thesis using 2 True by auto
  next
    case False
    show ?thesis
    proof (cases "x = z")
      case False
      with 2 \<open>key z \<notin> set seen\<close> have "x \<in> set (first_seen key (key z # seen) xs)" by simp
      moreover from this have "key x \<noteq> key z" using first_seen_keys [of key "key z # seen" xs] by auto
      ultimately show ?thesis using 2 \<open>key z \<notin> set seen\<close> by auto
    qed simp
  qed
qed simp

end
