(* ===== verification/Events.thy ===== *)
theory Events
  imports Diagnosis GoLoops
begin

text \<open>
  Package \<open>snapshot\<close>, \<open>snapshot.go\<close>: existence of referenced objects, events and the
  operations on event lists, and the bookkeeping every snapshot embeds. The lemmas show which
  event \<open>Latest\<close> picks, what \<open>Dedup\<close> keeps, and what recording a failed read adds.
\<close>

datatype existence = Unknown | Found | Missing

record event =
  ev_Type :: string
  ev_Reason :: string
  ev_Message :: string
  ev_Count :: int
  ev_FirstSeen :: gotime
  ev_LastSeen :: gotime
  ev_Object :: resource_ref
  ev_FieldPath :: string

type_synonym events = "event list"

fun field_container :: "string list \<Rightarrow> string \<Rightarrow> string" where
  "field_container [] path = []"
| "field_container (p # ps) path =
     (if prefix p path \<and> suffix ''}'' path
        then take (length path - 1 - length p) (drop (length p) path)
      else field_container ps path)"

definition Event_Container :: "event \<Rightarrow> string" where
  "Event_Container e = field_container [''spec.containers{'', ''spec.initContainers{''] (ev_FieldPath e)"

definition Event_IsWarning :: "event \<Rightarrow> bool" where
  "Event_IsWarning e \<longleftrightarrow> ev_Type e = ''Warning''"

definition Events_Sort :: "events \<Rightarrow> events" where
  "Events_Sort evs = slice_stable (\<lambda>a b. ev_LastSeen b < ev_LastSeen a) evs"

definition Events_WithReason :: "string list \<Rightarrow> events \<Rightarrow> events" where
  "Events_WithReason reasons evs = filter (\<lambda>e. ev_Reason e \<in> set reasons) evs"

definition Events_Warnings :: "events \<Rightarrow> events" where
  "Events_Warnings evs = filter Event_IsWarning evs"

text \<open>The pair of the best event and whether one was found is an option.\<close>

definition latest_step :: "event option \<Rightarrow> event \<Rightarrow> event option" where
  "latest_step best e =
     (case best of None \<Rightarrow> Some e
      | Some b \<Rightarrow> (if ev_LastSeen b < ev_LastSeen e then Some e else Some b))"

definition Events_Latest :: "string list \<Rightarrow> events \<Rightarrow> event option" where
  "Events_Latest reasons evs = foldl latest_step None (Events_WithReason reasons evs)"

definition dedup_key :: "event \<Rightarrow> string \<times> string \<times> string" where
  "dedup_key e = (ev_Reason e, ev_Message e, ev_FieldPath e)"

definition dedup_start :: "event \<Rightarrow> event" where
  "dedup_start e = (if ev_Count e = 0 then e\<lparr>ev_Count := 1\<rparr> else e)"

definition dedup_merge :: "event \<Rightarrow> event \<Rightarrow> event" where
  "dedup_merge b e =
     b\<lparr>ev_Count := wrap32 (ev_Count b + max (ev_Count e) 1),
       ev_FirstSeen := (if ev_FirstSeen e < ev_FirstSeen b then ev_FirstSeen e else ev_FirstSeen b)\<rparr>"

definition Events_Dedup :: "events \<Rightarrow> events" where
  "Events_Dedup evs = group_loop dedup_key dedup_start dedup_merge (Events_Sort evs)"

section \<open>Bookkeeping\<close>

record collection =
  col_Degradations :: "degradation list"
  col_Inspected :: "string list"

definition Degrade :: "collection \<Rightarrow> degradation \<Rightarrow> collection" where
  "Degrade c d =
     (if list_ex (\<lambda>e. deg_Resource e = deg_Resource d \<and> deg_Reason e = deg_Reason d) (col_Degradations c)
      then c else c\<lparr>col_Degradations := col_Degradations c @ [d]\<rparr>)"

definition Inspect :: "collection \<Rightarrow> string \<Rightarrow> collection" where
  "Inspect c what =
     (if list_ex (\<lambda>e. e = what) (col_Inspected c) then c
      else c\<lparr>col_Inspected := col_Inspected c @ [what]\<rparr>)"

definition collection0 :: collection where
  "collection0 = \<lparr>col_Degradations = [], col_Inspected = []\<rparr>"

definition collection_ok :: "collection \<Rightarrow> bool" where
  "collection_ok c \<longleftrightarrow>
     distinct (map (\<lambda>d. (deg_Resource d, deg_Reason d)) (col_Degradations c)) \<and>
     distinct (col_Inspected c)"

lemma collection_ok_Degrade: "collection_ok c \<Longrightarrow> collection_ok (Degrade c d)"
  by (auto simp: collection_ok_def Degrade_def list_ex_iff)

lemma collection_ok_Inspect: "collection_ok c \<Longrightarrow> collection_ok (Inspect c w)"
  by (auto simp: collection_ok_def Inspect_def list_ex_iff)

abbreviation deg_key :: "degradation \<Rightarrow> string \<times> string" where
  "deg_key d \<equiv> (deg_Resource d, deg_Reason d)"

lemma Degrade_keys:
  "deg_key ` set (col_Degradations (Degrade c d)) = insert (deg_key d) (deg_key ` set (col_Degradations c))"
proof (cases "list_ex (\<lambda>e. deg_Resource e = deg_Resource d \<and> deg_Reason e = deg_Reason d) (col_Degradations c)")
  case True
  then obtain e where "e \<in> set (col_Degradations c)" and "deg_key e = deg_key d"
    by (auto simp: list_ex_iff)
  then have "deg_key d \<in> deg_key ` set (col_Degradations c)"
    by (intro image_eqI [of _ _ e]) simp_all
  with True show ?thesis by (simp add: Degrade_def insert_absorb)
qed (simp add: Degrade_def)

section \<open>Lemmas on events\<close>

lemma field_container_of:
  assumes "prefix p path" and "path = p @ name @ ''}''"
  shows "field_container (p # ps) path = name"
  using assms by (simp add: suffix_def)

text \<open>
  The container name written into an event's field path by the kubelet is read back
  unchanged, for regular and for init containers.
\<close>

theorem Event_Container_roundtrip:
  "Event_Container (e\<lparr>ev_FieldPath := ''spec.containers{'' @ name @ ''}''\<rparr>) = name \<and>
   Event_Container (e\<lparr>ev_FieldPath := ''spec.initContainers{'' @ name @ ''}''\<rparr>) = name"
  by (simp add: Event_Container_def suffix_def)

lemma set_Events_Sort [simp]: "set (Events_Sort evs) = set evs"
  by (simp add: Events_Sort_def)

lemma Events_Sort_ordered: "sorted_wrt (\<lambda>a b. ev_LastSeen b \<le> ev_LastSeen a) (Events_Sort evs)"
  using descending.slice_stable_ordered [of evs ev_LastSeen]
  by (simp add: Events_Sort_def ordered_by_def not_less)

lemma foldl_latest_step:
  "foldl latest_step best evs = Some e \<Longrightarrow>
   (e \<in> set evs \<or> best = Some e) \<and>
   (\<forall>x \<in> set evs \<union> set_option best. ev_LastSeen x \<le> ev_LastSeen e)"
proof (induction evs arbitrary: best)
  case Nil
  then show ?case by auto
next
  case (Cons x evs)
  have "(e \<in> set evs \<or> latest_step best x = Some e) \<and>
      (\<forall>x \<in> set evs \<union> set_option (latest_step best x). ev_LastSeen x \<le> ev_LastSeen e)"
    using Cons by simp
  then show ?case
    by (cases best) (auto simp: latest_step_def split: if_splits)
qed

lemma foldl_latest_step_None:
  "foldl latest_step best evs = None \<longleftrightarrow> evs = [] \<and> best = None"
  by (induction evs arbitrary: best) (auto simp: latest_step_def split: option.splits)

lemma Events_Latest_Some:
  "Events_Latest rs evs = Some e \<Longrightarrow>
   e \<in> set evs \<and> ev_Reason e \<in> set rs \<and>
   (\<forall>x\<in>set evs. ev_Reason x \<in> set rs \<longrightarrow> ev_LastSeen x \<le> ev_LastSeen e)"
  using foldl_latest_step [of None "Events_WithReason rs evs" e]
  by (auto simp: Events_Latest_def Events_WithReason_def)

lemma Events_Latest_None: "Events_Latest rs evs = None \<longleftrightarrow> (\<forall>e\<in>set evs. ev_Reason e \<notin> set rs)"
  by (auto simp: Events_Latest_def foldl_latest_step_None Events_WithReason_def filter_empty_conv)

section \<open>Deduplication\<close>

locale keyed_group_view = keyed_group +
  fixes va :: "'a \<Rightarrow> 'v"
    and vb :: "'c \<Rightarrow> 'v"
  assumes start_view [simp]: "vb (start x) = va x"
    and merge_view [simp]: "vb (merge b x) = vb b"
begin

lemma foldl_merge_view [simp]: "vb (foldl merge b xs) = vb b"
  by (induction xs arbitrary: b) auto

text \<open>A field that merging keeps shows up in the order of first occurrences.\<close>

lemma group_spec_subseq: "subseq (map vb (group_spec key start merge xs)) (map va xs)"
proof (induction xs rule: group_induct)
  case 1
  show ?case by simp
next
  case (2 x xs)
  moreover have "subseq (map va (filter (\<lambda>y. key y \<noteq> key x) xs)) (map va xs)"
    by (intro subseq_map subseq_filter_left)
  ultimately show ?case by (auto intro: subseq_order.order_trans)
qed

end

interpretation dedup: keyed_group_view dedup_key dedup_start dedup_merge dedup_key ev_LastSeen ev_LastSeen
  by unfold_locales (simp_all add: dedup_key_def dedup_start_def dedup_merge_def)

text \<open>The occurrences an event stands for: its count, at least one.\<close>

definition occurrences :: "event \<Rightarrow> int" where
  "occurrences e = (if ev_Count e = 0 then 1 else ev_Count e)"

lemma foldl_dedup_merge:
  assumes "\<forall>e\<in>set (x # xs). 0 \<le> ev_Count e"
  shows "ev_Count (foldl dedup_merge (dedup_start x) xs) =
           (if xs = [] then occurrences x else wrap32 (\<Sum>e\<leftarrow>x # xs. occurrences e)) \<and>
         ev_FirstSeen (foldl dedup_merge (dedup_start x) xs) = Min (ev_FirstSeen ` set (x # xs))"
  using assms
proof (induction xs rule: rev_induct)
  case Nil
  then show ?case by (simp add: dedup_start_def occurrences_def)
next
  case (snoc y xs)
  let ?b = "foldl dedup_merge (dedup_start x) xs"
  have IH: "ev_Count ?b = (if xs = [] then occurrences x else wrap32 (\<Sum>e\<leftarrow>x # xs. occurrences e))"
    "ev_FirstSeen ?b = Min (ev_FirstSeen ` set (x # xs))"
    using snoc by simp_all
  have "max (ev_Count y) 1 = occurrences y"
    using snoc.prems by (auto simp: occurrences_def)
  then have cnt: "ev_Count (dedup_merge ?b y) = wrap32 (\<Sum>e\<leftarrow>x # xs @ [y]. occurrences e)"
    using IH(1) wrap32_wrap32_add [of "\<Sum>e\<leftarrow>x # xs. occurrences e" "occurrences y"]
    by (cases "xs = []") (simp_all add: dedup_merge_def add.assoc)
  have "Min (ev_FirstSeen ` set (x # xs @ [y])) =
      min (ev_FirstSeen y) (Min (ev_FirstSeen ` set (x # xs)))"
    using Min_insert [of "ev_FirstSeen ` set (x # xs)" "ev_FirstSeen y"]
    by (simp add: insert_commute)
  moreover have "ev_FirstSeen (dedup_merge ?b y) = min (ev_FirstSeen y) (ev_FirstSeen ?b)"
    by (simp add: dedup_merge_def min_def)
  ultimately have "ev_FirstSeen (dedup_merge ?b y) = Min (ev_FirstSeen ` set (x # xs @ [y]))"
    using IH(2) by (simp only:)
  with cnt show ?case by simp
qed

lemma Events_Dedup_spec: "Events_Dedup evs = group_spec dedup_key dedup_start dedup_merge (Events_Sort evs)"
  by (simp add: Events_Dedup_def dedup.group_loop_spec)

lemma Events_Dedup_ordered: "sorted_wrt (\<lambda>a b. ev_LastSeen b \<le> ev_LastSeen a) (Events_Dedup evs)"
proof -
  have "sorted_wrt (\<ge>) (map ev_LastSeen (Events_Sort evs))"
    using Events_Sort_ordered [of evs] by (simp add: sorted_wrt_map)
  then have "sorted_wrt (\<ge>) (map ev_LastSeen (Events_Dedup evs))"
    using dedup.group_spec_subseq [of "Events_Sort evs"]
    unfolding Events_Dedup_spec by (rule sorted_wrt_subseq)
  then show ?thesis by (simp add: sorted_wrt_map)
qed

lemma Events_Dedup_entry:
  assumes "b \<in> set (Events_Dedup evs)"
  shows "\<exists>x xs. filter (\<lambda>e. dedup_key e = dedup_key b) (Events_Sort evs) = x # xs \<and>
           b = foldl dedup_merge (dedup_start x) xs"
  using dedup.group_spec_entry [of b "Events_Sort evs"] assms by (simp add: Events_Dedup_spec)

lemma occurrences_sum_filter_le:
  "\<forall>e\<in>set evs. 0 \<le> ev_Count e \<Longrightarrow>
   0 \<le> (\<Sum>e\<leftarrow>filter P evs. occurrences e) \<and>
   (\<Sum>e\<leftarrow>filter P evs. occurrences e) \<le> (\<Sum>e\<leftarrow>evs. occurrences e)"
  by (induction evs) (auto simp: occurrences_def)

lemma sum_list_filter_Events_Sort:
  "(\<Sum>e\<leftarrow>filter P (Events_Sort evs). occurrences e) = (\<Sum>e\<leftarrow>filter P evs. occurrences e)"
proof -
  have "mset (map occurrences (filter P (Events_Sort evs))) = mset (map occurrences (filter P evs))"
    by (simp add: Events_Sort_def)
  then show ?thesis by (metis sum_mset_sum_list)
qed

lemma Max_hd_descending:
  "sorted_wrt (\<lambda>a b. f b \<le> (f a :: int)) (x # xs) \<Longrightarrow> Max (f ` set (x # xs)) = f x"
  by (intro Max_eqI) auto

text \<open>One kept event against the group of events it stands for.\<close>

lemma Events_Dedup_group:
  assumes b: "b \<in> set (Events_Dedup evs)"
  shows "ev_LastSeen b = Max (ev_LastSeen ` {e \<in> set evs. dedup_key e = dedup_key b})"
    and "\<forall>e\<in>set evs. 0 \<le> ev_Count e \<Longrightarrow>
      ev_FirstSeen b = Min (ev_FirstSeen ` {e \<in> set evs. dedup_key e = dedup_key b})"
    and "\<forall>e\<in>set evs. 0 \<le> ev_Count e \<Longrightarrow> (\<Sum>e\<leftarrow>evs. occurrences e) < 2 ^ 31 \<Longrightarrow>
      ev_Count b = (\<Sum>e\<leftarrow>filter (\<lambda>e. dedup_key e = dedup_key b) evs. occurrences e)"
proof -
  obtain x xs where g: "filter (\<lambda>e. dedup_key e = dedup_key b) (Events_Sort evs) = x # xs"
    and bx: "b = foldl dedup_merge (dedup_start x) xs"
    using Events_Dedup_entry [OF b] by blast
  have grp: "set (x # xs) = {e \<in> set evs. dedup_key e = dedup_key b}"
    unfolding g [symmetric] by auto
  have "sorted_wrt (\<lambda>a b. ev_LastSeen b \<le> ev_LastSeen a) (x # xs)"
    unfolding g [symmetric] by (intro sorted_wrt_filter Events_Sort_ordered)
  then have "ev_LastSeen b = Max (ev_LastSeen ` set (x # xs))"
    by (simp only: Max_hd_descending) (simp add: bx)
  then show "ev_LastSeen b = Max (ev_LastSeen ` {e \<in> set evs. dedup_key e = dedup_key b})"
    unfolding grp .
  assume nonneg: "\<forall>e\<in>set evs. 0 \<le> ev_Count e"
  then have nn: "\<forall>e\<in>set (x # xs). 0 \<le> ev_Count e" using grp by auto
  show "ev_FirstSeen b = Min (ev_FirstSeen ` {e \<in> set evs. dedup_key e = dedup_key b})"
    using foldl_dedup_merge [OF nn] bx unfolding grp by blast
  assume fits: "(\<Sum>e\<leftarrow>evs. occurrences e) < 2 ^ 31"
  have sum: "(\<Sum>e\<leftarrow>x # xs. occurrences e) = (\<Sum>e\<leftarrow>filter (\<lambda>e. dedup_key e = dedup_key b) evs. occurrences e)"
    unfolding g [symmetric] by (rule sum_list_filter_Events_Sort)
  have "wrap32 (\<Sum>e\<leftarrow>x # xs. occurrences e) = (\<Sum>e\<leftarrow>x # xs. occurrences e)"
    using occurrences_sum_filter_le [OF nonneg, of "\<lambda>e. dedup_key e = dedup_key b"] fits
    unfolding sum by (intro wrap32_id) auto
  then have "ev_Count b = (\<Sum>e\<leftarrow>x # xs. occurrences e)"
    using foldl_dedup_merge [OF nn] bx by (cases xs) auto
  then show "ev_Count b = (\<Sum>e\<leftarrow>filter (\<lambda>e. dedup_key e = dedup_key b) evs. occurrences e)"
    unfolding sum .
qed

lemma Events_Dedup_keys: "dedup_key ` set (Events_Dedup evs) = dedup_key ` set evs"
  using dedup.group_spec_keys [of "Events_Sort evs"] by (simp add: Events_Dedup_spec)

lemma Events_Dedup_distinct: "distinct (map dedup_key (Events_Dedup evs))"
  using dedup.group_spec_distinct [of "Events_Sort evs"] by (simp add: Events_Dedup_spec)

text \<open>
  C15. Deduplicating the events of an object keeps one event per reason, message and container,
  loses none of them, leaves them most recent first, and each kept event carries the total
  number of occurrences of its group, the time of the latest and the time of the first one, as
  long as the total fits the 32-bit counter.
\<close>

theorem Events_Dedup_contract:
  assumes nonneg: "\<forall>e\<in>set evs. 0 \<le> ev_Count e"
    and fits: "(\<Sum>e\<leftarrow>evs. occurrences e) < 2 ^ 31"
    and b: "b \<in> set (Events_Dedup evs)"
  shows "ev_Count b = (\<Sum>e\<leftarrow>filter (\<lambda>e. dedup_key e = dedup_key b) evs. occurrences e) \<and>
    ev_LastSeen b = Max (ev_LastSeen ` {e \<in> set evs. dedup_key e = dedup_key b}) \<and>
    ev_FirstSeen b = Min (ev_FirstSeen ` {e \<in> set evs. dedup_key e = dedup_key b}) \<and>
    distinct (map dedup_key (Events_Dedup evs)) \<and>
    dedup_key ` set (Events_Dedup evs) = dedup_key ` set evs \<and>
    sorted_wrt (\<lambda>a b. ev_LastSeen b \<le> ev_LastSeen a) (Events_Dedup evs)"
  using Events_Dedup_group [OF b] nonneg fits Events_Dedup_keys Events_Dedup_distinct Events_Dedup_ordered by blast

definition sample_event :: "string \<Rightarrow> int \<Rightarrow> int \<Rightarrow> gotime \<Rightarrow> event" where
  "sample_event reason n first seen =
     \<lparr>ev_Type = ''Warning'', ev_Reason = reason, ev_Message = [], ev_Count = n,
      ev_FirstSeen = first, ev_LastSeen = seen, ev_Object = resource_ref0, ev_FieldPath = []\<rparr>"

text \<open>Two BackOff events with 3 and 4 occurrences are one event with 7.\<close>

lemma Events_Dedup_contract_witness:
  "Events_Dedup [sample_event ''BackOff'' 3 5 10, sample_event ''BackOff'' 4 2 20] =
     [sample_event ''BackOff'' 7 2 20] \<and>
   ev_Count (sample_event ''BackOff'' 7 2 20) = 7"
proof -
  let ?evs = "[sample_event ''BackOff'' 3 5 10, sample_event ''BackOff'' 4 2 20]"
  have e: "Events_Dedup ?evs = [sample_event ''BackOff'' 7 2 20]" by code_simp
  have "ev_Count (sample_event ''BackOff'' 7 2 20) =
      (\<Sum>e\<leftarrow>filter (\<lambda>e. dedup_key e = dedup_key (sample_event ''BackOff'' 7 2 20)) ?evs. occurrences e)"
    by (rule Events_Dedup_contract [THEN conjunct1])
      (simp_all add: e, simp_all add: sample_event_def occurrences_def)
  also have "\<dots> = 7" by (simp add: sample_event_def occurrences_def dedup_key_def)
  finally show ?thesis using e by simp
qed

end
