(* ===== verification/Snapshots.thy ===== *)
theory Snapshots
  imports KubeTypes Events
begin

text \<open>
  Package \<open>snapshot\<close>, one snapshot type per diagnosed kind with its accessors: \<open>pod.go\<close>,
  \<open>service.go\<close>, \<open>deployment.go\<close>, \<open>statefulset.go\<close>, \<open>ingress.go\<close> and \<open>pvc.go\<close>. Rules read
  snapshots through these accessors only. The lemmas cover the merging of container specs with
  statuses, the ordinals of a StatefulSet and the endpoint counts.
\<close>

section \<open>Pods\<close>

text \<open>The field \<open>Claim\<close> of \<open>PVCRef\<close> is written by the collector and read by nothing.\<close>

record pvc_ref =
  pr_Name :: string
  pr_Exists :: existence
  pr_Phase :: string
  pr_StorageClass :: string
  pr_BindingMode :: string

record 'q pod_snap =
  ps_Collection :: collection
  ps_Pod :: "'q k_pod"
  ps_Events :: events
  ps_Owners :: "resource_ref list"
  ps_Node :: "k_node option"
  ps_ConfigMaps :: "existence gomap"
  ps_Secrets :: "existence gomap"
  ps_PVCs :: "pvc_ref gomap"
  ps_Now :: gotime

definition PVCRef_WaitsForConsumer :: "pvc_ref \<Rightarrow> bool" where
  "PVCRef_WaitsForConsumer p \<longleftrightarrow> pr_BindingMode p = ''WaitForFirstConsumer''"

definition Pod_Ref :: "'q pod_snap \<Rightarrow> resource_ref" where
  "Pod_Ref p = \<lparr>ref_Kind = ''Pod'', ref_Namespace = pod_Namespace (ps_Pod p), ref_Name = pod_Name (ps_Pod p)\<rparr>"

record 'q container =
  cn_Name :: string
  cn_Init :: bool
  cn_Sidecar :: bool
  cn_Spec :: "'q k_container option"
  cn_Status :: "k_container_status option"

definition container0 :: "'q container" where
  "container0 = \<lparr>cn_Name = [], cn_Init = False, cn_Sidecar = False, cn_Spec = None, cn_Status = None\<rparr>"

definition Container_Kind :: "'q container \<Rightarrow> string" where
  "Container_Kind c =
     (if cn_Sidecar c then ''sidecar container'' else if cn_Init c then ''init container'' else ''container'')"

definition Container_Restarts :: "'q container \<Rightarrow> int" where
  "Container_Restarts c = (case cn_Status c of None \<Rightarrow> 0 | Some s \<Rightarrow> cs_RestartCount s)"

definition Container_Waiting :: "'q container \<Rightarrow> k_waiting option" where
  "Container_Waiting c = (case cn_Status c of None \<Rightarrow> None | Some s \<Rightarrow> cs_Waiting s)"

definition Container_Terminated :: "'q container \<Rightarrow> k_terminated option" where
  "Container_Terminated c = (case cn_Status c of None \<Rightarrow> None | Some s \<Rightarrow> cs_Terminated s)"

definition Container_LastTerminated :: "'q container \<Rightarrow> k_terminated option" where
  "Container_LastTerminated c = (case cn_Status c of None \<Rightarrow> None | Some s \<Rightarrow> cs_LastTerminated s)"

definition Container_Ready :: "'q container \<Rightarrow> bool" where
  "Container_Ready c \<longleftrightarrow> (case cn_Status c of None \<Rightarrow> False | Some s \<Rightarrow> cs_Ready s)"

definition findStatus :: "k_container_status list \<Rightarrow> string \<Rightarrow> k_container_status option" where
  "findStatus statuses name = find (\<lambda>s. cs_Name s = name) statuses"

definition is_sidecar :: "'q k_container \<Rightarrow> bool" where
  "is_sidecar spec \<longleftrightarrow> c_RestartPolicy spec = Some ''Always''"

definition init_container :: "'q k_pod \<Rightarrow> 'q k_container \<Rightarrow> 'q container" where
  "init_container pod spec =
     \<lparr>cn_Name = c_Name spec, cn_Init = True, cn_Sidecar = is_sidecar spec, cn_Spec = Some spec,
      cn_Status = findStatus (pod_InitContainerStatuses pod) (c_Name spec)\<rparr>"

definition regular_container :: "'q k_pod \<Rightarrow> 'q k_container \<Rightarrow> 'q container" where
  "regular_container pod spec =
     \<lparr>cn_Name = c_Name spec, cn_Init = False, cn_Sidecar = False, cn_Spec = Some spec,
      cn_Status = findStatus (pod_ContainerStatuses pod) (c_Name spec)\<rparr>"

definition Pod_Containers :: "'q pod_snap \<Rightarrow> 'q container list" where
  "Pod_Containers p =
     (let pod = ps_Pod p in
      map (init_container pod) (pod_InitContainers pod) @ map (regular_container pod) (pod_Containers pod))"

definition find_condition :: "string \<Rightarrow> k_condition list \<Rightarrow> k_condition option" where
  "find_condition t conds = find (\<lambda>c. cond_Type c = t) conds"

definition Pod_Condition :: "'q pod_snap \<Rightarrow> string \<Rightarrow> k_condition option" where
  "Pod_Condition p t = find_condition t (pod_Conditions (ps_Pod p))"

definition Pod_IsTerminal :: "'q pod_snap \<Rightarrow> bool" where
  "Pod_IsTerminal p \<longleftrightarrow> pod_Phase (ps_Pod p) = ''Succeeded'' \<or> pod_Phase (ps_Pod p) = ''Failed''"

definition Pod_IsDeleting :: "'q pod_snap \<Rightarrow> bool" where
  "Pod_IsDeleting p \<longleftrightarrow> pod_DeletionTimestamp (ps_Pod p) \<noteq> None"

definition Pod_Age :: "'q pod_snap \<Rightarrow> duration" where
  "Pod_Age p = time_Sub (ps_Now p) (pod_CreationTimestamp (ps_Pod p))"

definition Pod_OwnerChain :: "'q pod_snap \<Rightarrow> string list" where
  "Pod_OwnerChain p = map resource_ref_String (rev (ps_Owners p)) @ [resource_ref_String (Pod_Ref p)]"

definition pod_snap0 :: "'q pod_snap" where
  "pod_snap0 = \<lparr>ps_Collection = collection0, ps_Pod = pod0, ps_Events = [], ps_Owners = [],
     ps_Node = None, ps_ConfigMaps = [], ps_Secrets = [], ps_PVCs = [], ps_Now = 0\<rparr>"

lemma findStatus_name: "findStatus ss n = Some s \<Longrightarrow> cs_Name s = n \<and> s \<in> set ss"
  by (auto simp: findStatus_def find_Some_iff in_set_conv_nth)

lemma Pod_Containers_status_name:
  "c \<in> set (Pod_Containers p) \<Longrightarrow> cn_Status c = Some s \<Longrightarrow> cs_Name s = cn_Name c"
  by (auto simp: Pod_Containers_def init_container_def regular_container_def Let_def dest: findStatus_name)

lemma Pod_Containers_spec:
  "c \<in> set (Pod_Containers p) \<Longrightarrow> \<exists>spec. cn_Spec c = Some spec \<and> c_Name spec = cn_Name c"
  by (auto simp: Pod_Containers_def init_container_def regular_container_def Let_def)

lemma Container_Kind_not_Nil [simp]: "Container_Kind c \<noteq> []"
  by (simp add: Container_Kind_def)

section \<open>Endpoints and Services\<close>

record endpoint =
  ep_Address :: string
  ep_Ready :: bool
  ep_Node :: string
  ep_TargetRef :: resource_ref

record endpoint_set =
  es_Source :: string
  es_Known :: bool
  es_Addresses :: "endpoint list"

definition EndpointSet_Ready :: "endpoint_set \<Rightarrow> int" where
  "EndpointSet_Ready e = foldl (\<lambda>n addr. if ep_Ready addr then n + 1 else n) 0 (es_Addresses e)"

definition EndpointSet_NotReady :: "endpoint_set \<Rightarrow> int" where
  "EndpointSet_NotReady e = int (length (es_Addresses e)) - EndpointSet_Ready e"

definition EndpointSet_Total :: "endpoint_set \<Rightarrow> int" where
  "EndpointSet_Total e = int (length (es_Addresses e))"

lemma foldl_count_if: "foldl (\<lambda>n x. if P x then n + 1 else n) (n::int) xs = n + int (length (filter P xs))"
  by (induction xs arbitrary: n) auto

lemma EndpointSet_Ready_eq: "EndpointSet_Ready e = int (length (filter ep_Ready (es_Addresses e)))"
  by (simp add: EndpointSet_Ready_def foldl_count_if)

lemma EndpointSet_NotReady_eq:
  "EndpointSet_NotReady e = int (length (filter (\<lambda>a. \<not> ep_Ready a) (es_Addresses e)))"
  using sum_length_filter_compl [of ep_Ready "es_Addresses e"]
  by (simp add: EndpointSet_NotReady_def EndpointSet_Ready_eq)

record 'q service_snap =
  ss_Collection :: collection
  ss_Service :: k_service
  ss_Events :: events
  ss_Backends :: "'q pod_snap list option" \<comment> \<open>nil when the Pods could not be listed\<close>
  ss_Endpoints :: endpoint_set
  ss_Now :: gotime

text \<open>Ranging over a nil slice is ranging over the empty one.\<close>

definition backends :: "'q service_snap \<Rightarrow> 'q pod_snap list" where
  "backends s = (case ss_Backends s of None \<Rightarrow> [] | Some ps \<Rightarrow> ps)"

definition Service_Ref :: "'q service_snap \<Rightarrow> resource_ref" where
  "Service_Ref s = \<lparr>ref_Kind = ''Service'', ref_Namespace = svc_Namespace (ss_Service s), ref_Name = svc_Name (ss_Service s)\<rparr>"

definition Service_HasSelector :: "'q service_snap \<Rightarrow> bool" where
  "Service_HasSelector s \<longleftrightarrow> svc_Selector (ss_Service s) \<noteq> []"

definition Service_IsExternalName :: "'q service_snap \<Rightarrow> bool" where
  "Service_IsExternalName s \<longleftrightarrow> svc_Type (ss_Service s) = ''ExternalName''"

definition Service_IsHeadless :: "'q service_snap \<Rightarrow> bool" where
  "Service_IsHeadless s \<longleftrightarrow> svc_ClusterIP (ss_Service s) = ''None''"

section \<open>Deployments\<close>

record 'q deployment_snap =
  ds_Collection :: collection
  ds_Deployment :: k_deployment
  ds_Events :: events
  ds_ReplicaSets :: "k_replica_set list"
  ds_Current :: "k_replica_set option"
  ds_Pods :: "'q pod_snap list"
  ds_Now :: gotime

definition Deployment_Ref :: "'q deployment_snap \<Rightarrow> resource_ref" where
  "Deployment_Ref d = \<lparr>ref_Kind = ''Deployment'', ref_Namespace = dep_Namespace (ds_Deployment d), ref_Name = dep_Name (ds_Deployment d)\<rparr>"

definition Deployment_DesiredReplicas :: "'q deployment_snap \<Rightarrow> int" where
  "Deployment_DesiredReplicas d = (case dep_Replicas (ds_Deployment d) of None \<Rightarrow> 1 | Some n \<Rightarrow> n)"

definition Deployment_IsPaused :: "'q deployment_snap \<Rightarrow> bool" where
  "Deployment_IsPaused d = dep_Paused (ds_Deployment d)"

definition Deployment_Condition :: "'q deployment_snap \<Rightarrow> string \<Rightarrow> k_condition option" where
  "Deployment_Condition d t = find_condition t (dep_Conditions (ds_Deployment d))"

definition Deployment_Age :: "'q deployment_snap \<Rightarrow> duration" where
  "Deployment_Age d = time_Sub (ds_Now d) (dep_CreationTimestamp (ds_Deployment d))"

definition Revision :: "k_replica_set \<Rightarrow> string option" where
  "Revision rs = map_of (rs_Annotations rs) ''deployment.kubernetes.io/revision''"

definition Deployment_OldReplicaSets :: "'q deployment_snap \<Rightarrow> k_replica_set list" where
  "Deployment_OldReplicaSets d =
     filter (\<lambda>rs. \<not> (case ds_Current d of None \<Rightarrow> False | Some cur \<Rightarrow> rs_UID rs = rs_UID cur) \<and> rs_Replicas rs > 0)
       (ds_ReplicaSets d)"

section \<open>StatefulSets\<close>

record headless_service =
  hs_Name :: string
  hs_Exists :: existence
  hs_Headless :: bool
  hs_Selects :: bool

record 'q stateful_set_snap =
  st_Collection :: collection
  st_StatefulSet :: k_stateful_set
  st_Events :: events
  st_Pods :: "'q pod_snap list"
  st_Service :: headless_service
  st_Claims :: "pvc_ref gomap"
  st_Now :: gotime

definition StatefulSet_Ref :: "'q stateful_set_snap \<Rightarrow> resource_ref" where
  "StatefulSet_Ref s = \<lparr>ref_Kind = ''StatefulSet'', ref_Namespace = sts_Namespace (st_StatefulSet s), ref_Name = sts_Name (st_StatefulSet s)\<rparr>"

definition StatefulSet_DesiredReplicas :: "'q stateful_set_snap \<Rightarrow> int" where
  "StatefulSet_DesiredReplicas s = (case sts_Replicas (st_StatefulSet s) of None \<Rightarrow> 1 | Some n \<Rightarrow> n)"

definition StatefulSet_Age :: "'q stateful_set_snap \<Rightarrow> duration" where
  "StatefulSet_Age s = time_Sub (st_Now s) (sts_CreationTimestamp (st_StatefulSet s))"

definition StatefulSet_OrderedStart :: "'q stateful_set_snap \<Rightarrow> bool" where
  "StatefulSet_OrderedStart s \<longleftrightarrow> sts_PodManagementPolicy (st_StatefulSet s) \<noteq> ''Parallel''"

definition StatefulSet_UpdatesOnDelete :: "'q stateful_set_snap \<Rightarrow> bool" where
  "StatefulSet_UpdatesOnDelete s \<longleftrightarrow> sts_UpdateStrategyType (st_StatefulSet s) = ''OnDelete''"

definition StatefulSet_Partition :: "'q stateful_set_snap \<Rightarrow> int" where
  "StatefulSet_Partition s = (case sts_Partition (st_StatefulSet s) of None \<Rightarrow> 0 | Some n \<Rightarrow> n)"

definition StatefulSet_RolloutPending :: "'q stateful_set_snap \<Rightarrow> bool" where
  "StatefulSet_RolloutPending s \<longleftrightarrow>
     sts_UpdateRevision (st_StatefulSet s) \<noteq> [] \<and>
     sts_CurrentRevision (st_StatefulSet s) \<noteq> sts_UpdateRevision (st_StatefulSet s)"

text \<open>The ordinal, or \<open>None\<close> where the Go function returns false.\<close>

definition Ordinal :: "string \<Rightarrow> int option" where
  "Ordinal podName =
     (case trailing_ordinal podName of
        None \<Rightarrow> None
      | Some digits \<Rightarrow> (let (n, ok) = atoi_digits digits in if ok then Some n else None))"

definition StatefulSet_ClaimName :: "'q stateful_set_snap \<Rightarrow> string \<Rightarrow> int \<Rightarrow> string" where
  "StatefulSet_ClaimName s template ordinal =
     template @ ''-'' @ sts_Name (st_StatefulSet s) @ ''-'' @ int_str ordinal"

definition StatefulSet_ClaimTemplates :: "'q stateful_set_snap \<Rightarrow> string list" where
  "StatefulSet_ClaimTemplates s = sts_VolumeClaimTemplates (st_StatefulSet s)"

definition snapshot_podIsReady :: "'q k_pod \<Rightarrow> bool" where
  "snapshot_podIsReady pod \<longleftrightarrow>
     pod_Phase pod = ''Running'' \<and>
     (case find_condition ''Ready'' (pod_Conditions pod) of
        None \<Rightarrow> False | Some c \<Rightarrow> cond_Status c = ''True'')"

definition StatefulSet_FirstUnready :: "'q stateful_set_snap \<Rightarrow> 'q pod_snap option" where
  "StatefulSet_FirstUnready s = find (\<lambda>p. \<not> snapshot_podIsReady (ps_Pod p)) (st_Pods s)"

definition present_ordinals :: "'q pod_snap list \<Rightarrow> int list" where
  "present_ordinals pods = List.map_filter (\<lambda>p. Ordinal (pod_Name (ps_Pod p))) pods"

definition StatefulSet_MissingOrdinals :: "'q stateful_set_snap \<Rightarrow> int list" where
  "StatefulSet_MissingOrdinals s =
     filter (\<lambda>i. i \<notin> set (present_ordinals (st_Pods s)))
       (map int [0..<nat (StatefulSet_DesiredReplicas s)])"

lemma Ordinal_suffix: "int n < 2 ^ 63 \<Longrightarrow> Ordinal (s @ ''-'' @ nat_str n) = Some (int n)"
  unfolding Ordinal_def trailing_ordinal_nat_str by (simp add: atoi_digits_nat_str)

lemma set_MissingOrdinals:
  "set (StatefulSet_MissingOrdinals s) =
     {i. 0 \<le> i \<and> i < StatefulSet_DesiredReplicas s \<and>
         (\<forall>p\<in>set (st_Pods s). Ordinal (pod_Name (ps_Pod p)) \<noteq> Some i)}"
proof -
  have "int ` {0..<nat k} = {i. 0 \<le> i \<and> i < k}" for k
    by (auto simp: image_int_atLeastLessThan)
  then show ?thesis
    by (auto simp: StatefulSet_MissingOrdinals_def present_ordinals_def map_filter_def
        set_conv_nth [symmetric]) force+
qed

section \<open>Ingresses\<close>

record ingress_port =
  ip_Name :: string
  ip_Number :: int

record ingress_path =
  pa_Host :: string
  pa_Path :: string
  pa_PathType :: string
  pa_ServiceName :: string
  pa_Port :: ingress_port
  pa_IsDefault :: bool

record 'q ingress_service =
  is_Name :: string
  is_Exists :: existence
  is_Service :: "k_service option"
  is_Endpoints :: endpoint_set
  is_Backends :: "'q pod_snap list"

record ingress_class =
  ic_Name :: string
  ic_Exists :: existence
  ic_DefaultExists :: existence

record 'q ingress_snap =
  is_Collection :: collection
  is_Ingress :: k_ingress
  is_Events :: events
  is_Paths :: "ingress_path list"
  is_Services :: "'q ingress_service gomap"
  is_Class :: ingress_class
  is_Now :: gotime

definition Ingress_Ref :: "'q ingress_snap \<Rightarrow> resource_ref" where
  "Ingress_Ref i = \<lparr>ref_Kind = ''Ingress'', ref_Namespace = ing_Namespace (is_Ingress i), ref_Name = ing_Name (is_Ingress i)\<rparr>"

definition Ingress_Age :: "'q ingress_snap \<Rightarrow> duration" where
  "Ingress_Age i = time_Sub (is_Now i) (ing_CreationTimestamp (is_Ingress i))"

definition Ingress_HasAddress :: "'q ingress_snap \<Rightarrow> bool" where
  "Ingress_HasAddress i \<longleftrightarrow> ing_LoadBalancer (is_Ingress i) \<noteq> []"

fun first_address :: "(string \<times> string) list \<Rightarrow> string" where
  "first_address [] = []"
| "first_address ((hostname, ip) # rest) =
     (if hostname \<noteq> [] then hostname else if ip \<noteq> [] then ip else first_address rest)"

definition Ingress_Address :: "'q ingress_snap \<Rightarrow> string" where
  "Ingress_Address i = first_address (ing_LoadBalancer (is_Ingress i))"

definition IngressPath_Route :: "ingress_path \<Rightarrow> string" where
  "IngressPath_Route p =
     (if pa_IsDefault p then ''(default backend)''
      else (if pa_Host p = [] then ''*'' else pa_Host p) @ (if pa_Path p = [] then ''/'' else pa_Path p))"

definition IngressPort_String :: "ingress_port \<Rightarrow> string" where
  "IngressPort_String p = (if ip_Name p \<noteq> [] then ip_Name p else int_str (ip_Number p))"

definition IngressPath_Target :: "ingress_path \<Rightarrow> string" where
  "IngressPath_Target p = ''Service/'' @ pa_ServiceName p @ '':'' @ IngressPort_String (pa_Port p)"

definition port_matches :: "ingress_port \<Rightarrow> k_service_port \<Rightarrow> bool" where
  "port_matches port sp \<longleftrightarrow>
     (if ip_Name port \<noteq> [] then sp_Name sp = ip_Name port else sp_Port sp = ip_Number port)"

definition IngressService_HasPort :: "'q ingress_service \<Rightarrow> ingress_port \<Rightarrow> bool" where
  "IngressService_HasPort s port \<longleftrightarrow>
     (case is_Service s of None \<Rightarrow> False | Some svc \<Rightarrow> list_ex (port_matches port) (svc_Ports svc))"

definition IngressService_PortNames :: "'q ingress_service \<Rightarrow> string list" where
  "IngressService_PortNames s =
     (case is_Service s of None \<Rightarrow> []
      | Some svc \<Rightarrow> map (\<lambda>port. if sp_Name port \<noteq> [] then sp_Name port @ '' ('' @ int_str (sp_Port port) @ '')''
                                else int_str (sp_Port port)) (svc_Ports svc))"

section \<open>Claims\<close>

record storage_class_info =
  sci_Name :: string
  sci_Requested :: bool
  sci_ExplicitlyNone :: bool
  sci_Exists :: existence
  sci_DefaultExists :: existence
  sci_BindingMode :: string
  sci_Provisioner :: string

record 'q pvc_snap =
  vs_Collection :: collection
  vs_Claim :: "'q k_pvc"
  vs_Events :: events
  vs_Class :: storage_class_info
  vs_Consumers :: "'q pod_snap list"
  vs_ConsumersKnown :: bool
  vs_Now :: gotime

definition PVC_Ref :: "'q pvc_snap \<Rightarrow> resource_ref" where
  "PVC_Ref p = \<lparr>ref_Kind = ''PersistentVolumeClaim'', ref_Namespace = pvc_Namespace (vs_Claim p), ref_Name = pvc_Name (vs_Claim p)\<rparr>"

definition PVC_Phase :: "'q pvc_snap \<Rightarrow> string" where
  "PVC_Phase p = (if pvc_Phase (vs_Claim p) = [] then ''Unknown'' else pvc_Phase (vs_Claim p))"

definition PVC_IsBound :: "'q pvc_snap \<Rightarrow> bool" where
  "PVC_IsBound p \<longleftrightarrow> pvc_Phase (vs_Claim p) = ''Bound''"

definition PVC_Age :: "'q pvc_snap \<Rightarrow> duration" where
  "PVC_Age p = time_Sub (vs_Now p) (pvc_CreationTimestamp (vs_Claim p))"

definition PVC_RequestedStorage :: "'q kube_lib \<Rightarrow> 'q pvc_snap \<Rightarrow> string" where
  "PVC_RequestedStorage lib p =
     (case map_of (pvc_Requests (vs_Claim p)) ''storage'' of Some q \<Rightarrow> q_String lib q | None \<Rightarrow> [])"

definition PVC_AccessModes :: "'q pvc_snap \<Rightarrow> string list" where
  "PVC_AccessModes p = pvc_AccessModes (vs_Claim p)"

definition StorageClassInfo_WaitsForConsumer :: "storage_class_info \<Rightarrow> bool" where
  "StorageClassInfo_WaitsForConsumer s \<longleftrightarrow> sci_BindingMode s = ''WaitForFirstConsumer''"

end
