(* ===== verification/Engine.thy ===== *)
theory Engine
  imports Diagnosis GoLoops
begin

text \<open>
  Package \<open>diagnosis\<close>, engine: running a rule set (\<open>Evaluate\<close>), ordering the findings
  (\<open>Prioritize\<close>) and collapsing repeated ones (\<open>AggregateByRule\<close>). The locale
  \<open>rule_set\<close> is the contract between the engine and the rule packages: what a rule promises
  of its findings is what \<open>Evaluate\<close> and \<open>AggregateByRule\<close> promise of theirs. Each rule
  package interprets it on its own rule list.
\<close>

section \<open>Cancellation\<close>

text \<open>
  A context is observed only through \<open>ctx.Err()\<close>, which returns nil until the context is
  cancelled and an error from then on. A context is therefore the number of further calls that
  return nil, or \<open>None\<close> when it is never cancelled.
\<close>

type_synonym gocontext = "nat option"

definition ctx_Err :: "gocontext \<Rightarrow> bool \<times> gocontext" where
  "ctx_Err c = (case c of None \<Rightarrow> (False, None) | Some 0 \<Rightarrow> (True, Some 0) | Some (Suc n) \<Rightarrow> (False, Some n))"

lemma ctx_Err_simps [simp]:
  "ctx_Err None = (False, None)" "ctx_Err (Some 0) = (True, Some 0)" "ctx_Err (Some (Suc n)) = (False, Some n)"
  by (simp_all add: ctx_Err_def)

section \<open>Ordering findings\<close>

definition cause_ids :: "diagnosis list \<Rightarrow> string list" where
  "cause_ids ds = map d_CausedBy (filter (\<lambda>d. d_CausedBy d \<noteq> []) ds)"

definition weight :: "string list \<Rightarrow> diagnosis \<Rightarrow> int" where
  "weight causes d =
     (if d_ID d \<in> set causes then 0 else if d_CausedBy d \<noteq> [] then 2 else 1)"

definition prioritize_less :: "string list \<Rightarrow> diagnosis \<Rightarrow> diagnosis \<Rightarrow> bool" where
  "prioritize_less causes a b =
     (if d_Severity a \<noteq> d_Severity b
        then severity_rank (d_Severity a) < severity_rank (d_Severity b)
      else if weight causes a \<noteq> weight causes b then weight causes a < weight causes b
      else confidence_rank (d_Confidence a) < confidence_rank (d_Confidence b))"

definition Prioritize :: "diagnosis list \<Rightarrow> diagnosis list" where
  "Prioritize ds =
     (if length ds < 2 then ds else slice_stable (prioritize_less (cause_ids ds)) ds)"

abbreviation severity_ok :: "diagnosis \<Rightarrow> bool" where
  "severity_ok d \<equiv> known_severity (d_Severity d)"

lemma prioritize_less_asym: "prioritize_less cs a b \<Longrightarrow> \<not> prioritize_less cs b a"
  by (auto simp: prioritize_less_def split: if_splits)

lemma prioritize_less_lex:
  assumes "severity_ok a" and "severity_ok b"
  shows "prioritize_less cs a b \<longleftrightarrow>
     severity_rank (d_Severity a) < severity_rank (d_Severity b) \<or>
     severity_rank (d_Severity a) = severity_rank (d_Severity b) \<and>
       (weight cs a < weight cs b \<or>
        weight cs a = weight cs b \<and> confidence_rank (d_Confidence a) < confidence_rank (d_Confidence b))"
  using severity_rank_inj [OF assms] by (auto simp: prioritize_less_def)

lemma prioritize_less_negtrans:
  "severity_ok x \<Longrightarrow> severity_ok y \<Longrightarrow> severity_ok z \<Longrightarrow> prioritize_less cs x z \<Longrightarrow>
   prioritize_less cs x y \<or> prioritize_less cs y z"
  by (auto simp: prioritize_less_lex)

interpretation prio: sort_order severity_ok "prioritize_less causes" for causes
  using prioritize_less_asym prioritize_less_negtrans by unfold_locales auto

lemma Prioritize_eq: "\<forall>d\<in>set ds. severity_ok d \<Longrightarrow> Prioritize ds = slice_stable (prioritize_less (cause_ids ds)) ds"
proof (cases "length ds < 2")
  case True
  then consider "ds = []" | d where "ds = [d]"
    by (cases ds; cases "tl ds") auto
  then show ?thesis by cases (auto simp: Prioritize_def slice_stable_def)
qed (simp add: Prioritize_def)

text \<open>The severities of a prioritised list never increase.\<close>

lemma Prioritize_severity:
  assumes "\<forall>d\<in>set ds. severity_ok d"
  shows "sorted_wrt (\<lambda>a b. severity_rank (d_Severity a) \<le> severity_rank (d_Severity b)) (Prioritize ds)"
proof -
  have "ordered_by (prioritize_less (cause_ids ds)) (Prioritize ds)"
    unfolding Prioritize_eq [OF assms] by (rule prio.slice_stable_ordered) (rule assms)
  then have "sorted_wrt (\<lambda>a b. \<not> prioritize_less (cause_ids ds) b a) (Prioritize ds)"
    by (simp add: ordered_by_def)
  moreover have "set (Prioritize ds) = set ds"
    unfolding Prioritize_eq [OF assms] by simp
  ultimately show ?thesis
    using assms by (rule_tac sorted_wrt_mono_rel) (auto simp: prioritize_less_lex)
qed

lemma mset_Prioritize [simp]: "mset (Prioritize ds) = mset ds"
  by (simp add: Prioritize_def)

lemma set_Prioritize [simp]: "set (Prioritize ds) = set ds"
  by (metis mset_Prioritize set_mset_mset)

lemma Prioritize_Nil_iff [simp]: "Prioritize ds = [] \<longleftrightarrow> ds = []"
  by (metis mset_Prioritize mset_zero_iff)

lemma length_Prioritize [simp]: "length (Prioritize ds) = length ds"
  by (metis mset_Prioritize size_mset)

section \<open>Running rules\<close>

fun eval_loop :: "gocontext \<Rightarrow> 's rule list \<Rightarrow> 's \<Rightarrow> diagnosis list \<Rightarrow> diagnosis list \<times> gocontext" where
  "eval_loop ctx [] snap out = (out, ctx)"
| "eval_loop ctx (rule # rules) snap out =
     (let (cancelled, ctx') = ctx_Err ctx in
      if cancelled then (out, ctx') else eval_loop ctx' rules snap (out @ rule_Fn rule snap))"

definition Evaluate :: "gocontext \<Rightarrow> 's rule list \<Rightarrow> 's \<Rightarrow> diagnosis list \<times> gocontext" where
  "Evaluate ctx rules snap =
     (let (out, ctx') = eval_loop ctx rules snap [] in (Prioritize out, ctx'))"

text \<open>The findings of the rules that ran, in registration order.\<close>

definition rule_findings :: "'s rule list \<Rightarrow> 's \<Rightarrow> diagnosis list" where
  "rule_findings rules snap = concat (map (\<lambda>r. rule_Fn r snap) rules)"

lemma eval_loop_None: "eval_loop None rules snap out = (out @ rule_findings rules snap, None)"
  by (induction rules arbitrary: out) (auto simp: rule_findings_def)

lemma eval_loop_Some:
  "eval_loop (Some n) rules snap out =
     (out @ rule_findings (take n rules) snap, Some (n - length rules))"
proof (induction rules arbitrary: n out)
  case Nil
  then show ?case by (simp add: rule_findings_def)
next
  case (Cons r rules)
  then show ?case by (cases n) (auto simp: rule_findings_def)
qed

lemma Evaluate_None: "Evaluate None rules snap = (Prioritize (rule_findings rules snap), None)"
  by (simp add: Evaluate_def eval_loop_None)

lemma Evaluate_Some:
  "Evaluate (Some n) rules snap =
     (Prioritize (rule_findings (take n rules) snap), Some (n - length rules))"
  by (simp add: Evaluate_def eval_loop_Some)

lemma Evaluate_subset: "set (fst (Evaluate ctx rules snap)) \<subseteq> set (rule_findings rules snap)"
proof (cases ctx)
  case None
  then show ?thesis by (simp add: Evaluate_None)
next
  case (Some n)
  then show ?thesis
    using set_take_subset [of n rules] by (fastforce simp: Evaluate_Some rule_findings_def)
qed

section \<open>Collapsing repeated findings\<close>

definition agg_key :: "diagnosis \<Rightarrow> string \<times> string \<times> string" where
  "agg_key d = (d_ID d, d_Component d, d_Summary d)"

definition agg_start :: "int \<Rightarrow> diagnosis \<Rightarrow> diagnosis" where
  "agg_start tot d =
     d\<lparr>d_Aggregate := Some \<lparr>agg_Count = 1, agg_Total = tot, agg_Subjects = [d_Subject d]\<rparr>\<rparr>"

definition agg_merge :: "diagnosis \<Rightarrow> diagnosis \<Rightarrow> diagnosis" where
  "agg_merge b d =
     b\<lparr>d_Aggregate := map_option (\<lambda>a. a\<lparr>agg_Count := agg_Count a + 1,
          agg_Subjects := agg_Subjects a @ [d_Subject d]\<rparr>) (d_Aggregate b)\<rparr>"

text \<open>Every collapsed finding has an aggregate, so the branch for \<open>None\<close> is never taken.\<close>

definition agg_count :: "diagnosis \<Rightarrow> int" where
  "agg_count d = (case d_Aggregate d of Some a \<Rightarrow> agg_Count a | None \<Rightarrow> 0)"

definition AggregateByRule :: "diagnosis list \<Rightarrow> int \<Rightarrow> diagnosis list" where
  "AggregateByRule ds tot =
     (if ds = [] then []
      else slice_stable (\<lambda>a b. agg_count b < agg_count a)
             (group_loop agg_key (agg_start tot) agg_merge ds))"

interpretation agg: keyed_group agg_key "agg_start tot" agg_merge agg_key for tot
  by unfold_locales (simp_all add: agg_key_def agg_start_def agg_merge_def)

definition collapsed :: "int \<Rightarrow> diagnosis \<Rightarrow> diagnosis list \<Rightarrow> diagnosis" where
  "collapsed tot d ds =
     d\<lparr>d_Aggregate := Some \<lparr>agg_Count = 1 + int (length ds), agg_Total = tot,
          agg_Subjects = d_Subject d # map d_Subject ds\<rparr>\<rparr>"

lemma foldl_agg_merge: "foldl agg_merge (agg_start tot d) ds = collapsed tot d ds"
proof (induction ds rule: rev_induct)
  case Nil
  then show ?case by (simp add: agg_start_def collapsed_def)
next
  case (snoc x ds)
  then show ?case by (simp add: agg_merge_def collapsed_def)
qed

lemma AggregateByRule_set:
  "set (AggregateByRule ds tot) = set (group_spec agg_key (agg_start tot) agg_merge ds)"
  by (auto simp: AggregateByRule_def agg.group_loop_spec)

lemma AggregateByRule_Nil_iff [simp]: "AggregateByRule ds tot = [] \<longleftrightarrow> ds = []"
  by (auto simp: AggregateByRule_def agg.group_loop_spec agg.group_spec_Nil_iff)

lemma AggregateByRule_entry:
  assumes "d \<in> set (AggregateByRule ds tot)"
  shows "\<exists>x xs. filter (\<lambda>y. agg_key y = agg_key d) ds = x # xs \<and> d = collapsed tot x xs"
  using agg.group_spec_entry [of d tot ds] assms
  by (simp add: AggregateByRule_set foldl_agg_merge)

lemma AggregateByRule_keys: "agg_key ` set (AggregateByRule ds tot) = agg_key ` set ds"
  by (simp add: AggregateByRule_set agg.group_spec_keys)

lemma AggregateByRule_distinct: "distinct (map agg_key (AggregateByRule ds tot))"
proof (cases "ds = []")
  case True
  then show ?thesis by (simp add: AggregateByRule_def)
next
  case False
  let ?g = "group_spec agg_key (agg_start tot) agg_merge ds"
  have "mset (map agg_key (AggregateByRule ds tot)) = mset (map agg_key ?g)"
    using False by (simp add: AggregateByRule_def agg.group_loop_spec)
  then show ?thesis
    using agg.group_spec_distinct by (metis mset_eq_imp_distinct_iff)
qed

lemma AggregateByRule_ordered:
  "ordered_by (\<lambda>a b. agg_count b < agg_count a) (AggregateByRule ds tot)"
  using descending.slice_stable_ordered [of _ agg_count]
  by (auto simp: AggregateByRule_def ordered_by_def)

section \<open>The contract of a rule\<close>

text \<open>
  Suggested commands are read-only: they start with a kubectl verb that only reads.
\<close>

definition read_only_verbs :: "string list" where
  "read_only_verbs =
     [''kubectl get '', ''kubectl describe '', ''kubectl logs '', ''kubectl why '',
      ''kubectl rollout status '']"

definition read_only_command :: "string \<Rightarrow> bool" where
  "read_only_command c \<longleftrightarrow> list_ex (\<lambda>v. prefix v c) read_only_verbs"

definition read_only_suggestions :: "suggestion list \<Rightarrow> bool" where
  "read_only_suggestions ss \<longleftrightarrow> list_all (\<lambda>s. list_all read_only_command (s_Commands s)) ss"

text \<open>
  A well-formed finding of a rule that may emit \<open>ids\<close>: a declared identifier, a known severity
  and confidence, a summary, at least one piece of evidence, and read-only suggestions.
\<close>

definition finding_ok :: "string list \<Rightarrow> diagnosis \<Rightarrow> bool" where
  "finding_ok ids d \<longleftrightarrow>
     d_ID d \<in> set ids \<and> known_severity (d_Severity d) \<and> known_confidence (d_Confidence d) \<and>
     d_Summary d \<noteq> [] \<and> d_Evidence d \<noteq> [] \<and> read_only_suggestions (d_Suggestions d)"

definition rule_set_ids :: "'s rule list \<Rightarrow> string list" where
  "rule_set_ids rules = concat (map (\<lambda>r. rule_meta_IDs (rule_Metadata r)) rules)"

lemma finding_ok_mono: "finding_ok ids d \<Longrightarrow> set ids \<subseteq> set ids' \<Longrightarrow> finding_ok ids' d"
  by (auto simp: finding_ok_def)

definition findings_ok :: "string list \<Rightarrow> diagnosis list \<Rightarrow> bool" where
  "findings_ok ids ds \<longleftrightarrow> list_all (finding_ok ids) ds"

lemma findings_ok_simps [simp]:
  "findings_ok ids []"
  "findings_ok ids (d # ds) \<longleftrightarrow> finding_ok ids d \<and> findings_ok ids ds"
  "findings_ok ids (ds @ ds') \<longleftrightarrow> findings_ok ids ds \<and> findings_ok ids ds'"
  by (simp_all add: findings_ok_def)

lemma findings_ok_concat: "(\<And>x. x \<in> set xs \<Longrightarrow> findings_ok ids (f x)) \<Longrightarrow> findings_ok ids (concat (map f xs))"
  by (induction xs) auto

lemma findings_okD: "findings_ok ids ds \<Longrightarrow> d \<in> set ds \<Longrightarrow> finding_ok ids d"
  by (simp add: findings_ok_def list_all_iff)

lemma findings_ok_mono: "findings_ok ids ds \<Longrightarrow> set ids \<subseteq> set ids' \<Longrightarrow> findings_ok ids' ds"
  by (auto simp: findings_ok_def list_all_iff intro: finding_ok_mono)

lemma findings_ok_Prioritize [simp]: "findings_ok ids (Prioritize ds) = findings_ok ids ds"
  by (simp add: findings_ok_def list_all_iff)

lemma findings_ok_severity: "findings_ok ids ds \<Longrightarrow> \<forall>d\<in>set ds. severity_ok d"
  by (auto simp: findings_ok_def list_all_iff finding_ok_def)

text \<open>
  Weak congruence rules: while a rule's contract is simplified, the texts a finding carries are
  left alone until they are selected.
\<close>

lemma finding_cong:
  "d = d' \<Longrightarrow> d_ID_update fs d = d_ID_update fs d'"
  "d = d' \<Longrightarrow> d_Subject_update fr d = d_Subject_update fr d'"
  "d = d' \<Longrightarrow> d_Component_update fs d = d_Component_update fs d'"
  "d = d' \<Longrightarrow> d_Summary_update fs d = d_Summary_update fs d'"
  "d = d' \<Longrightarrow> d_Explanation_update fs d = d_Explanation_update fs d'"
  "d = d' \<Longrightarrow> d_Evidence_update fe d = d_Evidence_update fe d'"
  "d = d' \<Longrightarrow> d_PossibleCauses_update fc d = d_PossibleCauses_update fc d'"
  "d = d' \<Longrightarrow> d_Suggestions_update fg d = d_Suggestions_update fg d'"
  "suggestion.suggestion_ext a b c = suggestion.suggestion_ext a b c"
  "evidence.evidence_ext e1 e2 e3 e4 e5 = evidence.evidence_ext e1 e2 e3 e4 e5"
  by simp_all

lemmas read_only_simps [finding_simps] = read_only_command_def read_only_verbs_def

lemma read_only_suggestions_simps [simp]:
  "read_only_suggestions []"
  "read_only_suggestions (s # ss) \<longleftrightarrow> list_all read_only_command (s_Commands s) \<and> read_only_suggestions ss"
  by (simp_all add: read_only_suggestions_def)

lemma finding_ok_collapsed [simp]: "finding_ok ids (collapsed tot d ds) = finding_ok ids d"
  by (simp add: finding_ok_def collapsed_def)

lemma AggregateByRule_finding_ok:
  assumes "\<forall>d\<in>set ds. finding_ok ids d" and "d \<in> set (AggregateByRule ds tot)"
  shows "finding_ok ids d"
proof -
  obtain x xs where x: "filter (\<lambda>y. agg_key y = agg_key d) ds = x # xs" "d = collapsed tot x xs"
    using AggregateByRule_entry [OF assms(2)] by blast
  then have "x \<in> set ds" by (metis filter_is_subset list.set_intros(1) subsetD)
  with x assms(1) show ?thesis by simp
qed

text \<open>A rule keeps the contract when, on every snapshot, its findings are well-formed for the identifiers it declares.\<close>

definition rule_contract :: "'s rule \<Rightarrow> bool" where
  "rule_contract r \<longleftrightarrow> (\<forall>s. findings_ok (rule_meta_IDs (rule_Metadata r)) (rule_Fn r s))"

lemma rule_contract_RuleFunc:
  "rule_contract (RuleFunc m f) \<longleftrightarrow> (\<forall>s. findings_ok (if m_Emits m = [] then [m_ID m] else m_Emits m) (f s))"
  by (simp add: rule_contract_def rule_meta_IDs_def)

lemmas rule_contract_simps =
  rule_contract_RuleFunc list.pred_inject rule_meta.simps if_True if_False list.distinct simp_thms

locale rule_set =
  fixes rules :: "'s rule list"
  assumes rules_ok: "list_all rule_contract rules"
begin

lemma rule_ok: "r \<in> set rules \<Longrightarrow> findings_ok (rule_meta_IDs (rule_Metadata r)) (rule_Fn r s)"
  using rules_ok by (simp add: list_all_iff rule_contract_def)

lemma rule_findings_ok: "d \<in> set (rule_findings rules s) \<Longrightarrow> finding_ok (rule_set_ids rules) d"
  by (force simp: rule_findings_def rule_set_ids_def intro: finding_ok_mono [OF findings_okD [OF rule_ok]])

lemma Evaluate_ok: "d \<in> set (fst (Evaluate ctx rules s)) \<Longrightarrow> finding_ok (rule_set_ids rules) d"
  using Evaluate_subset [of ctx rules s] by (auto intro: rule_findings_ok)

lemma Evaluate_findings_ok: "findings_ok (rule_set_ids rules) (fst (Evaluate ctx rules s))"
  using Evaluate_ok by (simp add: findings_ok_def list_all_iff)

lemma Evaluate_severity_ok: "\<forall>d\<in>set (fst (Evaluate ctx rules s)). severity_ok d"
  using Evaluate_ok by (auto simp: finding_ok_def)

end

end
