(* ===== verification/PodHelpers.thy ===== *)
theory PodHelpers
  imports Snapshots Engine
begin

text \<open>
  Package \<open>rules/pod\<close>, shared helpers: \<open>helpers.go\<close>, the identifiers of \<open>pod.go\<close>, the
  capitalisation and OOM detection of \<open>oom.go\<close>, the exit codes of \<open>crashloop.go\<close> and the
  backoff test of \<open>terminated.go\<close>. The lemmas bound the length of truncated messages and show
  when evidence is produced.
\<close>

section \<open>Identifiers\<close>

definition IDOOMKilled :: string where "IDOOMKilled = ''POD_OOM_KILLED''"
definition IDCrashLoop :: string where "IDCrashLoop = ''POD_CRASH_LOOP''"
definition IDContainerTerminatedError :: string where "IDContainerTerminatedError = ''POD_CONTAINER_TERMINATED_ERROR''"
definition IDInitContainerFailed :: string where "IDInitContainerFailed = ''POD_INIT_CONTAINER_FAILED''"
definition IDEvicted :: string where "IDEvicted = ''POD_EVICTED''"
definition IDImagePullFailed :: string where "IDImagePullFailed = ''POD_IMAGE_PULL_FAILED''"
definition IDUnschedulable :: string where "IDUnschedulable = ''POD_UNSCHEDULABLE''"
definition IDUnschedulableCPU :: string where "IDUnschedulableCPU = ''POD_UNSCHEDULABLE_CPU''"
definition IDUnschedulableMemory :: string where "IDUnschedulableMemory = ''POD_UNSCHEDULABLE_MEMORY''"
definition IDUntoleratedTaint :: string where "IDUntoleratedTaint = ''POD_UNTOLERATED_TAINT''"
definition IDUnschedulableAffinity :: string where "IDUnschedulableAffinity = ''POD_UNSCHEDULABLE_NODE_AFFINITY''"
definition IDUnschedulableVolume :: string where "IDUnschedulableVolume = ''POD_UNSCHEDULABLE_VOLUME''"
definition IDSchedulingGated :: string where "IDSchedulingGated = ''POD_SCHEDULING_GATED''"
definition IDReadinessProbeFailed :: string where "IDReadinessProbeFailed = ''POD_READINESS_PROBE_FAILED''"
definition IDLivenessProbeFailed :: string where "IDLivenessProbeFailed = ''POD_LIVENESS_PROBE_FAILED''"
definition IDStartupProbeFailed :: string where "IDStartupProbeFailed = ''POD_STARTUP_PROBE_FAILED''"
definition IDFailedMount :: string where "IDFailedMount = ''POD_FAILED_MOUNT''"
definition IDMissingConfigMap :: string where "IDMissingConfigMap = ''POD_MISSING_CONFIGMAP''"
definition IDMissingSecret :: string where "IDMissingSecret = ''POD_MISSING_SECRET''"
definition IDCreateContainerConfigErr :: string where "IDCreateContainerConfigErr = ''POD_CREATE_CONTAINER_CONFIG_ERROR''"
definition IDPVCNotFound :: string where "IDPVCNotFound = ''POD_PVC_NOT_FOUND''"
definition IDPVCNotBound :: string where "IDPVCNotBound = ''POD_PVC_NOT_BOUND''"
definition IDNodeNotReady :: string where "IDNodeNotReady = ''POD_NODE_NOT_READY''"
definition IDRestarted :: string where "IDRestarted = ''POD_RESTARTED''"
definition IDNotReadyUnexplained :: string where "IDNotReadyUnexplained = ''POD_NOT_READY''"

lemmas pod_ID_defs =
  IDOOMKilled_def IDCrashLoop_def IDContainerTerminatedError_def IDInitContainerFailed_def
  IDEvicted_def IDImagePullFailed_def IDUnschedulable_def IDUnschedulableCPU_def
  IDUnschedulableMemory_def IDUntoleratedTaint_def IDUnschedulableAffinity_def
  IDUnschedulableVolume_def IDSchedulingGated_def IDReadinessProbeFailed_def
  IDLivenessProbeFailed_def IDStartupProbeFailed_def IDFailedMount_def IDMissingConfigMap_def
  IDMissingSecret_def IDCreateContainerConfigErr_def IDPVCNotFound_def IDPVCNotBound_def
  IDNodeNotReady_def IDRestarted_def IDNotReadyUnexplained_def

section \<open>Text\<close>

definition go_truncate :: "string \<Rightarrow> nat \<Rightarrow> string" where
  "go_truncate s0 limit =
     (let s = str_TrimSpace (nl_to_space s0) in
      if length s \<le> limit then s else str_TrimSpace (take limit s) @ ellipsis)"

definition capitalize :: "string \<Rightarrow> string" where
  "capitalize s = (case s of [] \<Rightarrow> [] | c # cs \<Rightarrow> upper_char c # cs)"

definition orUnset :: "string \<Rightarrow> string" where
  "orUnset s = (if str_TrimSpace s = [] then ''no reason reported'' else s)"

definition orDefault :: "string \<Rightarrow> string \<Rightarrow> string" where
  "orDefault s fallback = (if s = [] then fallback else s)"

definition phaseOrUnknown :: "string \<Rightarrow> string" where
  "phaseOrUnknown phase = (if phase = [] then ''Unknown'' else phase)"

lemma length_go_truncate: "length (go_truncate s limit) \<le> limit + 3"
proof -
  have "length (str_TrimSpace (take limit t)) \<le> limit" for t
    using length_trim_le [of is_space "take limit t"] by (simp add: str_TrimSpace_def)
  then show ?thesis
    by (auto simp: go_truncate_def Let_def ellipsis_def)
qed

lemma newline_notin_go_truncate: "newline \<notin> set (go_truncate s limit)"
proof -
  have "set (trim P t) \<subseteq> set t" for P t
    by (auto simp: trim_def dest!: set_dropWhileD)
  then have "set (str_TrimSpace t) \<subseteq> set t" for t
    by (simp add: str_TrimSpace_def)
  moreover have "newline \<notin> set ellipsis" by (simp add: newline_def ellipsis_def)
  ultimately show ?thesis
    using newline_notin_nl_to_space [of s]
    by (auto simp: go_truncate_def Let_def dest!: in_set_takeD subsetD)
qed

lemma capitalize_Nil_iff [simp]: "capitalize s = [] \<longleftrightarrow> s = []"
  by (simp add: capitalize_def split: list.splits)

section \<open>Evidence\<close>

definition containerEvidence :: "'q container \<Rightarrow> evidence list" where
  "containerEvidence c =
     (case Container_Waiting c of
        Some w \<Rightarrow> (if w_Reason w \<noteq> []
          then [Evid ''containerStatus'' ''state.waiting.reason'' (w_Reason w) (str_TrimSpace (w_Message w))]
          else [])
      | None \<Rightarrow> []) @
     (if Container_Restarts c > 0
      then [Evid ''containerStatus'' ''restartCount'' (int_str (Container_Restarts c)) []] else [])"

definition terminationEvidence :: "string \<Rightarrow> k_terminated option \<Rightarrow> evidence list" where
  "terminationEvidence field to =
     (case to of None \<Rightarrow> []
      | Some t \<Rightarrow>
          [Evid ''containerStatus'' (field @ ''.exitCode'') (int_str (t_ExitCode t)) []] @
          (if t_Reason t \<noteq> [] then [Evid ''containerStatus'' (field @ ''.reason'') (t_Reason t) []] else []) @
          (if t_Signal t \<noteq> 0 then [Evid ''containerStatus'' (field @ ''.signal'') (int_str (t_Signal t)) []] else []) @
          (let msg = str_TrimSpace (t_Message t) in
           if msg \<noteq> [] then [Evid ''containerStatus'' (field @ ''.message'') [] (go_truncate msg 300)] else []))"

definition memoryEvidence :: "'q kube_lib \<Rightarrow> 'q container \<Rightarrow> evidence list" where
  "memoryEvidence lib c =
     (case cn_Spec c of None \<Rightarrow> []
      | Some spec \<Rightarrow>
          (case map_of (c_Requests spec) ''memory'' of
             Some q \<Rightarrow> [Evid ''podSpec'' ''resources.requests.memory'' (q_String lib q) []] | None \<Rightarrow> []) @
          (case map_of (c_Limits spec) ''memory'' of
             Some q \<Rightarrow> [Evid ''podSpec'' ''resources.limits.memory'' (q_String lib q) []] | None \<Rightarrow> []))"

definition hasMemoryLimit :: "'q container \<Rightarrow> bool" where
  "hasMemoryLimit c \<longleftrightarrow>
     (case cn_Spec c of None \<Rightarrow> False | Some spec \<Rightarrow> map_of (c_Limits spec) ''memory'' \<noteq> None)"

definition logsCommand :: "'q pod_snap \<Rightarrow> string \<Rightarrow> bool \<Rightarrow> string" where
  "logsCommand snap container previous =
     (''kubectl logs '' @ (pod_Name (ps_Pod snap))) @
     (if pod_Namespace (ps_Pod snap) \<noteq> [] then '' -n '' @ pod_Namespace (ps_Pod snap) else []) @
     (if container \<noteq> [] then '' -c '' @ container else []) @
     (if previous then '' --previous'' else [])"

definition eventEvidence :: "event \<Rightarrow> evidence" where
  "eventEvidence ev =
     Evid ''event'' ''reason''
       (if ev_Count ev > 1 then ((ev_Reason ev) @ '' (x'' @ int_str (ev_Count ev) @ '')'') else ev_Reason ev)
       (go_truncate (ev_Message ev) 300)"

lemma read_only_logsCommand [simp]: "read_only_command (logsCommand snap c prev)"
  by (simp add: logsCommand_def finding_simps)

lemma terminationEvidence_Some [simp]: "terminationEvidence field (Some t) \<noteq> []"
  by (simp add: terminationEvidence_def)

section \<open>Container state\<close>

definition containerRunning :: "'q container \<Rightarrow> bool" where
  "containerRunning c \<longleftrightarrow> (case cn_Status c of None \<Rightarrow> False | Some s \<Rightarrow> cs_Running s \<noteq> None)"

definition recentRestartWindow :: duration where
  "recentRestartWindow = 10 * go_Minute"

definition isFlapping :: "'q container \<Rightarrow> gotime \<Rightarrow> bool" where
  "isFlapping c now =
     (if Container_Restarts c < 2 then False
      else (case Container_LastTerminated c of
              None \<Rightarrow> False
            | Some lt \<Rightarrow>
                (if t_ExitCode lt = 0 then False
                 else time_Sub now (t_FinishedAt lt) \<le> recentRestartWindow)))"

definition severityFor :: "bool \<Rightarrow> severity" where
  "severityFor recovered = (if recovered then SeverityWarning else SeverityCritical)"

definition restartSummary :: "'q container \<Rightarrow> gotime \<Rightarrow> string" where
  "restartSummary c now =
     format_Count (Container_Restarts c) ''time'' ''times'' @
     (case Container_LastTerminated c of
        Some lt \<Rightarrow> (if t_FinishedAt lt \<noteq> 0
          then ('', most recently '' @ (format_Duration (time_Sub now (t_FinishedAt lt))) @ '' ago'') else [])
      | None \<Rightarrow> [])"

definition oomReason :: string where "oomReason = ''OOMKilled''"

definition crashLoopReason :: string where "crashLoopReason = ''CrashLoopBackOff''"

text \<open>The termination and its field; \<open>None\<close> where Go returns nil and an empty field.\<close>

definition oomTermination :: "'q container \<Rightarrow> (k_terminated \<times> string) option" where
  "oomTermination c =
     (case Container_Terminated c of
        Some t \<Rightarrow> (if t_Reason t = oomReason then Some (t, ''state.terminated'')
          else (case Container_LastTerminated c of
                  Some l \<Rightarrow> (if t_Reason l = oomReason then Some (l, ''lastState.terminated'') else None)
                | None \<Rightarrow> None))
      | None \<Rightarrow> (case Container_LastTerminated c of
                  Some l \<Rightarrow> (if t_Reason l = oomReason then Some (l, ''lastState.terminated'') else None)
                | None \<Rightarrow> None))"

definition inBackoff :: "'q container \<Rightarrow> bool" where
  "inBackoff c \<longleftrightarrow>
     (case Container_Waiting c of None \<Rightarrow> False | Some w \<Rightarrow> w_Reason w = crashLoopReason)"

definition oom_recorded :: "'q container \<Rightarrow> bool" where
  "oom_recorded c \<longleftrightarrow>
     (\<exists>t. (Container_Terminated c = Some t \<or> Container_LastTerminated c = Some t) \<and> t_Reason t = ''OOMKilled'')"

lemma oomTermination_iff: "oomTermination c \<noteq> None \<longleftrightarrow> oom_recorded c"
  by (auto simp: oomTermination_def oom_recorded_def oomReason_def split: option.splits)

lemma severityFor_known [simp]: "known_severity (severityFor b)"
  by (simp add: severityFor_def)

lemma containerEvidence_not_Nil:
  "(\<exists>w. Container_Waiting c = Some w \<and> w_Reason w \<noteq> []) \<or> Container_Restarts c > 0 \<Longrightarrow> containerEvidence c \<noteq> []"
  by (auto simp: containerEvidence_def)

lemma isFlapping_restarts: "isFlapping c now \<Longrightarrow> Container_Restarts c > 0"
  by (simp add: isFlapping_def split: if_splits)

section \<open>Exit codes\<close>

record exit_interpretation =
  xi_explanation :: string
  xi_causes :: "string list"

definition exit_base :: "k_terminated \<Rightarrow> string" where
  \<open>exit_base t =
     (''The last run exited with code '' @ int_str (t_ExitCode t)) @
     (if t_Reason t \<noteq> [] then ('' and reason '' @ quote_str (t_Reason t)) else []) @ ''.''\<close>

definition interpretExit :: "k_terminated option \<Rightarrow> exit_interpretation" where
  \<open>interpretExit to =
     (case to of
        None \<Rightarrow> \<lparr>xi_explanation = (''Kubernetes has not recorded a previous termination for this container, so the reason '' @
        ''for the restarts is not visible in the API.''), xi_causes = []\<rparr>
      | Some t \<Rightarrow>
         (let base = exit_base t in
          if t_ExitCode t = 0 then
            \<lparr>xi_explanation = base @ ('' The process finished successfully, but the Pod's restart policy starts it again, which '' @
        ''produces a restart loop for a container that is not meant to be long-running.''),
             xi_causes = [''the container runs a task that completes instead of a long-running process'',
               ''the workload should be a Job rather than a Pod with restartPolicy Always'']\<rparr>
          else if t_ExitCode t = 126 then
            \<lparr>xi_explanation = base @ '' That code means the container's command was found but could not be executed.'',
             xi_causes = [''the entrypoint is not executable inside the image'',
               ''the entrypoint is not a valid binary for the image's architecture'']\<rparr>
          else if t_ExitCode t = 127 then
            \<lparr>xi_explanation = base @ '' That code means the container's command was not found inside the image.'',
             xi_causes = [''the configured command or entrypoint does not exist in the image'',
               ''the image does not contain the shell the command relies on'']\<rparr>
          else if t_ExitCode t = 137 then
            \<lparr>xi_explanation = base @ ('' That code means the process received SIGKILL. Kubernetes did not record an OOMKilled '' @
        ''reason, so the sender of the signal is not identified.''),
             xi_causes = [(''the container was killed by the kernel for exceeding memory, without the reason being '' @
        ''recorded''),
               ''a failing liveness probe caused the kubelet to kill the container'',
               ''the process was killed from inside the container'']\<rparr>
          else if t_ExitCode t = 143 then
            \<lparr>xi_explanation = base @ '' That code means the process received SIGTERM and exited.'',
             xi_causes = [''the container was asked to stop and did not restart cleanly'',
               ''a failing liveness probe caused the kubelet to restart the container'']\<rparr>
          else if t_ExitCode t = 139 then
            \<lparr>xi_explanation = base @ '' That code means the process was terminated by a segmentation fault.'',
             xi_causes = [''the application crashed inside its own code or a native dependency'']\<rparr>
          else
            \<lparr>xi_explanation = base @ ('' Kubernetes does not record why the process chose that exit code, so the application's '' @
        ''own logs are the next place to look.''),
             xi_causes = []\<rparr>))\<close>

end
