(* ===== verification/PodContainers.thy ===== *)
theory PodContainers
  imports PodHelpers
begin

text \<open>
  Package \<open>rules/pod\<close>, the rules about container lifecycles: \<open>oom.go\<close>, \<open>crashloop.go\<close>,
  \<open>terminated.go\<close> and \<open>restarts.go\<close>. Each rule loops over the containers of the Pod; the body
  of the loop is a function from a container to the findings it appends. The lemmas say exactly
  when each rule reports a container and that at most one of them owns a container.
\<close>

section \<open>OOM kills\<close>

definition oom_recovered :: "'q pod_snap \<Rightarrow> 'q container \<Rightarrow> string \<Rightarrow> bool" where
  "oom_recovered snap c field \<longleftrightarrow>
     containerRunning c \<and> field = ''lastState.terminated'' \<and> \<not> isFlapping c (ps_Now snap)"

definition oom_container :: "'q kube_lib \<Rightarrow> 'q pod_snap \<Rightarrow> 'q container \<Rightarrow> diagnosis list" where
  \<open>oom_container lib snap c =
     (case oomTermination c of
        None \<Rightarrow> []
      | Some (t, field) \<Rightarrow>
         (let d = diagnosis0\<lparr>d_ID := IDOOMKilled, d_Subject := Pod_Ref snap, d_Component := cn_Name c,
                d_Severity := severityFor (oom_recovered snap c field), d_Confidence := ConfidenceCertain,
                d_Summary := ((capitalize (Container_Kind c)) @ '' '' @ quote_str (cn_Name c) @
        '' was terminated for exceeding its memory limit'')\<rparr>;
              d = (if hasMemoryLimit c then
                d\<lparr>d_Explanation := (''Kubernetes reports that '' @ quote_str (cn_Name c) @
        '' was killed with reason OOMKilled. The kernel terminates a container when the memory it '' @
        ''uses reaches the limit configured for it.''),
                  d_PossibleCauses := [
                    ''the application uses more memory than it was allocated'',
                    ''the workload's memory requirements grew beyond the configured limit'',
                    ''the configured memory limit is too low for this workload''],
                  d_Suggestions := [Sugg (''Review the container's memory limit and the application's memory usage to decide which '' @
        ''of the two should change.'')
                    [logsCommand snap (cn_Name c) True]]\<rparr>
              else
                d\<lparr>d_Explanation := (''Kubernetes reports that '' @ quote_str (cn_Name c) @
        '' was killed with reason OOMKilled. The container declares no memory limit, so the '' @
        ''termination came from memory pressure on the node itself.''),
                  d_PossibleCauses := [
                    ''the node ran out of memory while this container was running'',
                    ''other workloads on the node consumed the available memory''],
                  d_Suggestions := [Sugg (''Set memory requests and limits on this container so the scheduler can place it on a '' @
        ''node that can hold it.'')
                    [logsCommand snap (cn_Name c) True]]\<rparr>)
          in [d\<lparr>d_Evidence := containerEvidence c @ terminationEvidence field (Some t) @ memoryEvidence lib c\<rparr>]))\<close>

definition evaluateOOM :: "'q kube_lib \<Rightarrow> 'q pod_snap \<Rightarrow> diagnosis list" where
  "evaluateOOM lib snap = concat (map (oom_container lib snap) (Pod_Containers snap))"

definition oomKilledRule :: "'q kube_lib \<Rightarrow> 'q pod_snap rule" where
  "oomKilledRule lib = RuleFunc \<lparr>m_ID = IDOOMKilled,
     m_Title = ''Container terminated for exceeding its memory limit'',
     m_Description = (''Reports containers that Kubernetes terminated with reason OOMKilled, in either their '' @
        ''current or previous termination state.''),
     m_Emits = []\<rparr> (evaluateOOM lib)"

section \<open>Restart loops\<close>

definition failing_container_id :: "string \<Rightarrow> 'q container \<Rightarrow> string" where
  "failing_container_id dflt c = (if cn_Init c \<and> \<not> cn_Sidecar c then IDInitContainerFailed else dflt)"

definition crash_loop_container :: "'q pod_snap \<Rightarrow> 'q container \<Rightarrow> diagnosis list" where
  \<open>crash_loop_container snap c =
     (let backingOff = (case Container_Waiting c of None \<Rightarrow> False | Some w \<Rightarrow> w_Reason w = crashLoopReason);
          flapping = isFlapping c (ps_Now snap)
      in
      if \<not> backingOff \<and> \<not> flapping then []
      else if oomTermination c \<noteq> None then []
      else
       (let id = failing_container_id IDCrashLoop c;
            lt = Container_LastTerminated c;
            d = diagnosis0\<lparr>d_ID := id, d_Subject := Pod_Ref snap, d_Component := cn_Name c,
                d_Severity := SeverityCritical, d_Confidence := ConfidenceCertain,
                d_Summary := ((capitalize (Container_Kind c)) @ '' '' @ quote_str (cn_Name c) @
        '' is restarting repeatedly'')\<rparr>;
            d = (if id = IDInitContainerFailed then
                   d\<lparr>d_Explanation := (''The Pod cannot start because init container '' @ quote_str (cn_Name c) @
        '' keeps failing. Kubernetes runs init containers to completion before starting the '' @
        ''regular containers, so the Pod stays blocked until this one succeeds.'')\<rparr>
                 else if backingOff then
                   d\<lparr>d_Explanation := (''Kubernetes restarted '' @ quote_str (cn_Name c) @
        '' after each exit and is now backing off between attempts.'')\<rparr>
                 else
                   d\<lparr>d_Explanation := (''Kubernetes has restarted '' @ quote_str (cn_Name c) @ '' '' @
        (restartSummary c (ps_Now snap)) @
        ''. It is running again at this moment, which is what a restart loop looks like between '' @
        ''attempts.''),
                     d_Severity := (if Container_Ready c then SeverityWarning else SeverityCritical)\<rparr>);
            interp = interpretExit lt
        in [d\<lparr>d_Evidence := containerEvidence c @ terminationEvidence ''lastState.terminated'' lt,
              d_Explanation := d_Explanation d @ '' '' @ xi_explanation interp,
              d_PossibleCauses := xi_causes interp,
              d_Suggestions := [Sugg (''Read the logs of the previous container instance: the process itself reports why it '' @
        ''exited, and Kubernetes does not record that.'')
                [logsCommand snap (cn_Name c) True]]\<rparr>]))\<close>

definition evaluateCrashLoop :: "'q pod_snap \<Rightarrow> diagnosis list" where
  "evaluateCrashLoop snap =
     (if Pod_IsTerminal snap then []
      else concat (map (crash_loop_container snap) (Pod_Containers snap)))"

definition crashLoopRule :: "'q pod_snap rule" where
  "crashLoopRule = RuleFunc \<lparr>m_ID = IDCrashLoop,
     m_Title = ''Container is restarting repeatedly'',
     m_Description = (''Reports containers in CrashLoopBackOff and explains the last termination when '' @
        ''Kubernetes records one. Containers whose last termination was an OOM kill are reported '' @
        ''by '') @ IDOOMKilled @ '' instead.'',
     m_Emits = [IDCrashLoop, IDInitContainerFailed]\<rparr> evaluateCrashLoop"

section \<open>Terminated containers and evictions\<close>

definition nodeNameOf :: "'q pod_snap \<Rightarrow> string" where
  "nodeNameOf snap = (if pod_NodeName (ps_Pod snap) \<noteq> [] then pod_NodeName (ps_Pod snap) else ''<node>'')"

definition evictionDiagnosis :: "'q pod_snap \<Rightarrow> diagnosis option" where
  "evictionDiagnosis snap =
     (if pod_Reason (ps_Pod snap) \<noteq> ''Evicted'' then None
      else
       (let d = diagnosis0\<lparr>d_ID := IDEvicted, d_Subject := Pod_Ref snap,
              d_Severity := SeverityCritical, d_Confidence := ConfidenceCertain,
              d_Summary := ''The Pod was evicted from its node'',
              d_Explanation := (''The kubelet evicted this Pod. Eviction happens when a node comes under resource '' @
        ''pressure or when the Pod exceeded a limit the node enforces, and the message below is '' @
        ''the reason the node reported.''),
              d_Evidence := [Evid ''podStatus'' ''status.reason'' ''Evicted'' []],
              d_Suggestions := [Sugg (''Check the node's conditions and the Pod's resource requests; an evicted Pod object '' @
        ''stays for inspection and its replacement, if any, is a different Pod.'')
                [(''kubectl describe node '' @ (nodeNameOf snap))]]\<rparr>;
            msg = pod_Message (ps_Pod snap)
        in Some (if msg \<noteq> [] then
                   d\<lparr>d_Evidence := d_Evidence d @ [Evid ''podStatus'' ''status.message'' [] (go_truncate msg 300)]\<rparr>
                 else d)))"

definition terminated_container :: "'q pod_snap \<Rightarrow> 'q container \<Rightarrow> diagnosis list" where
  \<open>terminated_container snap c =
     (case Container_Terminated c of
        None \<Rightarrow> []
      | Some t \<Rightarrow>
         (if t_ExitCode t = 0 \<or> t_Reason t = oomReason then []
          else
           (let restartPolicy = pod_RestartPolicy (ps_Pod snap);
                podStopped = (pod_Phase (ps_Pod snap) = ''Failed'');
                willRestart = (restartPolicy \<noteq> ''Never'');
                awaitingRestart = (\<not> podStopped \<and> willRestart)
            in
            if awaitingRestart \<and> (isFlapping c (ps_Now snap) \<or> inBackoff c) then []
            else
             (let d = diagnosis0\<lparr>d_ID := failing_container_id IDContainerTerminatedError c,
                    d_Subject := Pod_Ref snap, d_Component := cn_Name c,
                    d_Severity := SeverityCritical, d_Confidence := ConfidenceCertain,
                    d_Summary := ((capitalize (Container_Kind c)) @ '' '' @ quote_str (cn_Name c) @ '' exited with code '' @
        int_str (t_ExitCode t)),
                    d_Explanation := (''Kubernetes reports that '' @ quote_str (cn_Name c) @
        '' terminated with a non-zero exit code and the Pod's restart policy is '' @
        restartPolicy @ '', so it will not run again.''),
                    d_Evidence := terminationEvidence ''state.terminated'' (Some t),
                    d_Suggestions := [Sugg (''Read the container's logs: the exit code alone does not say what the process was doing '' @
        ''when it stopped.'')
                      [logsCommand snap (cn_Name c) False]]\<rparr>;
                  d = (if awaitingRestart then
                    d\<lparr>d_Severity := SeverityWarning,
                      d_Summary := ((capitalize (Container_Kind c)) @ '' '' @ quote_str (cn_Name c) @ '' exited with code '' @
        int_str (t_ExitCode t) @ '' and is waiting to be restarted''),
                      d_Explanation := (''The container is down at this moment and the Pod's restart policy is '' @
        restartPolicy @
        '', so the kubelet will start it again. One failure is not yet a pattern; if it keeps '' @
        ''happening, Kubernetes will report it as a restart loop.'')\<rparr>
                    else d)
              in [d\<lparr>d_Evidence := d_Evidence d @ [Evid ''podSpec'' ''restartPolicy'' restartPolicy []],
                    d_PossibleCauses := xi_causes (interpretExit (Some t))\<rparr>]))))\<close>

definition evaluateTerminated :: "'q pod_snap \<Rightarrow> diagnosis list" where
  "evaluateTerminated snap =
     (let out = (case evictionDiagnosis snap of None \<Rightarrow> [] | Some d \<Rightarrow> [d]) in
      if pod_Phase (ps_Pod snap) = ''Succeeded'' then out
      else out @ concat (map (terminated_container snap) (Pod_Containers snap)))"

definition terminatedErrorRule :: "'q pod_snap rule" where
  "terminatedErrorRule = RuleFunc \<lparr>m_ID = IDContainerTerminatedError,
     m_Title = ''Container exited with an error and will not restart'',
     m_Description = (''Reports containers that ended with a non-zero exit code in a Pod that has stopped, and '' @
        ''Pods the kubelet evicted. Containers that Kubernetes keeps restarting are reported by '') @ IDCrashLoop @ '' instead.'',
     m_Emits = [IDContainerTerminatedError, IDInitContainerFailed, IDEvicted]\<rparr> evaluateTerminated"

section \<open>Restart history\<close>

text \<open>\<open>describeLastRun\<close> reads the last termination of a container that has one.\<close>

definition describeLastRun :: "k_terminated \<Rightarrow> string" where
  \<open>describeLastRun lt =
     (''exited with code '' @ int_str (t_ExitCode lt)) @
     (if t_Reason lt \<noteq> [] then ('' and reason '' @ quote_str (t_Reason lt)) else []) @
     (if t_StartedAt lt \<noteq> 0 \<and> t_FinishedAt lt \<noteq> 0
      then ('' after running for '' @
        (format_Duration (time_Sub (t_FinishedAt lt) (t_StartedAt lt)))) else [])\<close>

definition currentUptime :: "'q container \<Rightarrow> 'q pod_snap \<Rightarrow> string" where
  "currentUptime c snap =
     (case cn_Status c of None \<Rightarrow> []
      | Some s \<Rightarrow> (case cs_Running s of None \<Rightarrow> []
          | Some started \<Rightarrow> (if started = 0 then [] else format_Duration (time_Sub (ps_Now snap) started))))"

definition restart_container :: "'q pod_snap \<Rightarrow> 'q container \<Rightarrow> diagnosis list" where
  \<open>restart_container snap c =
     (if Container_Restarts c = 0 \<or> \<not> containerRunning c then []
      else if isFlapping c (ps_Now snap) \<or> inBackoff c then []
      else if oomTermination c \<noteq> None then []
      else
       (let d = diagnosis0\<lparr>d_ID := IDRestarted, d_Subject := Pod_Ref snap, d_Component := cn_Name c,
              d_Severity := SeverityInfo, d_Confidence := ConfidenceCertain,
              d_Evidence := [Evid ''containerStatus'' ''restartCount'' (int_str (Container_Restarts c)) []]\<rparr>
        in case Container_LastTerminated c of
             None \<Rightarrow>
               [d\<lparr>d_Summary := ((capitalize (Container_Kind c)) @ '' '' @ quote_str (cn_Name c) @ '' has restarted '' @
        (format_Count (Container_Restarts c) ''time'' ''times'') @
        '', and Kubernetes did not record how''),
                  d_Explanation := (''The container is running now. Kubernetes keeps only the most recent termination, and '' @
        ''none is recorded here, so there is nothing that explains the restarts.'')\<rparr>]
           | Some lt \<Rightarrow>
              (let since = format_Duration (time_Sub (ps_Now snap) (t_FinishedAt lt));
                   uptime = currentUptime c snap
               in [d\<lparr>d_Summary := ((capitalize (Container_Kind c)) @ '' '' @ quote_str (cn_Name c) @ '' has restarted '' @
        (format_Count (Container_Restarts c) ''time'' ''times'') @ '', most recently '' @ since @
        '' ago''),
                     d_Explanation := (''The container is running now, so this is history rather than a problem. Kubernetes '' @
        ''records only the most recent termination: the run before this one '' @
        (describeLastRun lt) @ ''. What happened at the other restarts is not in the API.''),
                     d_Evidence := d_Evidence d @ terminationEvidence ''lastState.terminated'' (Some lt) @
                       (if uptime \<noteq> [] then [Evid ''containerStatus'' ''state.running.startedAt'' (uptime @ '' ago'') []] else []),
                     d_Suggestions := [Sugg (''The previous instance's logs are still available and are the only record of why it '' @
        ''stopped.'')
                       [logsCommand snap (cn_Name c) True]]\<rparr>])))\<close>

definition evaluateRestartHistory :: "'q pod_snap \<Rightarrow> diagnosis list" where
  "evaluateRestartHistory snap =
     (if Pod_IsTerminal snap then []
      else concat (map (restart_container snap) (Pod_Containers snap)))"

definition restartHistoryRule :: "'q pod_snap rule" where
  "restartHistoryRule = RuleFunc \<lparr>m_ID = IDRestarted,
     m_Title = ''A container has restarted in the past'',
     m_Description = (''Reports what Kubernetes records about a container that is running now but has restarted '' @
        ''before: how many times, how long ago, and how the previous run ended. It is '' @
        ''informational, so it never makes a working Pod look unhealthy.''),
     m_Emits = []\<rparr> evaluateRestartHistory"

section \<open>What each rule reports of a container\<close>

definition crash_looping :: "'q pod_snap \<Rightarrow> 'q container \<Rightarrow> bool" where
  "crash_looping snap c \<longleftrightarrow> inBackoff c \<or> isFlapping c (ps_Now snap)"

lemma oom_container_Nil_iff: "oom_container lib snap c = [] \<longleftrightarrow> \<not> oom_recorded c"
  unfolding oomTermination_iff [symmetric]
  by (cases "oomTermination c") (simp_all add: oom_container_def Let_def split: prod.splits)

lemma crash_loop_container_Nil_iff:
  "crash_loop_container snap c = [] \<longleftrightarrow> \<not> crash_looping snap c \<or> oom_recorded c"
  unfolding oomTermination_iff [symmetric]
  by (simp add: crash_loop_container_def crash_looping_def inBackoff_def Let_def split: option.splits)

lemma restart_container_Nil_iff:
  "restart_container snap c = [] \<longleftrightarrow>
     Container_Restarts c = 0 \<or> \<not> containerRunning c \<or> crash_looping snap c \<or> oom_recorded c"
  unfolding oomTermination_iff [symmetric]
  by (auto simp: restart_container_def crash_looping_def Let_def split: option.splits)

lemma terminated_container_Some:
  "terminated_container snap c \<noteq> [] \<longleftrightarrow>
     (\<exists>t. Container_Terminated c = Some t \<and> t_ExitCode t \<noteq> 0 \<and> t_Reason t \<noteq> ''OOMKilled'' \<and>
       (pod_Phase (ps_Pod snap) = ''Failed'' \<or> pod_RestartPolicy (ps_Pod snap) = ''Never'' \<or>
        \<not> crash_looping snap c))"
  by (auto simp: terminated_container_def crash_looping_def oomReason_def Let_def split: option.splits)

lemma evictionDiagnosis_Some: "evictionDiagnosis snap \<noteq> None \<longleftrightarrow> pod_Reason (ps_Pod snap) = ''Evicted''"
  by (auto simp: evictionDiagnosis_def Let_def)

section \<open>The contract of the rules\<close>

lemma crash_looping_evidence:
  assumes "crash_looping snap c"
  shows "containerEvidence c \<noteq> []"
proof (rule containerEvidence_not_Nil)
  have "isFlapping c (ps_Now snap) \<Longrightarrow> Container_Restarts c > 0" by (rule isFlapping_restarts)
  with assms show "(\<exists>w. Container_Waiting c = Some w \<and> w_Reason w \<noteq> []) \<or> Container_Restarts c > 0"
    by (auto simp: crash_looping_def inBackoff_def crashLoopReason_def split: option.splits)
qed

lemma failing_container_id_cases [simp]:
  "failing_container_id i c = i \<or> failing_container_id i c = IDInitContainerFailed"
  by (simp add: failing_container_id_def)

lemma oom_container_ok: "findings_ok [IDOOMKilled] (oom_container lib snap c)"
  by (simp add: oom_container_def Let_def finding_ok_def cong: finding_cong split: option.split)

lemma crash_loop_container_ok: "findings_ok [IDCrashLoop, IDInitContainerFailed] (crash_loop_container snap c)"
proof (cases "crash_loop_container snap c = []")
  case False
  then have "containerEvidence c \<noteq> []"
    using crash_looping_evidence by (auto simp: crash_loop_container_Nil_iff)
  then show ?thesis
    by (simp add: crash_loop_container_def failing_container_id_def Let_def finding_ok_def cong: finding_cong)
qed simp

lemma evictionDiagnosis_ok: "evictionDiagnosis snap = Some d \<Longrightarrow> finding_ok [IDEvicted] d"
  by (auto simp: evictionDiagnosis_def Let_def finding_ok_def finding_simps cong: finding_cong split: if_splits)

lemma terminated_container_ok:
  "findings_ok [IDContainerTerminatedError, IDInitContainerFailed] (terminated_container snap c)"
  by (simp add: terminated_container_def Let_def finding_ok_def cong: finding_cong split: option.split)

lemma restart_container_ok: "findings_ok [IDRestarted] (restart_container snap c)"
  by (simp add: restart_container_def Let_def finding_ok_def cong: finding_cong split: option.split)

lemma evaluateOOM_ok: "findings_ok [IDOOMKilled] (evaluateOOM lib snap)"
  by (simp add: evaluateOOM_def findings_ok_concat oom_container_ok)

lemma evaluateCrashLoop_ok: "findings_ok [IDCrashLoop, IDInitContainerFailed] (evaluateCrashLoop snap)"
  by (simp add: evaluateCrashLoop_def findings_ok_concat crash_loop_container_ok)

lemma evaluateTerminated_ok:
  "findings_ok [IDContainerTerminatedError, IDInitContainerFailed, IDEvicted] (evaluateTerminated snap)"
proof -
  have "findings_ok [IDContainerTerminatedError, IDInitContainerFailed, IDEvicted]
          (case evictionDiagnosis snap of None \<Rightarrow> [] | Some d \<Rightarrow> [d])"
    using finding_ok_mono [OF evictionDiagnosis_ok [of snap]] by (simp split: option.split)
  moreover have "findings_ok [IDContainerTerminatedError, IDInitContainerFailed, IDEvicted]
                   (concat (map (terminated_container snap) (Pod_Containers snap)))"
    by (intro findings_ok_concat findings_ok_mono [OF terminated_container_ok]) simp
  ultimately show ?thesis by (simp add: evaluateTerminated_def Let_def)
qed

lemma evaluateRestartHistory_ok: "findings_ok [IDRestarted] (evaluateRestartHistory snap)"
  by (simp add: evaluateRestartHistory_def findings_ok_concat restart_container_ok)

end
