(* ===== verification/PodImages.thy ===== *)
theory PodImages
  imports PodHelpers
begin

text \<open>
  Package \<open>rules/pod\<close>, \<open>imagepull.go\<close>: containers whose image cannot be pulled, classified
  from the registry's wording. The lemmas show that a classification is only made when the
  wording that justifies it is in the message.
\<close>

definition imageWaitReasons :: "string list" where
  "imageWaitReasons =
     [''ImagePullBackOff'', ''ErrImagePull'', ''InvalidImageName'', ''ImageInspectError'',
      ''ErrImageNeverPull'', ''RegistryUnavailable'']"

record image_cause =
  ica_classification :: string
  ica_explanation :: string
  ica_confidence :: confidence
  ica_causes :: "string list"
  ica_commands :: "string list"
  ica_action :: string

definition imageCause_suggestions :: "image_cause \<Rightarrow> 'q pod_snap \<Rightarrow> suggestion list" where
  "imageCause_suggestions c snap =
     (let action = (if ica_action c = [] then ''Check that the image reference is correct and that the node can reach the registry.'' else ica_action c);
          commands = (if ica_commands c = []
            then [(''kubectl describe pod '' @ (pod_Name (ps_Pod snap)) @ '' -n '' @
        (pod_Namespace (ps_Pod snap)))]
            else ica_commands c)
      in [Sugg action commands])"

record image_matcher =
  im_needles :: "string list"
  im_classification :: string
  im_explanation :: string
  im_causes :: "string list"
  im_action :: string

definition imageMatchers :: "image_matcher list" where
  "imageMatchers =
     [\<lparr>im_needles = [''manifest unknown'', ''manifest for'', ''not found'', ''does not exist'', ''repository does not exist''],
       im_classification = ''image or tag not found'',
       im_explanation = ''The registry answered that the image or tag does not exist.'',
       im_causes = [''the tag was never pushed, or was deleted from the registry'',
         ''the image name or tag contains a typo''],
       im_action = ''Verify the image name and tag against the registry.''\<rparr>,
      \<lparr>im_needles = [''unauthorized'', ''authentication required'', ''pull access denied'', ''no basic auth credentials'', ''denied:'', ''forbidden''],
       im_classification = ''registry rejected the credentials'',
       im_explanation = (''The registry refused the request because it was not authenticated or not authorised for '' @
        ''this repository.''),
       im_causes = [''the Pod has no imagePullSecret for this registry'',
         ''the imagePullSecret exists but does not grant access to this repository'',
         ''the image is private and the node's credentials do not cover it''],
       im_action = (''Check the Pod's imagePullSecrets and the permissions they grant. KubeWhy does not read '' @
        ''their contents.'')\<rparr>,
      \<lparr>im_needles = [''toomanyrequests'', ''rate limit'', ''too many requests''],
       im_classification = ''registry rate limit'',
       im_explanation = ''The registry rejected the pull because a rate limit was reached.'',
       im_causes = [''the registry limits anonymous or per-account pulls and the quota is exhausted''],
       im_action = ''Wait for the limit to reset, authenticate the pulls, or mirror the image.''\<rparr>,
      \<lparr>im_needles = [''no such host'', ''i/o timeout'', ''connection refused'', ''dial tcp'', ''network is unreachable'', ''server gave http response to https client'', ''x509'', ''certificate''],
       im_classification = ''registry unreachable from the node'',
       im_explanation = ''The node could not complete a connection to the registry.'',
       im_causes = [''the node cannot resolve or reach the registry host'',
         ''a proxy, firewall or egress policy blocks the connection'',
         ''the registry uses a certificate the node does not trust''],
       im_action = (''Check the node's network path to the registry, including DNS, egress rules and trusted '' @
        ''certificates.'')\<rparr>]"

definition matcher_matches :: "string \<Rightarrow> image_matcher \<Rightarrow> bool" where
  "matcher_matches lower_msg m \<longleftrightarrow> list_ex (str_Contains lower_msg) (im_needles m)"

definition matcher_cause :: "image_matcher \<Rightarrow> image_cause" where
  "matcher_cause m =
     \<lparr>ica_classification = im_classification m, ica_explanation = im_explanation m,
      ica_confidence = ConfidenceLikely, ica_causes = im_causes m, ica_commands = [], ica_action = im_action m\<rparr>"

definition unidentified_cause :: image_cause where
  "unidentified_cause =
     \<lparr>ica_classification = [],
      ica_explanation = ''The message the registry returned does not identify a more specific cause.'',
      ica_confidence = ConfidenceCertain,
      ica_causes = [''the image or tag does not exist'',
        ''the registry requires credentials the Pod does not have'',
        ''the node cannot reach the registry''],
      ica_commands = [], ica_action = []\<rparr>"

definition classifyImageFailure :: "string \<Rightarrow> string \<Rightarrow> image_cause" where
  "classifyImageFailure reason msg =
     (if reason = ''InvalidImageName'' then
        \<lparr>ica_classification = ''invalid image reference'',
         ica_explanation = ''The image reference is not a valid name, so no pull was attempted.'',
         ica_confidence = ConfidenceCertain,
         ica_causes = [''the image field contains a malformed reference''], ica_commands = [],
         ica_action = ''Correct the image reference in the Pod template.''\<rparr>
      else if reason = ''ErrImageNeverPull'' then
        \<lparr>ica_classification = ''image absent and pull policy Never'',
         ica_explanation = (''The image is not present on the node and imagePullPolicy is Never, so the kubelet did '' @
        ''not try to pull it.''),
         ica_confidence = ConfidenceCertain,
         ica_causes = [''the image was expected to be preloaded on the node but is not there''], ica_commands = [],
         ica_action = ''Preload the image on the node or change imagePullPolicy.''\<rparr>
      else
        (case find (matcher_matches (str_ToLower msg)) imageMatchers of
           Some m \<Rightarrow> matcher_cause m
         | None \<Rightarrow> unidentified_cause))"

text \<open>The longest message among the waiting message and the pull events of the container.\<close>

definition pull_detail_step :: "'q container \<Rightarrow> string \<Rightarrow> event \<Rightarrow> string" where
  "pull_detail_step c detail ev =
     (if Event_Container ev \<noteq> [] \<and> Event_Container ev \<noteq> cn_Name c then detail
      else if length (ev_Message ev) > length detail then ev_Message ev else detail)"

definition pull_detail :: "'q pod_snap \<Rightarrow> 'q container \<Rightarrow> k_waiting \<Rightarrow> string" where
  "pull_detail snap c w =
     foldl (pull_detail_step c) (w_Message w) (Events_WithReason [''Failed'', ''BackOff''] (ps_Events snap))"

definition image_pull_container :: "'q pod_snap \<Rightarrow> 'q container \<Rightarrow> diagnosis list" where
  \<open>image_pull_container snap c =
     (case Container_Waiting c of
        None \<Rightarrow> []
      | Some w \<Rightarrow>
         (if w_Reason w \<notin> set imageWaitReasons then []
          else
           (let image = (case cn_Spec c of None \<Rightarrow> [] | Some spec \<Rightarrow> c_Image spec);
                detail = pull_detail snap c w;
                cause = classifyImageFailure (w_Reason w) detail;
                d = diagnosis0\<lparr>d_ID := IDImagePullFailed, d_Subject := Pod_Ref snap,
                  d_Component := cn_Name c, d_Severity := SeverityCritical,
                  d_Confidence := ica_confidence cause,
                  d_Summary := ((capitalize (Container_Kind c)) @ '' '' @ quote_str (cn_Name c) @
        '' cannot start because its image could not be pulled''),
                  d_Explanation := (''Kubernetes reports '' @ (w_Reason w) @ '' for image '' @ quote_str image @ ''. '' @
        (ica_explanation cause)),
                  d_PossibleCauses := ica_causes cause,
                  d_Evidence := [Evid ''podSpec'' ''image'' image []],
                  d_Suggestions := imageCause_suggestions cause snap\<rparr>
            in [d\<lparr>d_Evidence := d_Evidence d @ containerEvidence c @
                  (if detail \<noteq> [] \<and> detail \<noteq> w_Message w
                   then [Evid ''event'' ''reason'' ''Failed'' (go_truncate detail 300)] else []) @
                  (if ica_classification cause \<noteq> []
                   then [Evid ''kubewhy'' ''classification'' (ica_classification cause) []] else [])\<rparr>])))\<close>

definition evaluateImagePull :: "'q pod_snap \<Rightarrow> diagnosis list" where
  "evaluateImagePull snap = concat (map (image_pull_container snap) (Pod_Containers snap))"

definition imagePullRule :: "'q pod_snap rule" where
  "imagePullRule = RuleFunc \<lparr>m_ID = IDImagePullFailed,
     m_Title = ''Container image could not be pulled'',
     m_Description = (''Reports containers waiting on an image pull and classifies the failure from the '' @
        ''registry message the kubelet recorded, without asserting a cause the message does not '' @
        ''state.''),
     m_Emits = []\<rparr> evaluateImagePull"

section \<open>Classification\<close>

lemma classifyImageFailure_cases:
  "reason \<in> {''InvalidImageName'', ''ErrImageNeverPull''} \<and>
     ica_confidence (classifyImageFailure reason msg) = ConfidenceCertain \<or>
   reason \<notin> {''InvalidImageName'', ''ErrImageNeverPull''} \<and>
     (case find (matcher_matches (str_ToLower msg)) imageMatchers of
        Some m \<Rightarrow> classifyImageFailure reason msg = matcher_cause m
      | None \<Rightarrow> classifyImageFailure reason msg = unidentified_cause)"
  unfolding classifyImageFailure_def by (simp split: option.split)

lemma classified_Likely:
  assumes "ica_confidence (classifyImageFailure reason msg) = ConfidenceLikely"
  shows "\<exists>m\<in>set imageMatchers. classifyImageFailure reason msg = matcher_cause m \<and>
           (\<exists>needle\<in>set (im_needles m). sublist needle (str_ToLower msg))"
proof -
  let ?c = "classifyImageFailure reason msg"
  have "\<exists>m. find (matcher_matches (str_ToLower msg)) imageMatchers = Some m \<and> ?c = matcher_cause m"
    using classifyImageFailure_cases [of reason msg] assms
    by (auto simp: unidentified_cause_def split: option.splits)
  then obtain m where "find (matcher_matches (str_ToLower msg)) imageMatchers = Some m"
    and eq: "?c = matcher_cause m" by blast
  then have "m \<in> set imageMatchers" and "matcher_matches (str_ToLower msg) m"
    by (auto simp: find_Some_iff in_set_conv_nth)
  then show ?thesis
    using eq by (auto simp: matcher_matches_def list_ex_iff str_Contains_iff)
qed

lemma ica_confidence_known [simp]: "known_confidence (ica_confidence (classifyImageFailure reason msg))"
  by (simp add: classifyImageFailure_def matcher_cause_def unidentified_cause_def split: option.split)

lemma ica_commands_Nil [simp]: "ica_commands (classifyImageFailure reason msg) = []"
  by (simp add: classifyImageFailure_def matcher_cause_def unidentified_cause_def split: option.split)

lemma image_pull_container_ok: "findings_ok [IDImagePullFailed] (image_pull_container snap c)"
  by (simp add: image_pull_container_def imageCause_suggestions_def Let_def finding_ok_def finding_simps
      cong: finding_cong split: option.split)

lemma evaluateImagePull_ok: "findings_ok [IDImagePullFailed] (evaluateImagePull snap)"
  by (simp add: evaluateImagePull_def findings_ok_concat image_pull_container_ok)

text \<open>
  C28. An image pull failure is attributed to a cause with confidence Likely only when the message
  the kubelet recorded contains, up to case, one of the phrases listed for that cause. Without
  any of the phrases the finding names no classification, and the reasons the kubelet states by
  itself (an invalid name, a pull policy of Never) are certain whatever the message says.
\<close>

theorem classifyImageFailure_honest:
  "(ica_confidence (classifyImageFailure reason msg) = ConfidenceLikely \<longrightarrow>
      (\<exists>m\<in>set imageMatchers. ica_classification (classifyImageFailure reason msg) = im_classification m \<and>
         (\<exists>needle\<in>set (im_needles m). sublist needle (str_ToLower msg)))) \<and>
   (reason \<notin> {''InvalidImageName'', ''ErrImageNeverPull''} \<and>
    (\<forall>m\<in>set imageMatchers. \<forall>needle\<in>set (im_needles m). \<not> sublist needle (str_ToLower msg)) \<longrightarrow>
      ica_classification (classifyImageFailure reason msg) = []) \<and>
   (reason \<in> {''InvalidImageName'', ''ErrImageNeverPull''} \<longrightarrow>
      classifyImageFailure reason msg = classifyImageFailure reason [])"
proof (intro conjI impI)
  assume "ica_confidence (classifyImageFailure reason msg) = ConfidenceLikely"
  from classified_Likely [OF this]
  show "\<exists>m\<in>set imageMatchers. ica_classification (classifyImageFailure reason msg) = im_classification m \<and>
         (\<exists>needle\<in>set (im_needles m). sublist needle (str_ToLower msg))"
    by (auto simp: matcher_cause_def)
next
  assume *: "reason \<notin> {''InvalidImageName'', ''ErrImageNeverPull''} \<and>
    (\<forall>m\<in>set imageMatchers. \<forall>needle\<in>set (im_needles m). \<not> sublist needle (str_ToLower msg))"
  then have "find (matcher_matches (str_ToLower msg)) imageMatchers = None"
    by (auto simp: find_None_iff matcher_matches_def list_ex_iff str_Contains_iff)
  with * classifyImageFailure_cases [of reason msg]
  show "ica_classification (classifyImageFailure reason msg) = []"
    by (auto simp: unidentified_cause_def)
next
  assume "reason \<in> {''InvalidImageName'', ''ErrImageNeverPull''}"
  then show "classifyImageFailure reason msg = classifyImageFailure reason []"
    by (auto simp: classifyImageFailure_def)
qed

lemma classifyImageFailure_honest_witness:
  "(\<exists>m\<in>set imageMatchers.
      ica_classification (classifyImageFailure ''ErrImagePull'' ''Manifest Unknown'') = im_classification m \<and>
      (\<exists>needle\<in>set (im_needles m). sublist needle (str_ToLower ''Manifest Unknown''))) \<and>
   ica_classification (classifyImageFailure ''ErrImagePull'' ''boom'') = []"
proof
  have "ica_confidence (classifyImageFailure ''ErrImagePull'' ''Manifest Unknown'') = ConfidenceLikely"
    by code_simp
  then show "\<exists>m\<in>set imageMatchers.
      ica_classification (classifyImageFailure ''ErrImagePull'' ''Manifest Unknown'') = im_classification m \<and>
      (\<exists>needle\<in>set (im_needles m). sublist needle (str_ToLower ''Manifest Unknown''))"
    using classifyImageFailure_honest [of "''ErrImagePull''" "''Manifest Unknown''"] by blast
  have "\<forall>m\<in>set imageMatchers. \<forall>needle\<in>set (im_needles m). \<not> sublist needle (str_ToLower ''boom'')"
    unfolding str_Contains_iff [symmetric] by code_simp
  then show "ica_classification (classifyImageFailure ''ErrImagePull'' ''boom'') = []"
    using classifyImageFailure_honest [of "''ErrImagePull''" "''boom''"] by simp
qed

end
