(* ===== verification/PodScheduling.thy ===== *)
theory PodScheduling
  imports PodHelpers
begin

text \<open>
  Package \<open>rules/pod\<close>, \<open>scheduling.go\<close>: the scheduler's message taken apart into reasons, the
  reasons into categories, and the finding built from them. The lemmas show that a message in
  the scheduler's format is read back exactly, that the finding is specific exactly when one
  category explains it, and what the effective requests are.
\<close>

section \<open>Categories and reasons\<close>

datatype scheduling_category =
  catCPU | catMemory | catResource | catTaint | catAffinity | catAntiAffinity | catVolume
| catCapacity | catCordoned | catOther

record scheduler_reason =
  sr_count :: int
  sr_text :: string
  sr_category :: scheduling_category

definition schedulerReason_String :: "scheduler_reason \<Rightarrow> string" where
  "schedulerReason_String r =
     (if sr_count r > 0 then (int_str (sr_count r) @ '' '' @ (sr_text r)) else sr_text r)"

record scheduler_report =
  rep_evaluated :: int
  rep_reasons :: "scheduler_reason list"

definition classifyScheduling :: "string \<Rightarrow> scheduling_category" where
  "classifyScheduling txt =
     (let has = str_Contains (str_ToLower txt) in
      if has ''anti-affinity'' then catAntiAffinity
      else if has ''insufficient cpu'' then catCPU
      else if has ''insufficient memory'' then catMemory
      else if has ''insufficient'' then catResource
      else if has ''taint'' then catTaint
      else if has ''affinity'' \<or> has ''node selector'' \<or> has ''didn't match'' then catAffinity
      else if has ''volume'' \<or> has ''persistentvolumeclaim'' then catVolume
      else if has ''too many pods'' then catCapacity
      else if has ''unschedulable'' then catCordoned
      else catOther)"

text \<open>One part of the message; \<open>None\<close> for an empty one, which the loop skips.\<close>

definition parse_reason :: "string \<Rightarrow> scheduler_reason option" where
  "parse_reason part0 =
     (let part = str_TrimSpace (str_Trim (str_TrimSpace part0) ''.'') in
      if part = [] then None
      else
       (let (n, txt) = (case leading_count part of
              None \<Rightarrow> (0, part) | Some (ds, rest) \<Rightarrow> (fst (atoi_digits ds), rest))
        in Some \<lparr>sr_count = n, sr_text = txt, sr_category = classifyScheduling txt\<rparr>))"

definition strip_preemption :: "string \<Rightarrow> string" where
  "strip_preemption msg =
     (case str_Index msg ''preemption:'' of
        Some i \<Rightarrow> (if i > 0 then take i msg else msg) | None \<Rightarrow> msg)"

definition parseSchedulerMessage :: "string \<Rightarrow> scheduler_report" where
  "parseSchedulerMessage message0 =
     (let msg = strip_preemption message0;
          evaluated = (case nodes_available msg of None \<Rightarrow> 0 | Some ds \<Rightarrow> fst (atoi_digits ds));
          body = (case str_Index msg '':'' of Some i \<Rightarrow> drop (i + 1) msg | None \<Rightarrow> msg)
      in \<lparr>rep_evaluated = evaluated, rep_reasons = List.map_filter parse_reason (str_Split CHR '','' body)\<rparr>)"

definition hasCategory :: "scheduler_report \<Rightarrow> scheduling_category \<Rightarrow> bool" where
  "hasCategory r cat \<longleftrightarrow> list_ex (\<lambda>reason. sr_category reason = cat) (rep_reasons r)"

definition needsResources :: "scheduler_report \<Rightarrow> bool" where
  "needsResources r \<longleftrightarrow> hasCategory r catCPU \<or> hasCategory r catMemory \<or> hasCategory r catResource"

definition category_id :: "scheduling_category \<Rightarrow> string option" where
  "category_id cat =
     (case cat of
        catCPU \<Rightarrow> Some IDUnschedulableCPU
      | catMemory \<Rightarrow> Some IDUnschedulableMemory
      | catTaint \<Rightarrow> Some IDUntoleratedTaint
      | catAffinity \<Rightarrow> Some IDUnschedulableAffinity
      | catVolume \<Rightarrow> Some IDUnschedulableVolume
      | _ \<Rightarrow> None)"

text \<open>The categories seen, as the list of the keys of the Go map.\<close>

definition dominantID :: "scheduler_report \<Rightarrow> string option" where
  "dominantID r =
     (case remdups (map sr_category (rep_reasons r)) of
        [cat] \<Rightarrow> category_id cat
      | _ \<Rightarrow> None)"

definition schedulerReport_explanation :: "scheduler_report \<Rightarrow> string" where
  "schedulerReport_explanation r =
     (if rep_evaluated r > 0
      then (''The scheduler evaluated '' @ int_str (rep_evaluated r) @
        '' node(s) and rejected all of them. '')
      else ''The scheduler rejected every node it evaluated. '') @
     ''These are the reasons it reported, unchanged.''"

definition category_causes :: "scheduling_category \<Rightarrow> string list" where
  "category_causes cat =
     (case cat of
        catCPU \<Rightarrow> [''no node has enough free capacity for the Pod's requests'',
          ''the Pod's requests are larger than any single node can offer'']
      | catMemory \<Rightarrow> [''no node has enough free capacity for the Pod's requests'',
          ''the Pod's requests are larger than any single node can offer'']
      | catResource \<Rightarrow> [''no node has enough free capacity for the Pod's requests'',
          ''the Pod's requests are larger than any single node can offer'']
      | catTaint \<Rightarrow> [''the nodes carry taints the Pod does not tolerate'']
      | catAffinity \<Rightarrow> [''the Pod's nodeSelector or node affinity matches no node with capacity'']
      | catAntiAffinity \<Rightarrow> [''pod anti-affinity rules exclude the remaining nodes'']
      | catVolume \<Rightarrow> [''a volume the Pod needs is not bound, or is bound to a zone the node is not in'']
      | catCapacity \<Rightarrow> [''the candidate nodes already run their maximum number of Pods'']
      | catCordoned \<Rightarrow> [''the candidate nodes are cordoned'']
      | catOther \<Rightarrow> [])"

definition schedulerReport_causes :: "scheduler_report \<Rightarrow> string list" where
  "schedulerReport_causes r =
     concat (map (\<lambda>reason. category_causes (sr_category reason)) (first_seen sr_category [] (rep_reasons r)))"

definition schedulerReport_suggestions :: "scheduler_report \<Rightarrow> suggestion list" where
  "schedulerReport_suggestions r =
     (if needsResources r then [Sugg ''Compare the Pod's requests with the capacity the nodes have left.''
        [(''kubectl describe nodes | grep -A5 'Allocated resources'' @ [CHR 0x27])]] else []) @
     (if hasCategory r catTaint then [Sugg ''Review the taints on the candidate nodes and the tolerations on the Pod.''
        [''kubectl get nodes -o custom-columns=NAME:.metadata.name,TAINTS:.spec.taints'']] else []) @
     (if hasCategory r catAffinity then [Sugg (''Check the Pod's nodeSelector and affinity rules against the labels the nodes actually '' @
        ''carry.'')
        [''kubectl get nodes --show-labels'']] else []) @
     (if hasCategory r catVolume then [Sugg ''Check the claims the Pod mounts; a Pod waits for its volumes before it can be placed.'' []] else [])"

section \<open>Requests\<close>

definition request_of :: "('q gomap \<Rightarrow> 'q) \<Rightarrow> 'q k_container \<Rightarrow> 'q" where
  "request_of sel c = sel (c_Requests c)"

definition add_request :: "'q kube_lib \<Rightarrow> ('q gomap \<Rightarrow> 'q) \<Rightarrow> 'q \<Rightarrow> 'q k_container \<Rightarrow> 'q" where
  "add_request lib sel q c = q_Add lib q (request_of sel c)"

definition floor_request :: "'q kube_lib \<Rightarrow> ('q gomap \<Rightarrow> 'q) \<Rightarrow> 'q \<Rightarrow> 'q k_container \<Rightarrow> 'q" where
  "floor_request lib sel q c = (if q_Cmp lib (request_of sel c) q > 0 then request_of sel c else q)"

text \<open>The three loops of \<open>effectiveRequests\<close> for one resource; the loops treat CPU and memory alike.\<close>

definition effective_request :: "'q kube_lib \<Rightarrow> ('q gomap \<Rightarrow> 'q) \<Rightarrow> 'q k_pod \<Rightarrow> 'q" where
  "effective_request lib sel pod =
     (let q1 = foldl (add_request lib sel) (q_zero lib) (pod_Containers pod);
          q2 = foldl (add_request lib sel) q1 (filter is_sidecar (pod_InitContainers pod))
      in foldl (floor_request lib sel) q2 (pod_InitContainers pod))"

definition effectiveRequests :: "'q kube_lib \<Rightarrow> 'q k_pod \<Rightarrow> 'q \<times> 'q" where
  "effectiveRequests lib pod =
     (effective_request lib (rl_Cpu lib) pod, effective_request lib (rl_Memory lib) pod)"

definition requestEvidence :: "'q kube_lib \<Rightarrow> 'q k_pod \<Rightarrow> evidence list" where
  "requestEvidence lib pod =
     (let (cpu, mem) = effectiveRequests lib pod in
      (if \<not> q_IsZero lib cpu then [Evid ''podSpec'' ''requests.cpu'' (q_String lib cpu) []] else []) @
      (if \<not> q_IsZero lib mem then [Evid ''podSpec'' ''requests.memory'' (q_String lib mem) []] else []))"

section \<open>The rule\<close>

definition gatedDiagnosis :: "'q pod_snap \<Rightarrow> diagnosis" where
  "gatedDiagnosis snap =
     diagnosis0\<lparr>d_ID := IDSchedulingGated, d_Subject := Pod_Ref snap, d_Severity := SeverityWarning,
       d_Confidence := ConfidenceCertain,
       d_Summary := ''The Pod is waiting on scheduling gates and was never considered for scheduling'',
       d_Explanation := (''Scheduling gates hold a Pod until something removes them. This is a deliberate '' @
        ''mechanism, so the Pod is not broken; it is waiting for whatever owns these gates.''),
       d_Evidence := [Evid ''podSpec'' ''schedulingGates'' (str_Join '', '' (pod_SchedulingGates (ps_Pod snap))) []],
       d_Suggestions := [Sugg (''Find out which controller is expected to clear these gates; until it does, the '' @
        ''scheduler will not look at the Pod.'') []]\<rparr>"

definition schedulerMessage :: "'q pod_snap \<Rightarrow> string \<times> string" where
  "schedulerMessage snap =
     (let from_event = (case Events_Latest [''FailedScheduling''] (ps_Events snap) of
            Some ev \<Rightarrow> (ev_Message ev, ''event'') | None \<Rightarrow> ([], []))
      in case Pod_Condition snap ''PodScheduled'' of
           Some c \<Rightarrow> (if cond_Status c = ''False'' \<and> cond_Message c \<noteq> [] then (cond_Message c, ''condition'') else from_event)
         | None \<Rightarrow> from_event)"

text \<open>The loop over the claims, in the order Go iterates over the map.\<close>

definition claim_cause_step :: "string \<Rightarrow> string \<times> pvc_ref \<Rightarrow> string" where
  "claim_cause_step caused entry =
     (let claim = snd entry in
      if pr_Exists claim = Missing then IDPVCNotFound
      else if pr_Phase claim = ''Pending'' then IDPVCNotBound else caused)"

definition claim_cause :: "pvc_ref gomap \<Rightarrow> string" where
  "claim_cause claims = foldl claim_cause_step [] claims"

definition unschedulable_diagnosis :: "'q kube_lib \<Rightarrow> 'q pod_snap \<Rightarrow> string \<Rightarrow> string \<Rightarrow> diagnosis" where
  "unschedulable_diagnosis lib snap msg source =
     (let report = parseSchedulerMessage msg;
          evidence = [Evid source ''message'' [] (go_truncate msg 400)];
          evidence = (if rep_evaluated report > 0
            then [Evid ''scheduler'' ''nodesEvaluated'' (int_str (rep_evaluated report)) []] @ evidence else evidence);
          evidence = evidence @ map (\<lambda>reason. Evid ''scheduler'' ''reason'' (schedulerReason_String reason) []) (rep_reasons report)
      in diagnosis0\<lparr>d_ID := (case dominantID report of Some i \<Rightarrow> i | None \<Rightarrow> IDUnschedulable),
           d_Subject := Pod_Ref snap, d_Severity := SeverityCritical, d_Confidence := ConfidenceCertain,
           d_Summary := ''The scheduler found no node that can run this Pod'',
           d_Explanation := schedulerReport_explanation report,
           d_PossibleCauses := schedulerReport_causes report,
           d_Suggestions := schedulerReport_suggestions report,
           d_Evidence := evidence @ (if needsResources report then requestEvidence lib (ps_Pod snap) else []),
           d_CausedBy := (if hasCategory report catVolume then claim_cause (ps_PVCs snap) else [])\<rparr>)"

definition evaluateScheduling :: "'q kube_lib \<Rightarrow> 'q pod_snap \<Rightarrow> diagnosis list" where
  "evaluateScheduling lib snap =
     (if pod_NodeName (ps_Pod snap) \<noteq> [] \<or> Pod_IsTerminal snap then []
      else if pod_SchedulingGates (ps_Pod snap) \<noteq> [] then [gatedDiagnosis snap]
      else
       (let (msg, source) = schedulerMessage snap in
        if msg = [] then [] else [unschedulable_diagnosis lib snap msg source]))"

definition schedulingRule :: "'q kube_lib \<Rightarrow> 'q pod_snap rule" where
  "schedulingRule lib = RuleFunc \<lparr>m_ID = IDUnschedulable,
     m_Title = ''Pod cannot be scheduled onto any node'',
     m_Description = (''Normalises the scheduler's own explanation from the PodScheduled condition or the '' @
        ''FailedScheduling event. KubeWhy does not re-implement scheduling decisions; it presents '' @
        ''the ones the scheduler already made.''),
     m_Emits = [IDUnschedulable, IDUnschedulableCPU, IDUnschedulableMemory, IDUntoleratedTaint,
       IDUnschedulableAffinity, IDUnschedulableVolume, IDSchedulingGated]\<rparr> (evaluateScheduling lib)"

section \<open>The contract of the rule\<close>

lemma schedulerReport_suggestions_read_only [simp]: "read_only_suggestions (schedulerReport_suggestions r)"
  by (simp add: schedulerReport_suggestions_def finding_simps)

lemma category_id_ids:
  "category_id cat = Some i \<Longrightarrow>
   i \<in> set [IDUnschedulableCPU, IDUnschedulableMemory, IDUntoleratedTaint, IDUnschedulableAffinity, IDUnschedulableVolume]"
  by (auto simp: category_id_def split: scheduling_category.splits)

lemma dominantID_iff:
  "dominantID r = Some i \<longleftrightarrow>
     (\<exists>cat. rep_reasons r \<noteq> [] \<and> (\<forall>reason\<in>set (rep_reasons r). sr_category reason = cat) \<and> category_id cat = Some i)"
proof -
  let ?cs = "map sr_category (rep_reasons r)"
  have "remdups ?cs = [cat] \<longleftrightarrow> ?cs \<noteq> [] \<and> (\<forall>c\<in>set ?cs. c = cat)" for cat
  proof
    assume "remdups ?cs = [cat]"
    then have "set ?cs = {cat}" using set_remdups [of ?cs] by simp
    then show "?cs \<noteq> [] \<and> (\<forall>c\<in>set ?cs. c = cat)" by auto
  next
    assume *: "?cs \<noteq> [] \<and> (\<forall>c\<in>set ?cs. c = cat)"
    then have "set ?cs = {cat}" by (cases ?cs) auto
    then have "set (remdups ?cs) = {cat}" and "length (remdups ?cs) = 1"
      by (simp_all add: length_remdups_card_conv)
    then show "remdups ?cs = [cat]" by (cases "remdups ?cs") auto
  qed
  moreover have "dominantID r = Some i \<longleftrightarrow> (\<exists>cat. remdups ?cs = [cat] \<and> category_id cat = Some i)"
    by (auto simp: dominantID_def split: list.splits)
  ultimately show ?thesis by auto
qed

lemma dominantID_ids:
  "dominantID r = Some i \<Longrightarrow>
   i \<in> set [IDUnschedulableCPU, IDUnschedulableMemory, IDUntoleratedTaint, IDUnschedulableAffinity, IDUnschedulableVolume]"
  unfolding dominantID_iff using category_id_ids by blast

lemma unschedulable_diagnosis_ok:
  "finding_ok [IDUnschedulable, IDUnschedulableCPU, IDUnschedulableMemory, IDUntoleratedTaint,
     IDUnschedulableAffinity, IDUnschedulableVolume] (unschedulable_diagnosis lib snap msg source)"
  using dominantID_ids [of "parseSchedulerMessage msg"]
  by (auto simp: unschedulable_diagnosis_def Let_def finding_ok_def cong: finding_cong split: option.split)

lemma evaluateScheduling_ok:
  "findings_ok [IDUnschedulable, IDUnschedulableCPU, IDUnschedulableMemory, IDUntoleratedTaint,
     IDUnschedulableAffinity, IDUnschedulableVolume, IDSchedulingGated] (evaluateScheduling lib snap)"
proof -
  have "finding_ok [IDUnschedulable, IDUnschedulableCPU, IDUnschedulableMemory, IDUntoleratedTaint,
     IDUnschedulableAffinity, IDUnschedulableVolume, IDSchedulingGated] (unschedulable_diagnosis lib snap msg source)"
    for msg source
    by (rule finding_ok_mono [OF unschedulable_diagnosis_ok]) auto
  then show ?thesis
    by (simp add: evaluateScheduling_def gatedDiagnosis_def finding_ok_def [of _ "d_ID_update f d" for f d]
        split: prod.split) (simp add: finding_ok_def)
qed

section \<open>Reading the scheduler's message\<close>

text \<open>The message the scheduler writes for a Pod that fits on none of n nodes.\<close>

definition reason_text :: "nat \<times> string \<Rightarrow> string" where
  "reason_text r = nat_str (fst r) @ '' '' @ snd r"

definition scheduler_text :: "nat \<Rightarrow> (nat \<times> string) list \<Rightarrow> string" where
  "scheduler_text n rs =
     ''0/'' @ nat_str n @ '' nodes are available: '' @ str_Join '', '' (map reason_text rs) @ ''.''"

text \<open>
  A reason as the scheduler writes it. It may hold colons and braces, as in the taint
  \<open>{gpu: true}\<close>; it holds no comma, because the program splits at commas, and does not itself
  contain the word that starts the second half of the message.
\<close>

definition plain_reason :: "nat \<times> string \<Rightarrow> bool" where
  "plain_reason r \<longleftrightarrow>
     int (fst r) < 2 ^ 63 \<and> snd r \<noteq> [] \<and> \<not> is_space (hd (snd r)) \<and> \<not> is_space (last (snd r)) \<and>
     last (snd r) \<noteq> CHR ''.'' \<and> set (snd r) \<inter> {CHR '','', newline} = {} \<and> \<not> sublist ''preemption:'' (snd r)"

text \<open>What may follow: nothing, or what the scheduler says about preemption.\<close>

definition preemption_note :: "string \<Rightarrow> bool" where
  "preemption_note t \<longleftrightarrow> t = [] \<or> prefix '' preemption:'' t"

definition parsed_reason :: "nat \<times> string \<Rightarrow> scheduler_reason" where
  "parsed_reason r = \<lparr>sr_count = int (fst r), sr_text = snd r, sr_category = classifyScheduling (snd r)\<rparr>"

lemma digit_not_special: "is_digit c \<Longrightarrow> \<not> is_space c \<and> c \<noteq> CHR ''.'' \<and> c \<noteq> CHR '','' \<and> c \<noteq> CHR '':'' \<and> c \<noteq> newline"
  by (auto simp: is_digit_def is_space_def newline_def)

lemma hd_nat_str_digit: "is_digit (hd (nat_str n))"
  using nat_str_digits [of n] by (cases "nat_str n") auto

lemma reason_text_ends:
  assumes "plain_reason r"
  shows "reason_text r \<noteq> []" "\<not> is_space (hd (reason_text r))" "\<not> is_space (last (reason_text r))"
    "hd (reason_text r) \<noteq> CHR ''.''" "last (reason_text r) \<noteq> CHR ''.''"
  using assms digit_not_special [OF hd_nat_str_digit [of "fst r"]]
  by (auto simp: reason_text_def plain_reason_def hd_append last_append)

lemma leading_count_reason_text:
  assumes "plain_reason r"
  shows "leading_count (reason_text r) = Some (nat_str (fst r), snd r)"
proof -
  have space: "\<not> is_re_space (hd (snd r))"
    using assms by (auto simp: plain_reason_def is_space_def is_re_space_def)
  then have "dropWhile is_re_space (snd r) = snd r"
    by (auto simp: dropWhile_eq_self_iff)
  then show ?thesis
    using takeWhile_digits_append [OF nat_str_digits [of "fst r"], of "'' '' @ snd r"] assms
    by (auto simp: leading_count_def reason_text_def plain_reason_def is_re_space_def)
qed

lemma parse_reason_text:
  assumes "plain_reason r" and "dot \<in> {[], ''.''}" and "t \<in> {[], '' ''}"
  shows "parse_reason ('' '' @ reason_text r @ dot @ t) = Some (parsed_reason r)"
proof -
  note ends = reason_text_ends [OF assms(1)]
  have "str_TrimSpace ('' '' @ reason_text r @ dot @ t) = reason_text r @ dot"
    using trim_strip [of is_space "'' ''" t "reason_text r @ dot"] ends assms(2,3)
    by (auto simp: str_TrimSpace_def is_space_def)
  moreover have "str_Trim (reason_text r @ dot) ''.'' = reason_text r"
    using trim_strip [of "\<lambda>c. c \<in> set ''.''" "[]" dot "reason_text r"] ends assms(2)
    by (auto simp: str_Trim_def)
  moreover have "str_TrimSpace (reason_text r) = reason_text r"
    using trim_id [of "reason_text r" is_space] ends by (simp add: str_TrimSpace_def)
  ultimately show ?thesis
    using leading_count_reason_text [OF assms(1)] ends(1) assms(1)
    by (simp add: parse_reason_def parsed_reason_def atoi_digits_nat_str plain_reason_def)
qed

lemma nat_str_chars: "c \<in> set (nat_str n) \<Longrightarrow> is_digit c"
  using nat_str_digits [of n] by (auto simp: list_all_iff)

lemma reason_text_no_sep:
  assumes "plain_reason r"
  shows "CHR '','' \<notin> set (reason_text r)"
  using assms digit_not_special nat_str_chars by (auto simp: reason_text_def plain_reason_def)

lemma split_reasons:
  "rs \<noteq> [] \<Longrightarrow> list_all plain_reason rs \<Longrightarrow> t \<in> {[], '' ''} \<Longrightarrow>
   List.map_filter parse_reason (str_Split CHR '','' ('' '' @ str_Join '', '' (map reason_text rs) @ ''.'' @ t)) =
   map parsed_reason rs"
proof (induction rs rule: induct_list012)
  case (2 r)
  then have "CHR '','' \<notin> set ('' '' @ reason_text r @ ''.'' @ t)"
    using reason_text_no_sep [of r] by auto
  then have "str_Split CHR '','' ('' '' @ reason_text r @ ''.'' @ t) = ['' '' @ reason_text r @ ''.'' @ t]"
    by (rule str_Split_single)
  then show ?case
    using parse_reason_text [of r "''.''" t] 2 by simp
next
  case (3 r r' rs)
  let ?rest = "'' '' @ str_Join '', '' (map reason_text (r' # rs)) @ ''.'' @ t"
  have "CHR '','' \<notin> set ('' '' @ reason_text r)"
    using reason_text_no_sep [of r] 3 by simp
  from str_Split_append [OF this, of ?rest] show ?case
    using parse_reason_text [of r "[]" "[]"] 3 by simp
qed simp

text \<open>A pattern is not found across a character it does not hold.\<close>

lemma prefix_stops: "c \<notin> set pat \<Longrightarrow> prefix pat (xs @ c # ys) \<longleftrightarrow> prefix pat xs"
proof (induction xs arbitrary: pat)
  case Nil
  then show ?case by (cases pat) auto
next
  case (Cons x xs)
  then show ?case by (cases pat) auto
qed

lemma sublist_stops: "c \<notin> set pat \<Longrightarrow> sublist pat (xs @ c # ys) \<longleftrightarrow> sublist pat xs \<or> sublist pat ys"
proof (induction xs)
  case Nil
  then show ?case by (cases pat) (auto simp: sublist_Cons_right)
next
  case (Cons x xs)
  then show ?case using prefix_stops [of c pat "x # xs" ys] by (auto simp: sublist_Cons_right)
qed

lemma str_Index_after:
  assumes "c \<notin> set pat" and "pat \<noteq> []"
  shows "\<not> sublist pat xs \<Longrightarrow> str_Index (xs @ c # pat @ ys) pat = Some (Suc (length xs))"
proof (induction xs)
  case Nil
  have "str_Index (pat @ ys) pat = Some 0" using assms(2) by (cases pat) simp_all
  then show ?case using assms by (cases pat) auto
next
  case (Cons x xs)
  then show ?case
    using prefix_stops [OF assms(1), of "x # xs" "pat @ ys"] by (auto simp: sublist_Cons_right)
qed

lemma no_preemption_reason:
  assumes "plain_reason r"
  shows "\<not> sublist ''preemption:'' (reason_text r)"
proof -
  have "\<not> sublist ''preemption:'' (nat_str (fst r))"
    using nat_str_chars [of "CHR ''p''" "fst r"] by (auto simp: is_digit_def dest!: set_mono_sublist)
  then show ?thesis
    using sublist_stops [of "CHR '' ''" "''preemption:''" "nat_str (fst r)" "snd r"] assms
    by (simp add: reason_text_def plain_reason_def)
qed

lemma no_preemption_reasons:
  "list_all plain_reason rs \<Longrightarrow> \<not> sublist ''preemption:'' (str_Join '', '' (map reason_text rs) @ ''.'')"
proof (induction rs rule: induct_list012)
  case 1
  show ?case by (simp add: sublist_Cons_right)
next
  case (2 r)
  then show ?case
    using sublist_stops [of "CHR ''.''" "''preemption:''" "reason_text r" "[]"] no_preemption_reason by simp
next
  case (3 r r' rs)
  let ?rest = "str_Join '', '' (map reason_text (r' # rs)) @ ''.''"
  have "\<not> sublist ''preemption:'' ?rest" using 3 by simp
  then have "\<not> sublist ''preemption:'' (reason_text r @ CHR '','' # [] @ CHR '' '' # ?rest)"
    using 3 no_preemption_reason [of r] by (subst sublist_stops, simp, subst sublist_stops) simp_all
  then show ?case by simp
qed

lemma no_preemption_scheduler_text:
  assumes "list_all plain_reason rs"
  shows "\<not> sublist ''preemption:'' (scheduler_text n rs)"
proof -
  have "\<not> sublist ''preemption:'' (''0/'' @ nat_str n)"
    using nat_str_chars [of "CHR ''p''" n] by (auto simp: is_digit_def dest!: set_mono_sublist)
  moreover have "scheduler_text n rs = (''0/'' @ nat_str n) @ CHR '' '' # ''nodes'' @ CHR '' '' # ''are'' @ CHR '' '' #
      ''available:'' @ CHR '' '' # str_Join '', '' (map reason_text rs) @ ''.''"
    by (simp add: scheduler_text_def)
  ultimately show ?thesis
    using no_preemption_reasons [OF assms]
    by (simp only: sublist_stops [of "CHR '' ''" "''preemption:''"]) (simp add: sublist_stops sublist_Cons_right)
qed

text \<open>What is left of a message after the preemption note is cut off: at most a space follows.\<close>

lemma strip_preemption_scheduler_text:
  assumes "list_all plain_reason rs" and "preemption_note t"
  shows "\<exists>t'\<in>{[], '' ''}. strip_preemption (scheduler_text n rs @ t) = scheduler_text n rs @ t'"
proof (cases "t = []")
  case True
  then show ?thesis
    using no_preemption_scheduler_text [OF assms(1), of n]
    by (auto simp: strip_preemption_def str_Contains_iff [symmetric] str_Contains_def)
next
  case False
  then obtain u where t: "t = CHR '' '' # ''preemption:'' @ u"
    using assms(2) by (auto simp: preemption_note_def prefix_def)
  have "str_Index (scheduler_text n rs @ t) ''preemption:'' = Some (Suc (length (scheduler_text n rs)))"
    unfolding t by (rule str_Index_after) (simp_all add: no_preemption_scheduler_text assms(1))
  then have "strip_preemption (scheduler_text n rs @ t) = scheduler_text n rs @ '' ''"
    by (simp add: strip_preemption_def t)
  then show ?thesis by blast
qed

lemma nodes_available_scheduler_text: "nodes_available (scheduler_text n rs @ t') = Some (nat_str n)"
proof -
  have "is_digit CHR ''0''" by (simp add: is_digit_def)
  moreover obtain t where t: "scheduler_text n rs @ t' = ''0/'' @ nat_str n @ '' nodes are available'' @ t"
    by (auto simp: scheduler_text_def)
  ultimately have "nodes_available_here (scheduler_text n rs @ t') = Some (nat_str n)"
    using takeWhile_digits_append [OF nat_str_digits [of n], of "'' nodes are available'' @ t"]
    by (simp add: nodes_available_here_def)
  then show ?thesis by (simp add: t)
qed

lemma parse_scheduler_text:
  assumes "int n < 2 ^ 63" and "list_all plain_reason rs" and "preemption_note t"
  shows "parseSchedulerMessage (scheduler_text n rs @ t) =
           \<lparr>rep_evaluated = int n, rep_reasons = map parsed_reason rs\<rparr>"
proof -
  obtain t' where t': "t' \<in> {[], '' ''}" and strip: "strip_preemption (scheduler_text n rs @ t) = scheduler_text n rs @ t'"
    using strip_preemption_scheduler_text [OF assms(2,3)] by blast
  define p where "p = ''0/'' @ nat_str n @ '' nodes are available''"
  define q where "q = '' '' @ str_Join '', '' (map reason_text rs) @ ''.'' @ t'"
  have msg: "scheduler_text n rs @ t' = p @ CHR '':'' # q"
    by (simp add: scheduler_text_def p_def q_def)
  have "CHR '':'' \<notin> set p"
    using digit_not_special nat_str_chars by (auto simp: p_def)
  then have "str_Index (scheduler_text n rs @ t') '':'' = Some (length p)"
    unfolding msg by (rule str_Index_char)
  moreover have "drop (length p + 1) (scheduler_text n rs @ t') = q"
    unfolding msg by simp
  moreover have "List.map_filter parse_reason (str_Split CHR '','' q) = map parsed_reason rs"
  proof (cases "rs = []")
    case True
    have "parse_reason '' .'' = None" "parse_reason '' . '' = None" by code_simp+
    then show ?thesis using t' by (auto simp: True q_def)
  next
    case False
    then show ?thesis using split_reasons [OF False assms(2) t'] by (simp add: q_def)
  qed
  ultimately show ?thesis
    unfolding parseSchedulerMessage_def strip Let_def nodes_available_scheduler_text
    using assms(1) by (simp add: atoi_digits_nat_str)
qed

section \<open>Effective requests\<close>

text \<open>
  What the program relies on of resource quantities: they denote numbers, zero denotes 0,
  addition adds and comparison compares.
\<close>

definition quantity_laws :: "'q kube_lib \<Rightarrow> ('q \<Rightarrow> int) \<Rightarrow> bool" where
  "quantity_laws lib val \<longleftrightarrow>
     val (q_zero lib) = 0 \<and> (\<forall>a b. val (q_Add lib a b) = val a + val b) \<and>
     (\<forall>a b. q_Cmp lib a b > 0 \<longleftrightarrow> val a > val b)"

lemma foldl_add_request:
  assumes "quantity_laws lib val"
  shows "val (foldl (add_request lib sel) q cs) = val q + sum_list (map (\<lambda>c. val (request_of sel c)) cs)"
  using assms by (induction cs arbitrary: q) (auto simp: add_request_def quantity_laws_def)

lemma foldl_floor_request:
  assumes "quantity_laws lib val"
  shows "val (foldl (floor_request lib sel) q cs) = Max (insert (val q) ((\<lambda>c. val (request_of sel c)) ` set cs))"
proof (induction cs arbitrary: q)
  case (Cons c cs)
  let ?S = "(\<lambda>c. val (request_of sel c)) ` set cs"
  have step: "val (floor_request lib sel q c) = max (val q) (val (request_of sel c))"
    using assms by (simp add: floor_request_def quantity_laws_def)
  have "Max (insert (max a b) S) = Max (insert a (insert b S))" if "finite S" for a b :: int and S
    using that by (cases "S = {}") (auto simp: max.assoc)
  then show ?case
    using Cons.IH [of "floor_request lib sel q c"] by (simp add: step del: Max_insert)
qed simp

text \<open>
  C25. The effective request of a Pod, for CPU and for memory, is the sum of the requests of the
  regular containers and the sidecars, or the largest request of a single init container if that
  is more.
\<close>

theorem effectiveRequests_value:
  assumes "quantity_laws lib val"
  shows "\<forall>(sel, q) \<in> {(rl_Cpu lib, fst (effectiveRequests lib pod)), (rl_Memory lib, snd (effectiveRequests lib pod))}.
    val q = Max (insert
      (sum_list (map (\<lambda>c. val (sel (c_Requests c))) (pod_Containers pod)) +
       sum_list (map (\<lambda>c. val (sel (c_Requests c))) (filter is_sidecar (pod_InitContainers pod))))
      ((\<lambda>c. val (sel (c_Requests c))) ` set (pod_InitContainers pod)))"
proof -
  have "val (effective_request lib sel pod) = Max (insert
      (sum_list (map (\<lambda>c. val (sel (c_Requests c))) (pod_Containers pod)) +
       sum_list (map (\<lambda>c. val (sel (c_Requests c))) (filter is_sidecar (pod_InitContainers pod))))
      ((\<lambda>c. val (sel (c_Requests c))) ` set (pod_InitContainers pod)))" for sel
    using assms foldl_add_request [OF assms] foldl_floor_request [OF assms]
    by (simp add: effective_request_def request_of_def quantity_laws_def Let_def del: Max_insert)
  then show ?thesis by (simp add: effectiveRequests_def del: Max_insert)
qed

definition sample_request :: "int \<Rightarrow> int \<Rightarrow> int k_container" where
  "sample_request cpu mem = container_spec0\<lparr>c_Requests := [(''cpu'', cpu), (''memory'', mem)]\<rparr>"

lemma int_lib_laws: "quantity_laws int_lib (\<lambda>q. q)"
  by (auto simp: quantity_laws_def int_lib_def)

lemma effectiveRequests_value_witness:
  "effectiveRequests int_lib (pod0\<lparr>pod_Containers := [sample_request 100 64, sample_request 50 64],
     pod_InitContainers := [sample_request 500 32, (sample_request 10 16)\<lparr>c_RestartPolicy := Some ''Always''\<rparr>]\<rparr>) = (500, 144)"
  using effectiveRequests_value [OF int_lib_laws, of "pod0\<lparr>pod_Containers := [sample_request 100 64, sample_request 50 64],
     pod_InitContainers := [sample_request 500 32, (sample_request 10 16)\<lparr>c_RestartPolicy := Some ''Always''\<rparr>]\<rparr>"]
  by (simp add: prod_eq_iff pod0_def sample_request_def container_spec0_def is_sidecar_def int_lib_def)

section \<open>Properties of the scheduling findings\<close>

text \<open>
  C11. A message in the scheduler's format is reported without loss: for a Pod that is not yet on
  a node and whose PodScheduled condition carries the scheduler's message about n nodes, with or
  without the note about preemption the scheduler appends, the rule yields one finding. Its
  evidence holds the number of nodes evaluated and, for every reason, the number of nodes and the
  reason's text unchanged, colons and braces included, and no reason the scheduler did not give.
  A reason is assumed to hold no comma, as the program takes the message apart at commas, and to
  begin and end with neither white space nor, at the end, a full stop.
\<close>

theorem evaluateScheduling_lossless:
  assumes "pod_NodeName (ps_Pod snap) = []" and "\<not> Pod_IsTerminal snap"
    and "pod_SchedulingGates (ps_Pod snap) = []"
    and "Pod_Condition snap ''PodScheduled'' = Some cond" and "cond_Status cond = ''False''"
    and "cond_Message cond = scheduler_text n rs @ t" and "preemption_note t"
    and "0 < n" and "int n < 2 ^ 63" and "list_all plain_reason rs" and "list_all (\<lambda>r. 0 < fst r) rs"
  shows "\<exists>d. evaluateScheduling lib snap = [d] \<and>
    Evid ''scheduler'' ''nodesEvaluated'' (nat_str n) [] \<in> set (d_Evidence d) \<and>
    {e \<in> set (d_Evidence d). e_Field e = ''reason''} =
      (\<lambda>r. Evid ''scheduler'' ''reason'' (nat_str (fst r) @ '' '' @ snd r) []) ` set rs"
proof -
  let ?msg = "scheduler_text n rs @ t"
  have nonempty: "?msg \<noteq> []" by (simp add: scheduler_text_def)
  then have msg: "schedulerMessage snap = (?msg, ''condition'')"
    using assms(4-6) by (simp add: schedulerMessage_def)
  let ?d = "unschedulable_diagnosis lib snap ?msg ''condition''"
  let ?reasons = "(\<lambda>r. Evid ''scheduler'' ''reason'' (nat_str (fst r) @ '' '' @ snd r) []) ` set rs"
  let ?requests = "if needsResources \<lparr>rep_evaluated = int n, rep_reasons = map parsed_reason rs\<rparr>
    then set (requestEvidence lib (ps_Pod snap)) else {}"
  have d: "evaluateScheduling lib snap = [?d]"
    using msg assms(1-3) nonempty by (simp add: evaluateScheduling_def)
  have same: "(\<lambda>r. Evid ''scheduler'' ''reason'' (schedulerReason_String (parsed_reason r)) []) ` set rs = ?reasons"
    using assms(11) by (intro image_cong) (auto simp: schedulerReason_String_def parsed_reason_def list_all_iff)
  have "set (d_Evidence ?d) =
      {Evid ''scheduler'' ''nodesEvaluated'' (nat_str n) [], Evid ''condition'' ''message'' [] (go_truncate ?msg 400)} \<union>
      (\<lambda>r. Evid ''scheduler'' ''reason'' (schedulerReason_String (parsed_reason r)) []) ` set rs \<union> ?requests"
    using assms(8) unfolding unschedulable_diagnosis_def parse_scheduler_text [OF assms(9,10,7)]
    by (simp add: Let_def image_image insert_commute)
  then have ev: "set (d_Evidence ?d) =
      {Evid ''scheduler'' ''nodesEvaluated'' (nat_str n) [], Evid ''condition'' ''message'' [] (go_truncate ?msg 400)} \<union>
      ?reasons \<union> ?requests"
    unfolding same .
  have only: "{e \<in> A \<union> B \<union> C. e_Field e = f} = B"
    if "\<forall>e\<in>A. e_Field e \<noteq> f" "\<forall>e\<in>B. e_Field e = f" "\<forall>e\<in>C. e_Field e \<noteq> f" for A B C f
    using that by blast
  have "{e \<in> set (d_Evidence ?d). e_Field e = ''reason''} = ?reasons"
    unfolding ev by (rule only) (auto simp: requestEvidence_def)
  moreover have "Evid ''scheduler'' ''nodesEvaluated'' (nat_str n) [] \<in> set (d_Evidence ?d)"
    unfolding ev by blast
  ultimately show ?thesis using d by blast
qed

definition unscheduled_pod :: "int pod_snap" where
  "unscheduled_pod = pod_snap0\<lparr>ps_Pod := pod0\<lparr>pod_Phase := ''Pending'',
     pod_Conditions := [\<lparr>cond_Type = ''PodScheduled'', cond_Status = ''False'', cond_Reason = ''Unschedulable'',
       cond_Message = ''0/3 nodes are available: 2 Insufficient memory, 1 node(s) had untolerated taint {gpu: true}. preemption: 0/3 nodes are available: 3 No preemption victims found for incoming pod.''\<rparr>]\<rparr>\<rparr>"

lemma evaluateScheduling_lossless_witness:
  "\<exists>d. evaluateScheduling int_lib unscheduled_pod = [d] \<and>
    Evid ''scheduler'' ''nodesEvaluated'' ''3'' [] \<in> set (d_Evidence d) \<and>
    {e \<in> set (d_Evidence d). e_Field e = ''reason''} =
      {Evid ''scheduler'' ''reason'' ''2 Insufficient memory'' [],
       Evid ''scheduler'' ''reason'' ''1 node(s) had untolerated taint {gpu: true}'' []}"
proof -
  let ?rs = "[(2, ''Insufficient memory''), (1, ''node(s) had untolerated taint {gpu: true}'')]"
  let ?t = "'' preemption: 0/3 nodes are available: 3 No preemption victims found for incoming pod.''"
  have digits: "nat_str 3 = ''3''" "nat_str 2 = ''2''" "nat_str (Suc 0) = ''1''" by code_simp+
  have msg: "''0/3 nodes are available: 2 Insufficient memory, 1 node(s) had untolerated taint {gpu: true}. preemption: 0/3 nodes are available: 3 No preemption victims found for incoming pod.'' =
      scheduler_text 3 ?rs @ ?t" by code_simp
  have plain: "list_all plain_reason ?rs"
    by (simp add: plain_reason_def is_space_def newline_def sublist_Cons_right)
  have note': "preemption_note ?t" by (simp add: preemption_note_def)
  have "\<exists>d. evaluateScheduling int_lib unscheduled_pod = [d] \<and>
    Evid ''scheduler'' ''nodesEvaluated'' (nat_str 3) [] \<in> set (d_Evidence d) \<and>
    {e \<in> set (d_Evidence d). e_Field e = ''reason''} =
      (\<lambda>r. Evid ''scheduler'' ''reason'' (nat_str (fst r) @ '' '' @ snd r) []) ` set ?rs"
    by (rule evaluateScheduling_lossless
        [OF _ _ _ _ _ _ note' _ _ plain, where cond = "hd (pod_Conditions (ps_Pod unscheduled_pod))"])
      (simp_all add: unscheduled_pod_def pod_snap0_def pod0_def Pod_IsTerminal_def Pod_Condition_def
        find_condition_def msg)
  then show ?thesis by (simp add: digits del: nat_str.simps)
qed

text \<open>
  C26. The finding names a specific cause exactly when the reasons the scheduler gave, at least
  one, all fall into one category and that category has an identifier of its own; with several
  categories in play the generic identifier is kept.
\<close>

theorem unschedulable_specific:
  "d_ID (unschedulable_diagnosis lib snap msg source) = i \<and> i \<noteq> IDUnschedulable \<longleftrightarrow>
     (\<exists>cat. rep_reasons (parseSchedulerMessage msg) \<noteq> [] \<and>
        (\<forall>r\<in>set (rep_reasons (parseSchedulerMessage msg)). sr_category r = cat) \<and> category_id cat = Some i)"
proof -
  have "d_ID (unschedulable_diagnosis lib snap msg source) =
          (case dominantID (parseSchedulerMessage msg) of Some i \<Rightarrow> i | None \<Rightarrow> IDUnschedulable)"
    by (simp add: unschedulable_diagnosis_def Let_def)
  moreover have "dominantID (parseSchedulerMessage msg) = Some i \<Longrightarrow> i \<noteq> IDUnschedulable" for i
    using dominantID_ids [of "parseSchedulerMessage msg" i] by (auto simp: pod_ID_defs)
  ultimately show ?thesis
    unfolding dominantID_iff [symmetric] by (auto split: option.splits)
qed

lemma unschedulable_specific_witness:
  "d_ID (unschedulable_diagnosis int_lib unscheduled_pod ''0/1 nodes are available: 1 Insufficient cpu.'' ''event'') =
     IDUnschedulableCPU"
proof -
  have "rep_reasons (parseSchedulerMessage ''0/1 nodes are available: 1 Insufficient cpu.'') =
      [\<lparr>sr_count = 1, sr_text = ''Insufficient cpu'', sr_category = catCPU\<rparr>]"
    by code_simp
  then show ?thesis
    using unschedulable_specific [of int_lib unscheduled_pod "''0/1 nodes are available: 1 Insufficient cpu.''"
        "''event''" IDUnschedulableCPU]
    by (auto simp: category_id_def)
qed

lemma claim_cause_simps [simp]:
  "claim_cause [] = []" "claim_cause (cs @ [x]) = claim_cause_step (claim_cause cs) x"
  by (simp_all add: claim_cause_def)

lemma claim_cause_cases:
  "(\<exists>x\<in>set cs. pr_Exists (snd x) = Missing) \<and> claim_cause cs = IDPVCNotFound \<or>
   (\<exists>x\<in>set cs. pr_Exists (snd x) \<noteq> Missing \<and> pr_Phase (snd x) = ''Pending'') \<and> claim_cause cs = IDPVCNotBound \<or>
   (\<forall>x\<in>set cs. pr_Exists (snd x) \<noteq> Missing \<and> pr_Phase (snd x) \<noteq> ''Pending'') \<and> claim_cause cs = []"
  by (induction cs rule: rev_induct) (auto simp: claim_cause_step_def Let_def)

text \<open>
  The cause an unschedulable Pod is linked to depends on the order in which Go happens to
  iterate over the claims only when one claim is missing and another is pending: with at least
  one of each, some order of the same claims links it to the missing claim and another to the
  pending one; otherwise every order gives the same cause.
\<close>

theorem claim_cause_order:
  "(\<exists>claims'. mset claims' = mset claims \<and> claim_cause claims' \<noteq> claim_cause claims) \<longleftrightarrow>
     (\<exists>x\<in>set claims. pr_Exists (snd x) = Missing) \<and>
     (\<exists>y\<in>set claims. pr_Exists (snd y) \<noteq> Missing \<and> pr_Phase (snd y) = ''Pending'')"
proof
  assume "\<exists>claims'. mset claims' = mset claims \<and> claim_cause claims' \<noteq> claim_cause claims"
  then obtain cs where "set cs = set claims" and "claim_cause cs \<noteq> claim_cause claims"
    using mset_eq_setD by blast
  with claim_cause_cases [of cs] claim_cause_cases [of claims]
  show "(\<exists>x\<in>set claims. pr_Exists (snd x) = Missing) \<and>
      (\<exists>y\<in>set claims. pr_Exists (snd y) \<noteq> Missing \<and> pr_Phase (snd y) = ''Pending'')"
    by auto
next
  assume "(\<exists>x\<in>set claims. pr_Exists (snd x) = Missing) \<and>
      (\<exists>y\<in>set claims. pr_Exists (snd y) \<noteq> Missing \<and> pr_Phase (snd y) = ''Pending'')"
  then obtain x y where x: "x \<in> set claims" "pr_Exists (snd x) = Missing"
    and y: "y \<in> set claims" "pr_Exists (snd y) \<noteq> Missing" "pr_Phase (snd y) = ''Pending''" by blast
  let ?last = "\<lambda>z. remove1 z claims @ [z]"
  have "claim_cause (?last x) = IDPVCNotFound" and "claim_cause (?last y) = IDPVCNotBound"
    using x(2) y(2,3) by (simp_all add: claim_cause_step_def)
  moreover have "IDPVCNotFound \<noteq> IDPVCNotBound" by (simp add: pod_ID_defs)
  ultimately have "claim_cause (?last x) \<noteq> claim_cause claims \<or> claim_cause (?last y) \<noteq> claim_cause claims"
    by argo
  moreover have "mset (?last x) = mset claims" "mset (?last y) = mset claims"
    using x(1) y(1) by simp_all
  ultimately show "\<exists>claims'. mset claims' = mset claims \<and> claim_cause claims' \<noteq> claim_cause claims"
    by blast
qed

definition sample_claim :: "existence \<Rightarrow> string \<Rightarrow> pvc_ref" where
  "sample_claim e phase = \<lparr>pr_Name = ''data'', pr_Exists = e, pr_Phase = phase, pr_StorageClass = [], pr_BindingMode = []\<rparr>"

lemma claim_cause_order_witness:
  "\<exists>claims'. mset claims' = mset [(''a'', sample_claim Missing []), (''b'', sample_claim Found ''Pending'')] \<and>
     claim_cause claims' \<noteq> claim_cause [(''a'', sample_claim Missing []), (''b'', sample_claim Found ''Pending'')]"
  unfolding claim_cause_order by (simp add: sample_claim_def)

end
