(* ===== verification/PodProbes.thy ===== *)
theory PodProbes
  imports PodHelpers
begin

text \<open>
  Package \<open>rules/pod\<close>, \<open>probes.go\<close>: probe failures from Unhealthy events. The lemmas show that
  there is one finding per container and kind of probe, taken from the most recent event, and
  when a failure counts as history.
\<close>

record probe_kind =
  pk_prefix :: string
  pk_kind :: string
  pk_id :: string

definition probeKinds :: "probe_kind list" where
  "probeKinds =
     [\<lparr>pk_prefix = ''Readiness probe failed'', pk_kind = ''readiness'', pk_id = IDReadinessProbeFailed\<rparr>,
      \<lparr>pk_prefix = ''Liveness probe failed'', pk_kind = ''liveness'', pk_id = IDLivenessProbeFailed\<rparr>,
      \<lparr>pk_prefix = ''Startup probe failed'', pk_kind = ''startup'', pk_id = IDStartupProbeFailed\<rparr>]"

definition recentProbeWindow :: duration where "recentProbeWindow = 10 * go_Minute"

definition describeProbe :: "'q kube_lib \<Rightarrow> k_probe \<Rightarrow> string" where
  "describeProbe lib p =
     (case pb_HTTPGet p of
        Some h \<Rightarrow>
          (let scheme = str_ToLower (hg_Scheme h);
               scheme = (if scheme = [] then ''http'' else scheme)
           in (scheme @ '' GET '' @ (orDefault (hg_Path h) ''/'') @ '' on port '' @
        (intstr_String lib (hg_Port h))))
      | None \<Rightarrow>
     (case pb_TCPSocket p of
        Some port \<Rightarrow> (''TCP connect on port '' @ (intstr_String lib port))
      | None \<Rightarrow>
     (case pb_GRPC p of
        Some port \<Rightarrow> (''gRPC health check on port '' @ int_str port)
      | None \<Rightarrow>
     (case pb_Exec p of
        Some cmd \<Rightarrow> ''exec '' @ str_Join '' '' cmd
      | None \<Rightarrow> ''probe configured''))))"

definition probe_of_kind :: "string \<Rightarrow> 'q k_container \<Rightarrow> k_probe option" where
  "probe_of_kind kind spec =
     (if kind = ''readiness'' then c_ReadinessProbe spec
      else if kind = ''liveness'' then c_LivenessProbe spec
      else if kind = ''startup'' then c_StartupProbe spec
      else None)"

definition probeEvidence :: "'q kube_lib \<Rightarrow> string \<Rightarrow> 'q container \<Rightarrow> evidence list" where
  "probeEvidence lib kind c =
     (case cn_Spec c of
        None \<Rightarrow> []
      | Some spec \<Rightarrow>
         (case probe_of_kind kind spec of
            None \<Rightarrow> []
          | Some probe \<Rightarrow>
             [Evid ''podSpec'' (kind @ ''Probe'') (describeProbe lib probe) [],
              Evid ''podSpec'' (kind @ ''Probe.timing'')
                (''delay '' @ int_str (pb_InitialDelaySeconds probe) @ ''s, period '' @
        int_str (pb_PeriodSeconds probe) @ ''s, timeout '' @ int_str (pb_TimeoutSeconds probe) @
        ''s, failureThreshold '' @ int_str (pb_FailureThreshold probe)) []]))"

definition probe_failing_now :: "'q container \<Rightarrow> bool \<Rightarrow> bool" where
  "probe_failing_now c known \<longleftrightarrow> known \<and> \<not> Container_Ready c"

definition probe_recent :: "'q pod_snap \<Rightarrow> event \<Rightarrow> bool" where
  "probe_recent snap ev \<longleftrightarrow> time_Sub (ps_Now snap) (ev_LastSeen ev) \<le> recentProbeWindow"

definition probeDiagnosis ::
  "'q kube_lib \<Rightarrow> 'q pod_snap \<Rightarrow> event \<Rightarrow> string \<Rightarrow> string \<Rightarrow> 'q container \<Rightarrow> bool \<Rightarrow> diagnosis" where
  \<open>probeDiagnosis lib snap ev kind ident c known =
     (let subject = (if known then (''Container '' @ quote_str (cn_Name c)) else ''A container'');
          failingNow = probe_failing_now c known;
          recent = probe_recent snap ev;
          age = format_Duration (time_Sub (ps_Now snap) (ev_LastSeen ev));
          d = diagnosis0\<lparr>d_ID := ident, d_Subject := Pod_Ref snap, d_Component := cn_Name c,
                d_Confidence := ConfidenceCertain, d_Evidence := [eventEvidence ev]\<rparr>;
          d = (if failingNow then
                 d\<lparr>d_Severity := SeverityCritical,
                   d_Summary := (subject @ '' is failing its '' @ kind @ '' probe'')\<rparr>
               else if recent then
                 d\<lparr>d_Severity := SeverityWarning,
                   d_Summary := (subject @ '' has been failing its '' @ kind @ '' probe, and is passing again now'')\<rparr>
               else
                 d\<lparr>d_Severity := SeverityInfo,
                   d_Summary := (subject @ '' failed its '' @ kind @ '' probe, most recently '' @ age @
        '' ago, and has been passing since'')\<rparr>);
          d = (if kind = ''readiness'' then
                 d\<lparr>d_Explanation := (''A container that fails its readiness probe is removed from the endpoints of every '' @
        ''Service that selects this Pod, so it receives no traffic. Kubernetes reports that the '' @
        ''probe failed; the reason the application answered that way is in its own logs.'')\<rparr>
               else if kind = ''liveness'' then
                 d\<lparr>d_Explanation := (''A container that fails its liveness probe is killed and restarted by the kubelet. That '' @
        ''is why restarts can appear without the process itself crashing.''),
                   d_Severity := (if Container_Restarts c > 0 \<and> recent then SeverityCritical else d_Severity d)\<rparr>
               else if kind = ''startup'' then
                 d\<lparr>d_Explanation := (''A startup probe holds back the liveness and readiness checks until the container '' @
        ''reports that it has started. While it keeps failing, the container is restarted once '' @
        ''the probe's failure threshold is reached.''),
                   d_Severity := (if failingNow \<or> recent then SeverityCritical else d_Severity d)\<rparr>
               else d);
          d = (if d_Severity d = SeverityInfo then
                 d\<lparr>d_Explanation := d_Explanation d @ ('' These failures stopped '' @ age @
        '' ago, so they describe the Pod's history rather than its current state.'')\<rparr>
               else
                 d\<lparr>d_PossibleCauses := [
                     ''the application is not listening on the probed port or path yet'',
                     ''the application takes longer to answer than the probe allows'',
                     ''the probe points at a port or path the application does not serve''],
                   d_Suggestions := [Sugg (''Compare the probe's target with what the application actually serves, and check the '' @
        ''container's logs around the failures.'')
                     [logsCommand snap (cn_Name c) False]]\<rparr>)
      in d\<lparr>d_Evidence := d_Evidence d @ (if known then probeEvidence lib kind c else []) @
             [Evid ''event'' ''lastSeen'' (age @ '' ago'') []]\<rparr>)\<close>

text \<open>
  The two nested loops: every Unhealthy event, newest first, with every kind of probe its message
  starts with; of these, the first for each container and kind.
\<close>

definition probe_hits :: "'q pod_snap \<Rightarrow> (event \<times> probe_kind) list" where
  "probe_hits snap =
     concat (map (\<lambda>ev. map (Pair ev) (filter (\<lambda>probe. prefix (pk_prefix probe) (ev_Message ev)) probeKinds))
       (Events_Sort (Events_WithReason [''Unhealthy''] (ps_Events snap))))"

definition probe_key :: "event \<times> probe_kind \<Rightarrow> string \<times> string" where
  "probe_key hit = (Event_Container (fst hit), pk_kind (snd hit))"

text \<open>The map from container names; a later container of the same name replaces an earlier one.\<close>

definition containers_by_name :: "'q pod_snap \<Rightarrow> string \<Rightarrow> 'q container option" where
  "containers_by_name snap = map_of (rev (map (\<lambda>c. (cn_Name c, c)) (Pod_Containers snap)))"

definition probe_finding :: "'q kube_lib \<Rightarrow> 'q pod_snap \<Rightarrow> event \<times> probe_kind \<Rightarrow> diagnosis" where
  "probe_finding lib snap hit =
     (let (ev, probe) = hit in
      case containers_by_name snap (Event_Container ev) of
        Some c \<Rightarrow> probeDiagnosis lib snap ev (pk_kind probe) (pk_id probe) c True
      | None \<Rightarrow> probeDiagnosis lib snap ev (pk_kind probe) (pk_id probe) container0 False)"

definition evaluateProbes :: "'q kube_lib \<Rightarrow> 'q pod_snap \<Rightarrow> diagnosis list" where
  "evaluateProbes lib snap =
     (if Pod_IsTerminal snap then []
      else map (probe_finding lib snap) (first_seen probe_key [] (probe_hits snap)))"

definition probeRule :: "'q kube_lib \<Rightarrow> 'q pod_snap rule" where
  "probeRule lib = RuleFunc \<lparr>m_ID = IDReadinessProbeFailed,
     m_Title = ''A probe is failing'',
     m_Description = (''Reports readiness, liveness and startup probe failures from Unhealthy events, together '' @
        ''with the probe's configuration. The failure message comes from the kubelet; KubeWhy '' @
        ''does not infer why the application answered that way.''),
     m_Emits = [IDReadinessProbeFailed, IDLivenessProbeFailed, IDStartupProbeFailed]\<rparr> (evaluateProbes lib)"

section \<open>Severity and contract\<close>

lemma probeDiagnosis_severity:
  "d_Severity (probeDiagnosis lib snap ev kind ident c known) =
     (if probe_failing_now c known then SeverityCritical
      else if probe_recent snap ev then
        (if kind = ''startup'' \<or> kind = ''liveness'' \<and> Container_Restarts c > 0 then SeverityCritical else SeverityWarning)
      else SeverityInfo)"
  by (simp add: probeDiagnosis_def Let_def cong: finding_cong)

lemma probeDiagnosis_ok:
  assumes "ident \<in> set ids"
  shows "finding_ok ids (probeDiagnosis lib snap ev kind ident c known)"
proof -
  let ?d = "probeDiagnosis lib snap ev kind ident c known"
  have "d_ID ?d = ident" "d_Confidence ?d = ConfidenceCertain" "d_Summary ?d \<noteq> []" "d_Evidence ?d \<noteq> []"
    by (simp_all add: probeDiagnosis_def Let_def cong: finding_cong)
  moreover have "read_only_suggestions (d_Suggestions ?d)"
    by (simp add: probeDiagnosis_def Let_def cong: finding_cong)
  moreover have "known_severity (d_Severity ?d)"
    by (simp add: probeDiagnosis_severity)
  ultimately show ?thesis using assms by (simp add: finding_ok_def)
qed

lemma set_probe_hits:
  "set (probe_hits snap) =
     {(ev, probe). ev \<in> set (ps_Events snap) \<and> ev_Reason ev = ''Unhealthy'' \<and> probe \<in> set probeKinds \<and>
        prefix (pk_prefix probe) (ev_Message ev)}"
  by (auto simp: probe_hits_def Events_WithReason_def)

lemma probe_ids: "probe \<in> set probeKinds \<Longrightarrow> pk_id probe \<in> set [IDReadinessProbeFailed, IDLivenessProbeFailed, IDStartupProbeFailed]"
  by (auto simp: probeKinds_def)

lemma evaluateProbes_ok:
  "findings_ok [IDReadinessProbeFailed, IDLivenessProbeFailed, IDStartupProbeFailed] (evaluateProbes lib snap)"
proof -
  have "finding_ok [IDReadinessProbeFailed, IDLivenessProbeFailed, IDStartupProbeFailed] (probe_finding lib snap hit)"
    if "hit \<in> set (first_seen probe_key [] (probe_hits snap))" for hit
  proof -
    have "hit \<in> set (probe_hits snap)"
      using that by (rule subsetD [OF first_seen_subset])
    then have "pk_id (snd hit) \<in> set [IDReadinessProbeFailed, IDLivenessProbeFailed, IDStartupProbeFailed]"
      using probe_ids [of "snd hit"] by (auto simp: set_probe_hits)
    then show ?thesis
      by (simp add: probe_finding_def probeDiagnosis_ok case_prod_beta split: option.split)
  qed
  then show ?thesis
    by (simp add: evaluateProbes_def findings_ok_def list_all_iff)
qed

section \<open>One finding per container and kind of probe\<close>

text \<open>The probe failures the events record: an Unhealthy event with the kind its message names.\<close>

definition probe_failures :: "'q pod_snap \<Rightarrow> (event \<times> probe_kind) set" where
  "probe_failures snap =
     {(ev, probe). ev \<in> set (ps_Events snap) \<and> ev_Reason ev = ''Unhealthy'' \<and> probe \<in> set probeKinds \<and>
        prefix (pk_prefix probe) (ev_Message ev)}"

lemma concat_hits_ordered:
  fixes ks :: "event \<Rightarrow> 'b list"
  shows "sorted_wrt (\<lambda>a b. ev_LastSeen b \<le> ev_LastSeen a) evs \<Longrightarrow>
   sorted_wrt (\<lambda>h h'. ev_LastSeen (fst h') \<le> ev_LastSeen (fst h)) (concat (map (\<lambda>ev. map (Pair ev) (ks ev)) evs))"
proof (induction evs)
  case (Cons ev evs)
  have "sorted_wrt (\<lambda>h h'. ev_LastSeen (fst h') \<le> ev_LastSeen (fst h)) (map (Pair ev) ks)" for ks :: "'b list"
    by (induction ks) auto
  with Cons show ?case by (auto simp: sorted_wrt_append)
qed simp

lemma probe_hits_ordered:
  "sorted_wrt (\<lambda>h h'. ev_LastSeen (fst h') \<le> ev_LastSeen (fst h)) (probe_hits snap)"
  unfolding probe_hits_def by (rule concat_hits_ordered) (rule Events_Sort_ordered)

lemma first_hit_latest:
  assumes "h \<in> set (first_seen probe_key [] (probe_hits snap))"
    and "h' \<in> set (probe_hits snap)" and "probe_key h' = probe_key h"
  shows "ev_LastSeen (fst h') \<le> ev_LastSeen (fst h)"
proof -
  let ?same = "filter (\<lambda>y. probe_key y = probe_key h) (probe_hits snap)"
  obtain ys where ys: "?same = h # ys" using first_seen_first [OF assms(1)] by blast
  have "sorted_wrt (\<lambda>h h'. ev_LastSeen (fst h') \<le> ev_LastSeen (fst h)) ?same"
    by (rule sorted_wrt_filter) (rule probe_hits_ordered)
  moreover have "h' \<in> set (h # ys)" using assms(2,3) unfolding ys [symmetric] by simp
  ultimately show ?thesis unfolding ys by auto
qed

text \<open>
  C12. For a Pod that has not finished, the probe findings are exactly one per container and kind
  of probe with a recorded failure, and each is made from a most recent failure of its container
  and kind.
\<close>

theorem evaluateProbes_latest:
  assumes "\<not> Pod_IsTerminal snap"
  shows "\<exists>hits. evaluateProbes lib snap = map (probe_finding lib snap) hits \<and>
    distinct (map probe_key hits) \<and> set hits \<subseteq> probe_failures snap \<and>
    probe_key ` set hits = probe_key ` probe_failures snap \<and>
    (\<forall>h\<in>set hits. \<forall>h'\<in>probe_failures snap.
       probe_key h' = probe_key h \<longrightarrow> ev_LastSeen (fst h') \<le> ev_LastSeen (fst h))"
proof -
  have "probe_failures snap = set (probe_hits snap)"
    by (simp add: set_probe_hits probe_failures_def)
  then show ?thesis
    using assms first_seen_distinct [of probe_key "[]" "probe_hits snap"]
      first_seen_keys [of probe_key "[]" "probe_hits snap"]
      first_seen_subset [of probe_key "[]" "probe_hits snap"] first_hit_latest [of _ snap]
    by (intro exI [of _ "first_seen probe_key [] (probe_hits snap)"]) (auto simp: evaluateProbes_def)
qed

definition unhealthy_event :: "gotime \<Rightarrow> event" where
  "unhealthy_event t = \<lparr>ev_Type = ''Warning'', ev_Reason = ''Unhealthy'', ev_Message = ''Liveness probe failed: 503'',
     ev_Count = 1, ev_FirstSeen = t, ev_LastSeen = t, ev_Object = resource_ref0, ev_FieldPath = ''spec.containers{web}''\<rparr>"

definition flaky_pod :: "int pod_snap" where
  "flaky_pod = pod_snap0\<lparr>ps_Events := [unhealthy_event 1, unhealthy_event 2]\<rparr>"

lemma evaluateProbes_latest_witness: "length (evaluateProbes int_lib flaky_pod) = 1"
proof -
  have "\<not> Pod_IsTerminal flaky_pod"
    by (simp add: Pod_IsTerminal_def flaky_pod_def pod_snap0_def pod0_def)
  from evaluateProbes_latest [OF this, of int_lib] obtain hits
    where hits: "evaluateProbes int_lib flaky_pod = map (probe_finding int_lib flaky_pod) hits"
      "distinct (map probe_key hits)" "probe_key ` set hits = probe_key ` probe_failures flaky_pod" by blast
  have "map probe_key (probe_hits flaky_pod) = [(''web'', ''liveness''), (''web'', ''liveness'')]"
    by code_simp
  then have "set (map probe_key (probe_hits flaky_pod)) = {(''web'', ''liveness'')}" by simp
  then have "probe_key ` probe_failures flaky_pod = {(''web'', ''liveness'')}"
    by (simp add: set_probe_hits probe_failures_def)
  with hits(2,3) have "length (map probe_key hits) = card {(''web'', ''liveness'')}"
    by (metis distinct_card list.set_map)
  then show ?thesis by (simp add: hits(1))
qed

end
