(* ===== verification/PodVolumes.thy ===== *)
theory PodVolumes
  imports PodHelpers
begin

text \<open>
  Package \<open>rules/pod\<close>, the rules about what a Pod references: \<open>config.go\<close>, \<open>mount.go\<close>,
  \<open>claim.go\<close> and \<open>node.go\<close>. The lemmas show that an object whose existence is unknown is
  never reported missing and that the findings do not depend on the order in which Go iterates
  over the maps of references.
\<close>

section \<open>ConfigMaps and Secrets\<close>

definition missingNames :: "existence gomap \<Rightarrow> string list" where
  "missingNames refs = sort (map fst (filter (\<lambda>(_, state). state = Missing) refs))"

definition referencesAny :: "string \<Rightarrow> string list \<Rightarrow> bool" where
  "referencesAny msg names \<longleftrightarrow> list_ex (\<lambda>m. list_ex (\<lambda>name. m = name) names) (quoted_names msg)"

definition missingObjectDiagnosis :: "'q pod_snap \<Rightarrow> string \<Rightarrow> string \<Rightarrow> string \<Rightarrow> diagnosis" where
  \<open>missingObjectDiagnosis snap ident kind name =
     diagnosis0\<lparr>d_ID := ident, d_Subject := Pod_Ref snap, d_Severity := SeverityCritical,
       d_Confidence := ConfidenceCertain,
       d_Summary := (kind @ '' '' @ quote_str name @ '' does not exist but the Pod requires it''),
       d_Explanation := (''The Pod references '' @ kind @ '' '' @ quote_str name @
        '' without marking it optional, so no container can start until it exists. The API server '' @
        ''reports that it is not present in namespace '' @
        quote_str (pod_Namespace (ps_Pod snap)) @ ''.''),
       d_Evidence := [Evid ''api'' (str_ToLower kind @ ''/'' @ name) ''NotFound'' []],
       d_Suggestions := [Sugg (''Create the '' @ kind @
        '', or fix the reference in the Pod template if the name changed.'')
         [(''kubectl get '' @ (str_ToLower kind) @ '' -n '' @ (pod_Namespace (ps_Pod snap)))]]\<rparr>\<close>

definition config_error_cause :: "string \<Rightarrow> string list \<Rightarrow> string list \<Rightarrow> string" where
  "config_error_cause msg missingConfigMaps missingSecrets =
     (if referencesAny msg missingConfigMaps then IDMissingConfigMap
      else if referencesAny msg missingSecrets then IDMissingSecret
      else if missingConfigMaps \<noteq> [] then IDMissingConfigMap
      else if missingSecrets \<noteq> [] then IDMissingSecret
      else [])"

definition config_error_container ::
  "'q pod_snap \<Rightarrow> string list \<Rightarrow> string list \<Rightarrow> 'q container \<Rightarrow> diagnosis list" where
  \<open>config_error_container snap missingConfigMaps missingSecrets c =
     (case Container_Waiting c of
        None \<Rightarrow> []
      | Some w \<Rightarrow>
         (if w_Reason w \<noteq> ''CreateContainerConfigError'' \<and> w_Reason w \<noteq> ''CreateContainerError'' then []
          else
            [diagnosis0\<lparr>d_ID := IDCreateContainerConfigErr, d_Subject := Pod_Ref snap, d_Component := cn_Name c,
               d_Severity := SeverityCritical, d_Confidence := ConfidenceCertain,
               d_Summary := ((capitalize (Container_Kind c)) @ '' '' @ quote_str (cn_Name c) @
        '' cannot be created from its configuration''),
               d_Explanation := (''The kubelet could not build the container because part of the configuration it '' @
        ''references is not usable. The message below is the kubelet's own.''),
               d_Evidence := containerEvidence c,
               d_Suggestions := [Sugg (''Check the ConfigMaps, Secrets and keys the container references against what exists in '' @
        ''the namespace.'')
                 [(''kubectl get configmap,secret -n '' @ (pod_Namespace (ps_Pod snap)))]],
               d_CausedBy := config_error_cause (w_Message w) missingConfigMaps missingSecrets\<rparr>]))\<close>

definition evaluateConfigRefs :: "'q pod_snap \<Rightarrow> diagnosis list" where
  "evaluateConfigRefs snap =
     (let missingConfigMaps = missingNames (ps_ConfigMaps snap);
          missingSecrets = missingNames (ps_Secrets snap)
      in map (missingObjectDiagnosis snap IDMissingConfigMap ''ConfigMap'') missingConfigMaps @
         map (missingObjectDiagnosis snap IDMissingSecret ''Secret'') missingSecrets @
         concat (map (config_error_container snap missingConfigMaps missingSecrets) (Pod_Containers snap)))"

definition configRefRule :: "'q pod_snap rule" where
  "configRefRule = RuleFunc \<lparr>m_ID = IDMissingConfigMap,
     m_Title = ''Referenced ConfigMap or Secret does not exist'',
     m_Description = (''Reports ConfigMaps and Secrets a Pod requires that the API server says do not exist, '' @
        ''and the container configuration errors they cause. Secret existence is checked through '' @
        ''a metadata-only request, so Secret contents are never read.''),
     m_Emits = [IDMissingConfigMap, IDMissingSecret, IDCreateContainerConfigErr]\<rparr> evaluateConfigRefs"

section \<open>Mounts\<close>

definition anyContainerWaiting :: "'q pod_snap \<Rightarrow> bool" where
  "anyContainerWaiting snap \<longleftrightarrow> list_ex (\<lambda>c. Container_Waiting c \<noteq> None) (Pod_Containers snap)"

definition quotedAfter :: "string \<Rightarrow> string \<Rightarrow> string" where
  "quotedAfter msg keyword =
     (case str_Index (str_ToLower msg) (str_ToLower keyword) of
        None \<Rightarrow> []
      | Some idx \<Rightarrow> (case quoted_names (drop (idx + length keyword) msg) of [] \<Rightarrow> [] | m # _ \<Rightarrow> m))"

definition mount_cause :: "'q pod_snap \<Rightarrow> string" where
  "mount_cause snap =
     (if missingNames (ps_ConfigMaps snap) \<noteq> [] then IDMissingConfigMap
      else if missingNames (ps_Secrets snap) \<noteq> [] then IDMissingSecret
      else foldl (\<lambda>caused (_, claim). if pr_Exists claim = Missing then IDPVCNotFound else caused) [] (ps_PVCs snap))"

definition mount_causes :: "'q pod_snap \<Rightarrow> string \<Rightarrow> string list" where
  \<open>mount_causes snap msg =
     (let has = str_Contains (str_ToLower msg) in
      if has ''timed out waiting for the condition'' \<or> has ''timeout expired'' then
        [''the volume is still attached to another node and has not been released'',
         ''the storage backend did not answer the attach or mount request in time'']
      else if has ''not found'' then
        [(''an object the volume references does not exist in namespace '' @
        quote_str (pod_Namespace (ps_Pod snap)))]
      else [])\<close>

definition evaluateMounts :: "'q pod_snap \<Rightarrow> diagnosis list" where
  "evaluateMounts snap =
     (if Pod_IsTerminal snap then []
      else
       (case Events_Latest [''FailedMount'', ''FailedAttachVolume''] (ps_Events snap) of
          None \<Rightarrow> []
        | Some ev \<Rightarrow>
           (if \<not> anyContainerWaiting snap then []
            else
             (let volume = quotedAfter (ev_Message ev) ''volume''
              in [diagnosis0\<lparr>d_ID := IDFailedMount, d_Subject := Pod_Ref snap, d_Severity := SeverityCritical,
                    d_Confidence := ConfidenceCertain,
                    d_Summary := ''The kubelet could not mount a volume the Pod needs'',
                    d_Explanation := (''A container cannot start until every volume it mounts is available. The message below '' @
        ''is what the kubelet reported.''),
                    d_Evidence := [eventEvidence ev] @
                      (if volume \<noteq> [] then [Evid ''event'' ''volume'' volume []] else []),
                    d_Suggestions := [Sugg ''Check that every object the Pod's volumes reference exists and is usable from this node.'' []],
                    d_CausedBy := mount_cause snap,
                    d_PossibleCauses := mount_causes snap (ev_Message ev)\<rparr>]))))"

definition mountRule :: "'q pod_snap rule" where
  "mountRule = RuleFunc \<lparr>m_ID = IDFailedMount,
     m_Title = ''A volume could not be mounted'',
     m_Description = (''Reports FailedMount and FailedAttachVolume events and links them to the missing object '' @
        ''when KubeWhy could confirm one.''),
     m_Emits = []\<rparr> evaluateMounts"

section \<open>Claims\<close>

definition claim_ref :: "'q pod_snap \<Rightarrow> string \<Rightarrow> resource_ref" where
  "claim_ref snap name =
     \<lparr>ref_Kind = ''PersistentVolumeClaim'', ref_Namespace = pod_Namespace (ps_Pod snap), ref_Name = name\<rparr>"

definition unboundClaimDiagnosis :: "'q pod_snap \<Rightarrow> pvc_ref \<Rightarrow> diagnosis" where
  \<open>unboundClaimDiagnosis snap claim =
     (let d = diagnosis0\<lparr>d_ID := IDPVCNotBound, d_Subject := claim_ref snap (pr_Name claim),
            d_Severity := SeverityCritical, d_Confidence := ConfidenceCertain,
            d_Summary := (''PersistentVolumeClaim '' @ quote_str (pr_Name claim) @ '' is '' @
        (phaseOrUnknown (pr_Phase claim)) @ '', not Bound''),
            d_Explanation := (''A Pod cannot run before every claim it mounts is bound to a volume. Until this claim '' @
        ''binds, the Pod stays where it is.''),
            d_Evidence := [Evid ''persistentVolumeClaim'' ''status.phase'' (phaseOrUnknown (pr_Phase claim)) []] @
              (if pr_StorageClass claim \<noteq> []
               then [Evid ''persistentVolumeClaim'' ''spec.storageClassName'' (pr_StorageClass claim) []] else []),
            d_Suggestions := [Sugg (''Ask KubeWhy about the claim itself; its events explain why provisioning has not '' @
        ''completed.'')
              [(''kubectl why pvc '' @ (pr_Name claim) @ '' -n '' @ (pod_Namespace (ps_Pod snap)))]]\<rparr>
      in if PVCRef_WaitsForConsumer claim then
           d\<lparr>d_Severity := SeverityInfo,
             d_Confidence := ConfidenceCertain,
             d_Summary := (''PersistentVolumeClaim '' @ quote_str (pr_Name claim) @
        '' is waiting for the Pod to be scheduled before it binds''),
             d_Explanation := (''Storage class '' @ quote_str (pr_StorageClass claim) @
        '' uses volumeBindingMode WaitForFirstConsumer, so the claim binds only once the '' @
        ''scheduler picks a node for this Pod. A Pending claim here is expected, and the reason '' @
        ''the Pod is not scheduled lies elsewhere.''),
             d_Evidence := d_Evidence d @ [Evid ''storageClass'' ''volumeBindingMode'' (pr_BindingMode claim) []],
             d_Suggestions := []\<rparr>
         else d)\<close>

definition missing_claim_diagnosis :: "'q pod_snap \<Rightarrow> string \<Rightarrow> diagnosis" where
  \<open>missing_claim_diagnosis snap name =
     diagnosis0\<lparr>d_ID := IDPVCNotFound, d_Subject := claim_ref snap name,
       d_Severity := SeverityCritical, d_Confidence := ConfidenceCertain,
       d_Summary := (''PersistentVolumeClaim '' @ quote_str name @ '' does not exist''),
       d_Explanation := (''The Pod mounts a claim that is not present in the namespace, so it cannot be scheduled '' @
        ''or started until the claim exists.''),
       d_Evidence := [Evid ''api'' (''persistentvolumeclaim/'' @ name) ''NotFound'' []],
       d_Suggestions := [Sugg ''Create the claim, or correct the claim name in the Pod's volumes.''
         [(''kubectl get pvc -n '' @ (pod_Namespace (ps_Pod snap)))]]\<rparr>\<close>

text \<open>The lookup of a name taken from the map's own keys always succeeds.\<close>

definition claim_findings :: "'q pod_snap \<Rightarrow> string \<Rightarrow> diagnosis list" where
  "claim_findings snap name =
     (case map_of (ps_PVCs snap) name of
        None \<Rightarrow> []
      | Some claim \<Rightarrow>
         (if pr_Exists claim = Missing then [missing_claim_diagnosis snap name]
          else if pr_Exists claim = Found \<and> pr_Phase claim \<noteq> ''Bound'' then [unboundClaimDiagnosis snap claim]
          else []))"

definition evaluateClaims :: "'q pod_snap \<Rightarrow> diagnosis list" where
  "evaluateClaims snap =
     (if Pod_IsTerminal snap then []
      else concat (map (claim_findings snap) (sort (map fst (ps_PVCs snap)))))"

definition claimRule :: "'q pod_snap rule" where
  "claimRule = RuleFunc \<lparr>m_ID = IDPVCNotBound,
     m_Title = ''A claim the Pod mounts is not usable'',
     m_Description = (''Reports PersistentVolumeClaims a Pod mounts that do not exist or have not bound. A '' @
        ''claim whose storage class binds on first consumer is reported as expected behaviour '' @
        ''rather than as a fault.''),
     m_Emits = [IDPVCNotBound, IDPVCNotFound]\<rparr> evaluateClaims"

section \<open>The node\<close>

definition evaluateNode :: "'q pod_snap \<Rightarrow> diagnosis list" where
  \<open>evaluateNode snap =
     (case ps_Node snap of
        None \<Rightarrow> []
      | Some node \<Rightarrow>
         (if Pod_IsTerminal snap then []
          else
           (case find_condition ''Ready'' (node_Conditions node) of
              None \<Rightarrow> []
            | Some ready \<Rightarrow>
               (if cond_Status ready = ''True'' then []
                else
                  [diagnosis0\<lparr>d_ID := IDNodeNotReady,
                     d_Subject := \<lparr>ref_Kind = ''Node'', ref_Namespace = [], ref_Name = node_Name node\<rparr>,
                     d_Severity := SeverityCritical, d_Confidence := ConfidenceCertain,
                     d_Summary := (''Node '' @ quote_str (node_Name node) @ '' is not Ready, and this Pod is bound to it''),
                     d_Explanation := (''When a node stops reporting Ready, the kubelet on it is no longer updating the Pods it '' @
        ''runs. Their status then reflects the last thing the control plane heard, not what is '' @
        ''happening now.''),
                     d_Evidence := [Evid ''node'' ''conditions.Ready'' (cond_Status ready) [],
                       Evid ''node'' ''conditions.Ready.reason'' (cond_Reason ready) (go_truncate (cond_Message ready) 200)],
                     d_PossibleCauses := [''the kubelet on that node stopped reporting to the control plane'',
                       ''the node lost network connectivity or was shut down''],
                     d_Suggestions := [Sugg (''Look at the node itself; a Pod on an unready node cannot be diagnosed further from the '' @
        ''Pod's own status.'')
                       [(''kubectl describe node '' @ (node_Name node))]]\<rparr>]))))\<close>

definition nodeRule :: "'q pod_snap rule" where
  "nodeRule = RuleFunc \<lparr>m_ID = IDNodeNotReady,
     m_Title = ''The Pod's node is not ready'',
     m_Description = (''Reports that the node a Pod is bound to does not report Ready, which explains a Pod '' @
        ''whose status has stopped changing.''),
     m_Emits = []\<rparr> evaluateNode"

section \<open>The contract of the rules\<close>

lemma missingObjectDiagnosis_ok: "ident \<in> set ids \<Longrightarrow> finding_ok ids (missingObjectDiagnosis snap ident kind name)"
  by (simp add: missingObjectDiagnosis_def finding_ok_def finding_simps cong: finding_cong)

lemma config_error_container_ok: "findings_ok [IDCreateContainerConfigErr] (config_error_container snap cms secs c)"
proof -
  have "Container_Waiting c = Some w \<Longrightarrow> w_Reason w \<noteq> [] \<Longrightarrow> containerEvidence c \<noteq> []" for w
    by (rule containerEvidence_not_Nil) auto
  then show ?thesis
    by (auto simp: config_error_container_def finding_ok_def finding_simps cong: finding_cong split: option.split)
qed

lemma evaluateConfigRefs_ok:
  "findings_ok [IDMissingConfigMap, IDMissingSecret, IDCreateContainerConfigErr] (evaluateConfigRefs snap)"
proof -
  have "findings_ok [IDMissingConfigMap, IDMissingSecret, IDCreateContainerConfigErr]
          (concat (map (config_error_container snap cms secs) (Pod_Containers snap)))" for cms secs
    by (intro findings_ok_concat findings_ok_mono [OF config_error_container_ok]) simp
  then show ?thesis
    by (simp add: evaluateConfigRefs_def Let_def findings_ok_def [of _ "map f xs" for f xs]
        list_all_iff missingObjectDiagnosis_ok)
qed

lemma evaluateMounts_ok: "findings_ok [IDFailedMount] (evaluateMounts snap)"
  by (simp add: evaluateMounts_def Let_def finding_ok_def cong: finding_cong split: option.split)

lemma unboundClaimDiagnosis_ok: "IDPVCNotBound \<in> set ids \<Longrightarrow> finding_ok ids (unboundClaimDiagnosis snap claim)"
  by (simp add: unboundClaimDiagnosis_def Let_def finding_ok_def finding_simps cong: finding_cong)

lemma missing_claim_diagnosis_ok: "IDPVCNotFound \<in> set ids \<Longrightarrow> finding_ok ids (missing_claim_diagnosis snap name)"
  by (simp add: missing_claim_diagnosis_def finding_ok_def finding_simps cong: finding_cong)

lemma claim_findings_ok: "findings_ok [IDPVCNotBound, IDPVCNotFound] (claim_findings snap name)"
  by (simp add: claim_findings_def unboundClaimDiagnosis_ok missing_claim_diagnosis_ok split: option.split)

lemma evaluateClaims_ok: "findings_ok [IDPVCNotBound, IDPVCNotFound] (evaluateClaims snap)"
  by (simp add: evaluateClaims_def findings_ok_concat claim_findings_ok)

lemma evaluateNode_ok: "findings_ok [IDNodeNotReady] (evaluateNode snap)"
  by (simp add: evaluateNode_def finding_ok_def finding_simps cong: finding_cong split: option.split)

section \<open>Confirmed absence\<close>

lemma set_missingNames [simp]: "set (missingNames refs) = {name. (name, Missing) \<in> set refs}"
  by (auto simp: missingNames_def image_iff)

lemma missing_simps [simp]:
  "d_ID (missingObjectDiagnosis snap ident kind name) = ident"
  "d_ID (missing_claim_diagnosis snap name) = IDPVCNotFound"
  "d_ID (unboundClaimDiagnosis snap claim) = IDPVCNotBound"
  by (simp_all add: missingObjectDiagnosis_def missing_claim_diagnosis_def unboundClaimDiagnosis_def Let_def
      cong: finding_cong)

lemma config_error_container_ID:
  "d \<in> set (config_error_container snap cms secs c) \<Longrightarrow> d_ID d = IDCreateContainerConfigErr"
  using findings_okD [OF config_error_container_ok] by (fastforce simp: finding_ok_def)

lemma set_evaluateConfigRefs:
  "set (evaluateConfigRefs snap) =
     missingObjectDiagnosis snap IDMissingConfigMap ''ConfigMap'' ` {name. (name, Missing) \<in> set (ps_ConfigMaps snap)} \<union>
     missingObjectDiagnosis snap IDMissingSecret ''Secret'' ` {name. (name, Missing) \<in> set (ps_Secrets snap)} \<union>
     (\<Union>c\<in>set (Pod_Containers snap). set (config_error_container snap
        (missingNames (ps_ConfigMaps snap)) (missingNames (ps_Secrets snap)) c))"
  by (simp add: evaluateConfigRefs_def Let_def Un_assoc)

text \<open>
  C9. A ConfigMap or Secret is reported missing exactly when the API server confirmed that it does
  not exist, for every Pod, finished ones included. A claim is reported missing exactly when the
  server confirmed that and the Pod has not finished: the claims of a Pod that succeeded or
  failed are not looked at, so nothing is reported about them. An object whose existence could
  not be established is never reported missing.
\<close>

theorem absence_confirmed:
  assumes "gomap_ok (ps_PVCs snap)"
  shows "{d \<in> set (evaluateConfigRefs snap). d_ID d = IDMissingConfigMap} =
           missingObjectDiagnosis snap IDMissingConfigMap ''ConfigMap'' ` {name. (name, Missing) \<in> set (ps_ConfigMaps snap)} \<and>
         {d \<in> set (evaluateConfigRefs snap). d_ID d = IDMissingSecret} =
           missingObjectDiagnosis snap IDMissingSecret ''Secret'' ` {name. (name, Missing) \<in> set (ps_Secrets snap)} \<and>
         {d \<in> set (evaluateClaims snap). d_ID d = IDPVCNotFound} =
           (if Pod_IsTerminal snap then {}
            else missing_claim_diagnosis snap ` {name. \<exists>claim. (name, claim) \<in> set (ps_PVCs snap) \<and> pr_Exists claim = Missing})"
proof (intro conjI)
  have ids: "IDMissingConfigMap \<noteq> IDMissingSecret" "IDCreateContainerConfigErr \<noteq> IDMissingConfigMap"
    "IDCreateContainerConfigErr \<noteq> IDMissingSecret" "IDPVCNotBound \<noteq> IDPVCNotFound"
    by (simp_all add: pod_ID_defs)
  show "{d \<in> set (evaluateConfigRefs snap). d_ID d = IDMissingConfigMap} =
      missingObjectDiagnosis snap IDMissingConfigMap ''ConfigMap'' ` {name. (name, Missing) \<in> set (ps_ConfigMaps snap)}"
    using ids config_error_container_ID by (fastforce simp: set_evaluateConfigRefs)
  show "{d \<in> set (evaluateConfigRefs snap). d_ID d = IDMissingSecret} =
      missingObjectDiagnosis snap IDMissingSecret ''Secret'' ` {name. (name, Missing) \<in> set (ps_Secrets snap)}"
    using ids config_error_container_ID by (fastforce simp: set_evaluateConfigRefs)
  have lookup: "map_of (ps_PVCs snap) name = Some claim \<longleftrightarrow> (name, claim) \<in> set (ps_PVCs snap)" for name claim
    using assms by (simp add: gomap_ok_def)
  have "{d \<in> set (claim_findings snap name). d_ID d = IDPVCNotFound} =
      (if \<exists>claim. (name, claim) \<in> set (ps_PVCs snap) \<and> pr_Exists claim = Missing
       then {missing_claim_diagnosis snap name} else {})" for name
    using ids by (auto simp: claim_findings_def lookup [symmetric] split: option.splits)
  moreover have "{d \<in> set (evaluateClaims snap). d_ID d = IDPVCNotFound} =
      (\<Union>name\<in>fst ` set (ps_PVCs snap). {d \<in> set (claim_findings snap name). d_ID d = IDPVCNotFound})"
    if "\<not> Pod_IsTerminal snap"
    using that by (auto simp: evaluateClaims_def)
  ultimately have open_pod: "{d \<in> set (evaluateClaims snap). d_ID d = IDPVCNotFound} =
      missing_claim_diagnosis snap ` {name. \<exists>claim. (name, claim) \<in> set (ps_PVCs snap) \<and> pr_Exists claim = Missing}"
    if "\<not> Pod_IsTerminal snap"
    using that by (auto simp: image_iff) force+
  show "{d \<in> set (evaluateClaims snap). d_ID d = IDPVCNotFound} =
      (if Pod_IsTerminal snap then {}
       else missing_claim_diagnosis snap ` {name. \<exists>claim. (name, claim) \<in> set (ps_PVCs snap) \<and> pr_Exists claim = Missing})"
    using open_pod by (simp add: evaluateClaims_def [of snap])
qed

definition config_pod :: "int pod_snap" where
  "config_pod = pod_snap0\<lparr>ps_ConfigMaps := [(''a'', Missing), (''b'', Unknown)]\<rparr>"

lemma absence_confirmed_witness:
  "{d \<in> set (evaluateConfigRefs config_pod). d_ID d = IDMissingConfigMap} =
     {missingObjectDiagnosis config_pod IDMissingConfigMap ''ConfigMap'' ''a''}"
proof -
  have "gomap_ok (ps_PVCs config_pod)" by (simp add: config_pod_def pod_snap0_def gomap_ok_def)
  moreover have "{name. (name, Missing) \<in> set (ps_ConfigMaps config_pod)} = {''a''}"
    by (simp add: config_pod_def)
  ultimately show ?thesis using absence_confirmed [of config_pod] by simp
qed

section \<open>Independence of the iteration order\<close>

lemma missingNames_perm: "mset refs = mset refs' \<Longrightarrow> missingNames refs = missingNames refs'"
  unfolding missingNames_def by (intro sort_cong_mset) simp

lemma missing_claims_fold:
  "foldl (\<lambda>caused (_, claim). if pr_Exists claim = Missing then IDPVCNotFound else caused) acc claims =
     (if \<exists>x\<in>set claims. pr_Exists (snd x) = Missing then IDPVCNotFound else acc)"
  by (induction claims arbitrary: acc) auto

lemma mount_cause_eq:
  "mount_cause snap =
     (if missingNames (ps_ConfigMaps snap) \<noteq> [] then IDMissingConfigMap
      else if missingNames (ps_Secrets snap) \<noteq> [] then IDMissingSecret
      else if \<exists>x\<in>set (ps_PVCs snap). pr_Exists (snd x) = Missing then IDPVCNotFound else [])"
  by (simp add: mount_cause_def missing_claims_fold)

text \<open>
  C38. The findings about ConfigMaps, Secrets, mounts and claims do not depend on the order in
  which Go iterates over the maps of references: two snapshots that differ in that order only
  have the same findings in the same order.
\<close>

theorem volume_rules_deterministic:
  assumes "gomap_ok (ps_PVCs snap)"
    and "mset cms = mset (ps_ConfigMaps snap)" and "mset secs = mset (ps_Secrets snap)"
    and "mset pvcs = mset (ps_PVCs snap)"
    and "snap' = snap\<lparr>ps_ConfigMaps := cms, ps_Secrets := secs, ps_PVCs := pvcs\<rparr>"
  shows "evaluateConfigRefs snap' = evaluateConfigRefs snap \<and> evaluateMounts snap' = evaluateMounts snap \<and>
    evaluateClaims snap' = evaluateClaims snap"
proof -
  have frame: "Pod_Containers snap' = Pod_Containers snap" "Pod_IsTerminal snap' = Pod_IsTerminal snap"
    "ps_Pod snap' = ps_Pod snap" "ps_Events snap' = ps_Events snap" "Pod_Ref snap' = Pod_Ref snap"
    by (simp_all add: assms(5) Pod_Containers_def Pod_IsTerminal_def Pod_Ref_def)
  have missing: "missingNames (ps_ConfigMaps snap') = missingNames (ps_ConfigMaps snap)"
    "missingNames (ps_Secrets snap') = missingNames (ps_Secrets snap)"
    using missingNames_perm [OF assms(2)] missingNames_perm [OF assms(3)] by (simp_all add: assms(5))
  have claims: "map_of (ps_PVCs snap') = map_of (ps_PVCs snap)" "set (ps_PVCs snap') = set (ps_PVCs snap)"
    "sort (map fst (ps_PVCs snap')) = sort (map fst (ps_PVCs snap))"
    using map_of_perm [OF assms(1) assms(4) [symmetric]] mset_eq_setD [OF assms(4)]
      sort_cong_mset [of "map fst pvcs" "map fst (ps_PVCs snap)"] assms(4)
    by (simp_all add: assms(5))
  have "missingObjectDiagnosis snap' = missingObjectDiagnosis snap"
    by (intro ext) (simp only: missingObjectDiagnosis_def frame)
  moreover have "config_error_container snap' = config_error_container snap"
    by (intro ext) (simp only: config_error_container_def frame)
  ultimately have "evaluateConfigRefs snap' = evaluateConfigRefs snap"
    by (simp only: evaluateConfigRefs_def frame missing)
  moreover have "claim_findings snap' = claim_findings snap"
    by (intro ext) (simp only: claim_findings_def missing_claim_diagnosis_def unboundClaimDiagnosis_def
        claim_ref_def frame claims)
  then have "evaluateClaims snap' = evaluateClaims snap"
    by (simp only: evaluateClaims_def frame claims)
  moreover have "evaluateMounts snap' = evaluateMounts snap"
    by (simp only: evaluateMounts_def mount_cause_eq mount_causes_def anyContainerWaiting_def frame missing claims)
  ultimately show ?thesis by blast
qed

lemma volume_rules_deterministic_witness:
  "evaluateConfigRefs (config_pod\<lparr>ps_ConfigMaps := [(''b'', Unknown), (''a'', Missing)]\<rparr>) = evaluateConfigRefs config_pod"
  using volume_rules_deterministic [of config_pod "[(''b'', Unknown), (''a'', Missing)]" "[]" "[]"
      "config_pod\<lparr>ps_ConfigMaps := [(''b'', Unknown), (''a'', Missing)]\<rparr>"]
  by (simp add: config_pod_def pod_snap0_def gomap_ok_def)

end
