(* ===== verification/PodRules.thy ===== *)
theory PodRules
  imports PodContainers PodImages PodScheduling PodProbes PodVolumes
begin

text \<open>
  Package \<open>rules/pod\<close>, \<open>pod.go\<close> and \<open>fallback.go\<close>: the Pod rule set and its catalog, the
  finding for a Pod nothing explains, and the aggregation over several Pods. The rule set is an
  instance of the locale \<open>rule_set\<close>, from which every consumer of Pod findings gets their
  contract.
\<close>

section \<open>The rule set\<close>

definition pod_Rules :: "'q kube_lib \<Rightarrow> 'q pod_snap rule list" where
  "pod_Rules lib =
     [oomKilledRule lib, crashLoopRule, terminatedErrorRule, imagePullRule, schedulingRule lib,
      probeRule lib, configRefRule, mountRule, claimRule, nodeRule, restartHistoryRule]"

definition pod_Catalog :: "'q kube_lib \<Rightarrow> rule_meta list" where
  "pod_Catalog lib = map rule_Metadata (pod_Rules lib)"

section \<open>The fallback\<close>

definition podIsReady :: "'q pod_snap \<Rightarrow> bool" where
  "podIsReady snap \<longleftrightarrow>
     pod_Phase (ps_Pod snap) = ''Running'' \<and>
     (case Pod_Condition snap ''Ready'' of None \<Rightarrow> False | Some c \<Rightarrow> cond_Status c = ''True'')"

definition containerStateText :: "'q container \<Rightarrow> string" where
  "containerStateText c =
     (case cn_Status c of
        None \<Rightarrow> ''no status reported''
      | Some s \<Rightarrow>
         (case cs_Waiting s of
            Some w \<Rightarrow> ''Waiting ('' @ orUnset (w_Reason w) @ '')''
          | None \<Rightarrow>
         (case cs_Terminated s of
            Some t \<Rightarrow> (''Terminated ('' @ (orUnset (t_Reason t)) @ '', exit '' @ int_str (t_ExitCode t) @ '')'')
          | None \<Rightarrow>
             (if cs_Running s \<noteq> None \<and> \<not> cs_Ready s then ''Running, not ready''
              else if cs_Running s \<noteq> None then []
              else ''not started''))))"

definition ContainerState :: "'q container \<Rightarrow> string" where
  "ContainerState c = (let state = containerStateText c in if state \<noteq> [] then state else ''Ready'')"

definition fallback_summary :: "'q pod_snap \<Rightarrow> string" where
  "fallback_summary snap =
     (case pod_DeletionTimestamp (ps_Pod snap) of
        Some t \<Rightarrow> (''The Pod has been terminating for '' @ (format_Duration (time_Sub (ps_Now snap) t)))
      | None \<Rightarrow>
         (if pod_Phase (ps_Pod snap) = ''Pending''
          then (''The Pod has been Pending for '' @ (format_Duration (Pod_Age snap)) @
        '', and Kubernetes does not report a specific cause'')
          else ''The Pod is not ready, and Kubernetes does not report a specific cause''))"

definition fallback_condition_evidence :: "k_condition \<Rightarrow> evidence" where
  "fallback_condition_evidence cond =
     Evid ''condition'' (cond_Type cond) ((cond_Status cond) @ '' ('' @ (orUnset (cond_Reason cond)) @ '')'')
       (go_truncate (cond_Message cond) 200)"

definition Fallback :: "'q pod_snap \<Rightarrow> diagnosis list" where
  "Fallback snap =
     (if Pod_IsTerminal snap \<or> podIsReady snap then []
      else
        [diagnosis0\<lparr>d_ID := IDNotReadyUnexplained, d_Subject := Pod_Ref snap,
           d_Severity := SeverityWarning, d_Confidence := ConfidenceCertain,
           d_Summary := fallback_summary snap,
           d_Explanation := (if Pod_IsDeleting snap
             then (''The Pod is being deleted. A Pod that stays in this state is usually waiting for a '' @
        ''container to stop or for a volume to be released.'')
             else (''KubeWhy found no evidence in the Pod's status, conditions or events that identifies a '' @
        ''cause. This is what Kubernetes currently reports; the application's own logs are the '' @
        ''next place to look.'')),
           d_Evidence := [Evid ''podStatus'' ''phase'' (pod_Phase (ps_Pod snap)) []] @
             concat (map (\<lambda>c. let state = containerStateText c in
               if state \<noteq> [] then [Evid ''containerStatus'' (cn_Name c) state []] else []) (Pod_Containers snap)) @
             map fallback_condition_evidence
               (filter (\<lambda>c. cond_Status c \<noteq> ''True'') (pod_Conditions (ps_Pod snap))) @
             map eventEvidence (Events_Warnings (ps_Events snap)),
           d_Suggestions := [Sugg (''Look at the containers' logs and at the full object; KubeWhy shows only what it can '' @
        ''interpret.'')
             [logsCommand snap [] False,
              (''kubectl describe pod '' @ (pod_Name (ps_Pod snap)) @ '' -n '' @
        (pod_Namespace (ps_Pod snap)))]]\<rparr>])"

definition FallbackMeta :: rule_meta where
  "FallbackMeta = \<lparr>m_ID = IDNotReadyUnexplained,
     m_Title = ''The Pod is not ready and nothing explains why (fallback)'',
     m_Description = (''Produced only when every rule stayed silent. It reports the observed phase, container '' @
        ''states, failing conditions and warning events without naming a cause.''),
     m_Emits = []\<rparr>"

section \<open>Several Pods\<close>

text \<open>One iteration: the findings of the rules, or of the fallback when there are none.\<close>

definition pod_findings :: "'q kube_lib \<Rightarrow> gocontext \<Rightarrow> 'q pod_snap \<Rightarrow> diagnosis list \<times> gocontext" where
  "pod_findings lib ctx pod =
     (let (found, ctx') = Evaluate ctx (pod_Rules lib) pod in
      (if found = [] then Fallback pod else found, ctx'))"

fun aggregated_loop ::
  "'q kube_lib \<Rightarrow> gocontext \<Rightarrow> 'q pod_snap list \<Rightarrow> diagnosis list \<Rightarrow> diagnosis list \<times> gocontext" where
  "aggregated_loop lib ctx [] out = (out, ctx)"
| "aggregated_loop lib ctx (pod # pods) out =
     (let (found, ctx') = pod_findings lib ctx pod in aggregated_loop lib ctx' pods (out @ found))"

definition Aggregated :: "'q kube_lib \<Rightarrow> gocontext \<Rightarrow> 'q pod_snap list \<Rightarrow> diagnosis list \<times> gocontext" where
  "Aggregated lib ctx pods =
     (if pods = [] then ([], ctx)
      else (let (out, ctx') = aggregated_loop lib ctx pods [] in (AggregateByRule out (int (length pods)), ctx')))"

section \<open>The contract\<close>

lemmas pod_rule_defs =
  oomKilledRule_def crashLoopRule_def terminatedErrorRule_def imagePullRule_def schedulingRule_def
  probeRule_def configRefRule_def mountRule_def claimRule_def nodeRule_def restartHistoryRule_def

lemmas pod_rule_contracts =
  evaluateOOM_ok evaluateCrashLoop_ok evaluateTerminated_ok evaluateImagePull_ok evaluateScheduling_ok
  evaluateProbes_ok evaluateConfigRefs_ok evaluateMounts_ok evaluateClaims_ok evaluateNode_ok
  evaluateRestartHistory_ok

interpretation pod: rule_set "pod_Rules lib" for lib
  by unfold_locales (simp only: pod_Rules_def pod_rule_defs pod_rule_contracts rule_contract_simps)

definition pod_ids :: "string list" where
  "pod_ids = [IDOOMKilled, IDCrashLoop, IDInitContainerFailed, IDContainerTerminatedError, IDInitContainerFailed,
     IDEvicted, IDImagePullFailed, IDUnschedulable, IDUnschedulableCPU, IDUnschedulableMemory, IDUntoleratedTaint,
     IDUnschedulableAffinity, IDUnschedulableVolume, IDSchedulingGated, IDReadinessProbeFailed, IDLivenessProbeFailed,
     IDStartupProbeFailed, IDMissingConfigMap, IDMissingSecret, IDCreateContainerConfigErr, IDFailedMount,
     IDPVCNotBound, IDPVCNotFound, IDNodeNotReady, IDRestarted]"

lemma rule_set_ids_pod: "rule_set_ids (pod_Rules lib) = pod_ids"
  by (simp only: rule_set_ids_def pod_Rules_def pod_rule_defs rule.simps rule_meta_IDs_def rule_meta.simps
      list.map concat.simps append.simps if_True if_False list.distinct simp_thms pod_ids_def)

lemma Fallback_ok: "findings_ok [IDNotReadyUnexplained] (Fallback snap)"
proof -
  have "fallback_summary snap \<noteq> []"
    by (simp add: fallback_summary_def split: option.split)
  then show ?thesis
    by (simp add: Fallback_def finding_ok_def finding_simps logsCommand_def cong: finding_cong)
qed

lemma Fallback_Nil_iff: "Fallback snap = [] \<longleftrightarrow> Pod_IsTerminal snap \<or> podIsReady snap"
  by (simp add: Fallback_def)

lemma pod_findings_ok: "findings_ok (IDNotReadyUnexplained # pod_ids) (fst (pod_findings lib ctx p))"
proof -
  have "findings_ok pod_ids (fst (Evaluate ctx (pod_Rules lib) p))"
    using pod.Evaluate_ok [of _ ctx lib p] by (simp add: findings_ok_def list_all_iff rule_set_ids_pod)
  then have "findings_ok (IDNotReadyUnexplained # pod_ids) (fst (Evaluate ctx (pod_Rules lib) p))"
    by (rule findings_ok_mono) auto
  moreover have "findings_ok (IDNotReadyUnexplained # pod_ids) (Fallback p)"
    by (rule findings_ok_mono [OF Fallback_ok]) auto
  ultimately show ?thesis by (simp add: pod_findings_def case_prod_beta)
qed

lemma pod_findings_None: "pod_findings lib None p = (fst (pod_findings lib None p), None)"
  by (simp add: pod_findings_def Evaluate_None)

lemma aggregated_loop_None:
  "aggregated_loop lib None pods out = (out @ concat (map (\<lambda>p. fst (pod_findings lib None p)) pods), None)"
proof (induction pods arbitrary: out)
  case (Cons p pods)
  then show ?case by (subst aggregated_loop.simps(2), subst pod_findings_None) simp
qed simp

lemma Aggregated_None:
  "Aggregated lib None pods =
     (AggregateByRule (concat (map (\<lambda>p. fst (pod_findings lib None p)) pods)) (int (length pods)), None)"
  by (simp add: Aggregated_def aggregated_loop_None AggregateByRule_def)

lemma aggregated_loop_ok:
  "findings_ok (IDNotReadyUnexplained # pod_ids) out \<Longrightarrow>
   findings_ok (IDNotReadyUnexplained # pod_ids) (fst (aggregated_loop lib ctx pods out))"
proof (induction pods arbitrary: ctx out)
  case (Cons p pods)
  then show ?case using pod_findings_ok [of lib ctx p] by (simp add: case_prod_beta)
qed simp

lemma Aggregated_ok: "findings_ok (IDNotReadyUnexplained # pod_ids) (fst (Aggregated lib ctx pods))"
proof -
  have "\<forall>d\<in>set (fst (aggregated_loop lib ctx pods [])). finding_ok (IDNotReadyUnexplained # pod_ids) d"
    using aggregated_loop_ok [of "[]" lib ctx pods] by (simp add: findings_ok_def list_all_iff)
  then show ?thesis
    using AggregateByRule_finding_ok [of "fst (aggregated_loop lib ctx pods [])"]
    by (simp add: Aggregated_def case_prod_beta findings_ok_def list_all_iff)
qed

section \<open>Properties of the Pod findings\<close>

text \<open>
  C27. Whatever the snapshot and even when the evaluation is cut short, every finding the Pod rules
  produce carries an identifier declared in the catalog, a known severity and confidence, a
  summary, at least one piece of evidence, and suggests only commands that read.
\<close>

theorem pod_findings_contract:
  assumes "d \<in> set (fst (Evaluate ctx (pod_Rules lib) snap))"
  shows "d_ID d \<in> set (concat (map rule_meta_IDs (pod_Catalog lib))) \<and>
    d_Severity d \<in> {SeverityInfo, SeverityWarning, SeverityCritical} \<and>
    d_Confidence d \<in> {ConfidenceCertain, ConfidenceLikely, ConfidencePossible} \<and>
    d_Summary d \<noteq> [] \<and> d_Evidence d \<noteq> [] \<and>
    (\<forall>s\<in>set (d_Suggestions d). \<forall>cmd\<in>set (s_Commands s). \<exists>verb\<in>set read_only_verbs. prefix verb cmd)"
proof -
  have ids: "rule_set_ids (pod_Rules lib) = concat (map rule_meta_IDs (pod_Catalog lib))"
    by (simp add: rule_set_ids_def pod_Catalog_def comp_def)
  have sev: "known_severity x \<longleftrightarrow> x \<in> {SeverityInfo, SeverityWarning, SeverityCritical}" for x
    by (cases x) (auto simp: known_severity_def)
  have conf: "known_confidence x \<longleftrightarrow> x \<in> {ConfidenceCertain, ConfidenceLikely, ConfidencePossible}" for x
    by (cases x) (auto simp: known_confidence_def)
  show ?thesis
    using pod.Evaluate_ok [OF assms]
    by (auto simp: finding_ok_def ids sev conf read_only_suggestions_def read_only_command_def list_all_iff list_ex_iff)
qed

definition oom_status :: k_container_status where
  "oom_status = status0\<lparr>cs_Name := ''app'', cs_RestartCount := 1, cs_Running := Some 0,
     cs_LastTerminated := Some \<lparr>t_ExitCode = 137, t_Signal = 0, t_Reason = ''OOMKilled'', t_Message = [],
       t_StartedAt = 0, t_FinishedAt = 0\<rparr>\<rparr>"

definition oom_pod :: "int pod_snap" where
  "oom_pod = pod_snap0\<lparr>ps_Pod := pod0\<lparr>pod_Name := ''web'', pod_Namespace := ''default'', pod_Phase := ''Running'',
     pod_Containers := [container_spec0\<lparr>c_Name := ''app''\<rparr>], pod_ContainerStatuses := [oom_status]\<rparr>\<rparr>"

lemma oom_pod_container:
  "Pod_Containers oom_pod = [\<lparr>cn_Name = ''app'', cn_Init = False, cn_Sidecar = False,
     cn_Spec = Some (container_spec0\<lparr>c_Name := ''app''\<rparr>), cn_Status = Some oom_status\<rparr>]"
  by (simp add: oom_pod_def pod_snap0_def pod0_def Pod_Containers_def regular_container_def findStatus_def
      container_spec0_def oom_status_def status0_def)

lemma oom_pod_reported: "\<exists>d. evaluateOOM int_lib oom_pod = [d]"
  by (simp add: evaluateOOM_def oom_pod_container oom_container_def oomTermination_def Container_Terminated_def
      Container_LastTerminated_def oom_status_def status0_def oomReason_def Let_def)

lemma pod_findings_contract_witness:
  "\<exists>d. d \<in> set (fst (Evaluate None (pod_Rules int_lib) oom_pod)) \<and> d_Evidence d \<noteq> []"
proof -
  obtain d where "evaluateOOM int_lib oom_pod = [d]" using oom_pod_reported by blast
  then have "d \<in> set (fst (Evaluate None (pod_Rules int_lib) oom_pod))"
    by (simp add: Evaluate_None rule_findings_def pod_Rules_def oomKilledRule_def)
  then show ?thesis using pod_findings_contract [of d None int_lib oom_pod] by blast
qed

lemma oom_container_component: "d \<in> set (oom_container lib snap c) \<Longrightarrow> d_Component d = cn_Name c"
  by (auto simp: oom_container_def Let_def cong: finding_cong split: option.splits)

text \<open>
  C2. The containers reported as OOM killed are exactly those for which Kubernetes recorded the
  reason OOMKilled in the current or the last termination; an exit code alone, such as 137, is
  never taken for one.
\<close>

theorem evaluateOOM_recorded:
  "d_Component ` set (evaluateOOM lib snap) =
     cn_Name ` {c. c \<in> set (Pod_Containers snap) \<and>
       (\<exists>t. (Container_Terminated c = Some t \<or> Container_LastTerminated c = Some t) \<and> t_Reason t = ''OOMKilled'')}"
proof -
  have "d_Component ` set (oom_container lib snap c) = (if oom_recorded c then {cn_Name c} else {})" for c
    using oom_container_component [of _ lib snap c] oom_container_Nil_iff [of lib snap c]
    by (cases "oom_container lib snap c") auto
  then show ?thesis
    unfolding oom_recorded_def [symmetric] evaluateOOM_def by (auto simp: image_UN)
qed

lemma lifecycle_lengths:
  "length (oom_container lib snap c) \<le> 1" "length (crash_loop_container snap c) \<le> 1"
  "length (restart_container snap c) \<le> 1"
  by (simp_all add: oom_container_def crash_loop_container_def restart_container_def Let_def
      cong: finding_cong split: option.split)

text \<open>
  C13. The rules for OOM kills, restart loops and restart history never report the same container
  twice. Which one owns it is decided by what Kubernetes recorded: a recorded OOM kill comes
  first, then a restart loop (in backoff, or restarted at least twice with a failure in the last
  ten minutes), then a restart count on a container that is running.
\<close>

theorem container_lifecycle_owner:
  "length (oom_container lib snap c) + length (crash_loop_container snap c) + length (restart_container snap c) \<le> 1 \<and>
   (oom_container lib snap c \<noteq> [] \<longleftrightarrow> oom_recorded c) \<and>
   (crash_loop_container snap c \<noteq> [] \<longleftrightarrow> crash_looping snap c \<and> \<not> oom_recorded c) \<and>
   (restart_container snap c \<noteq> [] \<longleftrightarrow>
      Container_Restarts c \<noteq> 0 \<and> containerRunning c \<and> \<not> crash_looping snap c \<and> \<not> oom_recorded c)"
  using oom_container_Nil_iff [of lib snap c] crash_loop_container_Nil_iff [of snap c]
    restart_container_Nil_iff [of snap c] lifecycle_lengths(1) [of lib snap c]
    lifecycle_lengths(2) [of snap c] lifecycle_lengths(3) [of snap c]
  by (cases "oom_recorded c"; cases "crash_looping snap c") auto

text \<open>
  C16. A Pod that is neither finished nor ready is never passed over in silence: when the rules
  find nothing, also because the context was cancelled before they ran, the fallback finding
  reports the state that was observed.
\<close>

theorem unready_pod_reported:
  assumes "\<not> Pod_IsTerminal snap" and "\<not> podIsReady snap"
  shows "fst (pod_findings lib ctx snap) \<noteq> [] \<and>
    (fst (Evaluate ctx (pod_Rules lib) snap) = [] \<longrightarrow>
       (\<exists>d. fst (pod_findings lib ctx snap) = [d] \<and> d_ID d = IDNotReadyUnexplained \<and> d_Severity d = SeverityWarning))"
  using assms by (auto simp: pod_findings_def case_prod_beta Fallback_def cong: finding_cong)

lemma unready_pod_reported_witness:
  "fst (pod_findings int_lib (Some 0) unscheduled_pod) \<noteq> []"
  using unready_pod_reported [of unscheduled_pod int_lib "Some 0"]
  by (simp add: unscheduled_pod_def pod_snap0_def pod0_def Pod_IsTerminal_def podIsReady_def)

text \<open>
  C24. The findings over several Pods are well-formed, no two of them have the same identifier,
  component and summary, they come most frequent first, each counts and lists the subjects of
  the findings it stands for, and every finding of every Pod is represented.
\<close>

theorem Aggregated_contract:
  "findings_ok (IDNotReadyUnexplained # pod_ids) (fst (Aggregated lib None pods)) \<and>
   distinct (map agg_key (fst (Aggregated lib None pods))) \<and>
   ordered_by (\<lambda>a b. agg_count b < agg_count a) (fst (Aggregated lib None pods)) \<and>
   agg_key ` set (fst (Aggregated lib None pods)) = agg_key ` (\<Union>p\<in>set pods. set (fst (pod_findings lib None p))) \<and>
   (\<forall>d\<in>set (fst (Aggregated lib None pods)).
      \<exists>x xs. filter (\<lambda>y. agg_key y = agg_key d) (concat (map (\<lambda>p. fst (pod_findings lib None p)) pods)) = x # xs \<and>
        d = x\<lparr>d_Aggregate := Some \<lparr>agg_Count = 1 + int (length xs), agg_Total = int (length pods),
               agg_Subjects = map d_Subject (x # xs)\<rparr>\<rparr>)"
proof -
  let ?all = "concat (map (\<lambda>p. fst (pod_findings lib None p)) pods)"
  have eq: "fst (Aggregated lib None pods) = AggregateByRule ?all (int (length pods))"
    by (simp add: Aggregated_None)
  have keys: "agg_key ` set ?all = agg_key ` (\<Union>p\<in>set pods. set (fst (pod_findings lib None p)))"
    by simp
  show ?thesis
    using Aggregated_ok [of lib None pods] AggregateByRule_distinct [of ?all] AggregateByRule_ordered [of ?all]
      AggregateByRule_keys [of ?all] AggregateByRule_entry [of _ ?all]
    unfolding eq keys [symmetric] collapsed_def by (simp del: set_concat)
qed

lemma Aggregated_contract_witness:
  "distinct (map agg_key (fst (Aggregated int_lib None [oom_pod, oom_pod])))"
  using Aggregated_contract [of int_lib "[oom_pod, oom_pod]"] by blast

end
