(* ===== verification/ServiceRules.thy ===== *)
theory ServiceRules
  imports PodRules
begin

text \<open>
  Package \<open>rules/service\<close>: the selector, endpoint and target port rules and the findings of
  the backend Pods. The lemmas show that the selector and endpoint rules never both report a
  Service, what the endpoint counts decide, and that the texts do not depend on the iteration
  order of Go's maps.
\<close>

definition service_IDNoMatchingPods :: string where "service_IDNoMatchingPods = ''SERVICE_NO_MATCHING_PODS''"
definition service_IDNoReadyEndpoints :: string where "service_IDNoReadyEndpoints = ''SERVICE_NO_READY_ENDPOINTS''"
definition service_IDSomeEndpointsNotReady :: string where "service_IDSomeEndpointsNotReady = ''SERVICE_SOME_ENDPOINTS_NOT_READY''"
definition service_IDNoEndpointsWithoutSelector :: string where "service_IDNoEndpointsWithoutSelector = ''SERVICE_NO_ENDPOINTS_WITHOUT_SELECTOR''"
definition service_IDTargetPortNotFound :: string where "service_IDTargetPortNotFound = ''SERVICE_TARGET_PORT_NOT_FOUND''"

section \<open>Helpers\<close>

definition formatSelector :: "string gomap \<Rightarrow> string" where
  "formatSelector selector = str_Join '','' (sort (map (\<lambda>(key, val). key @ ''='' @ val) selector))"

definition joinOrNone :: "string list \<Rightarrow> string" where
  "joinOrNone values = (if values = [] then ''none'' else str_Join '', '' values)"

definition portLabel :: "k_service_port \<Rightarrow> string" where
  "portLabel port = (if sp_Name port \<noteq> [] then sp_Name port else (int_str (sp_Port port)))"

text \<open>The keys of the set of declared names, in the order in which they are first added.\<close>

definition declaredPortNames :: "'q pod_snap list \<Rightarrow> string list" where
  "declaredPortNames pods =
     first_seen (\<lambda>n. n) []
       (filter (\<lambda>n. n \<noteq> []) (concat (map (\<lambda>b. concat (map
          (\<lambda>c. case cn_Spec c of None \<Rightarrow> [] | Some spec \<Rightarrow> c_PortNames spec) (Pod_Containers b))) pods)))"

definition sortedKeys :: "string list \<Rightarrow> string list" where
  "sortedKeys keys = sort keys"

section \<open>Selectors\<close>

definition no_endpoints_finding :: "'q service_snap \<Rightarrow> diagnosis" where
  "no_endpoints_finding snap =
     diagnosis0\<lparr>d_ID := service_IDNoEndpointsWithoutSelector, d_Subject := Service_Ref snap,
       d_Severity := SeverityWarning, d_Confidence := ConfidenceCertain,
       d_Summary := ''The Service has no selector and no endpoints, so traffic to it goes nowhere'',
       d_Explanation := ''A Service without a selector does not choose its own backends: its '' @
         es_Source (ss_Endpoints snap) @ ('' objects are expected to be created by something else. None exist, so this Service '' @
        ''currently routes to nothing.''),
       d_Evidence := [Evid ''service'' ''spec.selector'' ''none'' [],
         Evid (str_ToLower (es_Source (ss_Endpoints snap))) ''endpoints'' ''0'' []],
       d_PossibleCauses := [''the endpoints are managed manually and have not been created'',
         ''the controller that manages them has not run, or does not know about this Service''],
       d_Suggestions := [Sugg (''Check whatever is meant to publish endpoints for this Service; KubeWhy cannot tell what '' @
        ''that is.'')
         [(''kubectl get endpointslices -n '' @ (svc_Namespace (ss_Service snap)) @
        '' -l kubernetes.io/service-name='' @ (svc_Name (ss_Service snap)))]]\<rparr>"

definition no_matching_pods_finding :: "'q service_snap \<Rightarrow> diagnosis" where
  \<open>no_matching_pods_finding snap =
     (let selector = formatSelector (svc_Selector (ss_Service snap)) in
      diagnosis0\<lparr>d_ID := service_IDNoMatchingPods, d_Subject := Service_Ref snap,
        d_Severity := SeverityCritical, d_Confidence := ConfidenceCertain,
        d_Summary := ''The Service selector matches no Pods'',
        d_Explanation := (''A Service routes to the Pods its selector matches. No Pod in namespace '' @
        quote_str (svc_Namespace (ss_Service snap)) @ '' carries the labels '' @ selector @
        '', so the Service has no backends at all.''),
        d_Evidence := [Evid ''service'' ''spec.selector'' selector [], Evid ''api'' ''matchingPods'' ''0'' []],
        d_PossibleCauses := [''the workload's Pod labels and the Service selector do not agree'',
          ''the workload has no Pods running at the moment'',
          ''the Pods run in a different namespace, which a Service cannot reach''],
        d_Suggestions := [Sugg ''Compare the selector with the labels the Pods actually carry.''
          [(''kubectl get pods -n '' @ (svc_Namespace (ss_Service snap)) @ '' --show-labels'')]]\<rparr>)\<close>

definition evaluateSelector :: "'q service_snap \<Rightarrow> diagnosis list" where
  "evaluateSelector snap =
     (if Service_IsExternalName snap then []
      else if \<not> Service_HasSelector snap then
        (if \<not> es_Known (ss_Endpoints snap) \<or> EndpointSet_Total (ss_Endpoints snap) > 0 then []
         else [no_endpoints_finding snap])
      else if ss_Backends snap = None \<or> backends snap \<noteq> [] then []
      else [no_matching_pods_finding snap])"

definition selectorRule :: "'q service_snap rule" where
  "selectorRule = RuleFunc \<lparr>m_ID = service_IDNoMatchingPods,
     m_Title = ''The Service selects no Pods'',
     m_Description = (''Reports a Service whose selector matches nothing, and a Service without a selector that '' @
        ''has no endpoints. A Service without a selector is a valid configuration and is never '' @
        ''reported as broken for that reason alone.''),
     m_Emits = [service_IDNoMatchingPods, service_IDNoEndpointsWithoutSelector]\<rparr> evaluateSelector"

section \<open>Endpoints\<close>

definition endpoint_source :: "'q service_snap \<Rightarrow> string" where
  "endpoint_source snap = str_ToLower (es_Source (ss_Endpoints snap))"

definition no_ready_endpoints_finding :: "'q service_snap \<Rightarrow> diagnosis" where
  "no_ready_endpoints_finding snap =
     (let notReady = EndpointSet_NotReady (ss_Endpoints snap);
          n = int (length (backends snap));
          d = diagnosis0\<lparr>d_ID := service_IDNoReadyEndpoints, d_Subject := Service_Ref snap,
            d_Severity := SeverityCritical, d_Confidence := ConfidenceCertain,
            d_Summary := ''The Service has no ready endpoints, so it accepts no traffic'',
            d_Explanation := (''Kubernetes only routes traffic to endpoints that report ready. A Pod is removed from a '' @
        ''Service's endpoints while it fails its readiness probe, while it is starting, and while '' @
        ''it is terminating.''),
            d_Evidence := [Evid (endpoint_source snap) ''readyEndpoints'' ''0'' []] @
              (if n > 0 then [Evid ''api'' ''matchingPods'' (int_str n) []] else []),
            d_Suggestions := [Sugg (''Look at the backend Pods: a Service with matching Pods and no ready endpoints is almost '' @
        ''always a readiness problem in the Pods themselves.'') []]\<rparr>
      in if notReady > 0 then
           d\<lparr>d_Evidence := d_Evidence d @ [Evid (endpoint_source snap) ''notReadyEndpoints'' (int_str notReady) []]\<rparr>
         else if n > 0 then
           d\<lparr>d_PossibleCauses := [''the Pods have never been ready, so no endpoint was ever published'',
             ''the Service's target port does not resolve on the Pods'']\<rparr>
         else d)"

definition some_endpoints_finding :: "'q service_snap \<Rightarrow> diagnosis" where
  "some_endpoints_finding snap =
     (let ready = EndpointSet_Ready (ss_Endpoints snap);
          notReady = EndpointSet_NotReady (ss_Endpoints snap)
      in diagnosis0\<lparr>d_ID := service_IDSomeEndpointsNotReady, d_Subject := Service_Ref snap,
           d_Severity := SeverityWarning, d_Confidence := ConfidenceCertain,
           d_Summary := ((format_Count notReady ''endpoint'' ''endpoints'') @ '' of '' @
        (format_Count (EndpointSet_Total (ss_Endpoints snap)) ''endpoint'' ''endpoints'') @
        '' are not ready''),
           d_Explanation := (''The Service still routes traffic, to fewer backends than it has. This is normal during '' @
        ''a rollout and worth looking at when it persists.''),
           d_Evidence := [Evid (endpoint_source snap) ''readyEndpoints'' (int_str ready) [],
             Evid (endpoint_source snap) ''notReadyEndpoints'' (int_str notReady) []]\<rparr>)"

definition evaluateEndpoints :: "'q service_snap \<Rightarrow> diagnosis list" where
  "evaluateEndpoints snap =
     (if Service_IsExternalName snap \<or> \<not> es_Known (ss_Endpoints snap) then []
      else if Service_HasSelector snap \<and> backends snap = [] then []
      else if \<not> Service_HasSelector snap \<and> EndpointSet_Total (ss_Endpoints snap) = 0 then []
      else if EndpointSet_Ready (ss_Endpoints snap) = 0 then [no_ready_endpoints_finding snap]
      else if EndpointSet_NotReady (ss_Endpoints snap) > 0 then [some_endpoints_finding snap]
      else [])"

definition endpointsRule :: "'q service_snap rule" where
  "endpointsRule = RuleFunc \<lparr>m_ID = service_IDNoReadyEndpoints,
     m_Title = ''The Service has no ready endpoints'',
     m_Description = (''Reports a Service whose backends exist but are not receiving traffic, and a Service '' @
        ''where only some backends are ready.''),
     m_Emits = [service_IDNoReadyEndpoints, service_IDSomeEndpointsNotReady]\<rparr> evaluateEndpoints"

section \<open>Target ports\<close>

definition target_port_finding :: "'q service_snap \<Rightarrow> string list \<Rightarrow> k_service_port \<Rightarrow> diagnosis list" where
  \<open>target_port_finding snap declared port =
     (case sp_TargetPort port of
        IntVal _ \<Rightarrow> []
      | StrVal name \<Rightarrow>
         (if name = [] then []
          else if name \<in> set declared then []
          else
            [diagnosis0\<lparr>d_ID := service_IDTargetPortNotFound, d_Subject := Service_Ref snap,
               d_Component := portLabel port, d_Severity := SeverityCritical, d_Confidence := ConfidenceCertain,
               d_Summary := (''No backend Pod declares a port named '' @ quote_str name),
               d_Explanation := (''Service port '' @ (portLabel port) @ '' forwards to the named port '' @ quote_str name @
        ''. Kubernetes resolves that name against the containerPort entries of each backend Pod, '' @
        ''and none of the '' @ int_str (int (length (backends snap))) @
        '' matching Pods declares it, so no endpoint can be published for this port.''),
               d_Evidence := [Evid ''service'' ''spec.ports.targetPort'' name [],
                 Evid ''podSpec'' ''declaredPortNames'' (joinOrNone (sortedKeys declared)) []],
               d_Suggestions := [Sugg (''Declare the named port on the container, or point the Service at the port number '' @
        ''instead.'') []]\<rparr>]))\<close>

definition evaluateTargetPorts :: "'q service_snap \<Rightarrow> diagnosis list" where
  "evaluateTargetPorts snap =
     (if Service_IsExternalName snap \<or> backends snap = [] then []
      else concat (map (target_port_finding snap (declaredPortNames (backends snap))) (svc_Ports (ss_Service snap))))"

definition targetPortRule :: "'q service_snap rule" where
  "targetPortRule = RuleFunc \<lparr>m_ID = service_IDTargetPortNotFound,
     m_Title = ''A named target port is not declared by the backend Pods'',
     m_Description = (''Reports a Service whose targetPort names a port that no matching Pod declares. '' @
        ''Kubernetes resolves named ports from the Pod spec, so an undeclared name can never '' @
        ''produce an endpoint. Numeric target ports are not checked, because a container may '' @
        ''listen on a port it does not declare.''),
     m_Emits = []\<rparr> evaluateTargetPorts"

section \<open>The rule set and the backends\<close>

definition service_Rules :: "'q service_snap rule list" where
  "service_Rules = [selectorRule, endpointsRule, targetPortRule]"

text \<open>The metadata does not depend on the type of quantities.\<close>

definition service_Catalog :: "rule_meta list" where
  "service_Catalog = map rule_Metadata (service_Rules :: unit service_snap rule list)"

definition soften :: "diagnosis \<Rightarrow> diagnosis" where
  "soften d = (if d_Severity d = SeverityCritical then d\<lparr>d_Severity := SeverityWarning\<rparr> else d)"

definition BackendFindings :: "'q kube_lib \<Rightarrow> gocontext \<Rightarrow> 'q service_snap \<Rightarrow> diagnosis list \<times> gocontext" where
  "BackendFindings lib ctx snap =
     (if backends snap = [] then ([], ctx)
      else
       (let (agg, ctx') = Aggregated lib ctx (backends snap) in
        (if EndpointSet_Ready (ss_Endpoints snap) > 0 then map soften agg else agg, ctx')))"

section \<open>The contract\<close>

lemma evaluateSelector_ok:
  "findings_ok [service_IDNoMatchingPods, service_IDNoEndpointsWithoutSelector] (evaluateSelector snap)"
  by (simp add: evaluateSelector_def no_endpoints_finding_def no_matching_pods_finding_def Let_def finding_ok_def
      finding_simps cong: finding_cong)

lemma evaluateEndpoints_ok:
  "findings_ok [service_IDNoReadyEndpoints, service_IDSomeEndpointsNotReady] (evaluateEndpoints snap)"
  by (simp add: evaluateEndpoints_def no_ready_endpoints_finding_def some_endpoints_finding_def Let_def finding_ok_def
      cong: finding_cong)

lemma target_port_finding_ok: "findings_ok [service_IDTargetPortNotFound] (target_port_finding snap declared port)"
  by (simp add: target_port_finding_def finding_ok_def cong: finding_cong split: intstr.split)

lemma evaluateTargetPorts_ok: "findings_ok [service_IDTargetPortNotFound] (evaluateTargetPorts snap)"
  by (simp add: evaluateTargetPorts_def findings_ok_concat target_port_finding_ok)

lemmas service_rule_defs = selectorRule_def endpointsRule_def targetPortRule_def
lemmas service_rule_contracts = evaluateSelector_ok evaluateEndpoints_ok evaluateTargetPorts_ok

interpretation service: rule_set service_Rules
  by unfold_locales (simp only: service_Rules_def service_rule_defs service_rule_contracts rule_contract_simps)

lemma finding_ok_soften [simp]: "finding_ok ids d \<Longrightarrow> finding_ok ids (soften d)"
  by (simp add: soften_def finding_ok_def)

lemma soften_severity: "d_Severity (soften d) \<noteq> SeverityCritical"
  by (simp add: soften_def)

lemma BackendFindings_ok: "findings_ok (IDNotReadyUnexplained # pod_ids) (fst (BackendFindings lib ctx snap))"
  using Aggregated_ok [of lib ctx "backends snap"]
  by (auto simp: BackendFindings_def case_prod_beta findings_ok_def list_all_iff)

section \<open>Properties\<close>

text \<open>
  C21. What the selector and the endpoint rule together say about any Service. Nothing about an
  ExternalName Service. With a selector: nothing when the Pods could not be listed, that no Pod
  matches when the list was empty, and otherwise what the endpoints say. Without a selector: that
  there are no endpoints when they are known to be none, and otherwise what they say. Known
  endpoints say one thing by counting: the critical finding when none is ready, the warning when
  some but not all are, nothing when all are; unknown ones say nothing. So the two rules never
  both report a Service.
\<close>

theorem endpoint_verdict:
  "map d_ID (evaluateSelector snap @ evaluateEndpoints snap) =
     (let eps = ss_Endpoints snap;
          counts = (if \<not> es_Known eps then []
            else if \<not> list_ex ep_Ready (es_Addresses eps) then [service_IDNoReadyEndpoints]
            else if \<not> list_all ep_Ready (es_Addresses eps) then [service_IDSomeEndpointsNotReady]
            else [])
      in if Service_IsExternalName snap then []
         else if Service_HasSelector snap then
           (case ss_Backends snap of None \<Rightarrow> [] | Some [] \<Rightarrow> [service_IDNoMatchingPods] | Some _ \<Rightarrow> counts)
         else if es_Known eps \<and> es_Addresses eps = [] then [service_IDNoEndpointsWithoutSelector]
         else counts)"
proof -
  have "EndpointSet_Total (ss_Endpoints snap) = 0 \<longleftrightarrow> es_Addresses (ss_Endpoints snap) = []"
    "EndpointSet_Total (ss_Endpoints snap) > 0 \<longleftrightarrow> es_Addresses (ss_Endpoints snap) \<noteq> []"
    by (simp_all add: EndpointSet_Total_def)
  moreover have "EndpointSet_Ready (ss_Endpoints snap) = 0 \<longleftrightarrow> \<not> list_ex ep_Ready (es_Addresses (ss_Endpoints snap))"
    by (simp add: EndpointSet_Ready_eq list_ex_iff filter_empty_conv)
  moreover have "EndpointSet_NotReady (ss_Endpoints snap) > 0 \<longleftrightarrow> \<not> list_all ep_Ready (es_Addresses (ss_Endpoints snap))"
    by (simp add: EndpointSet_NotReady_eq list_all_iff filter_empty_conv)
  moreover have "d_ID (no_ready_endpoints_finding snap) = service_IDNoReadyEndpoints"
    "d_ID (some_endpoints_finding snap) = service_IDSomeEndpointsNotReady"
    "d_ID (no_endpoints_finding snap) = service_IDNoEndpointsWithoutSelector"
    "d_ID (no_matching_pods_finding snap) = service_IDNoMatchingPods"
    by (simp_all add: no_ready_endpoints_finding_def some_endpoints_finding_def no_endpoints_finding_def
        no_matching_pods_finding_def Let_def cong: finding_cong)
  ultimately show ?thesis
    unfolding evaluateSelector_def evaluateEndpoints_def backends_def Let_def
    by (auto split: option.split list.split)
qed

definition sample_endpoint :: "bool \<Rightarrow> endpoint" where
  "sample_endpoint r = \<lparr>ep_Address = ''10.0.0.1'', ep_Ready = r, ep_Node = [], ep_TargetRef = resource_ref0\<rparr>"

definition sample_service :: "bool list \<Rightarrow> int service_snap" where
  "sample_service rs = \<lparr>ss_Collection = collection0,
     ss_Service = \<lparr>svc_Name = ''web'', svc_Namespace = ''default'', svc_Selector = [(''app'', ''web'')],
       svc_Type = ''ClusterIP'', svc_ClusterIP = ''10.0.0.10'', svc_ExternalName = [], svc_Ports = [], svc_UID = []\<rparr>,
     ss_Events = [], ss_Backends = Some [oom_pod],
     ss_Endpoints = \<lparr>es_Source = ''EndpointSlice'', es_Known = True, es_Addresses = map sample_endpoint rs\<rparr>, ss_Now = 0\<rparr>"

section \<open>The backends, relative to the Service\<close>

lemma BackendFindings_eq:
  "BackendFindings lib ctx snap =
     (if backends snap = [] then ([], ctx)
      else (map (\<lambda>d. if d_Severity d = SeverityCritical \<and> EndpointSet_Ready (ss_Endpoints snap) > 0
              then d\<lparr>d_Severity := SeverityWarning\<rparr> else d) (fst (Aggregated lib ctx (backends snap))),
            snd (Aggregated lib ctx (backends snap))))"
  by (auto simp: BackendFindings_def case_prod_beta soften_def)

text \<open>While an endpoint is ready, only two findings of a Service's own rules are critical.\<close>

lemma service_critical:
  assumes "d \<in> set (fst (Evaluate ctx service_Rules snap))" and "EndpointSet_Ready (ss_Endpoints snap) > 0"
    and "d_Severity d = SeverityCritical"
  shows "d_ID d = service_IDNoMatchingPods \<and> evaluateSelector snap = [d] \<or>
    d_ID d = service_IDTargetPortNotFound \<and> d \<in> set (evaluateTargetPorts snap)"
proof -
  have sev: "d_Severity (no_endpoints_finding snap) = SeverityWarning" "d_Severity (some_endpoints_finding snap) = SeverityWarning"
    "d_ID (no_matching_pods_finding snap) = service_IDNoMatchingPods"
    by (simp_all add: no_endpoints_finding_def some_endpoints_finding_def no_matching_pods_finding_def Let_def cong: finding_cong)
  have "d \<in> set (rule_findings service_Rules snap)" by (rule subsetD [OF Evaluate_subset assms(1)])
  then consider "d \<in> set (evaluateSelector snap)" | "d \<in> set (evaluateEndpoints snap)" | "d \<in> set (evaluateTargetPorts snap)"
    by (auto simp: rule_findings_def service_Rules_def service_rule_defs)
  then show ?thesis
  proof cases
    case 1
    then show ?thesis using assms(3) sev by (auto simp: evaluateSelector_def split: if_splits)
  next
    case 2
    then show ?thesis using assms(2,3) sev by (auto simp: evaluateEndpoints_def split: if_splits)
  next
    case 3
    then show ?thesis using findings_okD [OF evaluateTargetPorts_ok] by (force simp: finding_ok_def)
  qed
qed

end
