(* ===== verification/DeploymentRules.thy ===== *)
theory DeploymentRules
  imports PodRules
begin

text \<open>
  Package \<open>rules/deployment\<close>: what a Deployment is on purpose, what its controller concluded,
  and the gap between desired and available replicas. The lemmas show that deliberate states are
  never reported as failures and what decides the severity of the gap.
\<close>

definition deployment_IDUnavailableReplicas :: string where "deployment_IDUnavailableReplicas = ''DEPLOYMENT_UNAVAILABLE_REPLICAS''"
definition deployment_IDProgressDeadlineExceeded :: string where "deployment_IDProgressDeadlineExceeded = ''DEPLOYMENT_PROGRESS_DEADLINE_EXCEEDED''"
definition deployment_IDReplicaFailure :: string where "deployment_IDReplicaFailure = ''DEPLOYMENT_REPLICA_FAILURE''"
definition deployment_IDScaledToZero :: string where "deployment_IDScaledToZero = ''DEPLOYMENT_SCALED_TO_ZERO''"
definition deployment_IDPaused :: string where "deployment_IDPaused = ''DEPLOYMENT_PAUSED''"
definition deployment_IDRolloutInProgress :: string where "deployment_IDRolloutInProgress = ''DEPLOYMENT_ROLLOUT_IN_PROGRESS''"

definition deployment_PodFindings :: "'q kube_lib \<Rightarrow> gocontext \<Rightarrow> 'q deployment_snap \<Rightarrow> diagnosis list \<times> gocontext" where
  "deployment_PodFindings lib ctx snap = Aggregated lib ctx (ds_Pods snap)"

definition deployment_truncate :: "string \<Rightarrow> nat \<Rightarrow> string" where
  "deployment_truncate s0 limit =
     (let s = str_TrimSpace (nl_to_space s0) in
      if length s \<le> limit then s else str_TrimSpace (take limit s) @ ellipsis)"

definition rollout_status_command :: "'q deployment_snap \<Rightarrow> string" where
  "rollout_status_command snap =
     (''kubectl rollout status deployment/'' @ (dep_Name (ds_Deployment snap)) @ '' -n '' @
        (dep_Namespace (ds_Deployment snap)))"

section \<open>Intent\<close>

definition scaled_to_zero_finding :: "'q deployment_snap \<Rightarrow> diagnosis" where
  "scaled_to_zero_finding snap =
     diagnosis0\<lparr>d_ID := deployment_IDScaledToZero, d_Subject := Deployment_Ref snap,
       d_Severity := SeverityInfo, d_Confidence := ConfidenceCertain,
       d_Summary := ''The Deployment is scaled to zero, so it runs no Pods'',
       d_Explanation := (''This is what the Deployment asks for. Nothing is wrong with it; it simply has no work '' @
        ''to do until it is scaled up.''),
       d_Evidence := [Evid ''deployment'' ''spec.replicas'' ''0'' []]\<rparr>"

definition paused_finding :: "'q deployment_snap \<Rightarrow> diagnosis" where
  "paused_finding snap =
     diagnosis0\<lparr>d_ID := deployment_IDPaused, d_Subject := Deployment_Ref snap,
       d_Severity := SeverityWarning, d_Confidence := ConfidenceCertain,
       d_Summary := ''The rollout is paused'',
       d_Explanation := (''A paused Deployment does not roll out changes to its Pods. Its status will not converge '' @
        ''on the spec until it is resumed, so any difference between the two is expected rather '' @
        ''than a fault.''),
       d_Evidence := [Evid ''deployment'' ''spec.paused'' ''true'' []],
       d_Suggestions := [Sugg ''Resume the rollout when the pause is no longer wanted.'' [rollout_status_command snap]]\<rparr>"

definition evaluateIntent :: "'q deployment_snap \<Rightarrow> diagnosis list" where
  "evaluateIntent snap =
     (if Deployment_DesiredReplicas snap = 0 then [scaled_to_zero_finding snap] else []) @
     (if Deployment_IsPaused snap then [paused_finding snap] else [])"

definition intentRule :: "'q deployment_snap rule" where
  "intentRule = RuleFunc \<lparr>m_ID = deployment_IDScaledToZero,
     m_Title = ''The Deployment is not meant to be running'',
     m_Description = (''Reports a Deployment scaled to zero or with a paused rollout. Both are deliberate '' @
        ''states, reported as observations so that they are never mistaken for failures.''),
     m_Emits = [deployment_IDScaledToZero, deployment_IDPaused]\<rparr> evaluateIntent"

section \<open>Conditions\<close>

definition replica_failure_finding :: "'q deployment_snap \<Rightarrow> k_condition \<Rightarrow> diagnosis" where
  "replica_failure_finding snap cond =
     diagnosis0\<lparr>d_ID := deployment_IDReplicaFailure, d_Subject := Deployment_Ref snap,
       d_Severity := SeverityCritical, d_Confidence := ConfidenceCertain,
       d_Summary := ''The Deployment's ReplicaSet could not create Pods'',
       d_Explanation := (''Kubernetes reports a replica failure, which means the Pods were rejected before they '' @
        ''ever ran. The message below is the reason the API server or an admission controller '' @
        ''gave.''),
       d_Evidence := [Evid ''condition'' ''ReplicaFailure.reason'' (cond_Reason cond) (deployment_truncate (cond_Message cond) 300)],
       d_PossibleCauses := [''a resource quota in the namespace rejects the Pods'',
         ''an admission controller or policy rejects the Pod template'',
         ''the ServiceAccount the Pods use does not exist'']\<rparr>"

definition progress_deadline :: "'q deployment_snap \<Rightarrow> int" where
  "progress_deadline snap =
     (case dep_ProgressDeadlineSeconds (ds_Deployment snap) of None \<Rightarrow> 600 | Some n \<Rightarrow> n)"

definition deadline_finding :: "'q deployment_snap \<Rightarrow> k_condition \<Rightarrow> diagnosis" where
  "deadline_finding snap cond =
     (let deadline = progress_deadline snap in
      diagnosis0\<lparr>d_ID := deployment_IDProgressDeadlineExceeded, d_Subject := Deployment_Ref snap,
        d_Severity := SeverityCritical, d_Confidence := ConfidenceCertain,
        d_Summary := ''The rollout did not complete within its progress deadline'',
        d_Explanation := (''Kubernetes gives a rollout '' @ (format_Duration (deadline * go_Second)) @
        '' to make progress before it gives up waiting. This one did not, so the Deployment is '' @
        ''stuck part-way between revisions.''),
        d_Evidence := [Evid ''condition'' ''Progressing.reason'' (cond_Reason cond) (deployment_truncate (cond_Message cond) 300),
          Evid ''deployment'' ''spec.progressDeadlineSeconds'' (int_str deadline) []],
        d_Suggestions := [Sugg (''The reason the new Pods never became available is below; the rollout itself is only the '' @
        ''symptom.'')
          [rollout_status_command snap]]\<rparr>)"

definition rollout_finding :: "'q deployment_snap \<Rightarrow> k_condition \<Rightarrow> diagnosis" where
  "rollout_finding snap cond =
     diagnosis0\<lparr>d_ID := deployment_IDRolloutInProgress, d_Subject := Deployment_Ref snap,
       d_Severity := SeverityInfo, d_Confidence := ConfidenceCertain,
       d_Summary := ''A rollout is in progress'',
       d_Explanation := (''The Deployment is replacing its Pods. Replica counts that do not match the spec are '' @
        ''expected while this is happening.''),
       d_Evidence := [Evid ''condition'' ''Progressing.reason'' (cond_Reason cond) (deployment_truncate (cond_Message cond) 200)]\<rparr>"

definition evaluateConditions :: "'q deployment_snap \<Rightarrow> diagnosis list" where
  "evaluateConditions snap =
     (case Deployment_Condition snap ''ReplicaFailure'' of
        Some cond \<Rightarrow> (if cond_Status cond = ''True'' then [replica_failure_finding snap cond] else [])
      | None \<Rightarrow> []) @
     (case Deployment_Condition snap ''Progressing'' of
        None \<Rightarrow> []
      | Some progressing \<Rightarrow>
         (if cond_Status progressing = ''False'' \<and> cond_Reason progressing = ''ProgressDeadlineExceeded''
            then [deadline_finding snap progressing]
          else if cond_Status progressing = ''True'' \<and> cond_Reason progressing = ''ReplicaSetUpdated''
            then [rollout_finding snap progressing]
          else []))"

definition conditionRule :: "'q deployment_snap rule" where
  "conditionRule = RuleFunc \<lparr>m_ID = deployment_IDProgressDeadlineExceeded,
     m_Title = ''The Deployment controller reported a problem'',
     m_Description = (''Normalises the Deployment's own conditions: a rollout that ran past its progress '' @
        ''deadline, and a failure to create Pods at all.''),
     m_Emits = [deployment_IDProgressDeadlineExceeded, deployment_IDReplicaFailure, deployment_IDRolloutInProgress]\<rparr> evaluateConditions"

section \<open>Availability\<close>

definition unavailable_finding :: "'q deployment_snap \<Rightarrow> diagnosis" where
  "unavailable_finding snap =
     (let desired = Deployment_DesiredReplicas snap;
          available = dep_AvailableReplicas (ds_Deployment snap);
          d = diagnosis0\<lparr>d_ID := deployment_IDUnavailableReplicas, d_Subject := Deployment_Ref snap,
            d_Severity := (if available > 0 then SeverityWarning else SeverityCritical),
            d_Confidence := ConfidenceCertain,
            d_Summary := (int_str available @ '' of '' @ int_str desired @ '' Pods are available''),
            d_Explanation := (''A Pod counts as available once it has been ready for the Deployment's minReadySeconds. '' @
        ''The reason these are not is in the Pods themselves.''),
            d_Evidence := [Evid ''deployment'' ''spec.replicas'' (int_str desired) [],
              Evid ''deployment'' ''status.availableReplicas'' (int_str available) [],
              Evid ''deployment'' ''status.readyReplicas'' (int_str (dep_ReadyReplicas (ds_Deployment snap))) [],
              Evid ''deployment'' ''status.updatedReplicas'' (int_str (dep_UpdatedReplicas (ds_Deployment snap))) []]\<rparr>
      in if ds_Pods snap = [] then
           d\<lparr>d_Explanation := (''The Deployment asks for Pods and none exist. Nothing was created, so the reason lies '' @
        ''with the ReplicaSet rather than with any Pod.''),
             d_PossibleCauses := [''the ReplicaSet cannot create Pods, for example because of a quota or an admission policy'',
               ''the Pods were created and deleted again before they could run'']\<rparr>
         else d)"

definition deployment_evaluateAvailability :: "'q deployment_snap \<Rightarrow> diagnosis list" where
  "deployment_evaluateAvailability snap =
     (let desired = Deployment_DesiredReplicas snap in
      if desired = 0 \<or> Deployment_IsPaused snap then []
      else if dep_AvailableReplicas (ds_Deployment snap) \<ge> desired then []
      else [unavailable_finding snap])"

definition deployment_availabilityRule :: "'q deployment_snap rule" where
  "deployment_availabilityRule = RuleFunc \<lparr>m_ID = deployment_IDUnavailableReplicas,
     m_Title = ''The Deployment has fewer available Pods than it asks for'',
     m_Description = (''Reports the difference between desired and available replicas. It stays silent for a '' @
        ''Deployment that is scaled to zero or paused, because there is no gap to explain in '' @
        ''either case.''),
     m_Emits = []\<rparr> deployment_evaluateAvailability"

definition deployment_Rules :: "'q deployment_snap rule list" where
  "deployment_Rules = [intentRule, conditionRule, deployment_availabilityRule]"

text \<open>The metadata does not depend on the type of quantities.\<close>

definition deployment_Catalog :: "rule_meta list" where
  "deployment_Catalog = map rule_Metadata (deployment_Rules :: unit deployment_snap rule list)"

section \<open>The contract\<close>

lemma rollout_status_read_only [simp]: "read_only_command (rollout_status_command snap)"
  by (simp add: rollout_status_command_def finding_simps)

lemma evaluateIntent_ok: "findings_ok [deployment_IDScaledToZero, deployment_IDPaused] (evaluateIntent snap)"
  by (simp add: evaluateIntent_def scaled_to_zero_finding_def paused_finding_def finding_ok_def cong: finding_cong)

lemma evaluateConditions_ok:
  "findings_ok [deployment_IDProgressDeadlineExceeded, deployment_IDReplicaFailure, deployment_IDRolloutInProgress]
     (evaluateConditions snap)"
  by (simp add: evaluateConditions_def replica_failure_finding_def deadline_finding_def rollout_finding_def Let_def
      finding_ok_def cong: finding_cong split: option.split)

lemma deployment_evaluateAvailability_ok:
  "findings_ok [deployment_IDUnavailableReplicas] (deployment_evaluateAvailability snap)"
  by (simp add: deployment_evaluateAvailability_def unavailable_finding_def Let_def finding_ok_def cong: finding_cong)

lemmas deployment_rule_defs = intentRule_def conditionRule_def deployment_availabilityRule_def
lemmas deployment_rule_contracts = evaluateIntent_ok evaluateConditions_ok deployment_evaluateAvailability_ok

interpretation deployment: rule_set deployment_Rules
  by unfold_locales (simp only: deployment_Rules_def deployment_rule_defs deployment_rule_contracts rule_contract_simps)

section \<open>Properties\<close>

text \<open>
  The availability rule reports a Deployment exactly when it is neither scaled to zero nor
  paused and has fewer available replicas than it asks for; the finding is critical exactly when
  no replica is available at all.
\<close>

theorem deployment_gap:
  "map d_Severity (deployment_evaluateAvailability snap) =
     (if Deployment_DesiredReplicas snap \<noteq> 0 \<and> \<not> dep_Paused (ds_Deployment snap) \<and>
         dep_AvailableReplicas (ds_Deployment snap) < Deployment_DesiredReplicas snap
      then [if dep_AvailableReplicas (ds_Deployment snap) > 0 then SeverityWarning else SeverityCritical] else [])"
  by (simp add: deployment_evaluateAvailability_def unavailable_finding_def Deployment_IsPaused_def Let_def
      cong: finding_cong)

end
