(* ===== verification/StatefulSetRules.thy ===== *)
theory StatefulSetRules
  imports PodRules
begin

text \<open>
  Package \<open>rules/statefulset\<close>: ordered start, per-replica claims, the governing Service, the
  update strategy and the gap between desired and ready replicas, and the findings of the Pods.
  The lemmas link claims to replicas and show when the fallback finding of a Pod is suppressed.
\<close>

definition statefulset_IDOrderedRolloutBlocked :: string where "statefulset_IDOrderedRolloutBlocked = ''STATEFULSET_ORDERED_ROLLOUT_BLOCKED''"
definition statefulset_IDUnavailableReplicas :: string where "statefulset_IDUnavailableReplicas = ''STATEFULSET_UNAVAILABLE_REPLICAS''"
definition statefulset_IDClaimNotBound :: string where "statefulset_IDClaimNotBound = ''STATEFULSET_CLAIM_NOT_BOUND''"
definition statefulset_IDClaimNotFound :: string where "statefulset_IDClaimNotFound = ''STATEFULSET_CLAIM_NOT_FOUND''"
definition statefulset_IDServiceNotFound :: string where "statefulset_IDServiceNotFound = ''STATEFULSET_SERVICE_NOT_FOUND''"
definition statefulset_IDServiceNotHeadless :: string where "statefulset_IDServiceNotHeadless = ''STATEFULSET_SERVICE_NOT_HEADLESS''"
definition statefulset_IDUpdateOnDelete :: string where "statefulset_IDUpdateOnDelete = ''STATEFULSET_UPDATE_ON_DELETE''"
definition statefulset_IDUpdatePartitioned :: string where "statefulset_IDUpdatePartitioned = ''STATEFULSET_UPDATE_PARTITIONED''"
definition statefulset_IDScaledToZero :: string where "statefulset_IDScaledToZero = ''STATEFULSET_SCALED_TO_ZERO''"

section \<open>Helpers\<close>

definition replica_name :: "'q stateful_set_snap \<Rightarrow> int \<Rightarrow> string" where
  "replica_name snap ordinal = ((sts_Name (st_StatefulSet snap)) @ ''-'' @ int_str ordinal)"

definition ownerPod :: "'q stateful_set_snap \<Rightarrow> string \<Rightarrow> string" where
  "ownerPod snap claimName =
     (case Ordinal claimName of Some ordinal \<Rightarrow> replica_name snap ordinal | None \<Rightarrow> claimName)"

definition statefulset_phaseOrUnknown :: "string \<Rightarrow> string" where
  "statefulset_phaseOrUnknown phase = (if phase = [] then ''Unknown'' else phase)"

definition pluralVerb :: "int \<Rightarrow> string \<Rightarrow> string \<Rightarrow> string" where
  "pluralVerb n singular plural = (if n = 1 then singular else plural)"

text \<open>\<open>LastIndex\<close> of the dash: the text after it, when it is longer than five characters.\<close>

definition shortRevision :: "string \<Rightarrow> string" where
  "shortRevision revision =
     (let after = rev (takeWhile (\<lambda>c. c \<noteq> CHR ''-'') (rev revision)) in
      if CHR ''-'' \<in> set revision \<and> length after + 1 > 6 then after else revision)"

section \<open>The findings of the Pods\<close>

text \<open>The keys of the Go map, as a list.\<close>

definition podsBlockedByTheirClaim :: "'q stateful_set_snap \<Rightarrow> string list" where
  "podsBlockedByTheirClaim snap =
     List.map_filter (\<lambda>(name, claim).
       if pr_Exists claim = Found \<and> pr_Phase claim = ''Bound'' then None
       else if pr_Exists claim = Unknown then None
       else map_option (replica_name snap) (Ordinal name)) (st_Claims snap)"

fun statefulset_pod_loop ::
  "'q kube_lib \<Rightarrow> string list \<Rightarrow> gocontext \<Rightarrow> 'q pod_snap list \<Rightarrow> diagnosis list \<Rightarrow> diagnosis list \<times> gocontext" where
  "statefulset_pod_loop lib explained ctx [] out = (out, ctx)"
| "statefulset_pod_loop lib explained ctx (pod # pods) out =
     (let (found, ctx') = Evaluate ctx (pod_Rules lib) pod;
          found = (if found = [] \<and> pod_Name (ps_Pod pod) \<notin> set explained then Fallback pod else found)
      in statefulset_pod_loop lib explained ctx' pods (out @ found))"

definition statefulset_PodFindings ::
  "'q kube_lib \<Rightarrow> gocontext \<Rightarrow> 'q stateful_set_snap \<Rightarrow> diagnosis list \<times> gocontext" where
  "statefulset_PodFindings lib ctx snap =
     (let (out, ctx') = statefulset_pod_loop lib (podsBlockedByTheirClaim snap) ctx (st_Pods snap) []
      in (AggregateByRule out (int (length (st_Pods snap))), ctx'))"

section \<open>Ordered start\<close>

text \<open>The ordinal is 0 for a name without one, as Go returns together with false.\<close>

definition ordinal_or_zero :: "string \<Rightarrow> int" where
  "ordinal_or_zero name = (case Ordinal name of Some n \<Rightarrow> n | None \<Rightarrow> 0)"

definition ordering_finding :: "'q stateful_set_snap \<Rightarrow> 'q pod_snap \<Rightarrow> int list \<Rightarrow> diagnosis" where
  "ordering_finding snap blocker missing =
     (let name = pod_Name (ps_Pod blocker); n = int (length missing) in
      diagnosis0\<lparr>d_ID := statefulset_IDOrderedRolloutBlocked, d_Subject := StatefulSet_Ref snap,
        d_Component := name, d_Severity := SeverityCritical, d_Confidence := ConfidenceCertain,
        d_Summary := (name @ '' is not ready, so the '' @ (format_Count n ''replica'' ''replicas'') @
        '' after it '' @ (pluralVerb n ''has'' ''have'') @ '' not been created''),
        d_Explanation := (''This StatefulSet uses podManagementPolicy OrderedReady, so it creates one Pod at a time '' @
        ''and waits for each to be ready before starting the next. Pod '' @
        int_str (ordinal_or_zero name) @
        '' is not ready, so nothing after it exists yet. Those replicas are not failing; the '' @
        ''controller has not created them. Fixing this one Pod releases the rest.''),
        d_Evidence := [Evid ''statefulSet'' ''spec.podManagementPolicy'' ''OrderedReady'' [],
          Evid ''api'' ''blockedBy'' name [],
          Evid ''api'' ''neverCreated'' (str_Join '', '' (map (replica_name snap) missing)) []],
        d_Suggestions := [Sugg ''Diagnose the blocking Pod; every replica behind it is waiting on that one answer.''
          [(''kubectl why pod '' @ name @ '' -n '' @ (sts_Namespace (st_StatefulSet snap)))]]\<rparr>)"

definition evaluateOrdering :: "'q stateful_set_snap \<Rightarrow> diagnosis list" where
  "evaluateOrdering snap =
     (if \<not> StatefulSet_OrderedStart snap \<or> StatefulSet_DesiredReplicas snap = 0 then []
      else
       (let missing = StatefulSet_MissingOrdinals snap in
        case StatefulSet_FirstUnready snap of
          None \<Rightarrow> []
        | Some blocker \<Rightarrow> (if missing = [] then [] else [ordering_finding snap blocker missing])))"

definition orderingRule :: "'q stateful_set_snap rule" where
  "orderingRule = RuleFunc \<lparr>m_ID = statefulset_IDOrderedRolloutBlocked,
     m_Title = ''One Pod is holding up every Pod after it'',
     m_Description = (''Reports the lowest-ordinal Pod that is not ready when the StatefulSet creates Pods in '' @
        ''order, and names the replicas that were never created because of it. Those Pods are not '' @
        ''failing; they do not exist.''),
     m_Emits = []\<rparr> evaluateOrdering"

section \<open>Claims\<close>

definition statefulset_claim_ref :: "'q stateful_set_snap \<Rightarrow> string \<Rightarrow> resource_ref" where
  "statefulset_claim_ref snap name =
     \<lparr>ref_Kind = ''PersistentVolumeClaim'', ref_Namespace = sts_Namespace (st_StatefulSet snap), ref_Name = name\<rparr>"

definition statefulset_missing_claim :: "'q stateful_set_snap \<Rightarrow> string \<Rightarrow> diagnosis" where
  "statefulset_missing_claim snap name =
     diagnosis0\<lparr>d_ID := statefulset_IDClaimNotFound, d_Subject := statefulset_claim_ref snap name,
       d_Severity := SeverityCritical, d_Confidence := ConfidenceCertain,
       d_Summary := (''The claim for '' @ (ownerPod snap name) @ '' does not exist''),
       d_Explanation := (''A StatefulSet creates one claim per replica from its volume claim templates before '' @
        ''starting the Pod. This one is absent, so the Pod cannot be created.''),
       d_Evidence := [Evid ''api'' (''persistentvolumeclaim/'' @ name) ''NotFound'' []],
       d_PossibleCauses := [''the claim was deleted by hand'',
         ''the controller could not create it, which its events would record'']\<rparr>"

definition statefulset_unbound_claim :: "'q stateful_set_snap \<Rightarrow> string \<Rightarrow> pvc_ref \<Rightarrow> diagnosis" where
  \<open>statefulset_unbound_claim snap name claim =
     (let owner = ownerPod snap name;
          d = diagnosis0\<lparr>d_ID := statefulset_IDClaimNotBound, d_Subject := statefulset_claim_ref snap name,
            d_Severity := SeverityCritical, d_Confidence := ConfidenceCertain,
            d_Summary := (''The claim for '' @ owner @ '' is '' @ (statefulset_phaseOrUnknown (pr_Phase claim)) @
        '', not Bound''),
            d_Explanation := (''Replica '' @ owner @
        '' cannot start until its own volume is bound. Each replica of a StatefulSet gets its own '' @
        ''claim, so this affects that one Pod rather than the whole set '' @ em_dash @
        '' though under ordered management, that is enough to hold up every replica after it.''),
            d_Evidence := [Evid ''persistentVolumeClaim'' ''status.phase'' (statefulset_phaseOrUnknown (pr_Phase claim)) []] @
              (if pr_StorageClass claim \<noteq> []
               then [Evid ''persistentVolumeClaim'' ''spec.storageClassName'' (pr_StorageClass claim) []] else []),
            d_Suggestions := [Sugg ''Ask KubeWhy about the claim; its events say why provisioning has not finished.''
              [(''kubectl why pvc '' @ name @ '' -n '' @ (sts_Namespace (st_StatefulSet snap)))]]\<rparr>
      in if PVCRef_WaitsForConsumer claim then
           d\<lparr>d_Severity := SeverityInfo,
             d_Summary := (''The claim for '' @ owner @ '' binds once that Pod is scheduled''),
             d_Explanation := (''Storage class '' @ quote_str (pr_StorageClass claim) @
        '' uses volumeBindingMode WaitForFirstConsumer, so this claim stays Pending until the '' @
        ''scheduler places '' @ owner @
        ''. A Pending claim here is expected, and the reason that Pod is not scheduled lies '' @
        ''elsewhere.''),
             d_Evidence := d_Evidence d @ [Evid ''storageClass'' ''volumeBindingMode'' (pr_BindingMode claim) []],
             d_Suggestions := []\<rparr>
         else d)\<close>

definition statefulset_claim_findings :: "'q stateful_set_snap \<Rightarrow> string \<Rightarrow> diagnosis list" where
  "statefulset_claim_findings snap name =
     (case map_of (st_Claims snap) name of
        None \<Rightarrow> []
      | Some claim \<Rightarrow>
         (if pr_Exists claim = Missing then [statefulset_missing_claim snap name]
          else if pr_Exists claim = Found \<and> pr_Phase claim \<noteq> ''Bound'' then [statefulset_unbound_claim snap name claim]
          else []))"

definition statefulset_evaluateClaims :: "'q stateful_set_snap \<Rightarrow> diagnosis list" where
  "statefulset_evaluateClaims snap =
     concat (map (statefulset_claim_findings snap) (sort (map fst (st_Claims snap))))"

definition statefulset_claimRule :: "'q stateful_set_snap rule" where
  "statefulset_claimRule = RuleFunc \<lparr>m_ID = statefulset_IDClaimNotBound,
     m_Title = ''A replica's volume is not usable'',
     m_Description = (''Reports the claims created from the volume claim templates that are missing or unbound, '' @
        ''and which replica each one belongs to. The link from a StatefulSet to the claim '' @
        ''blocking one of its Pods is not visible anywhere else.''),
     m_Emits = [statefulset_IDClaimNotBound, statefulset_IDClaimNotFound]\<rparr> statefulset_evaluateClaims"

section \<open>The governing Service\<close>

definition governing_missing_finding :: "'q stateful_set_snap \<Rightarrow> diagnosis" where
  \<open>governing_missing_finding snap =
     diagnosis0\<lparr>d_ID := statefulset_IDServiceNotFound, d_Subject := StatefulSet_Ref snap,
       d_Severity := SeverityWarning, d_Confidence := ConfidenceCertain,
       d_Summary := (''The governing Service '' @ quote_str (hs_Name (st_Service snap)) @ '' does not exist''),
       d_Explanation := (''A StatefulSet's Pods get a stable DNS name of the form pod-0.service.namespace.svc from '' @
        ''the Service named in spec.serviceName. That Service is not present, so those names do '' @
        ''not resolve. The Pods still run, which is why this is easy to miss: anything that '' @
        ''addresses a replica by name fails while the workload looks healthy.''),
       d_Evidence := [Evid ''statefulSet'' ''spec.serviceName'' (hs_Name (st_Service snap)) [],
         Evid ''api'' (''service/'' @ hs_Name (st_Service snap)) ''NotFound'' []],
       d_Suggestions := [Sugg ''Create a headless Service (clusterIP: None) with that name, selecting the same Pods.''
         [(''kubectl get services -n '' @ (sts_Namespace (st_StatefulSet snap)))]]\<rparr>\<close>

definition not_headless_finding :: "'q stateful_set_snap \<Rightarrow> diagnosis" where
  \<open>not_headless_finding snap =
     diagnosis0\<lparr>d_ID := statefulset_IDServiceNotHeadless,
       d_Subject := \<lparr>ref_Kind = ''Service'', ref_Namespace = sts_Namespace (st_StatefulSet snap), ref_Name = hs_Name (st_Service snap)\<rparr>,
       d_Severity := SeverityWarning, d_Confidence := ConfidenceCertain,
       d_Summary := (''The governing Service '' @ quote_str (hs_Name (st_Service snap)) @
        '' is not headless''),
       d_Explanation := (''Per-Pod DNS names come from a headless Service '' @ em_dash @
        '' one with clusterIP: None. This Service has a cluster IP, so it load-balances across '' @
        ''the replicas instead of naming them individually, and pod-0.service.namespace.svc does '' @
        ''not resolve.''),
       d_Evidence := [Evid ''statefulSet'' ''spec.serviceName'' (hs_Name (st_Service snap)) [],
         Evid ''service'' ''spec.clusterIP'' ''assigned, not None'' []],
       d_PossibleCauses := [''the Service was written as a normal one, or reused from a Deployment'',
         ''a separate headless Service was intended and spec.serviceName points at the wrong one'']\<rparr>\<close>

definition evaluateService :: "'q stateful_set_snap \<Rightarrow> diagnosis list" where
  "evaluateService snap =
     (let service = st_Service snap in
      if hs_Name service = [] \<or> hs_Exists service = Unknown then []
      else if hs_Exists service = Missing then [governing_missing_finding snap]
      else if \<not> hs_Headless service then [not_headless_finding snap]
      else [])"

definition serviceRule :: "'q stateful_set_snap rule" where
  "serviceRule = RuleFunc \<lparr>m_ID = statefulset_IDServiceNotFound,
     m_Title = ''The governing Service does not give the Pods an identity'',
     m_Description = (''Reports a spec.serviceName that names no Service, or names one that is not headless. '' @
        ''Neither stops the Pods from running, which is what makes it hard to find: everything '' @
        ''looks healthy and the Pods' DNS names do not resolve.''),
     m_Emits = [statefulset_IDServiceNotFound, statefulset_IDServiceNotHeadless]\<rparr> evaluateService"

section \<open>Update strategy\<close>

definition statefulset_scaled_finding :: "'q stateful_set_snap \<Rightarrow> diagnosis" where
  "statefulset_scaled_finding snap =
     diagnosis0\<lparr>d_ID := statefulset_IDScaledToZero, d_Subject := StatefulSet_Ref snap,
       d_Severity := SeverityInfo, d_Confidence := ConfidenceCertain,
       d_Summary := ''The StatefulSet is scaled to zero, so it runs no Pods'',
       d_Explanation := (''This is what the spec asks for. Note that scaling a StatefulSet down does not delete '' @
        ''the claims its replicas were using; they are kept so the data survives.''),
       d_Evidence := [Evid ''statefulSet'' ''spec.replicas'' ''0'' []]\<rparr>"

definition on_delete_finding :: "'q stateful_set_snap \<Rightarrow> diagnosis" where
  "on_delete_finding snap =
     diagnosis0\<lparr>d_ID := statefulset_IDUpdateOnDelete, d_Subject := StatefulSet_Ref snap,
       d_Severity := SeverityInfo, d_Confidence := ConfidenceCertain,
       d_Summary := ''Pods are on an older revision, and will stay there until they are deleted'',
       d_Explanation := (''The update strategy is OnDelete, so the controller never replaces a Pod on its own. The '' @
        ''spec has changed and the running Pods have not, which is the intended behaviour rather '' @
        ''than a rollout that stalled.''),
       d_Evidence := [Evid ''statefulSet'' ''spec.updateStrategy.type'' ''OnDelete'' [],
         Evid ''statefulSet'' ''status.currentRevision'' (shortRevision (sts_CurrentRevision (st_StatefulSet snap))) [],
         Evid ''statefulSet'' ''status.updateRevision'' (shortRevision (sts_UpdateRevision (st_StatefulSet snap))) []],
       d_Suggestions := [Sugg (''Deleting a Pod is what applies the new revision to it, one replica at a time and in '' @
        ''your own order.'') []]\<rparr>"

definition partition_finding :: "'q stateful_set_snap \<Rightarrow> diagnosis" where
  "partition_finding snap =
     (let part = StatefulSet_Partition snap in
      diagnosis0\<lparr>d_ID := statefulset_IDUpdatePartitioned, d_Subject := StatefulSet_Ref snap,
        d_Severity := SeverityInfo, d_Confidence := ConfidenceCertain,
        d_Summary := (''Only replicas '' @ int_str part @ '' and above are being updated''),
        d_Explanation := (''The rolling update is partitioned at '' @ int_str part @ '', so replicas 0 to '' @
        int_str (part - 1) @
        '' keep the old revision on purpose. This is how a staged rollout is held part-way; the '' @
        ''replicas below the partition are not stuck.''),
        d_Evidence := [Evid ''statefulSet'' ''spec.updateStrategy.rollingUpdate.partition'' (int_str part) [],
          Evid ''statefulSet'' ''status.updatedReplicas'' (int_str (sts_UpdatedReplicas (st_StatefulSet snap))) []],
        d_Suggestions := [Sugg ''Lower the partition to continue the rollout, or remove it to update every replica.'' []]\<rparr>)"

definition evaluateUpdateStrategy :: "'q stateful_set_snap \<Rightarrow> diagnosis list" where
  "evaluateUpdateStrategy snap =
     (if StatefulSet_DesiredReplicas snap = 0 then [statefulset_scaled_finding snap]
      else
        (if StatefulSet_UpdatesOnDelete snap \<and> StatefulSet_RolloutPending snap then [on_delete_finding snap] else []) @
        (if StatefulSet_Partition snap > 0 \<and> StatefulSet_RolloutPending snap then [partition_finding snap] else []))"

definition updateStrategyRule :: "'q stateful_set_snap rule" where
  "updateStrategyRule = RuleFunc \<lparr>m_ID = statefulset_IDUpdateOnDelete,
     m_Title = ''The rollout is waiting by design'',
     m_Description = (''Reports an OnDelete update strategy and a rolling update partition. Both leave Pods on '' @
        ''an old revision on purpose, and both look identical to a stuck rollout.''),
     m_Emits = [statefulset_IDUpdateOnDelete, statefulset_IDUpdatePartitioned, statefulset_IDScaledToZero]\<rparr> evaluateUpdateStrategy"

section \<open>Availability\<close>

definition statefulset_gap_finding :: "'q stateful_set_snap \<Rightarrow> diagnosis" where
  "statefulset_gap_finding snap =
     (let desired = StatefulSet_DesiredReplicas snap; ready = sts_ReadyReplicas (st_StatefulSet snap) in
      diagnosis0\<lparr>d_ID := statefulset_IDUnavailableReplicas, d_Subject := StatefulSet_Ref snap,
        d_Severity := (if ready > 0 then SeverityWarning else SeverityCritical), d_Confidence := ConfidenceCertain,
        d_Summary := (int_str ready @ '' of '' @ int_str desired @ '' replicas are ready''),
        d_Explanation := (''Each replica of a StatefulSet has its own identity and its own storage, so they fail '' @
        ''one at a time rather than as a group. The findings above say which one and why.''),
        d_Evidence := [Evid ''statefulSet'' ''spec.replicas'' (int_str desired) [],
          Evid ''statefulSet'' ''status.readyReplicas'' (int_str ready) [],
          Evid ''statefulSet'' ''status.currentReplicas'' (int_str (sts_CurrentReplicas (st_StatefulSet snap))) [],
          Evid ''statefulSet'' ''status.updatedReplicas'' (int_str (sts_UpdatedReplicas (st_StatefulSet snap))) []]\<rparr>)"

definition statefulset_evaluateAvailability :: "'q stateful_set_snap \<Rightarrow> diagnosis list" where
  "statefulset_evaluateAvailability snap =
     (if StatefulSet_DesiredReplicas snap = 0 \<or>
         sts_ReadyReplicas (st_StatefulSet snap) \<ge> StatefulSet_DesiredReplicas snap then []
      else [statefulset_gap_finding snap])"

definition statefulset_availabilityRule :: "'q stateful_set_snap rule" where
  "statefulset_availabilityRule = RuleFunc \<lparr>m_ID = statefulset_IDUnavailableReplicas,
     m_Title = ''The StatefulSet has fewer ready replicas than it asks for'',
     m_Description = (''Reports the difference between desired and ready replicas. It stays silent for a '' @
        ''StatefulSet scaled to zero, and for one held back by a partitioned update.''),
     m_Emits = []\<rparr> statefulset_evaluateAvailability"

definition statefulset_Rules :: "'q stateful_set_snap rule list" where
  "statefulset_Rules = [orderingRule, statefulset_claimRule, serviceRule, updateStrategyRule, statefulset_availabilityRule]"

definition statefulset_Catalog :: "rule_meta list" where
  "statefulset_Catalog = map rule_Metadata (statefulset_Rules :: unit stateful_set_snap rule list)"

section \<open>The contract\<close>

lemma evaluateOrdering_ok: "findings_ok [statefulset_IDOrderedRolloutBlocked] (evaluateOrdering snap)"
  by (simp add: evaluateOrdering_def ordering_finding_def Let_def finding_ok_def finding_simps cong: finding_cong
      split: option.split)

lemma statefulset_claim_findings_ok:
  "findings_ok [statefulset_IDClaimNotBound, statefulset_IDClaimNotFound] (statefulset_claim_findings snap name)"
  by (simp add: statefulset_claim_findings_def statefulset_missing_claim_def statefulset_unbound_claim_def Let_def
      finding_ok_def finding_simps cong: finding_cong split: option.split)

lemma statefulset_evaluateClaims_ok:
  "findings_ok [statefulset_IDClaimNotBound, statefulset_IDClaimNotFound] (statefulset_evaluateClaims snap)"
  by (simp add: statefulset_evaluateClaims_def findings_ok_concat statefulset_claim_findings_ok)

lemma evaluateService_ok:
  "findings_ok [statefulset_IDServiceNotFound, statefulset_IDServiceNotHeadless] (evaluateService snap)"
  by (simp add: evaluateService_def governing_missing_finding_def not_headless_finding_def Let_def finding_ok_def
      finding_simps cong: finding_cong)

lemma evaluateUpdateStrategy_ok:
  "findings_ok [statefulset_IDUpdateOnDelete, statefulset_IDUpdatePartitioned, statefulset_IDScaledToZero]
     (evaluateUpdateStrategy snap)"
  by (simp add: evaluateUpdateStrategy_def statefulset_scaled_finding_def on_delete_finding_def partition_finding_def
      Let_def finding_ok_def cong: finding_cong)

lemma statefulset_evaluateAvailability_ok:
  "findings_ok [statefulset_IDUnavailableReplicas] (statefulset_evaluateAvailability snap)"
  by (simp add: statefulset_evaluateAvailability_def statefulset_gap_finding_def Let_def finding_ok_def cong: finding_cong)

lemmas statefulset_rule_defs =
  orderingRule_def statefulset_claimRule_def serviceRule_def updateStrategyRule_def statefulset_availabilityRule_def
lemmas statefulset_rule_contracts =
  evaluateOrdering_ok statefulset_evaluateClaims_ok evaluateService_ok evaluateUpdateStrategy_ok
  statefulset_evaluateAvailability_ok

interpretation statefulset: rule_set statefulset_Rules
  by unfold_locales (simp only: statefulset_Rules_def statefulset_rule_defs statefulset_rule_contracts rule_contract_simps)

section \<open>Claims and replicas\<close>

lemma replica_name_eq: "0 \<le> n \<Longrightarrow> replica_name snap n = sts_Name (st_StatefulSet snap) @ ''-'' @ nat_str (nat n)"
  by (simp add: replica_name_def int_str_def)

lemma Ordinal_ClaimName:
  assumes "0 \<le> n" and "n < 2 ^ 63"
  shows "Ordinal (StatefulSet_ClaimName snap template n) = Some n"
proof -
  have "StatefulSet_ClaimName snap template n =
      (template @ ''-'' @ sts_Name (st_StatefulSet snap)) @ ''-'' @ nat_str (nat n)"
    using assms(1) by (simp add: StatefulSet_ClaimName_def int_str_def)
  moreover have "Ordinal ((template @ ''-'' @ sts_Name (st_StatefulSet snap)) @ ''-'' @ nat_str (nat n)) = Some (int (nat n))"
    using assms by (intro Ordinal_suffix) simp
  ultimately show ?thesis using assms(1) by simp
qed

lemma MissingOrdinals_sorted: "sorted (StatefulSet_MissingOrdinals snap)" "distinct (StatefulSet_MissingOrdinals snap)"
proof -
  have "sorted (map int [0..<k])" for k
    by (simp add: sorted_map)
  then show "sorted (StatefulSet_MissingOrdinals snap)"
    unfolding StatefulSet_MissingOrdinals_def by (rule sorted_wrt_filter)
  show "distinct (StatefulSet_MissingOrdinals snap)"
    by (simp add: StatefulSet_MissingOrdinals_def distinct_map)
qed

text \<open>
  C31. The claim a StatefulSet makes for a replica from a template leads back to that replica: its
  ordinal is read from the claim's name and the owner it is reported under is the name of the
  replica's Pod. When the claim is known and not usable, that Pod is among those whose fallback
  finding is suppressed.
\<close>

theorem claim_owner_roundtrip:
  assumes "0 \<le> n" and "n < 2 ^ 63"
  shows "Ordinal (StatefulSet_ClaimName snap template n) = Some n \<and>
    ownerPod snap (StatefulSet_ClaimName snap template n) = sts_Name (st_StatefulSet snap) @ ''-'' @ int_str n \<and>
    ((StatefulSet_ClaimName snap template n, claim) \<in> set (st_Claims snap) \<and>
     (pr_Exists claim = Missing \<or> pr_Exists claim = Found \<and> pr_Phase claim \<noteq> ''Bound'') \<longrightarrow>
     sts_Name (st_StatefulSet snap) @ ''-'' @ int_str n \<in> set (podsBlockedByTheirClaim snap))"
proof -
  let ?name = "StatefulSet_ClaimName snap template n"
  let ?step = "\<lambda>(name, claim). if pr_Exists claim = Found \<and> pr_Phase claim = ''Bound'' then None
       else if pr_Exists claim = Unknown then None else map_option (replica_name snap) (Ordinal name)"
  note ord = Ordinal_ClaimName [OF assms, of snap template]
  have "replica_name snap n \<in> set (podsBlockedByTheirClaim snap)"
    if "(?name, claim) \<in> set (st_Claims snap)"
      and "pr_Exists claim = Missing \<or> pr_Exists claim = Found \<and> pr_Phase claim \<noteq> ''Bound''"
  proof -
    have "?step (?name, claim) = Some (replica_name snap n)" using that(2) ord by auto
    then show ?thesis
      using that(1) unfolding podsBlockedByTheirClaim_def map_filter_def by force
  qed
  then show ?thesis using ord by (auto simp: ownerPod_def replica_name_def)
qed

definition sample_statefulset :: "int stateful_set_snap" where
  "sample_statefulset = \<lparr>st_Collection = collection0,
     st_StatefulSet = \<lparr>sts_Name = ''db'', sts_Namespace = ''default'', sts_CreationTimestamp = 0, sts_Replicas = Some 3,
       sts_PodManagementPolicy = ''OrderedReady'', sts_UpdateStrategyType = ''RollingUpdate'', sts_Partition = None,
       sts_VolumeClaimTemplates = [''data''], sts_CurrentRevision = [], sts_UpdateRevision = [],
       sts_ReadyReplicas = 0, sts_CurrentReplicas = 0, sts_UpdatedReplicas = 0,
       sts_UID = [], sts_Selector = None, sts_ServiceName = [], sts_TemplateLabels = []\<rparr>,
     st_Events = [], st_Pods = [], st_Service = \<lparr>hs_Name = [], hs_Exists = Unknown, hs_Headless = False, hs_Selects = False\<rparr>,
     st_Claims = [(''data-db-2'', sample_claim Missing [])], st_Now = 0\<rparr>"

lemma claim_owner_roundtrip_witness:
  "Ordinal (StatefulSet_ClaimName sample_statefulset ''data'' 2) = Some 2 \<and>
   ownerPod sample_statefulset (StatefulSet_ClaimName sample_statefulset ''data'' 2) = ''db-2''"
proof -
  have "int_str 2 = ''2''" by code_simp
  then show ?thesis
    using claim_owner_roundtrip [of 2 sample_statefulset "''data''"] by (simp add: sample_statefulset_def)
qed

text \<open>
  C34. With ordered start, the rollout is reported as blocked exactly when some replica that is
  asked for has no Pod and some existing Pod is not ready. The finding names the first Pod of the
  snapshot that is not ready, whether or not its name has an ordinal, and the replicas listed as
  never created are, in increasing order, exactly the ordinals below the desired count that no
  Pod has. (The page of the rule says that a Pod without an ordinal is not treated as a blocker;
  the code does treat it as one.)
\<close>

theorem evaluateOrdering_exact:
  assumes "StatefulSet_OrderedStart snap"
  shows "(evaluateOrdering snap \<noteq> [] \<longleftrightarrow>
      (\<exists>i. 0 \<le> i \<and> i < StatefulSet_DesiredReplicas snap \<and> (\<forall>p\<in>set (st_Pods snap). Ordinal (pod_Name (ps_Pod p)) \<noteq> Some i)) \<and>
      (\<exists>p\<in>set (st_Pods snap). \<not> snapshot_podIsReady (ps_Pod p))) \<and>
    (\<forall>d\<in>set (evaluateOrdering snap).
      \<exists>p missing. find (\<lambda>p. \<not> snapshot_podIsReady (ps_Pod p)) (st_Pods snap) = Some p \<and> d_Component d = pod_Name (ps_Pod p) \<and>
        sorted missing \<and> distinct missing \<and>
        set missing = {i. 0 \<le> i \<and> i < StatefulSet_DesiredReplicas snap \<and>
           (\<forall>p\<in>set (st_Pods snap). Ordinal (pod_Name (ps_Pod p)) \<noteq> Some i)} \<and>
        Evid ''api'' ''neverCreated'' (str_Join '', '' (map (replica_name snap) missing)) [] \<in> set (d_Evidence d))"
proof -
  let ?m = "StatefulSet_MissingOrdinals snap"
  note sorted = MissingOrdinals_sorted [of snap]
  have zero: "StatefulSet_DesiredReplicas snap = 0 \<Longrightarrow> ?m = []"
    by (simp add: StatefulSet_MissingOrdinals_def)
  have unready: "StatefulSet_FirstUnready snap = None \<longleftrightarrow> \<not> (\<exists>p\<in>set (st_Pods snap). \<not> snapshot_podIsReady (ps_Pod p))"
    by (auto simp: StatefulSet_FirstUnready_def find_None_iff)
  have eq: "evaluateOrdering snap = (case StatefulSet_FirstUnready snap of None \<Rightarrow> []
      | Some p \<Rightarrow> if ?m = [] then [] else [ordering_finding snap p ?m])"
    using assms zero by (auto simp: evaluateOrdering_def Let_def split: option.split)
  have parts: "d_Component (ordering_finding snap p ?m) = pod_Name (ps_Pod p)"
    "Evid ''api'' ''neverCreated'' (str_Join '', '' (map (replica_name snap) ?m)) [] \<in> set (d_Evidence (ordering_finding snap p ?m))" for p
    by (simp_all add: ordering_finding_def Let_def cong: finding_cong)
  have "evaluateOrdering snap \<noteq> [] \<longleftrightarrow> (\<exists>i. i \<in> set ?m) \<and> (\<exists>p\<in>set (st_Pods snap). \<not> snapshot_podIsReady (ps_Pod p))"
    unfolding ex_in_conv set_empty using unready by (auto simp: eq split: option.splits)
  moreover have "\<exists>p missing. find (\<lambda>p. \<not> snapshot_podIsReady (ps_Pod p)) (st_Pods snap) = Some p \<and> d_Component d = pod_Name (ps_Pod p) \<and>
        sorted missing \<and> distinct missing \<and> set missing = set ?m \<and>
        Evid ''api'' ''neverCreated'' (str_Join '', '' (map (replica_name snap) missing)) [] \<in> set (d_Evidence d)"
    if d: "d \<in> set (evaluateOrdering snap)" for d
  proof -
    obtain p where "StatefulSet_FirstUnready snap = Some p" and "d = ordering_finding snap p ?m"
      using d unfolding eq by (cases "StatefulSet_FirstUnready snap") (auto split: if_splits)
    with parts [of p] sorted show ?thesis by (auto simp: StatefulSet_FirstUnready_def)
  qed
  ultimately show ?thesis unfolding set_MissingOrdinals by auto
qed

definition blocked_statefulset :: "int stateful_set_snap" where
  "blocked_statefulset = sample_statefulset\<lparr>st_Pods := [pod_snap0\<lparr>ps_Pod := pod0\<lparr>pod_Name := ''db-0''\<rparr>\<rparr>]\<rparr>"

lemma evaluateOrdering_exact_witness: "evaluateOrdering blocked_statefulset \<noteq> []"
proof -
  have "StatefulSet_OrderedStart blocked_statefulset"
    by (simp add: blocked_statefulset_def sample_statefulset_def StatefulSet_OrderedStart_def)
  moreover have "Ordinal ''db-0'' = Some 0" by code_simp
  then have "\<forall>p\<in>set (st_Pods blocked_statefulset). Ordinal (pod_Name (ps_Pod p)) \<noteq> Some 1"
    by (simp add: blocked_statefulset_def)
  moreover have "StatefulSet_DesiredReplicas blocked_statefulset = 3"
    by (simp add: blocked_statefulset_def sample_statefulset_def StatefulSet_DesiredReplicas_def)
  moreover have "\<exists>p\<in>set (st_Pods blocked_statefulset). \<not> snapshot_podIsReady (ps_Pod p)"
    by (simp add: blocked_statefulset_def snapshot_podIsReady_def pod0_def)
  ultimately show ?thesis
    using evaluateOrdering_exact [of blocked_statefulset] by (auto intro!: exI [of _ 1])
qed

text \<open>A Pod whose name has no ordinal is named as the blocker too.\<close>

lemma stray_blocker:
  "map d_Component (evaluateOrdering (sample_statefulset\<lparr>st_Pods := [pod_snap0\<lparr>ps_Pod := pod0\<lparr>pod_Name := ''stray''\<rparr>\<rparr>]\<rparr>)) = [''stray''] \<and>
   Ordinal ''stray'' = None"
  by code_simp

end
