(* ===== verification/IngressRules.thy ===== *)
theory IngressRules
  imports PodRules
begin

text \<open>
  Package \<open>rules/ingress\<close>: every backend Service of an Ingress followed to its port and its
  endpoints, the IngressClass and the published address. The lemmas show that a backend is
  reported at most once, for the first broken link, and that Services that could not be read are
  never reported.
\<close>

definition ingress_IDServiceNotFound :: string where "ingress_IDServiceNotFound = ''INGRESS_SERVICE_NOT_FOUND''"
definition ingress_IDServicePortNotFound :: string where "ingress_IDServicePortNotFound = ''INGRESS_SERVICE_PORT_NOT_FOUND''"
definition ingress_IDServiceNoEndpoints :: string where "ingress_IDServiceNoEndpoints = ''INGRESS_SERVICE_NO_ENDPOINTS''"
definition ingress_IDClassNotFound :: string where "ingress_IDClassNotFound = ''INGRESS_CLASS_NOT_FOUND''"
definition ingress_IDNoClass :: string where "ingress_IDNoClass = ''INGRESS_NO_CLASS''"
definition ingress_IDNoAddress :: string where "ingress_IDNoAddress = ''INGRESS_NO_ADDRESS''"
definition ingress_IDNoRules :: string where "ingress_IDNoRules = ''INGRESS_NO_RULES''"

definition addressGracePeriod :: duration where "addressGracePeriod = 2 * go_Minute"

section \<open>Helpers\<close>

definition routeEvidence :: "ingress_path list \<Rightarrow> evidence list" where
  "routeEvidence paths =
     map (\<lambda>path. Evid ''ingress'' ''route'' (IngressPath_Route path @ '' -> '' @ IngressPath_Target path) []) paths"

definition serviceNames :: "'q ingress_snap \<Rightarrow> string list" where
  "serviceNames snap = sort (map fst (is_Services snap))"

definition ingress_joinOrNone :: "string list \<Rightarrow> string" where
  "ingress_joinOrNone values = (if values = [] then ''none'' else str_Join '', '' values)"

definition ingress_service_ref :: "'q ingress_snap \<Rightarrow> 'q ingress_service \<Rightarrow> resource_ref" where
  "ingress_service_ref snap service =
     \<lparr>ref_Kind = ''Service'', ref_Namespace = ing_Namespace (is_Ingress snap), ref_Name = is_Name service\<rparr>"

section \<open>The Pods behind the backends\<close>

definition ingress_pods :: "'q ingress_snap \<Rightarrow> 'q pod_snap list" where
  "ingress_pods snap =
     concat (map (\<lambda>name. case map_of (is_Services snap) name of None \<Rightarrow> [] | Some s \<Rightarrow> is_Backends s) (serviceNames snap))"

definition ingress_PodFindings :: "'q kube_lib \<Rightarrow> gocontext \<Rightarrow> 'q ingress_snap \<Rightarrow> diagnosis list \<times> gocontext" where
  "ingress_PodFindings lib ctx snap = Aggregated lib ctx (ingress_pods snap)"

section \<open>Backends\<close>

definition missingServiceDiagnosis :: "'q ingress_snap \<Rightarrow> 'q ingress_service \<Rightarrow> ingress_path list \<Rightarrow> diagnosis" where
  \<open>missingServiceDiagnosis snap service paths =
     diagnosis0\<lparr>d_ID := ingress_IDServiceNotFound, d_Subject := ingress_service_ref snap service,
       d_Severity := SeverityCritical, d_Confidence := ConfidenceCertain,
       d_Summary := (''Service '' @ quote_str (is_Name service) @
        '' does not exist, so its routes lead nowhere''),
       d_Explanation := (''The Ingress routes to Service '' @ quote_str (is_Name service) @
        '', and the API server reports that no such Service exists in namespace '' @
        quote_str (ing_Namespace (is_Ingress snap)) @
        ''. A controller cannot build a backend for it.''),
       d_Evidence := routeEvidence paths @ [Evid ''api'' (''service/'' @ is_Name service) ''NotFound'' []],
       d_PossibleCauses := [''the Service was renamed or deleted'',
         ''the Ingress and the Service are in different namespaces, which an Ingress cannot cross''],
       d_Suggestions := [Sugg ''Create the Service, or correct the backend name in the Ingress.''
         [(''kubectl get services -n '' @ (ing_Namespace (is_Ingress snap)))]]\<rparr>\<close>

text \<open>The ports no path finds on the Service, each text once.\<close>

definition missing_ports :: "'q ingress_service \<Rightarrow> ingress_path list \<Rightarrow> ingress_port list" where
  "missing_ports service paths =
     first_seen IngressPort_String [] (filter (\<lambda>port. \<not> IngressService_HasPort service port) (map pa_Port paths))"

definition portDiagnosis :: "'q ingress_snap \<Rightarrow> 'q ingress_service \<Rightarrow> ingress_path list \<Rightarrow> diagnosis option" where
  \<open>portDiagnosis snap service paths =
     (let missing = missing_ports service paths;
          wanted = map IngressPort_String missing
      in
      if missing = [] then None
      else Some (diagnosis0\<lparr>d_ID := ingress_IDServicePortNotFound, d_Subject := ingress_service_ref snap service,
        d_Severity := SeverityCritical, d_Confidence := ConfidenceCertain,
        d_Summary := (''Service '' @ quote_str (is_Name service) @ '' does not expose port '' @
        (str_Join '', '' wanted)),
        d_Explanation := (''The Ingress routes to a port the Service does not declare. A controller has no port to '' @
        ''forward to, so these routes cannot work however healthy the Pods behind them are.''),
        d_Evidence := routeEvidence paths @ [Evid ''ingress'' ''backend.service.port'' (str_Join '', '' wanted) [],
          Evid ''service'' ''spec.ports'' (ingress_joinOrNone (IngressService_PortNames service)) []],
        d_Suggestions := [Sugg ''Point the Ingress at a port the Service declares, or add the port to the Service.''
          [(''kubectl get service '' @ (is_Name service) @ '' -n '' @
        (ing_Namespace (is_Ingress snap)) @ '' -o wide'')]]\<rparr>))\<close>

definition is_external_name :: "'q ingress_service \<Rightarrow> bool" where
  "is_external_name service \<longleftrightarrow>
     (case is_Service service of None \<Rightarrow> False | Some svc \<Rightarrow> svc_Type svc = ''ExternalName'')"

definition endpointDiagnosis :: "'q ingress_snap \<Rightarrow> 'q ingress_service \<Rightarrow> ingress_path list \<Rightarrow> diagnosis option" where
  \<open>endpointDiagnosis snap service paths =
     (let eps = is_Endpoints service; source = str_ToLower (es_Source eps) in
      if \<not> es_Known eps \<or> EndpointSet_Ready eps > 0 then None
      else if is_external_name service then None
      else
       (let notReady = EndpointSet_NotReady eps;
            d = diagnosis0\<lparr>d_ID := ingress_IDServiceNoEndpoints, d_Subject := ingress_service_ref snap service,
              d_Severity := SeverityCritical, d_Confidence := ConfidenceCertain,
              d_Summary := (''Service '' @ quote_str (is_Name service) @
        '' has no ready endpoints, so its routes return errors''),
              d_Explanation := (''The Ingress and the Service are configured correctly, but the Service currently routes '' @
        ''to nothing. Requests that reach these routes have no backend to be served by.''),
              d_Evidence := routeEvidence paths @ [Evid source ''readyEndpoints'' ''0'' []] @
                (if notReady > 0 then [Evid source ''notReadyEndpoints'' (int_str notReady) []] else []),
              d_Suggestions := [Sugg ''Ask KubeWhy about the Service itself for the full endpoint picture.''
                [(''kubectl why service '' @ (is_Name service) @ '' -n '' @
        (ing_Namespace (is_Ingress snap)))]]\<rparr>
        in Some (if is_Backends service \<noteq> [] then
             d\<lparr>d_Evidence := d_Evidence d @ [Evid ''api'' ''matchingPods'' (int_str (int (length (is_Backends service)))) []]\<rparr>
           else (case is_Service service of
               None \<Rightarrow> d
             | Some svc \<Rightarrow> (if svc_Selector svc \<noteq> []
                 then d\<lparr>d_PossibleCauses := [''the Service selector matches no Pods at all'']\<rparr> else d)))))\<close>

definition backend_findings :: "'q ingress_snap \<Rightarrow> string \<Rightarrow> diagnosis list" where
  "backend_findings snap name =
     (case map_of (is_Services snap) name of
        None \<Rightarrow> []
      | Some service \<Rightarrow>
         (let paths = filter (\<lambda>path. pa_ServiceName path = name) (filter (\<lambda>path. pa_ServiceName path \<noteq> []) (is_Paths snap)) in
          if is_Exists service = Missing then [missingServiceDiagnosis snap service paths]
          else if is_Exists service \<noteq> Found then []
          else (case portDiagnosis snap service paths of
              Some d \<Rightarrow> [d]
            | None \<Rightarrow> (case endpointDiagnosis snap service paths of Some d \<Rightarrow> [d] | None \<Rightarrow> []))))"

definition no_rules_finding :: "'q ingress_snap \<Rightarrow> diagnosis" where
  "no_rules_finding snap =
     diagnosis0\<lparr>d_ID := ingress_IDNoRules, d_Subject := Ingress_Ref snap,
       d_Severity := SeverityWarning, d_Confidence := ConfidenceCertain,
       d_Summary := ''The Ingress declares no backend to route to'',
       d_Explanation := (''An Ingress with no rules and no default backend gives a controller nothing to serve, so '' @
        ''no request can ever reach a Service through it.''),
       d_Evidence := [Evid ''ingress'' ''spec.rules'' ''none'' []]\<rparr>"

definition evaluateBackends :: "'q ingress_snap \<Rightarrow> diagnosis list" where
  "evaluateBackends snap =
     (if is_Paths snap = [] then [no_rules_finding snap]
      else concat (map (backend_findings snap) (serviceNames snap)))"

definition backendRule :: "'q ingress_snap rule" where
  "backendRule = RuleFunc \<lparr>m_ID = ingress_IDServiceNotFound,
     m_Title = ''An Ingress backend is broken'',
     m_Description = (''Walks each routing rule to its Service, its port and its endpoints, and reports the '' @
        ''first link in that chain that is broken. Each broken backend is reported once, however '' @
        ''many paths route to it.''),
     m_Emits = [ingress_IDServiceNotFound, ingress_IDServicePortNotFound, ingress_IDServiceNoEndpoints, ingress_IDNoRules]\<rparr> evaluateBackends"

section \<open>The class\<close>

definition class_missing_finding :: "'q ingress_snap \<Rightarrow> diagnosis" where
  \<open>class_missing_finding snap =
     (let name = ic_Name (is_Class snap) in
      diagnosis0\<lparr>d_ID := ingress_IDClassNotFound, d_Subject := Ingress_Ref snap,
        d_Severity := SeverityCritical, d_Confidence := ConfidenceCertain,
        d_Summary := (''IngressClass '' @ quote_str name @ '' does not exist''),
        d_Explanation := (''An Ingress is served by the controller its class points at. The class it names is not '' @
        ''present in the cluster, so no controller will claim this Ingress.''),
        d_Evidence := [Evid ''ingress'' ''spec.ingressClassName'' name [],
          Evid ''api'' (''ingressclass/'' @ name) ''NotFound'' []],
        d_Suggestions := [Sugg ''Use a class the cluster offers, or install the controller that provides this one.''
          [''kubectl get ingressclasses'']]\<rparr>)\<close>

definition no_class_finding :: "'q ingress_snap \<Rightarrow> diagnosis" where
  "no_class_finding snap =
     diagnosis0\<lparr>d_ID := ingress_IDNoClass, d_Subject := Ingress_Ref snap,
       d_Severity := SeverityWarning, d_Confidence := ConfidenceLikely,
       d_Summary := ''The Ingress names no class, and the cluster has no default one'',
       d_Explanation := (''Without an ingressClassName, an Ingress is only picked up by the cluster's default '' @
        ''IngressClass. No class is marked as default, so unless a controller was configured to '' @
        ''watch every Ingress regardless, nothing will serve this one.''),
       d_Evidence := [Evid ''ingress'' ''spec.ingressClassName'' ''unset'' [],
         Evid ''api'' ''defaultIngressClass'' ''none'' []],
       d_PossibleCauses := [''the Ingress was written for a controller that is not installed here'',
         ''the cluster's controller is configured to watch a class this Ingress does not name''],
       d_Suggestions := [Sugg ''Set spec.ingressClassName to one of the cluster's classes.''
         [''kubectl get ingressclasses'']]\<rparr>"

definition evaluateClass :: "'q ingress_snap \<Rightarrow> diagnosis list" where
  "evaluateClass snap =
     (if Ingress_HasAddress snap then []
      else if ic_Exists (is_Class snap) = Missing \<and> ic_Name (is_Class snap) \<noteq> [] then [class_missing_finding snap]
      else if ic_Name (is_Class snap) = [] \<and> ic_DefaultExists (is_Class snap) = Missing then [no_class_finding snap]
      else [])"

definition classRule :: "'q ingress_snap rule" where
  "classRule = RuleFunc \<lparr>m_ID = ingress_IDClassNotFound,
     m_Title = ''No controller is going to serve this Ingress'',
     m_Description = (''Reports an Ingress that names an IngressClass which does not exist, and an Ingress that '' @
        ''names none in a cluster with no default class. Both are checked only while no '' @
        ''controller has published an address.''),
     m_Emits = [ingress_IDClassNotFound, ingress_IDNoClass]\<rparr> evaluateClass"

section \<open>The address\<close>

definition no_address_finding :: "'q ingress_snap \<Rightarrow> diagnosis" where
  "no_address_finding snap =
     diagnosis0\<lparr>d_ID := ingress_IDNoAddress, d_Subject := Ingress_Ref snap,
       d_Severity := SeverityWarning, d_Confidence := ConfidencePossible,
       d_Summary := (''No controller has published an address after '' @ (format_Duration (Ingress_Age snap))),
       d_Explanation := (''A controller that adopts an Ingress normally records the address it is reachable at. '' @
        ''This one has none. That usually means no controller has adopted it, but the Kubernetes '' @
        ''API does not say so directly, and some controllers never publish an address.''),
       d_Evidence := [Evid ''ingress'' ''status.loadBalancer.ingress'' ''empty'' [],
         Evid ''ingress'' ''age'' (format_Duration (Ingress_Age snap)) []],
       d_PossibleCauses := [''no ingress controller is watching this Ingress'',
         ''the controller is running but has not accepted this Ingress'',
         ''the controller does not publish addresses back to the Ingress status''],
       d_Suggestions := [Sugg (''Check the ingress controller's own logs; from here KubeWhy can only see that nothing '' @
        ''was published.'') []]\<rparr>"

definition evaluateAddress :: "'q ingress_snap \<Rightarrow> diagnosis list" where
  "evaluateAddress snap =
     (if Ingress_HasAddress snap \<or> Ingress_Age snap < addressGracePeriod then []
      else if ic_Exists (is_Class snap) = Missing \<or> ic_DefaultExists (is_Class snap) = Missing then []
      else [no_address_finding snap])"

definition addressRule :: "'q ingress_snap rule" where
  "addressRule = RuleFunc \<lparr>m_ID = ingress_IDNoAddress,
     m_Title = ''No controller has published an address'',
     m_Description = (''Reports an Ingress that has been waiting for an address longer than a controller '' @
        ''normally takes. The Kubernetes API cannot say why, so the finding stays at possible '' @
        ''confidence.''),
     m_Emits = []\<rparr> evaluateAddress"

definition ingress_Rules :: "'q ingress_snap rule list" where
  "ingress_Rules = [backendRule, classRule, addressRule]"

definition ingress_Catalog :: "rule_meta list" where
  "ingress_Catalog = map rule_Metadata (ingress_Rules :: unit ingress_snap rule list)"

section \<open>The contract\<close>

lemma portDiagnosis_ok: "portDiagnosis snap service paths = Some d \<Longrightarrow> finding_ok [ingress_IDServicePortNotFound] d"
  by (auto simp: portDiagnosis_def Let_def finding_ok_def finding_simps cong: finding_cong split: if_splits)

lemma endpointDiagnosis_all: "pred_option (finding_ok [ingress_IDServiceNoEndpoints]) (endpointDiagnosis snap service paths)"
  by (simp add: endpointDiagnosis_def Let_def finding_ok_def finding_simps cong: finding_cong split: option.split)

lemma endpointDiagnosis_ok: "endpointDiagnosis snap service paths = Some d \<Longrightarrow> finding_ok [ingress_IDServiceNoEndpoints] d"
  using endpointDiagnosis_all [of snap service paths] by simp

lemma missingServiceDiagnosis_ok: "finding_ok [ingress_IDServiceNotFound] (missingServiceDiagnosis snap service paths)"
  by (simp add: missingServiceDiagnosis_def finding_ok_def finding_simps cong: finding_cong)

lemma backend_findings_ok:
  "findings_ok [ingress_IDServiceNotFound, ingress_IDServicePortNotFound, ingress_IDServiceNoEndpoints, ingress_IDNoRules]
     (backend_findings snap name)"
  by (auto simp: backend_findings_def Let_def split: option.split
      intro: finding_ok_mono [OF portDiagnosis_ok] finding_ok_mono [OF endpointDiagnosis_ok]
        finding_ok_mono [OF missingServiceDiagnosis_ok])

lemma evaluateBackends_ok:
  "findings_ok [ingress_IDServiceNotFound, ingress_IDServicePortNotFound, ingress_IDServiceNoEndpoints, ingress_IDNoRules]
     (evaluateBackends snap)"
proof -
  have "finding_ok [ingress_IDServiceNotFound, ingress_IDServicePortNotFound, ingress_IDServiceNoEndpoints, ingress_IDNoRules]
     (no_rules_finding snap)"
    by (simp add: no_rules_finding_def finding_ok_def cong: finding_cong)
  then show ?thesis by (simp add: evaluateBackends_def findings_ok_concat backend_findings_ok)
qed

lemma evaluateClass_ok: "findings_ok [ingress_IDClassNotFound, ingress_IDNoClass] (evaluateClass snap)"
  by (simp add: evaluateClass_def class_missing_finding_def no_class_finding_def Let_def finding_ok_def finding_simps
      cong: finding_cong)

lemma evaluateAddress_ok: "findings_ok [ingress_IDNoAddress] (evaluateAddress snap)"
  by (simp add: evaluateAddress_def no_address_finding_def finding_ok_def cong: finding_cong)

lemmas ingress_rule_defs = backendRule_def classRule_def addressRule_def
lemmas ingress_rule_contracts = evaluateBackends_ok evaluateClass_ok evaluateAddress_ok

interpretation ingress: rule_set ingress_Rules
  by unfold_locales (simp only: ingress_Rules_def ingress_rule_defs ingress_rule_contracts rule_contract_simps)

section \<open>Properties\<close>

lemma length_backend_findings: "length (backend_findings snap name) \<le> 1"
  by (auto simp: backend_findings_def Let_def split: option.split)

lemma missing_ports_Nil_iff:
  "missing_ports service paths = [] \<longleftrightarrow> (\<forall>path\<in>set paths. IngressService_HasPort service (pa_Port path))"
proof -
  let ?xs = "filter (\<lambda>port. \<not> IngressService_HasPort service port) (map pa_Port paths)"
  have "first_seen IngressPort_String [] ?xs = [] \<longleftrightarrow> ?xs = []"
    using first_seen_keys [of IngressPort_String "[]" ?xs] by (cases ?xs) auto
  then show ?thesis by (auto simp: missing_ports_def filter_empty_conv)
qed

definition routes_of :: "'q ingress_snap \<Rightarrow> string \<Rightarrow> ingress_path list" where
  "routes_of snap name = filter (\<lambda>path. pa_ServiceName path = name \<and> name \<noteq> []) (is_Paths snap)"

lemma routes_of_eq:
  "filter (\<lambda>path. pa_ServiceName path = name) (filter (\<lambda>path. pa_ServiceName path \<noteq> []) (is_Paths snap)) = routes_of snap name"
  unfolding routes_of_def filter_filter by (rule filter_cong) auto

lemma finding_IDs:
  "d_ID (missingServiceDiagnosis snap service paths) = ingress_IDServiceNotFound"
  "pred_option (\<lambda>d. d_ID d = ingress_IDServicePortNotFound) (portDiagnosis snap service paths)"
  "pred_option (\<lambda>d. d_ID d = ingress_IDServiceNoEndpoints) (endpointDiagnosis snap service paths)"
proof -
  show "d_ID (missingServiceDiagnosis snap service paths) = ingress_IDServiceNotFound"
    using missingServiceDiagnosis_ok [of snap service paths] by (simp add: finding_ok_def)
  show "pred_option (\<lambda>d. d_ID d = ingress_IDServicePortNotFound) (portDiagnosis snap service paths)"
    by (cases "portDiagnosis snap service paths") (auto simp: finding_ok_def dest: portDiagnosis_ok)
  show "pred_option (\<lambda>d. d_ID d = ingress_IDServiceNoEndpoints) (endpointDiagnosis snap service paths)"
    by (cases "endpointDiagnosis snap service paths") (auto simp: finding_ok_def dest: endpointDiagnosis_ok)
qed

lemma portDiagnosis_None: "portDiagnosis snap service paths = None \<longleftrightarrow> missing_ports service paths = []"
  by (simp add: portDiagnosis_def Let_def)

lemma endpointDiagnosis_None:
  "endpointDiagnosis snap service paths = None \<longleftrightarrow>
     \<not> es_Known (is_Endpoints service) \<or> list_ex ep_Ready (es_Addresses (is_Endpoints service)) \<or> is_external_name service"
proof -
  have "EndpointSet_Ready (is_Endpoints service) > 0 \<longleftrightarrow> list_ex ep_Ready (es_Addresses (is_Endpoints service))"
    by (simp add: EndpointSet_Ready_eq list_ex_iff filter_empty_conv)
  then show ?thesis by (auto simp: endpointDiagnosis_def Let_def)
qed

lemma first_link_ids:
  assumes "first = None \<longleftrightarrow> \<not> P" and "pred_option (\<lambda>d. d_ID d = i) first"
    and "second = None \<longleftrightarrow> \<not> Q" and "pred_option (\<lambda>d. d_ID d = j) second"
  shows "map d_ID (case first of Some d \<Rightarrow> [d] | None \<Rightarrow> (case second of Some d \<Rightarrow> [d] | None \<Rightarrow> [])) =
    (if P then [i] else if Q then [j] else [])"
  using assms by (cases first; cases second) auto

lemma backend_findings_routes:
  assumes "map_of (is_Services snap) name = Some service"
  shows "backend_findings snap name =
    (if is_Exists service = Missing then [missingServiceDiagnosis snap service (routes_of snap name)]
     else if is_Exists service \<noteq> Found then []
     else case portDiagnosis snap service (routes_of snap name) of
         Some d \<Rightarrow> [d]
       | None \<Rightarrow> (case endpointDiagnosis snap service (routes_of snap name) of Some d \<Rightarrow> [d] | None \<Rightarrow> []))"
  by (simp only: backend_findings_def assms option.case Let_def routes_of_eq)

lemma backend_findings_IDs:
  assumes "map_of (is_Services snap) name = Some service"
  shows "map d_ID (backend_findings snap name) =
    (case is_Exists service of
       Missing \<Rightarrow> [ingress_IDServiceNotFound]
     | Unknown \<Rightarrow> []
     | Found \<Rightarrow>
        (if \<exists>path\<in>set (routes_of snap name). \<not> IngressService_HasPort service (pa_Port path) then [ingress_IDServicePortNotFound]
         else if es_Known (is_Endpoints service) \<and> \<not> list_ex ep_Ready (es_Addresses (is_Endpoints service)) \<and>
                 \<not> is_external_name service then [ingress_IDServiceNoEndpoints]
         else []))"
proof -
  let ?ports = "portDiagnosis snap service (routes_of snap name)"
  let ?eps = "endpointDiagnosis snap service (routes_of snap name)"
  have "map d_ID (case ?ports of Some d \<Rightarrow> [d] | None \<Rightarrow> (case ?eps of Some d \<Rightarrow> [d] | None \<Rightarrow> [])) =
      (if \<exists>path\<in>set (routes_of snap name). \<not> IngressService_HasPort service (pa_Port path) then [ingress_IDServicePortNotFound]
       else if es_Known (is_Endpoints service) \<and> \<not> list_ex ep_Ready (es_Addresses (is_Endpoints service)) \<and>
               \<not> is_external_name service then [ingress_IDServiceNoEndpoints]
       else [])"
    by (rule first_link_ids)
      (simp_all only: portDiagnosis_None missing_ports_Nil_iff endpointDiagnosis_None finding_IDs de_Morgan_conj
        bex_simps not_not)
  then show ?thesis
    using finding_IDs(1) [of snap service "routes_of snap name"]
    by (cases "is_Exists service") (simp_all add: backend_findings_routes [OF assms])
qed

text \<open>What every finding about a backend names: the Service, and every route that leads to it.\<close>

definition about_backend :: "'q ingress_snap \<Rightarrow> 'q ingress_service \<Rightarrow> ingress_path list \<Rightarrow> diagnosis \<Rightarrow> bool" where
  "about_backend snap service paths d \<longleftrightarrow>
     d_Subject d = ingress_service_ref snap service \<and> prefix (routeEvidence paths) (d_Evidence d)"

lemma missing_about: "about_backend snap service paths (missingServiceDiagnosis snap service paths)"
  by (simp add: about_backend_def missingServiceDiagnosis_def)

lemma port_about: "pred_option (about_backend snap service paths) (portDiagnosis snap service paths)"
  by (simp add: about_backend_def portDiagnosis_def Let_def)

lemma endpoint_about: "pred_option (about_backend snap service paths) (endpointDiagnosis snap service paths)"
  by (simp add: about_backend_def endpointDiagnosis_def Let_def split: option.split)

lemma backend_findings_about:
  assumes "d \<in> set (backend_findings snap name)"
  shows "\<exists>service. map_of (is_Services snap) name = Some service \<and> about_backend snap service (routes_of snap name) d"
proof -
  obtain service where s: "map_of (is_Services snap) name = Some service"
    using assms by (cases "map_of (is_Services snap) name") (simp_all add: backend_findings_def)
  have "about_backend snap service (routes_of snap name) d"
    using assms missing_about [of snap service "routes_of snap name"] port_about [of snap service "routes_of snap name"]
      endpoint_about [of snap service "routes_of snap name"]
    by (auto simp: backend_findings_routes [OF s] split: option.splits if_splits)
  with s show ?thesis by blast
qed

lemma filter_concat_one:
  assumes "\<And>x d. x \<in> set xs \<Longrightarrow> d \<in> set (f x) \<Longrightarrow> P d \<longleftrightarrow> x = y" and "distinct xs"
  shows "filter P (concat (map f xs)) = (if y \<in> set xs then f y else [])"
  using assms
proof (induction xs)
  case (Cons x xs)
  then have "filter P (f x) = (if x = y then f x else [])" by (auto simp: filter_id_conv filter_empty_conv)
  with Cons show ?case by auto
qed simp

text \<open>
  C20. Each backend Service of an Ingress is reported at most once, however many routes lead to
  it, and for the first broken link of its chain: the Service is confirmed missing; or it exists
  and some route asks for a port it does not declare; or all ports are declared, the endpoints
  are known and none is ready. The one finding lists every route that leads to the Service. A
  Service that could not be read is not reported. For an ExternalName Service only the last link
  is left out: a missing one, and one that does not declare the port, is reported like any other.
  The Services are as the collector builds them, one entry per name that carries this name, and
  the Ingress has at least one route.
\<close>

theorem backend_first_broken_link:
  assumes "gomap_ok (is_Services snap)" and "\<forall>(n, s)\<in>set (is_Services snap). is_Name s = n" and "is_Paths snap \<noteq> []"
    and "(name, service) \<in> set (is_Services snap)"
  shows "let mine = filter (\<lambda>d. d_Subject d = \<lparr>ref_Kind = ''Service'', ref_Namespace = ing_Namespace (is_Ingress snap), ref_Name = name\<rparr>)
       (evaluateBackends snap) in
    map d_ID mine =
      (case is_Exists service of
         Missing \<Rightarrow> [ingress_IDServiceNotFound]
       | Unknown \<Rightarrow> []
       | Found \<Rightarrow>
          (if \<exists>path\<in>set (routes_of snap name). \<not> IngressService_HasPort service (pa_Port path) then [ingress_IDServicePortNotFound]
           else if es_Known (is_Endpoints service) \<and> \<not> list_ex ep_Ready (es_Addresses (is_Endpoints service)) \<and>
                   \<not> is_external_name service then [ingress_IDServiceNoEndpoints]
           else [])) \<and>
    list_all (\<lambda>d. prefix (routeEvidence (routes_of snap name)) (d_Evidence d)) mine"
proof -
  let ?P = "\<lambda>d. d_Subject d = \<lparr>ref_Kind = ''Service'', ref_Namespace = ing_Namespace (is_Ingress snap), ref_Name = name\<rparr>"
  have found: "map_of (is_Services snap) name = Some service"
    using assms(1,4) by (simp add: gomap_ok_def)
  have subject: "?P d \<longleftrightarrow> n = name" if d: "d \<in> set (backend_findings snap n)" for n d
  proof -
    obtain s where s: "map_of (is_Services snap) n = Some s" "about_backend snap s (routes_of snap n) d"
      using backend_findings_about [OF d] by blast
    then have "is_Name s = n" using assms(2) map_of_SomeD by fastforce
    with s(2) show ?thesis by (auto simp: about_backend_def ingress_service_ref_def)
  qed
  have names: "distinct (serviceNames snap)" "name \<in> set (serviceNames snap)"
    using assms(1,4) by (auto simp: serviceNames_def gomap_ok_def intro: rev_image_eqI)
  have "filter ?P (evaluateBackends snap) = backend_findings snap name"
    using filter_concat_one [of "serviceNames snap" "backend_findings snap" ?P name] subject names assms(3)
    by (simp add: evaluateBackends_def)
  then show ?thesis
    using backend_findings_IDs [OF found] backend_findings_about [of _ snap name]
    by (simp add: Let_def list_all_iff about_backend_def) blast
qed

definition sample_ingress :: "existence \<Rightarrow> int ingress_snap" where
  "sample_ingress e = \<lparr>is_Collection = collection0,
     is_Ingress = \<lparr>ing_Name = ''web'', ing_Namespace = ''default'', ing_CreationTimestamp = 0, ing_TLSHosts = [], ing_LoadBalancer = [],
       ing_UID = [], ing_Annotations = [], ing_IngressClassName = None, ing_DefaultBackend = None, ing_Rules = []\<rparr>,
     is_Events = [],
     is_Paths = [\<lparr>pa_Host = [], pa_Path = ''/'', pa_PathType = ''Prefix'', pa_ServiceName = ''web'',
       pa_Port = \<lparr>ip_Name = [], ip_Number = 80\<rparr>, pa_IsDefault = False\<rparr>],
     is_Services = [(''web'', \<lparr>is_Name = ''web'', is_Exists = e, is_Service = None,
       is_Endpoints = \<lparr>es_Source = ''EndpointSlice'', es_Known = True, es_Addresses = []\<rparr>, is_Backends = []\<rparr>)],
     is_Class = \<lparr>ic_Name = [], ic_Exists = Unknown, ic_DefaultExists = Unknown\<rparr>, is_Now = 0\<rparr>"

lemma backend_first_broken_link_witness:
  "map d_ID (filter (\<lambda>d. d_Subject d = \<lparr>ref_Kind = ''Service'', ref_Namespace = ''default'', ref_Name = ''web''\<rparr>)
     (evaluateBackends (sample_ingress Found))) = [ingress_IDServicePortNotFound]"
proof -
  let ?i = "sample_ingress Found"
  have "gomap_ok (is_Services ?i)" "\<forall>(n, s)\<in>set (is_Services ?i). is_Name s = n" "is_Paths ?i \<noteq> []"
    "(''web'', snd (hd (is_Services ?i))) \<in> set (is_Services ?i)"
    by (simp_all add: sample_ingress_def gomap_ok_def)
  from backend_first_broken_link [OF this, unfolded Let_def, THEN conjunct1]
  have "map d_ID (filter (\<lambda>d. d_Subject d = \<lparr>ref_Kind = ''Service'', ref_Namespace = ing_Namespace (is_Ingress ?i), ref_Name = ''web''\<rparr>)
      (evaluateBackends ?i)) = [ingress_IDServicePortNotFound]"
    by (rule trans) (simp add: sample_ingress_def routes_of_def IngressService_HasPort_def)
  moreover have "ing_Namespace (is_Ingress ?i) = ''default''" by (simp add: sample_ingress_def)
  ultimately show ?thesis by (simp only:)
qed

text \<open>
  An Ingress without a published address gets at most one finding about the class and the
  address together, and one that has an address gets none.
\<close>

theorem class_or_address:
  "length (evaluateClass snap) + length (evaluateAddress snap) \<le> 1 \<and>
   (Ingress_HasAddress snap \<longrightarrow> evaluateClass snap = [] \<and> evaluateAddress snap = [])"
  by (auto simp: evaluateClass_def evaluateAddress_def)

lemma class_or_address_witness:
  "evaluateClass ((sample_ingress Found)\<lparr>is_Ingress := (is_Ingress (sample_ingress Found))\<lparr>ing_LoadBalancer := [([], ''10.0.0.1'')]\<rparr>\<rparr>) = []"
  using class_or_address [of "(sample_ingress Found)\<lparr>is_Ingress := (is_Ingress (sample_ingress Found))\<lparr>ing_LoadBalancer := [([], ''10.0.0.1'')]\<rparr>\<rparr>"]
  by (simp add: Ingress_HasAddress_def)

end
