(* ===== verification/Reports.thy ===== *)
theory Reports
  imports ServiceRules DeploymentRules StatefulSetRules IngressRules PVCRules
begin

text \<open>
  Package \<open>analyze\<close>: the reports assembled from a snapshot, one function per kind
  (\<open>pod.go\<close>, \<open>service.go\<close>, \<open>deployment.go\<close>, \<open>statefulset.go\<close>, \<open>ingress.go\<close>,
  \<open>pvc.go\<close>), with the links from a symptom to the finding that explains it and the factual
  sections. A function that mutates the report in Go returns the new report here. The lemmas
  carry the contracts of the rule sets over to the reports.
\<close>

section \<open>Assembling a report\<close>

definition headline :: "resource_ref \<Rightarrow> status \<Rightarrow> string" where
  "headline ref st =
     (case st of
        StatusUnhealthy \<Rightarrow> resource_ref_String ref @ '' is unhealthy''
      | StatusDegraded \<Rightarrow> resource_ref_String ref @ '' is degraded''
      | StatusUnknown \<Rightarrow> resource_ref_String ref @ '' could not be fully analysed''
      | StatusHealthy \<Rightarrow> resource_ref_String ref @ '' appears healthy'')"

text \<open>
  The composite literal followed by \<open>DeriveStatus\<close>, which overwrites the status before anything
  reads it.
\<close>

definition derived_report :: "resource_ref \<Rightarrow> diagnosis list \<Rightarrow> collection \<Rightarrow> report" where
  "derived_report ref ds col =
     DeriveStatus \<lparr>r_Resource = ref, r_Status = StatusUnknown, r_Headline = [], r_Diagnoses = ds, r_Overview = [],
       r_Degradations = col_Degradations col, r_Inspected = col_Inspected col\<rparr>"

definition with_headline :: "report \<Rightarrow> report" where
  "with_headline r = r\<lparr>r_Headline := headline (r_Resource r) (r_Status r)\<rparr>"

text \<open>The loop that links the findings with one of the given identifiers to their cause.\<close>

definition link_cause :: "string list \<Rightarrow> diagnosis list \<Rightarrow> diagnosis list \<Rightarrow> diagnosis list" where
  "link_cause ids causes findings =
     (case causes of
        [] \<Rightarrow> findings
      | cause # _ \<Rightarrow> map (\<lambda>d. if d_ID d \<in> set ids then d\<lparr>d_CausedBy := d_ID cause\<rparr> else d) findings)"

section \<open>Pods\<close>

definition podHeadline :: "'q pod_snap \<Rightarrow> status \<Rightarrow> string" where
  "podHeadline snap st =
     (if pod_Phase (ps_Pod snap) = ''Succeeded'' \<and> st \<noteq> StatusUnhealthy
      then resource_ref_String (Pod_Ref snap) @ '' completed successfully''
      else headline (Pod_Ref snap) st)"

definition totalRestarts :: "'q pod_snap \<Rightarrow> int" where
  "totalRestarts snap = foldl (\<lambda>n c. wrap32 (n + Container_Restarts c)) 0 (Pod_Containers snap)"

definition readyContainers :: "'q pod_snap \<Rightarrow> int \<times> int" where
  "readyContainers snap =
     (let cs = filter (\<lambda>c. \<not> (cn_Init c \<and> \<not> cn_Sidecar c)) (Pod_Containers snap)
      in (int (length (filter Container_Ready cs)), int (length cs)))"

definition latest_restart :: "'q pod_snap \<Rightarrow> gotime" where
  "latest_restart snap =
     foldl (\<lambda>latest c. case Container_LastTerminated c of
              None \<Rightarrow> latest | Some t \<Rightarrow> (if latest < t_FinishedAt t then t_FinishedAt t else latest))
       0 (Pod_Containers snap)"

definition restartsItem :: "'q pod_snap \<Rightarrow> item" where
  "restartsItem snap =
     Item ''Restarts'' (int_str (totalRestarts snap))
       (if latest_restart snap \<noteq> 0
        then ''last one '' @ format_Duration (time_Sub (ps_Now snap) (latest_restart snap)) @ '' ago'' else [])"

definition addPodStatusSection :: "report \<Rightarrow> 'q pod_snap \<Rightarrow> report" where
  "addPodStatusSection report snap =
     (let (ready, tot) = readyContainers snap;
          node = pod_NodeName (ps_Pod snap)
      in AddSection report \<lparr>sec_Title = ''Status'',
           sec_Items = [Item ''Phase'' (pod_Phase (ps_Pod snap)) [],
               Item ''Ready'' (int_str ready @ ''/'' @ int_str tot @ '' containers'') [],
               restartsItem snap,
               Item ''Age'' (format_Duration (Pod_Age snap)) []] @
             (if node \<noteq> [] then [Item ''Node'' node []] else []) @
             (case pod_DeletionTimestamp (ps_Pod snap) of
                None \<Rightarrow> []
              | Some t \<Rightarrow> [Item ''Terminating'' (''since '' @ format_Duration (time_Sub (ps_Now snap) t) @ '' ago'') []]),
           sec_Tree = []\<rparr>)"

definition container_item :: "'q container \<Rightarrow> item" where
  "container_item c =
     Item (cn_Name c) (ContainerState c)
       (str_Join '', ''
          ((if cn_Init c then [Container_Kind c] else []) @
           (if Container_Restarts c > 0 then [format_Count (Container_Restarts c) ''restart'' ''restarts''] else [])))"

definition addPodContainersSection :: "report \<Rightarrow> 'q pod_snap \<Rightarrow> report" where
  "addPodContainersSection report snap =
     AddSection report \<lparr>sec_Title = ''Containers'', sec_Items = map container_item (Pod_Containers snap), sec_Tree = []\<rparr>"

definition addPodConditionsSection :: "report \<Rightarrow> 'q pod_snap \<Rightarrow> report" where
  "addPodConditionsSection report snap =
     (let conds = pod_Conditions (ps_Pod snap) in
      if \<not> list_ex (\<lambda>c. cond_Status c \<noteq> ''True'') conds then report
      else AddSection report \<lparr>sec_Title = ''Conditions'',
        sec_Items = map (\<lambda>c. Item (cond_Type c) (cond_Status c) (cond_Reason c)) conds, sec_Tree = []\<rparr>)"

definition addOwnerSection :: "report \<Rightarrow> string list \<Rightarrow> report" where
  "addOwnerSection report chain =
     (if length chain < 2 then report
      else AddSection report \<lparr>sec_Title = ''Owned by'', sec_Items = [], sec_Tree = chain\<rparr>)"

definition PodReport :: "'q kube_lib \<Rightarrow> gocontext \<Rightarrow> 'q pod_snap \<Rightarrow> report" where
  "PodReport lib ctx snap =
     (let ds = fst (pod_findings lib ctx snap);
          r = derived_report (Pod_Ref snap) ds (ps_Collection snap);
          r = r\<lparr>r_Headline := podHeadline snap (r_Status r)\<rparr>;
          r = addPodStatusSection r snap;
          r = addPodContainersSection r snap;
          r = addPodConditionsSection r snap
      in addOwnerSection r (Pod_OwnerChain snap))"

section \<open>Backend Pods\<close>

definition backendIsReady :: "'q pod_snap \<Rightarrow> bool" where
  "backendIsReady b \<longleftrightarrow>
     (case Pod_Condition b ''Ready'' of None \<Rightarrow> False | Some c \<Rightarrow> cond_Status c = ''True'')"

fun container_reason :: "'q container list \<Rightarrow> string" where
  "container_reason [] = ''NotReady''"
| "container_reason (c # cs) =
     (case Container_Waiting c of
        Some w \<Rightarrow>
          (if w_Reason w \<noteq> [] then ''NotReady ('' @ w_Reason w @ '')''
           else (case Container_Terminated c of
                   Some t \<Rightarrow> (''NotReady (exited '' @ int_str (t_ExitCode t) @ '')'') | None \<Rightarrow> container_reason cs))
      | None \<Rightarrow> (case Container_Terminated c of
                   Some t \<Rightarrow> (''NotReady (exited '' @ int_str (t_ExitCode t) @ '')'') | None \<Rightarrow> container_reason cs))"

definition backendState :: "'q pod_snap \<Rightarrow> string" where
  "backendState b =
     (if backendIsReady b then ''Ready''
      else if pod_Phase (ps_Pod b) \<noteq> ''Running'' then pod_Phase (ps_Pod b)
      else container_reason (Pod_Containers b))"

definition maxListedBackends :: nat where "maxListedBackends = 10"
definition maxListedPods :: nat where "maxListedPods = 10"

definition pod_item :: "'q pod_snap \<Rightarrow> item" where
  "pod_item p = Item (pod_Name (ps_Pod p)) (backendState p) (format_Duration (Pod_Age p) @ '' old'')"

section \<open>Services\<close>

definition dominantFinding :: "diagnosis list \<Rightarrow> string option" where
  "dominantFinding findings = (case findings of [] \<Rightarrow> None | d # _ \<Rightarrow> Some (d_ID d))"

definition analyze_formatSelector :: "string gomap \<Rightarrow> string" where
  "analyze_formatSelector selector = str_Join '','' (sort (map (\<lambda>(key, val). key @ ''='' @ val) selector))"

definition orTCP :: "string \<Rightarrow> string" where
  "orTCP protocol = (if protocol = [] then ''TCP'' else protocol)"

definition addServiceSection :: "report \<Rightarrow> 'q service_snap \<Rightarrow> report" where
  "addServiceSection report snap =
     (let svc = ss_Service snap in
      AddSection report \<lparr>sec_Title = ''Service'',
        sec_Items = [Item ''Type'' (svc_Type svc) []] @
          (if Service_IsExternalName snap
             then [Item ''External name'' (svc_ExternalName svc) ''a DNS alias, with no endpoints by design'']
           else if Service_IsHeadless snap then [Item ''Cluster IP'' ''None'' ''headless'']
           else if svc_ClusterIP svc \<noteq> [] then [Item ''Cluster IP'' (svc_ClusterIP svc) []]
           else []) @
          (if Service_HasSelector snap then [Item ''Selector'' (analyze_formatSelector (svc_Selector svc)) []]
           else if \<not> Service_IsExternalName snap then [Item ''Selector'' ''none'' ''endpoints are managed externally'']
           else []),
        sec_Tree = []\<rparr>)"

definition addServiceBackendSection :: "report \<Rightarrow> 'q service_snap \<Rightarrow> report" where
  "addServiceBackendSection report snap =
     (if Service_IsExternalName snap then report
      else
       (let eps = ss_Endpoints snap;
            r = AddSection report \<lparr>sec_Title = ''Backends'',
              sec_Items =
                (if Service_HasSelector snap then [Item ''Matching Pods'' (int_str (int (length (backends snap)))) []] else []) @
                (if es_Known eps
                 then [Item ''Ready endpoints'' (int_str (EndpointSet_Ready eps) @ '' of '' @ int_str (EndpointSet_Total eps)) (''from '' @ es_Source eps)]
                 else [Item ''Ready endpoints'' ''unknown'' ''could not be read'']),
              sec_Tree = []\<rparr>;
            unready = length (filter (\<lambda>b. \<not> backendIsReady b) (backends snap))
        in if unready = 0 \<or> length (backends snap) > maxListedBackends then r
           else AddSection r \<lparr>sec_Title = ''Backend Pods'', sec_Items = map pod_item (backends snap), sec_Tree = []\<rparr>))"

definition port_item :: "'q kube_lib \<Rightarrow> k_service_port \<Rightarrow> item" where
  "port_item lib port =
     (let key = (int_str (sp_Port port) @ ''/'' @ (orTCP (sp_Protocol port)));
          key = (if sp_Name port \<noteq> [] then ((sp_Name port) @ '' '' @ key) else key);
          target = intstr_String lib (sp_TargetPort port);
          val = (if target = [] \<or> target = ''0'' then ''targets '' @ (int_str (sp_Port port)) else ''targets '' @ target);
          val = (if sp_NodePort port \<noteq> 0 then val @ ('', node port '' @ int_str (sp_NodePort port)) else val)
      in Item key val [])"

definition addServicePortsSection :: "'q kube_lib \<Rightarrow> report \<Rightarrow> 'q service_snap \<Rightarrow> report" where
  "addServicePortsSection lib report snap =
     (if svc_Ports (ss_Service snap) = [] then report
      else AddSection report \<lparr>sec_Title = ''Ports'', sec_Items = map (port_item lib) (svc_Ports (ss_Service snap)), sec_Tree = []\<rparr>)"

definition service_diagnoses :: "'q kube_lib \<Rightarrow> gocontext \<Rightarrow> 'q service_snap \<Rightarrow> diagnosis list" where
  "service_diagnoses lib ctx snap =
     (let (findings, ctx') = Evaluate ctx service_Rules snap;
          (bs, _) = BackendFindings lib ctx' snap;
          findings = (case dominantFinding bs of
            None \<Rightarrow> findings
          | Some cause \<Rightarrow> map (\<lambda>d. if d_ID d = service_IDNoReadyEndpoints then d\<lparr>d_CausedBy := cause\<rparr> else d) findings)
      in Prioritize (findings @ bs))"

definition ServiceReport :: "'q kube_lib \<Rightarrow> gocontext \<Rightarrow> 'q service_snap \<Rightarrow> report" where
  "ServiceReport lib ctx snap =
     (let r = with_headline (derived_report (Service_Ref snap) (service_diagnoses lib ctx snap) (ss_Collection snap));
          r = addServiceSection r snap;
          r = addServiceBackendSection r snap
      in addServicePortsSection lib r snap)"

section \<open>Deployments\<close>

definition addRolloutSection :: "report \<Rightarrow> 'q deployment_snap \<Rightarrow> report" where
  "addRolloutSection report snap =
     (let dep = ds_Deployment snap in
      AddSection report \<lparr>sec_Title = ''Replicas'',
        sec_Items = [Item ''Desired'' (int_str (Deployment_DesiredReplicas snap)) [],
            Item ''Updated'' (int_str (dep_UpdatedReplicas dep)) [],
            Item ''Ready'' (int_str (dep_ReadyReplicas dep)) [],
            Item ''Available'' (int_str (dep_AvailableReplicas dep)) [],
            Item ''Age'' (format_Duration (Deployment_Age snap)) []] @
          (if Deployment_IsPaused snap then [Item ''Rollout'' ''paused'' ''on purpose''] else []),
        sec_Tree = []\<rparr>)"

definition addStrategySection :: "'q kube_lib \<Rightarrow> report \<Rightarrow> 'q deployment_snap \<Rightarrow> report" where
  "addStrategySection lib report snap =
     (let dep = ds_Deployment snap in
      if dep_StrategyType dep = [] then report
      else AddSection report \<lparr>sec_Title = ''Strategy'',
        sec_Items = [Item ''Type'' (dep_StrategyType dep) []] @
          (case dep_MaxSurge dep of Some v \<Rightarrow> [Item ''Max surge'' (intstr_String lib v) []] | None \<Rightarrow> []) @
          (case dep_MaxUnavailable dep of Some v \<Rightarrow> [Item ''Max unavailable'' (intstr_String lib v) []] | None \<Rightarrow> []),
        sec_Tree = []\<rparr>)"

definition addDeploymentConditionsSection :: "report \<Rightarrow> 'q deployment_snap \<Rightarrow> report" where
  "addDeploymentConditionsSection report snap =
     (let conds = dep_Conditions (ds_Deployment snap) in
      if \<not> list_ex (\<lambda>c. cond_Status c \<noteq> ''True'' \<or> cond_Type c = ''ReplicaFailure'') conds then report
      else AddSection report \<lparr>sec_Title = ''Conditions'',
        sec_Items = map (\<lambda>c. Item (cond_Type c) (cond_Status c) (cond_Reason c)) conds, sec_Tree = []\<rparr>)"

definition trimJoin :: "string \<Rightarrow> string \<Rightarrow> string" where
  "trimJoin existing extra = (if existing = [] then extra else existing @ '', '' @ extra)"

definition replica_set_items :: "'q deployment_snap \<Rightarrow> k_replica_set \<Rightarrow> item list" where
  "replica_set_items snap rs =
     (let is_current = (case ds_Current snap of None \<Rightarrow> False | Some cur \<Rightarrow> rs_UID rs = rs_UID cur) in
      if rs_Replicas rs = 0 \<and> \<not> is_current then []
      else
       (let note0 = (case Revision rs of Some revision \<Rightarrow> ''revision '' @ revision | None \<Rightarrow> []);
            note1 = (if is_current then trimJoin note0 ''current'' else note0)
        in [Item (rs_Name rs) (int_str (rs_ReadyReplicas rs) @ ''/'' @ int_str (rs_Replicas rs) @ '' ready'') note1]))"

definition addReplicaSetSection :: "report \<Rightarrow> 'q deployment_snap \<Rightarrow> report" where
  "addReplicaSetSection report snap =
     (if ds_ReplicaSets snap = [] then report
      else AddSection report \<lparr>sec_Title = ''ReplicaSets'',
        sec_Items = concat (map (replica_set_items snap) (ds_ReplicaSets snap)), sec_Tree = []\<rparr>)"

definition addWorkloadPodsSection :: "report \<Rightarrow> 'q pod_snap list \<Rightarrow> report" where
  "addWorkloadPodsSection report pods =
     (let unready = length (filter (\<lambda>p. \<not> backendIsReady p) pods) in
      if unready = 0 \<or> length pods > maxListedPods then report
      else AddSection report \<lparr>sec_Title = ''Pods'', sec_Items = map pod_item pods, sec_Tree = []\<rparr>)"

definition deployment_diagnoses :: "'q kube_lib \<Rightarrow> gocontext \<Rightarrow> 'q deployment_snap \<Rightarrow> diagnosis list" where
  "deployment_diagnoses lib ctx snap =
     (let (findings, ctx') = Evaluate ctx deployment_Rules snap;
          (podFindings, _) = deployment_PodFindings lib ctx' snap
      in Prioritize (link_cause [deployment_IDUnavailableReplicas, deployment_IDProgressDeadlineExceeded] podFindings findings
           @ podFindings))"

definition DeploymentReport :: "'q kube_lib \<Rightarrow> gocontext \<Rightarrow> 'q deployment_snap \<Rightarrow> report" where
  "DeploymentReport lib ctx snap =
     (let r = with_headline (derived_report (Deployment_Ref snap) (deployment_diagnoses lib ctx snap) (ds_Collection snap));
          r = addRolloutSection r snap;
          r = addStrategySection lib r snap;
          r = addDeploymentConditionsSection r snap;
          r = addReplicaSetSection r snap
      in addWorkloadPodsSection r (ds_Pods snap))"

section \<open>StatefulSets\<close>

definition podManagement :: "'q stateful_set_snap \<Rightarrow> string" where
  "podManagement snap = (if StatefulSet_OrderedStart snap then ''one at a time, in order'' else ''all at once'')"

definition updateStrategy :: "'q stateful_set_snap \<Rightarrow> string" where
  "updateStrategy snap =
     (if StatefulSet_UpdatesOnDelete snap then ''only when a Pod is deleted''
      else if StatefulSet_Partition snap > 0 then (''rolling, from replica '' @ int_str (StatefulSet_Partition snap) @ '' up'')
      else ''rolling'')"

definition addStatefulSetSection :: "report \<Rightarrow> 'q stateful_set_snap \<Rightarrow> report" where
  "addStatefulSetSection report snap =
     (let sts = st_StatefulSet snap;
          service = st_Service snap;
          note = (if hs_Exists service = Missing then ''does not exist''
            else if hs_Exists service = Found \<and> \<not> hs_Headless service then ''not headless''
            else if hs_Exists service = Found then ''headless'' else []);
          r = AddSection report \<lparr>sec_Title = ''Replicas'',
            sec_Items = [Item ''Desired'' (int_str (StatefulSet_DesiredReplicas snap)) [],
              Item ''Ready'' (int_str (sts_ReadyReplicas sts)) [],
              Item ''Updated'' (int_str (sts_UpdatedReplicas sts)) [],
              Item ''Age'' (format_Duration (StatefulSet_Age snap)) []], sec_Tree = []\<rparr>
      in AddSection r \<lparr>sec_Title = ''Management'',
           sec_Items = [Item ''Pod creation'' (podManagement snap) [], Item ''Updates'' (updateStrategy snap) []] @
             (if hs_Name service \<noteq> [] then [Item ''Governing Service'' (hs_Name service) note] else []),
           sec_Tree = []\<rparr>)"

text \<open>The map from ordinals to Pods; a later Pod with the same ordinal replaces an earlier one.\<close>

definition pods_by_ordinal :: "'q pod_snap list \<Rightarrow> int \<Rightarrow> 'q pod_snap option" where
  "pods_by_ordinal pods =
     map_of (rev (List.map_filter (\<lambda>p. map_option (\<lambda>n. (n, p)) (Ordinal (pod_Name (ps_Pod p)))) pods))"

definition ordinal_item :: "'q stateful_set_snap \<Rightarrow> int \<Rightarrow> item" where
  "ordinal_item snap ordinal =
     (let name = ((sts_Name (st_StatefulSet snap)) @ ''-'' @ int_str ordinal) in
      case pods_by_ordinal (st_Pods snap) ordinal of
        None \<Rightarrow> Item name ''does not exist'' ''never created''
      | Some pod \<Rightarrow> Item name (backendState pod) (format_Duration (Pod_Age pod) @ '' old''))"

definition addStatefulSetPodsSection :: "report \<Rightarrow> 'q stateful_set_snap \<Rightarrow> report" where
  "addStatefulSetPodsSection report snap =
     (let desired = StatefulSet_DesiredReplicas snap in
      if desired = 0 \<or> desired > int maxListedPods then report
      else AddSection report \<lparr>sec_Title = ''Replicas by ordinal'',
        sec_Items = map (ordinal_item snap) (map int [0..<nat desired]), sec_Tree = []\<rparr>)"

definition claim_items :: "'q stateful_set_snap \<Rightarrow> int \<Rightarrow> string \<Rightarrow> item list" where
  "claim_items snap ordinal template =
     (let name = StatefulSet_ClaimName snap template ordinal in
      case map_of (st_Claims snap) name of
        None \<Rightarrow> []
      | Some claim \<Rightarrow>
          [Item name (if pr_Exists claim = Missing then ''does not exist''
             else if pr_Phase claim = [] then ''Unknown'' else pr_Phase claim) []])"

definition addStatefulSetClaimsSection :: "report \<Rightarrow> 'q stateful_set_snap \<Rightarrow> report" where
  "addStatefulSetClaimsSection report snap =
     (if st_Claims snap = [] then report
      else
       (let templates = StatefulSet_ClaimTemplates snap in
        AddSection report \<lparr>sec_Title = ''Volumes'',
          sec_Items = [Item ''Claim templates'' (str_Join '', '' templates) ''one claim per replica''] @
            concat (map (\<lambda>ordinal. concat (map (claim_items snap ordinal) templates))
              (map int [0..<nat (StatefulSet_DesiredReplicas snap)])),
          sec_Tree = []\<rparr>))"

definition statefulset_diagnoses :: "'q kube_lib \<Rightarrow> gocontext \<Rightarrow> 'q stateful_set_snap \<Rightarrow> diagnosis list" where
  "statefulset_diagnoses lib ctx snap =
     (let (findings, ctx') = Evaluate ctx statefulset_Rules snap;
          (podFindings, _) = statefulset_PodFindings lib ctx' snap
      in Prioritize (link_cause [statefulset_IDUnavailableReplicas] podFindings findings @ podFindings))"

definition StatefulSetReport :: "'q kube_lib \<Rightarrow> gocontext \<Rightarrow> 'q stateful_set_snap \<Rightarrow> report" where
  "StatefulSetReport lib ctx snap =
     (let r = with_headline (derived_report (StatefulSet_Ref snap) (statefulset_diagnoses lib ctx snap) (st_Collection snap));
          r = addStatefulSetSection r snap;
          r = addStatefulSetPodsSection r snap
      in addStatefulSetClaimsSection r snap)"

section \<open>Ingresses\<close>

definition existenceNote :: "existence \<Rightarrow> string" where
  "existenceNote e = (case e of Missing \<Rightarrow> ''does not exist'' | Found \<Rightarrow> ''exists'' | Unknown \<Rightarrow> [])"

definition addIngressSection :: "report \<Rightarrow> 'q ingress_snap \<Rightarrow> report" where
  "addIngressSection report snap =
     (let cls = is_Class snap; address = Ingress_Address snap; tls = ing_TLSHosts (is_Ingress snap) in
      AddSection report \<lparr>sec_Title = ''Ingress'',
        sec_Items =
          (if ic_Name cls \<noteq> [] then [Item ''Class'' (ic_Name cls) (existenceNote (ic_Exists cls))]
           else if \<not> Ingress_HasAddress snap then [Item ''Class'' ''none'' ''relies on the cluster's default'']
           else []) @
          (if address \<noteq> [] then [Item ''Address'' address []]
           else [Item ''Address'' ''none published'' ''by any controller'']) @
          (if tls \<noteq> [] then [Item ''TLS'' (int_str (int (sum_list (map length tls))) @ '' host(s) configured'') []] else []),
        sec_Tree = []\<rparr>)"

definition backendNote :: "'q ingress_service option \<Rightarrow> ingress_path \<Rightarrow> string" where
  "backendNote service path =
     (case service of
        None \<Rightarrow> ''no backend service declared''
      | Some s \<Rightarrow>
         (let eps = is_Endpoints s in
          if is_Exists s = Missing then ''Service not found''
          else if is_Exists s = Unknown then ''Service could not be read''
          else if \<not> IngressService_HasPort s (pa_Port path) then ''port not exposed by the Service''
          else if \<not> es_Known eps then ''endpoints could not be read''
          else if EndpointSet_Ready eps = 0 then (''0 of '' @ int_str (EndpointSet_Total eps) @ '' endpoints ready'')
          else (int_str (EndpointSet_Ready eps) @ '' of '' @ int_str (EndpointSet_Total eps) @
        '' endpoints ready'')))"

definition addIngressRoutesSection :: "report \<Rightarrow> 'q ingress_snap \<Rightarrow> report" where
  "addIngressRoutesSection report snap =
     (if is_Paths snap = [] then report
      else AddSection report \<lparr>sec_Title = ''Routes'',
        sec_Items = map (\<lambda>path. Item (IngressPath_Route path) (IngressPath_Target path)
          (backendNote (map_of (is_Services snap) (pa_ServiceName path)) path)) (is_Paths snap),
        sec_Tree = []\<rparr>)"

definition ingress_diagnoses :: "'q kube_lib \<Rightarrow> gocontext \<Rightarrow> 'q ingress_snap \<Rightarrow> diagnosis list" where
  "ingress_diagnoses lib ctx snap =
     (let (findings, ctx') = Evaluate ctx ingress_Rules snap;
          (podFindings, _) = ingress_PodFindings lib ctx' snap
      in Prioritize (link_cause [ingress_IDServiceNoEndpoints] podFindings findings @ podFindings))"

definition IngressReport :: "'q kube_lib \<Rightarrow> gocontext \<Rightarrow> 'q ingress_snap \<Rightarrow> report" where
  "IngressReport lib ctx snap =
     (let r = with_headline (derived_report (Ingress_Ref snap) (ingress_diagnoses lib ctx snap) (is_Collection snap));
          r = addIngressSection r snap
      in addIngressRoutesSection r snap)"

section \<open>Claims\<close>

definition class_note :: "storage_class_info \<Rightarrow> string" where
  "class_note cls =
     (let note = existenceNote (sci_Exists cls);
          note = (if \<not> sci_Requested cls then str_TrimSpace (''cluster default, '' @ note) else note);
          note = (if sci_BindingMode cls \<noteq> [] then str_TrimSpace (note @ '', '' @ sci_BindingMode cls) else note)
      in str_Trim note '', '')"

definition addClaimSection :: "'q kube_lib \<Rightarrow> report \<Rightarrow> 'q pvc_snap \<Rightarrow> report" where
  "addClaimSection lib report snap =
     (let storage = PVC_RequestedStorage lib snap; modes = PVC_AccessModes snap; cls = vs_Class snap;
          volume = pvc_VolumeName (vs_Claim snap)
      in AddSection report \<lparr>sec_Title = ''Claim'',
           sec_Items = [Item ''Phase'' (PVC_Phase snap) []] @
             (if storage \<noteq> [] then [Item ''Requested'' storage []] else []) @
             (if modes \<noteq> [] then [Item ''Access modes'' (str_Join '', '' modes) []] else []) @
             (if sci_ExplicitlyNone cls then [Item ''Storage class'' ''none requested'' ''expects a pre-created volume'']
              else if sci_Name cls \<noteq> [] then [Item ''Storage class'' (sci_Name cls) (class_note cls)]
              else []) @
             (if volume \<noteq> [] then [Item ''Volume'' volume []] else []) @
             [Item ''Age'' (format_Duration (PVC_Age snap)) []],
           sec_Tree = []\<rparr>)"

definition addClaimConsumerSection :: "report \<Rightarrow> 'q pvc_snap \<Rightarrow> report" where
  "addClaimConsumerSection report snap =
     (if PVC_IsBound snap \<or> \<not> vs_ConsumersKnown snap then report
      else if vs_Consumers snap = [] then
        AddSection report \<lparr>sec_Title = ''Used by'',
          sec_Items = [Item ''Pods'' ''none'' ''no Pod in this namespace mounts the claim''], sec_Tree = []\<rparr>
      else AddSection report \<lparr>sec_Title = ''Used by'', sec_Items = map pod_item (vs_Consumers snap), sec_Tree = []\<rparr>)"

definition pvc_diagnoses :: "gocontext \<Rightarrow> 'q pvc_snap \<Rightarrow> diagnosis list" where
  "pvc_diagnoses ctx snap =
     (let found = fst (Evaluate ctx pvc_Rules snap) in if found = [] then pvc_Fallback snap else found)"

definition PVCReport :: "'q kube_lib \<Rightarrow> gocontext \<Rightarrow> 'q pvc_snap \<Rightarrow> report" where
  "PVCReport lib ctx snap =
     (let r = with_headline (derived_report (PVC_Ref snap) (pvc_diagnoses ctx snap) (vs_Collection snap));
          r = addClaimSection lib r snap
      in addClaimConsumerSection r snap)"

section \<open>Sections leave the verdict alone\<close>

definition same_verdict :: "report \<Rightarrow> report \<Rightarrow> bool" where
  "same_verdict r r' \<longleftrightarrow>
     r_Diagnoses r = r_Diagnoses r' \<and> r_Status r = r_Status r' \<and> r_Degradations r = r_Degradations r' \<and>
     r_Headline r = r_Headline r' \<and> r_Resource r = r_Resource r'"

lemma same_verdict_AddSection [simp]: "same_verdict (AddSection r s) r' = same_verdict r r'"
  by (simp add: same_verdict_def)

lemma same_verdict_refl [simp]: "same_verdict r r"
  by (simp add: same_verdict_def)

lemmas section_defs =
  addPodStatusSection_def addPodContainersSection_def addPodConditionsSection_def addOwnerSection_def
  addServiceSection_def addServiceBackendSection_def addServicePortsSection_def addRolloutSection_def
  addStrategySection_def addDeploymentConditionsSection_def addReplicaSetSection_def addWorkloadPodsSection_def
  addStatefulSetSection_def addStatefulSetPodsSection_def addStatefulSetClaimsSection_def addIngressSection_def
  addIngressRoutesSection_def addClaimSection_def addClaimConsumerSection_def

lemma report_verdicts:
  "same_verdict (PodReport lib ctx p)
     (let r = derived_report (Pod_Ref p) (fst (pod_findings lib ctx p)) (ps_Collection p)
      in r\<lparr>r_Headline := podHeadline p (r_Status r)\<rparr>)"
  "same_verdict (ServiceReport lib ctx s)
     (with_headline (derived_report (Service_Ref s) (service_diagnoses lib ctx s) (ss_Collection s)))"
  "same_verdict (DeploymentReport lib ctx d)
     (with_headline (derived_report (Deployment_Ref d) (deployment_diagnoses lib ctx d) (ds_Collection d)))"
  "same_verdict (StatefulSetReport lib ctx t)
     (with_headline (derived_report (StatefulSet_Ref t) (statefulset_diagnoses lib ctx t) (st_Collection t)))"
  "same_verdict (IngressReport lib ctx i)
     (with_headline (derived_report (Ingress_Ref i) (ingress_diagnoses lib ctx i) (is_Collection i)))"
  "same_verdict (PVCReport lib ctx v)
     (with_headline (derived_report (PVC_Ref v) (pvc_diagnoses ctx v) (vs_Collection v)))"
  by (simp_all add: PodReport_def ServiceReport_def DeploymentReport_def StatefulSetReport_def IngressReport_def
      PVCReport_def section_defs Let_def case_prod_beta)

end
