(* ===== verification/ReportContracts.thy ===== *)
theory ReportContracts
  imports Reports
begin

text \<open>
  What every report promises, whatever its kind. The locale \<open>report_builder\<close> is the interface
  of the six functions that turn a snapshot into a report: they derive the status from the
  findings and the degradations, their findings are well-formed for the identifiers the kind may
  produce, and they come most severe first. Its lemmas are proved once and hold for each kind by
  an interpretation on its report function.
\<close>

section \<open>The contract of the findings of a report\<close>

lemma finding_ok_CausedBy [simp]: "finding_ok ids (d\<lparr>d_CausedBy := c\<rparr>) = finding_ok ids d"
  by (simp add: finding_ok_def)

lemma findings_ok_map:
  "findings_ok ids ds \<Longrightarrow> (\<And>d. finding_ok ids d \<Longrightarrow> finding_ok ids (f d)) \<Longrightarrow> findings_ok ids (map f ds)"
  by (induction ds) auto

lemma link_cause_ok: "findings_ok ids ds \<Longrightarrow> findings_ok ids (link_cause links causes ds)"
  by (auto simp: link_cause_def intro: findings_ok_map split: list.split)

lemma link_cause_alt:
  "link_cause links causes ds =
     map (\<lambda>d. if causes \<noteq> [] \<and> d_ID d \<in> set links then d\<lparr>d_CausedBy := d_ID (hd causes)\<rparr> else d) ds"
  by (cases causes) (simp_all add: link_cause_def)

lemma statefulset_pod_loop_ok:
  "findings_ok (IDNotReadyUnexplained # pod_ids) out \<Longrightarrow>
   findings_ok (IDNotReadyUnexplained # pod_ids) (fst (statefulset_pod_loop lib explained ctx pods out))"
proof (induction pods arbitrary: ctx out)
  case (Cons p pods)
  have "findings_ok (IDNotReadyUnexplained # pod_ids) (fst (Evaluate ctx (pod_Rules lib) p))"
    using pod.Evaluate_findings_ok [of lib ctx p] by (rule findings_ok_mono) (auto simp: rule_set_ids_pod)
  moreover have "findings_ok (IDNotReadyUnexplained # pod_ids) (Fallback p)"
    by (rule findings_ok_mono [OF Fallback_ok]) simp
  ultimately show ?case using Cons by (simp add: case_prod_beta)
qed simp

lemma statefulset_PodFindings_ok:
  "findings_ok (IDNotReadyUnexplained # pod_ids) (fst (statefulset_PodFindings lib ctx snap))"
  using statefulset_pod_loop_ok [of "[]" lib "podsBlockedByTheirClaim snap" ctx "st_Pods snap"]
  by (auto simp: statefulset_PodFindings_def case_prod_beta findings_ok_def list_all_iff intro: AggregateByRule_finding_ok)

section \<open>The identifiers of each kind\<close>

abbreviation pod_report_ids :: "string list" where
  "pod_report_ids \<equiv> IDNotReadyUnexplained # pod_ids"

definition service_report_ids :: "string list" where
  "service_report_ids = rule_set_ids (service_Rules :: unit service_snap rule list) @ pod_report_ids"

definition deployment_report_ids :: "string list" where
  "deployment_report_ids = rule_set_ids (deployment_Rules :: unit deployment_snap rule list) @ pod_report_ids"

definition statefulset_report_ids :: "string list" where
  "statefulset_report_ids = rule_set_ids (statefulset_Rules :: unit stateful_set_snap rule list) @ pod_report_ids"

definition ingress_report_ids :: "string list" where
  "ingress_report_ids = rule_set_ids (ingress_Rules :: unit ingress_snap rule list) @ pod_report_ids"

definition pvc_report_ids :: "string list" where
  "pvc_report_ids = rule_set_ids (pvc_Rules :: unit pvc_snap rule list) @ [pvc_IDPending]"

text \<open>The identifiers a rule set declares do not depend on the type of quantities.\<close>

lemma rule_set_ids_any:
  "rule_set_ids (service_Rules :: 'q service_snap rule list) = rule_set_ids (service_Rules :: unit service_snap rule list)"
  "rule_set_ids (deployment_Rules :: 'q deployment_snap rule list) = rule_set_ids (deployment_Rules :: unit deployment_snap rule list)"
  "rule_set_ids (statefulset_Rules :: 'q stateful_set_snap rule list) = rule_set_ids (statefulset_Rules :: unit stateful_set_snap rule list)"
  "rule_set_ids (ingress_Rules :: 'q ingress_snap rule list) = rule_set_ids (ingress_Rules :: unit ingress_snap rule list)"
  "rule_set_ids (pvc_Rules :: 'q pvc_snap rule list) = rule_set_ids (pvc_Rules :: unit pvc_snap rule list)"
  by (simp_all only: rule_set_ids_def service_Rules_def service_rule_defs deployment_Rules_def deployment_rule_defs
      statefulset_Rules_def statefulset_rule_defs ingress_Rules_def ingress_rule_defs pvc_Rules_def pvc_rule_defs
      list.map rule.simps)

section \<open>The interface of a report\<close>

definition by_severity :: "diagnosis list \<Rightarrow> bool" where
  "by_severity ds \<longleftrightarrow> sorted_wrt (\<lambda>a b. severity_rank (d_Severity a) \<le> severity_rank (d_Severity b)) ds"

lemma by_severity_Prioritize: "findings_ok ids ds \<Longrightarrow> by_severity (Prioritize ds)"
  unfolding by_severity_def by (rule Prioritize_severity) (rule findings_ok_severity)

lemma by_severity_short: "length ds < 2 \<Longrightarrow> by_severity ds"
  by (cases ds; cases "tl ds") (auto simp: by_severity_def)

text \<open>The status the first finding decides, or what could not be read when there is none.\<close>

fun first_status :: "diagnosis list \<Rightarrow> degradation list \<Rightarrow> status" where
  "first_status [] degs = (if degs = [] then StatusHealthy else StatusUnknown)"
| "first_status (d # ds) degs =
     (case d_Severity d of
        SeverityCritical \<Rightarrow> StatusUnhealthy
      | SeverityWarning \<Rightarrow> StatusDegraded
      | _ \<Rightarrow> if degs = [] then StatusHealthy else StatusUnknown)"

lemma DeriveStatus_first:
  assumes "findings_ok ids (r_Diagnoses r)" and "by_severity (r_Diagnoses r)"
  shows "r_Status (DeriveStatus r) = first_status (r_Diagnoses r) (r_Degradations r)"
proof (cases "r_Diagnoses r")
  case Nil
  then show ?thesis by (simp add: DeriveStatus_cases)
next
  case (Cons d ds)
  have "severity_ok d" and "\<forall>x\<in>set ds. severity_rank (d_Severity d) \<le> severity_rank (d_Severity x)"
    using assms Cons by (auto simp: finding_ok_def by_severity_def)
  with Cons show ?thesis
    by (cases "d_Severity d") (fastforce simp: DeriveStatus_cases image_iff known_severity_def)+
qed

locale report_builder =
  fixes build :: "gocontext \<Rightarrow> 's \<Rightarrow> report"
    and diagnoses :: "gocontext \<Rightarrow> 's \<Rightarrow> diagnosis list"
    and degradations :: "'s \<Rightarrow> degradation list"
    and ref :: "'s \<Rightarrow> resource_ref"
    and verdict :: "'s \<Rightarrow> status \<Rightarrow> string"
    and ids :: "string list"
  assumes built:
      "r_Diagnoses (build ctx s) = diagnoses ctx s"
      "r_Degradations (build ctx s) = degradations s"
      "r_Resource (build ctx s) = ref s"
      "r_Status (build ctx s) = r_Status (DeriveStatus (build ctx s))"
      "r_Headline (build ctx s) = verdict s (r_Status (build ctx s))"
    and diagnoses_ok: "findings_ok ids (diagnoses ctx s)"
    and diagnoses_by_severity: "by_severity (diagnoses ctx s)"
begin

lemma report_ok: "findings_ok ids (r_Diagnoses (build ctx s))"
  by (simp add: built diagnoses_ok)

lemma report_by_severity: "by_severity (r_Diagnoses (build ctx s))"
  by (simp add: built diagnoses_by_severity)

lemma report_status: "r_Status (build ctx s) = first_status (r_Diagnoses (build ctx s)) (r_Degradations (build ctx s))"
  unfolding built(4) by (rule DeriveStatus_first [OF report_ok report_by_severity])

lemma report_headline: "r_Headline (build ctx s) = verdict s (first_status (diagnoses ctx s) (degradations s))"
  using report_status [of ctx s] by (simp add: built(1,2,5))

end

section \<open>The findings of each kind\<close>

lemma findings_ok_more: "findings_ok ids ds \<Longrightarrow> findings_ok (ids @ ids') ds"
  by (erule findings_ok_mono) simp

lemma own_rules_ok:
  "findings_ok service_report_ids (fst (Evaluate ctx service_Rules s))"
  "findings_ok deployment_report_ids (fst (Evaluate ctx deployment_Rules d))"
  "findings_ok statefulset_report_ids (fst (Evaluate ctx statefulset_Rules t))"
  "findings_ok ingress_report_ids (fst (Evaluate ctx ingress_Rules i))"
  "findings_ok pvc_report_ids (fst (Evaluate ctx pvc_Rules v))"
  using service.Evaluate_findings_ok [of ctx s] deployment.Evaluate_findings_ok [of ctx d]
    statefulset.Evaluate_findings_ok [of ctx t] ingress.Evaluate_findings_ok [of ctx i] pvc.Evaluate_findings_ok [of ctx v]
  unfolding rule_set_ids_any [where 'q = 'a] rule_set_ids_any [where 'q = 'b] rule_set_ids_any [where 'q = 'c]
    rule_set_ids_any [where 'q = 'd] rule_set_ids_any [where 'q = 'e]
    service_report_ids_def deployment_report_ids_def statefulset_report_ids_def ingress_report_ids_def pvc_report_ids_def
  by (simp_all add: findings_ok_more)

lemma pod_findings_in_report:
  assumes "findings_ok pod_report_ids ds"
  shows "findings_ok service_report_ids ds" "findings_ok deployment_report_ids ds"
    "findings_ok statefulset_report_ids ds" "findings_ok ingress_report_ids ds"
  unfolding service_report_ids_def deployment_report_ids_def statefulset_report_ids_def ingress_report_ids_def
  by (rule findings_ok_mono [OF assms]; auto)+

lemma pvc_Fallback_in_report: "findings_ok pvc_report_ids (pvc_Fallback v)"
  unfolding pvc_report_ids_def by (rule findings_ok_mono [OF pvc_Fallback_ok]) simp

lemmas report_findings =
  own_rules_ok link_cause_ok pvc_Fallback_in_report
  pod_findings_in_report(1) [OF BackendFindings_ok]
  pod_findings_in_report(2,4) [OF Aggregated_ok]
  pod_findings_in_report(3) [OF statefulset_PodFindings_ok]

lemma report_diagnoses_ok:
  "findings_ok service_report_ids (service_diagnoses lib ctx s)"
  "findings_ok deployment_report_ids (deployment_diagnoses lib ctx d)"
  "findings_ok statefulset_report_ids (statefulset_diagnoses lib ctx t)"
  "findings_ok ingress_report_ids (ingress_diagnoses lib ctx i)"
  "findings_ok pvc_report_ids (pvc_diagnoses ctx v)"
  by (auto simp: service_diagnoses_def deployment_diagnoses_def statefulset_diagnoses_def ingress_diagnoses_def
      pvc_diagnoses_def deployment_PodFindings_def ingress_PodFindings_def case_prod_beta Let_def
      intro!: report_findings findings_ok_map split: option.split)

lemma prioritized_by_severity: "findings_ok ids ds \<Longrightarrow> \<exists>xs. ds = Prioritize xs \<Longrightarrow> by_severity ds"
  by (auto simp: by_severity_Prioritize)

lemma report_prioritized:
  "\<exists>xs. fst (Evaluate ctx rules x) = Prioritize xs"
  "\<exists>xs. service_diagnoses lib ctx s = Prioritize xs"
  "\<exists>xs. deployment_diagnoses lib ctx d = Prioritize xs"
  "\<exists>xs. statefulset_diagnoses lib ctx t = Prioritize xs"
  "\<exists>xs. ingress_diagnoses lib ctx i = Prioritize xs"
  by (auto simp: Evaluate_def service_diagnoses_def deployment_diagnoses_def statefulset_diagnoses_def
      ingress_diagnoses_def case_prod_beta Let_def)

lemma report_diagnoses_by_severity:
  "by_severity (fst (pod_findings lib ctx p))"
  "by_severity (service_diagnoses lib ctx s)"
  "by_severity (deployment_diagnoses lib ctx d)"
  "by_severity (statefulset_diagnoses lib ctx t)"
  "by_severity (ingress_diagnoses lib ctx i)"
  "by_severity (pvc_diagnoses ctx v)"
proof -
  have "length (Fallback p) < 2" and "length (pvc_Fallback v) < 2"
    by (simp_all add: Fallback_def pvc_Fallback_def)
  then show "by_severity (fst (pod_findings lib ctx p))" and "by_severity (pvc_diagnoses ctx v)"
    using prioritized_by_severity [OF pod.Evaluate_findings_ok [of lib ctx p] report_prioritized(1)]
      prioritized_by_severity [OF own_rules_ok(5) [of ctx v] report_prioritized(1)]
    by (auto simp: pod_findings_def pvc_diagnoses_def case_prod_beta Let_def intro: by_severity_short)
qed (rule prioritized_by_severity [OF report_diagnoses_ok(1) report_prioritized(2)]
    prioritized_by_severity [OF report_diagnoses_ok(2) report_prioritized(3)]
    prioritized_by_severity [OF report_diagnoses_ok(3) report_prioritized(4)]
    prioritized_by_severity [OF report_diagnoses_ok(4) report_prioritized(5)])+

section \<open>The six report functions\<close>

lemma same_verdict_built:
  assumes "same_verdict r (let r = derived_report ref ds col in r\<lparr>r_Headline := verdict (r_Status r)\<rparr>)"
  shows "r_Diagnoses r = ds" "r_Degradations r = col_Degradations col" "r_Resource r = ref"
    "r_Status r = r_Status (DeriveStatus r)" "r_Headline r = verdict (r_Status r)"
  using assms by (simp_all add: same_verdict_def derived_report_def DeriveStatus_cases Let_def)

lemma with_headline_built:
  "with_headline (derived_report ref ds col) =
     (let r = derived_report ref ds col in r\<lparr>r_Headline := headline ref (r_Status r)\<rparr>)"
  by (simp add: with_headline_def derived_report_def Let_def)

lemmas built_reports = same_verdict_built [OF report_verdicts(1)]
  report_verdicts(2-6) [unfolded with_headline_built, THEN same_verdict_built(1)]
  report_verdicts(2-6) [unfolded with_headline_built, THEN same_verdict_built(2)]
  report_verdicts(2-6) [unfolded with_headline_built, THEN same_verdict_built(3)]
  report_verdicts(2-6) [unfolded with_headline_built, THEN same_verdict_built(4)]
  report_verdicts(2-6) [unfolded with_headline_built, THEN same_verdict_built(5)]

interpretation pod_report: report_builder "PodReport lib" "\<lambda>ctx p. fst (pod_findings lib ctx p)"
  "\<lambda>p. col_Degradations (ps_Collection p)" Pod_Ref podHeadline pod_report_ids for lib
  by unfold_locales (rule built_reports pod_findings_ok report_diagnoses_by_severity)+

interpretation service_report: report_builder "ServiceReport lib" "service_diagnoses lib"
  "\<lambda>s. col_Degradations (ss_Collection s)" Service_Ref "\<lambda>s. headline (Service_Ref s)" service_report_ids for lib
  by unfold_locales (rule built_reports report_diagnoses_ok report_diagnoses_by_severity)+

interpretation deployment_report: report_builder "DeploymentReport lib" "deployment_diagnoses lib"
  "\<lambda>d. col_Degradations (ds_Collection d)" Deployment_Ref "\<lambda>d. headline (Deployment_Ref d)" deployment_report_ids for lib
  by unfold_locales (rule built_reports report_diagnoses_ok report_diagnoses_by_severity)+

interpretation statefulset_report: report_builder "StatefulSetReport lib" "statefulset_diagnoses lib"
  "\<lambda>t. col_Degradations (st_Collection t)" StatefulSet_Ref "\<lambda>t. headline (StatefulSet_Ref t)" statefulset_report_ids for lib
  by unfold_locales (rule built_reports report_diagnoses_ok report_diagnoses_by_severity)+

interpretation ingress_report: report_builder "IngressReport lib" "ingress_diagnoses lib"
  "\<lambda>i. col_Degradations (is_Collection i)" Ingress_Ref "\<lambda>i. headline (Ingress_Ref i)" ingress_report_ids for lib
  by unfold_locales (rule built_reports report_diagnoses_ok report_diagnoses_by_severity)+

interpretation pvc_report: report_builder "PVCReport lib" pvc_diagnoses
  "\<lambda>v. col_Degradations (vs_Collection v)" PVC_Ref "\<lambda>v. headline (PVC_Ref v)" pvc_report_ids for lib
  by unfold_locales (rule built_reports report_diagnoses_ok report_diagnoses_by_severity)+

end
