(* ===== verification/Kube.thy ===== *)
theory Kube
  imports Diagnosis GoLoops
begin

text \<open>
  Package \<open>kube\<close>: resolving the resource argument of the command line (\<open>resolver.go\<close>) and the
  typed errors the command line maps to exit codes (\<open>errors.go\<close>). The errors of the Kubernetes
  client are values of a library, so their type is a type variable and the predicates of
  \<open>k8s.io/apimachinery/pkg/api/errors\<close> on them are the parameter \<open>api_errors\<close>. The lemmas show
  which arguments resolve and that the listings do not depend on the iteration order of a map.
\<close>

section \<open>Kinds\<close>

type_synonym kind = string

definition KindPod :: kind where "KindPod = ''Pod''"
definition KindService :: kind where "KindService = ''Service''"
definition KindDeployment :: kind where "KindDeployment = ''Deployment''"
definition KindStatefulSet :: kind where "KindStatefulSet = ''StatefulSet''"
definition KindIngress :: kind where "KindIngress = ''Ingress''"
definition KindPVC :: kind where "KindPVC = ''PersistentVolumeClaim''"

lemmas kind_defs = KindPod_def KindService_def KindDeployment_def KindStatefulSet_def KindIngress_def KindPVC_def

definition kindAliases :: "kind gomap" where
  "kindAliases =
     [(''pod'', KindPod), (''pods'', KindPod), (''po'', KindPod),
      (''service'', KindService), (''services'', KindService), (''svc'', KindService),
      (''deployment'', KindDeployment), (''deployments'', KindDeployment), (''deploy'', KindDeployment),
      (''statefulset'', KindStatefulSet), (''statefulsets'', KindStatefulSet), (''sts'', KindStatefulSet),
      (''ingress'', KindIngress), (''ingresses'', KindIngress), (''ing'', KindIngress),
      (''persistentvolumeclaim'', KindPVC), (''persistentvolumeclaims'', KindPVC), (''pvc'', KindPVC)]"

section \<open>Errors\<close>

text \<open>
  What the program asks of an error of the Kubernetes client: the two context errors are seen
  through \<open>errors.Is\<close>, the API status through \<open>errors.As\<close>, and \<open>api_Message\<close> is the message
  of that status, if the error carries one.
\<close>

record 'e api_errors =
  api_IsNotFound :: "'e \<Rightarrow> bool"
  api_IsForbidden :: "'e \<Rightarrow> bool"
  api_IsUnauthorized :: "'e \<Rightarrow> bool"
  api_Message :: "'e \<Rightarrow> string option"
  api_Error :: "'e \<Rightarrow> string"
  api_DeadlineExceeded :: "'e \<Rightarrow> bool"
  api_Canceled :: "'e \<Rightarrow> bool"

text \<open>
  The errors of the program: the typed ones, the plain ones made by \<open>fmt.Errorf\<close>, those that wrap
  another one behind a text, and the errors of a library passed on unchanged.
\<close>

datatype 'e go_error =
    NotFoundError resource_ref string
  | ForbiddenError resource_ref string string
  | UnsupportedKindError kind
  | PlainError string
  | WrapError string "'e go_error"
  | LibError 'e

definition NotFoundError_Error :: "resource_ref \<Rightarrow> string \<Rightarrow> string" where
  "NotFoundError_Error ref context =
     ((resource_ref_String ref) @ '' was not found'') @
     (if ref_Namespace ref \<noteq> [] then ('' in namespace '' @ quote_str (ref_Namespace ref)) else []) @ ''.'' @
     (if context \<noteq> [] then ([newline] @ [newline] @ ''Current context'' @ [newline] @ ''  '' @ context) else []) @
     ([newline] @ [newline] @ ''Try'' @ [newline] @ ''  kubectl get '' @
        (str_ToLower (ref_Kind ref))) @
     (if ref_Namespace ref \<noteq> [] then ('' -n '' @ (ref_Namespace ref)) else [])"

definition ForbiddenError_Error :: "resource_ref \<Rightarrow> string \<Rightarrow> string \<Rightarrow> string" where
  "ForbiddenError_Error ref context detail =
     (''not allowed to read '' @ (resource_ref_String ref)) @
     (if ref_Namespace ref \<noteq> [] then ('' in namespace '' @ quote_str (ref_Namespace ref)) else []) @ ''.'' @
     (if context \<noteq> [] then ([newline] @ [newline] @ ''Current context'' @ [newline] @ ''  '' @ context) else []) @
     (if detail \<noteq> [] then ([newline] @ [newline] @ ''Kubernetes returned'' @ [newline] @ ''  '' @ detail) else [])"

definition UnsupportedKindError_Error :: "kind \<Rightarrow> string" where
  "UnsupportedKindError_Error kind = kind @ '' diagnostics are not implemented yet in this build of KubeWhy.''"

fun go_Error :: "'e api_errors \<Rightarrow> 'e go_error \<Rightarrow> string" where
  "go_Error api (NotFoundError ref context) = NotFoundError_Error ref context"
| "go_Error api (ForbiddenError ref context detail) = ForbiddenError_Error ref context detail"
| "go_Error api (UnsupportedKindError kind) = UnsupportedKindError_Error kind"
| "go_Error api (PlainError msg) = msg"
| "go_Error api (WrapError msg e) = msg @ go_Error api e"
| "go_Error api (LibError e) = api_Error api e"

definition apiReason :: "'e api_errors \<Rightarrow> 'e \<Rightarrow> string" where
  "apiReason api err =
     (case api_Message api err of
        Some msg \<Rightarrow> (if msg \<noteq> [] then msg else api_Error api err)
      | None \<Rightarrow> api_Error api err)"

definition APIMessage :: "'e api_errors \<Rightarrow> 'e option \<Rightarrow> string" where
  "APIMessage api err = (case err of None \<Rightarrow> [] | Some e \<Rightarrow> apiReason api e)"

definition kube_IsNotFound :: "'e api_errors \<Rightarrow> 'e \<Rightarrow> bool" where
  "kube_IsNotFound api err \<longleftrightarrow> api_IsNotFound api err"

definition kube_IsForbidden :: "'e api_errors \<Rightarrow> 'e \<Rightarrow> bool" where
  "kube_IsForbidden api err \<longleftrightarrow> api_IsForbidden api err \<or> api_IsUnauthorized api err"

definition Classify :: "'e api_errors \<Rightarrow> 'e option \<Rightarrow> resource_ref \<Rightarrow> string \<Rightarrow> 'e go_error option" where
  "Classify api err ref context =
     (case err of
        None \<Rightarrow> None
      | Some e \<Rightarrow>
         (if api_IsNotFound api e then Some (NotFoundError ref context)
          else if api_IsForbidden api e \<or> api_IsUnauthorized api e
            then Some (ForbiddenError ref context (apiReason api e))
          else Some (LibError e)))"

section \<open>Resolving a resource argument\<close>

text \<open>\<open>byKind[kind]\<close>: the aliases of a kind, in the order the map is iterated in.\<close>

definition aliases_of :: "kind gomap \<Rightarrow> kind \<Rightarrow> string list" where
  "aliases_of aliases kind = map fst (filter (\<lambda>(a, k). k = kind) aliases)"

definition alias_less :: "string \<Rightarrow> string \<Rightarrow> bool" where
  "alias_less a b = (if length a \<noteq> length b then length a > length b else a < b)"

text \<open>\<open>fmt\<close> pads to the given width on the right.\<close>

definition pad_right :: "nat \<Rightarrow> string \<Rightarrow> string" where
  "pad_right w s = s @ replicate (w - length s) CHR '' ''"

definition supported_line :: "kind gomap \<Rightarrow> kind \<Rightarrow> string" where
  "supported_line aliases kind =
     (let canonical = str_ToLower kind;
          names = slice_stable alias_less (filter (\<lambda>a. a \<noteq> canonical) (aliases_of aliases kind))
      in pad_right 22 canonical @ '' aliases: '' @ str_Join '', '' names)"

definition SupportedResources :: "kind gomap \<Rightarrow> string list" where
  "SupportedResources aliases =
     map (supported_line aliases) [KindPod, KindService, KindDeployment, KindStatefulSet, KindIngress, KindPVC]"

definition KindAliases :: "kind gomap \<Rightarrow> string list" where
  "KindAliases aliases = sort (map fst aliases)"

definition resolve_key :: "string \<Rightarrow> string" where
  "resolve_key arg =
     (let key = str_ToLower (str_TrimSpace arg) in
      case str_Index key ''.'' of Some i \<Rightarrow> (if i > 0 then take i key else key) | None \<Rightarrow> key)"

definition ResolveKind :: "kind gomap \<Rightarrow> string \<Rightarrow> 'e go_error + kind" where
  "ResolveKind aliases arg =
     (case map_of aliases (resolve_key arg) of
        Some kind \<Rightarrow> Inr kind
      | None \<Rightarrow> Inl (PlainError (quote_str arg @ '' is not a resource KubeWhy can diagnose yet.'' @ [newline] @ [newline] @
        ''Supported resources'' @ [newline] @ ''  '' @
        (str_Join ([newline] @ ''  '') (SupportedResources aliases)))))"

section \<open>Listings\<close>

interpretation alias_order: total_sort_order "\<lambda>_. True" alias_less
  by unfold_locales (auto simp: alias_less_def equivalent_def split: if_splits)

lemma kindAliases_ok: "gomap_ok kindAliases"
  by (simp add: gomap_ok_def kindAliases_def)

lemma supported_line_perm:
  assumes "mset aliases = mset aliases'"
  shows "supported_line aliases kind = supported_line aliases' kind"
proof -
  have "mset (filter P (aliases_of aliases kind)) = mset (filter P (aliases_of aliases' kind))" for P
    using assms by (simp add: aliases_of_def)
  then have "slice_stable alias_less (filter P (aliases_of aliases kind)) =
      slice_stable alias_less (filter P (aliases_of aliases' kind))" for P
    by (intro alias_order.slice_stable_perm) simp_all
  then show ?thesis by (simp add: supported_line_def)
qed

text \<open>
  What the command line accepts and lists does not depend on the order in which Go iterates
  over the map of aliases: for every order the listings, and the answer for every argument, are
  the same.
\<close>

theorem listing_deterministic:
  assumes "mset aliases = mset kindAliases"
  shows "SupportedResources aliases = SupportedResources kindAliases \<and>
    KindAliases aliases = KindAliases kindAliases \<and>
    ResolveKind aliases arg = ResolveKind kindAliases arg"
proof -
  have "map_of aliases = map_of kindAliases"
    using map_of_perm [OF kindAliases_ok assms [symmetric]] by simp
  moreover have "SupportedResources aliases = SupportedResources kindAliases"
    by (simp add: SupportedResources_def supported_line_perm [OF assms])
  moreover have "KindAliases aliases = KindAliases kindAliases"
    using assms by (simp add: KindAliases_def sort_cong_mset)
  ultimately show ?thesis by (simp add: ResolveKind_def cong: option.case_cong)
qed

lemma listing_deterministic_witness:
  "ResolveKind (rev kindAliases) ''po'' = (ResolveKind kindAliases ''po'' :: unit go_error + kind)"
  using listing_deterministic [where arg = "''po''" and aliases = "rev kindAliases" and 'a = unit] by simp

section \<open>Which arguments resolve\<close>

lemma str_ToLower_append [simp]: "str_ToLower (s @ t) = str_ToLower s @ str_ToLower t"
  by (simp add: str_ToLower_def)

definition alias_char :: "char \<Rightarrow> bool" where
  "alias_char c \<longleftrightarrow> c \<in> set ''abcdefghijklmnopqrstuvwxyz''"

lemma alias_letters:
  assumes "(a, k) \<in> set kindAliases"
  shows "a \<noteq> []" "list_all alias_char a"
  using assms by (auto simp: kindAliases_def alias_char_def)

lemma alias_char_not_special: "alias_char (lower_char c) \<Longrightarrow> \<not> is_space c" "\<not> alias_char CHR ''.''"
  by (auto simp: is_space_def lower_char_def alias_char_def)

lemma resolve_key_suffix:
  assumes "str_ToLower s = a" and "(a, k) \<in> set kindAliases"
    and "list_all is_space pre" and "list_all is_space post"
    and "grp = [] \<or> hd grp = CHR ''.'' \<and> \<not> is_space (last grp)"
  shows "resolve_key (pre @ s @ grp @ post) = a"
proof -
  have letters: "list_all (\<lambda>c. \<not> is_space c) s" and "s \<noteq> []"
    using alias_letters [OF assms(2)] assms(1) alias_char_not_special(1)
    by (auto simp: str_ToLower_def list_all_iff)
  then have ends: "\<not> is_space (hd (s @ grp))" "\<not> is_space (last (s @ grp))"
    using assms(5) by (auto simp: last_append list_all_iff)
  have trimmed: "str_TrimSpace (pre @ s @ grp @ post) = s @ grp"
    using trim_strip [of is_space pre post "s @ grp"] assms(3,4) ends \<open>s \<noteq> []\<close> by (simp add: str_TrimSpace_def)
  have dot: "CHR ''.'' \<notin> set a"
    using alias_letters(2) [OF assms(2)] alias_char_not_special(2) by (auto simp: list_all_iff)
  show ?thesis
  proof (cases grp)
    case Nil
    then show ?thesis using trimmed assms(1) dot by (simp add: resolve_key_def str_Index_char_None)
  next
    case (Cons c g)
    then have "str_ToLower (s @ grp) = a @ CHR ''.'' # str_ToLower g"
      using assms(1,5) by (simp add: str_ToLower_def lower_char_def)
    then show ?thesis
      using trimmed dot alias_letters(1) [OF assms(2)] by (simp add: resolve_key_def str_Index_char Let_def)
  qed
qed

text \<open>
  C37. Every alias resolves to its kind however it is capitalised, with spaces around it, and with
  an API group after a dot, and it resolves to no other kind.
\<close>

theorem ResolveKind_accepts:
  assumes "str_ToLower s = a" and "(a, k) \<in> set kindAliases"
    and "list_all is_space pre" and "list_all is_space post"
    and "grp = [] \<or> hd grp = CHR ''.'' \<and> \<not> is_space (last grp)"
  shows "ResolveKind kindAliases (pre @ s @ grp @ post) = Inr k"
  unfolding ResolveKind_def resolve_key_suffix [OF assms]
  using assms(2) kindAliases_ok by (simp add: gomap_ok_def)

lemma ResolveKind_accepts_witness:
  "ResolveKind kindAliases '' Deployments.Apps'' = (Inr KindDeployment :: unit go_error + kind)"
proof -
  have "str_ToLower ''Deployments'' = ''deployments''" by code_simp
  then have "ResolveKind kindAliases ('' '' @ ''Deployments'' @ ''.Apps'' @ []) = (Inr KindDeployment :: unit go_error + kind)"
    by (rule ResolveKind_accepts) (simp_all add: kindAliases_def is_space_def)
  then show ?thesis by simp
qed

end
