(* ===== verification/CollectReads.thy ===== *)
theory CollectReads
  imports Snapshots Kube
begin

text \<open>
  Package \<open>collect\<close>, the reads shared by the collectors: recording a failed read
  (\<open>collect.go\<close>), events (\<open>events.go\<close>), endpoints (\<open>endpoints.go\<close>), the ownership chain
  (\<open>owners.go\<close>), storage classes (\<open>storageclass.go\<close>), and the snapshots of the Pods behind a
  workload (\<open>backendSnapshots\<close> of \<open>service.go\<close>).

  The Kubernetes client is a library and the API server is not part of the repository, so every
  request is a field of the parameter \<open>kube_client\<close>: what the server answers to it during one
  collection, an error or an object. A collector mutates the bookkeeping of its snapshot through
  a pointer; here the collection is passed in and returned.
\<close>

record ('q, 'e) kube_client =
  cl_Context :: string
  cl_Errors :: "'e api_errors"
  get_Pod :: "string \<Rightarrow> string \<Rightarrow> 'e + 'q k_pod"
  get_Service :: "string \<Rightarrow> string \<Rightarrow> 'e + k_service"
  get_Deployment :: "string \<Rightarrow> string \<Rightarrow> 'e + k_deployment"
  get_StatefulSet :: "string \<Rightarrow> string \<Rightarrow> 'e + k_stateful_set"
  get_Ingress :: "string \<Rightarrow> string \<Rightarrow> 'e + k_ingress"
  get_PVC :: "string \<Rightarrow> string \<Rightarrow> 'e + 'q k_pvc"
  get_Node :: "string \<Rightarrow> 'e + k_node"
  get_ConfigMap :: "string \<Rightarrow> string \<Rightarrow> 'e + unit" \<comment> \<open>the content is discarded\<close>
  get_SecretMetadata :: "(string \<Rightarrow> string \<Rightarrow> 'e + unit) option" \<comment> \<open>None without a metadata client\<close>
  get_Secret :: "string \<Rightarrow> string \<Rightarrow> 'e + unit" \<comment> \<open>the content is discarded\<close>
  get_ReplicaSet :: "string \<Rightarrow> string \<Rightarrow> 'e + k_replica_set"
  get_Job :: "string \<Rightarrow> string \<Rightarrow> 'e + k_owner_ref list" \<comment> \<open>the owners of the Job\<close>
  get_StorageClass :: "string \<Rightarrow> 'e + k_storage_class"
  get_IngressClass :: "string \<Rightarrow> 'e + k_ingress_class"
  get_Endpoints :: "string \<Rightarrow> string \<Rightarrow> 'e + k_endpoint_subset list"
  list_Events :: "string \<Rightarrow> string \<Rightarrow> int \<Rightarrow> 'e + k_event list" \<comment> \<open>field selector and limit\<close>
  list_Pods :: "string \<Rightarrow> string \<Rightarrow> 'e + 'q k_pod list" \<comment> \<open>label selector\<close>
  list_ReplicaSets :: "string \<Rightarrow> string \<Rightarrow> 'e + k_replica_set list"
  list_EndpointSlices :: "string \<Rightarrow> string \<Rightarrow> 'e + k_slice_endpoint list list"
  list_StorageClasses :: "'e + k_storage_class list"
  list_IngressClasses :: "'e + k_ingress_class list"
  fields_String :: "string gomap \<Rightarrow> string" \<comment> \<open>a field selector as text\<close>
  labels_String :: "string gomap \<Rightarrow> string" \<comment> \<open>a label set as a selector\<close>
  labels_Match :: "string gomap \<Rightarrow> string gomap \<Rightarrow> bool" \<comment> \<open>whether a label set selects labels\<close>
  LabelSelectorAsSelector :: "k_label_selector option \<Rightarrow> 'e + string"
  cl_Now :: "collection \<Rightarrow> gotime" \<comment> \<open>the clock, as the collection progresses\<close>
  cl_Finish :: "'q pod_snap list \<Rightarrow> 'q pod_snap list" \<comment> \<open>the order in which goroutines finish\<close>

section \<open>Recording failed reads\<close>

definition degrade_reason :: "'e api_errors \<Rightarrow> 'e \<Rightarrow> string" where
  "degrade_reason api err =
     (if kube_IsForbidden api err then ''Forbidden''
      else if kube_IsNotFound api err then ''NotFound''
      else if api_DeadlineExceeded api err \<or> api_Canceled api err then ''Timeout''
      else ''Error'')"

definition degrade :: "'e api_errors \<Rightarrow> collection \<Rightarrow> string \<Rightarrow> string \<Rightarrow> 'e option \<Rightarrow> collection" where
  "degrade api c resource requiredFor err =
     (case err of
        None \<Rightarrow> c
      | Some e \<Rightarrow> Degrade c \<lparr>deg_Resource = resource, deg_Reason = degrade_reason api e,
          deg_RequiredFor = requiredFor, deg_Detail = APIMessage api (Some e)\<rparr>)"

definition existence_of ::
  "'e api_errors \<Rightarrow> collection \<Rightarrow> string \<Rightarrow> string \<Rightarrow> 'e option \<Rightarrow> existence \<times> collection" where
  "existence_of api c resource requiredFor err =
     (case err of
        None \<Rightarrow> (Found, c)
      | Some e \<Rightarrow> (if kube_IsNotFound api e then (Missing, c)
                   else (Unknown, degrade api c resource requiredFor (Some e))))"

definition err_of :: "'e + 'a \<Rightarrow> 'e option" where
  "err_of r = (case r of Inl e \<Rightarrow> Some e | Inr _ \<Rightarrow> None)"

text \<open>\<open>Client.SecretExists\<close> of \<open>kube/client.go\<close>: the error of the read, if any.\<close>

definition SecretExists :: "('q, 'e) kube_client \<Rightarrow> string \<Rightarrow> string \<Rightarrow> 'e option" where
  "SecretExists cl ns name =
     (case get_SecretMetadata cl of
        Some get \<Rightarrow> err_of (get ns name)
      | None \<Rightarrow> err_of (get_Secret cl ns name))"

section \<open>Events\<close>

definition eventLimit :: int where "eventLimit = 200"

text \<open>\<open>strings.EqualFold\<close> on ASCII.\<close>

definition str_EqualFold :: "string \<Rightarrow> string \<Rightarrow> bool" where
  "str_EqualFold s t \<longleftrightarrow> str_ToLower s = str_ToLower t"

definition matchesObject :: "k_event \<Rightarrow> resource_ref \<Rightarrow> string \<Rightarrow> bool" where
  "matchesObject ev ref uid \<longleftrightarrow>
     (if uid \<noteq> [] \<and> ke_UID ev \<noteq> [] then ke_UID ev = uid
      else str_EqualFold (ke_Kind ev) (ref_Kind ref) \<and> ke_Name ev = ref_Name ref)"

definition normalizeEvent :: "k_event \<Rightarrow> event" where
  "normalizeEvent ev =
     (let out = \<lparr>ev_Type = ke_Type ev, ev_Reason = ke_Reason ev, ev_Message = str_TrimSpace (ke_Message ev),
            ev_Count = ke_Count ev, ev_FirstSeen = ke_FirstTimestamp ev, ev_LastSeen = ke_LastTimestamp ev,
            ev_Object = \<lparr>ref_Kind = ke_Kind ev, ref_Namespace = ke_Namespace ev, ref_Name = ke_Name ev\<rparr>,
            ev_FieldPath = ke_FieldPath ev\<rparr>;
          out = (if ev_Count out = 0 then out\<lparr>ev_Count := 1\<rparr> else out);
          out = (if ev_FirstSeen out = 0 then out\<lparr>ev_FirstSeen := ke_EventTime ev\<rparr> else out);
          out = (case ke_Series ev of
                   None \<Rightarrow> out
                 | Some (n, observed) \<Rightarrow> out\<lparr>ev_Count := n, ev_LastSeen := observed\<rparr>)
      in if ev_LastSeen out = 0 then out\<lparr>ev_LastSeen := ev_FirstSeen out\<rparr> else out)"

definition event_selector :: "resource_ref \<Rightarrow> string \<Rightarrow> string gomap" where
  "event_selector ref uid =
     [(''involvedObject.name'', ref_Name ref), (''involvedObject.kind'', ref_Kind ref)] @
     (if uid \<noteq> [] then [(''involvedObject.uid'', uid)] else [])"

definition eventsFor :: "('q, 'e) kube_client \<Rightarrow> resource_ref \<Rightarrow> string \<Rightarrow> 'e + events" where
  "eventsFor cl ref uid =
     (case list_Events cl (ref_Namespace ref) (fields_String cl (event_selector ref uid)) eventLimit of
        Inl e \<Rightarrow> Inl e
      | Inr items \<Rightarrow> Inr (Events_Sort (map normalizeEvent (filter (\<lambda>ev. matchesObject ev ref uid) items))))"

section \<open>Endpoints\<close>

definition derefString :: "string option \<Rightarrow> string" where
  "derefString s = (case s of None \<Rightarrow> [] | Some t \<Rightarrow> t)"

definition derefBoolDefault :: "bool option \<Rightarrow> bool \<Rightarrow> bool" where
  "derefBoolDefault b fallback = (case b of None \<Rightarrow> fallback | Some v \<Rightarrow> v)"

definition targetRef :: "k_object_ref option \<Rightarrow> resource_ref" where
  "targetRef ref =
     (case ref of
        None \<Rightarrow> resource_ref0
      | Some r \<Rightarrow> \<lparr>ref_Kind = kr_Kind r, ref_Namespace = kr_Namespace r, ref_Name = kr_Name r\<rparr>)"

definition slice_endpoint :: "k_slice_endpoint \<Rightarrow> endpoint" where
  "slice_endpoint e =
     \<lparr>ep_Address = (case se_Addresses e of [] \<Rightarrow> [] | a # _ \<Rightarrow> a),
      ep_Ready = derefBoolDefault (se_Ready e) True,
      ep_Node = derefString (se_NodeName e), ep_TargetRef = targetRef (se_TargetRef e)\<rparr>"

definition fromEndpointSlices :: "k_slice_endpoint list list \<Rightarrow> endpoint_set" where
  "fromEndpointSlices slices =
     \<lparr>es_Source = ''EndpointSlice'', es_Known = True, es_Addresses = concat (map (map slice_endpoint) slices)\<rparr>"

definition legacyAddress :: "k_endpoint_address \<Rightarrow> bool \<Rightarrow> endpoint" where
  "legacyAddress a ready =
     \<lparr>ep_Address = ea_IP a, ep_Ready = ready, ep_Node = derefString (ea_NodeName a), ep_TargetRef = targetRef (ea_TargetRef a)\<rparr>"

definition legacy_subset :: "k_endpoint_subset \<Rightarrow> endpoint list" where
  "legacy_subset s =
     map (\<lambda>a. legacyAddress a True) (sub_Addresses s) @ map (\<lambda>a. legacyAddress a False) (sub_NotReadyAddresses s)"

definition legacyEndpointsFor ::
  "('q, 'e) kube_client \<Rightarrow> collection \<Rightarrow> string \<Rightarrow> string \<Rightarrow> endpoint_set \<times> collection" where
  "legacyEndpointsFor cl coll namespace name =
     (case get_Endpoints cl namespace name of
        Inl e \<Rightarrow>
          (if kube_IsNotFound (cl_Errors cl) e
           then (\<lparr>es_Source = ''Endpoints'', es_Known = True, es_Addresses = []\<rparr>, coll)
           else (\<lparr>es_Source = ''Endpoints'', es_Known = False, es_Addresses = []\<rparr>,
                 degrade (cl_Errors cl) coll ''endpoints'' ''seeing which Pods actually receive traffic'' (Some e)))
      | Inr subsets \<Rightarrow>
          (\<lparr>es_Source = ''Endpoints'', es_Known = True, es_Addresses = concat (map legacy_subset subsets)\<rparr>,
           Inspect coll (''endpoints for service '' @ name)))"

definition endpointsFor ::
  "('q, 'e) kube_client \<Rightarrow> collection \<Rightarrow> string \<Rightarrow> string \<Rightarrow> endpoint_set \<times> collection" where
  "endpointsFor cl coll namespace name =
     (case list_EndpointSlices cl namespace (''kubernetes.io/service-name='' @ name) of
        Inr slices \<Rightarrow> (fromEndpointSlices slices, Inspect coll (''endpointslices for service '' @ name))
      | Inl e \<Rightarrow>
          (if kube_IsNotFound (cl_Errors cl) e then legacyEndpointsFor cl coll namespace name
           else (\<lparr>es_Source = ''EndpointSlice'', es_Known = False, es_Addresses = []\<rparr>,
                 degrade (cl_Errors cl) coll ''endpointslices'' ''seeing which Pods actually receive traffic'' (Some e))))"

section \<open>Owners\<close>

definition maxOwnerDepth :: nat where "maxOwnerDepth = 4"

definition controllerRef :: "k_owner_ref list \<Rightarrow> k_owner_ref option" where
  "controllerRef refs =
     (case find (\<lambda>r. or_Controller r = Some True) refs of
        Some r \<Rightarrow> Some r
      | None \<Rightarrow> (case refs of [] \<Rightarrow> None | r # _ \<Rightarrow> Some r))"

definition kindResource :: "string \<Rightarrow> string" where
  "kindResource kind =
     (if kind = ''ReplicaSet'' then ''replicasets''
      else if kind = ''Job'' then ''jobs''
      else if kind = ''Deployment'' then ''deployments''
      else if kind = ''StatefulSet'' then ''statefulsets''
      else if kind = ''DaemonSet'' then ''daemonsets''
      else kind)"

definition parentOf :: "('q, 'e) kube_client \<Rightarrow> resource_ref \<Rightarrow> 'e + k_owner_ref option" where
  "parentOf cl ref =
     (if ref_Kind ref = ''ReplicaSet'' then
        (case get_ReplicaSet cl (ref_Namespace ref) (ref_Name ref) of
           Inl e \<Rightarrow> Inl e | Inr rs \<Rightarrow> Inr (controllerRef (rs_OwnerReferences rs)))
      else if ref_Kind ref = ''Job'' then
        (case get_Job cl (ref_Namespace ref) (ref_Name ref) of
           Inl e \<Rightarrow> Inl e | Inr owners \<Rightarrow> Inr (controllerRef owners))
      else Inr None)"

text \<open>The loop of \<open>ownerChain\<close>; the first argument is the number of iterations left.\<close>

fun owner_loop ::
  "nat \<Rightarrow> ('q, 'e) kube_client \<Rightarrow> collection \<Rightarrow> string \<Rightarrow> k_owner_ref option \<Rightarrow> resource_ref list \<times> collection" where
  "owner_loop 0 cl coll namespace current = ([], coll)"
| "owner_loop (Suc depth) cl coll namespace current =
     (case current of
        None \<Rightarrow> ([], coll)
      | Some r \<Rightarrow>
         (let ref = \<lparr>ref_Kind = or_Kind r, ref_Namespace = namespace, ref_Name = or_Name r\<rparr> in
          case parentOf cl ref of
            Inl e \<Rightarrow> ([ref], degrade (cl_Errors cl) coll (kindResource (ref_Kind ref)) ''resolving the full ownership chain'' (Some e))
          | Inr nxt \<Rightarrow>
             (let (chain, coll') = owner_loop depth cl coll namespace nxt in (ref # chain, coll'))))"

definition ownerChain ::
  "('q, 'e) kube_client \<Rightarrow> collection \<Rightarrow> string \<Rightarrow> k_owner_ref list \<Rightarrow> resource_ref list \<times> collection" where
  "ownerChain cl coll namespace refs = owner_loop maxOwnerDepth cl coll namespace (controllerRef refs)"

section \<open>Storage classes\<close>

definition legacyStorageClassAnnotation :: string where
  "legacyStorageClassAnnotation = ''volume.beta.kubernetes.io/storage-class''"

definition storage_class_info0 :: storage_class_info where
  "storage_class_info0 = \<lparr>sci_Name = [], sci_Requested = False, sci_ExplicitlyNone = False, sci_Exists = Unknown,
     sci_DefaultExists = Unknown, sci_BindingMode = [], sci_Provisioner = []\<rparr>"

definition bindingMode :: "k_storage_class \<Rightarrow> string" where
  "bindingMode cls = (case sc_VolumeBindingMode cls of None \<Rightarrow> ''Immediate'' | Some m \<Rightarrow> m)"

text \<open>Reading a missing key of a Go map gives the empty string.\<close>

definition gomap_get :: "string gomap \<Rightarrow> string \<Rightarrow> string" where
  "gomap_get m k = (case map_of m k of None \<Rightarrow> [] | Some v \<Rightarrow> v)"

definition storageClassName :: "'q k_pvc \<Rightarrow> string" where
  "storageClassName claim =
     (case pvc_StorageClassName claim of
        Some n \<Rightarrow> (if n \<noteq> [] then n else gomap_get (pvc_Annotations claim) legacyStorageClassAnnotation)
      | None \<Rightarrow> gomap_get (pvc_Annotations claim) legacyStorageClassAnnotation)"

definition is_default_class :: "k_storage_class \<Rightarrow> bool" where
  "is_default_class cls \<longleftrightarrow> gomap_get (sc_Annotations cls) ''storageclass.kubernetes.io/is-default-class'' = ''true''"

definition defaultStorageClassInfo :: "('q, 'e) kube_client \<Rightarrow> collection \<Rightarrow> storage_class_info \<times> collection" where
  "defaultStorageClassInfo cl coll =
     (case list_StorageClasses cl of
        Inl e \<Rightarrow> (storage_class_info0,
          degrade (cl_Errors cl) coll ''storageclasses'' ''identifying the default storage class'' (Some e))
      | Inr items \<Rightarrow>
         ((case find is_default_class items of
             Some cls \<Rightarrow> storage_class_info0\<lparr>sci_Name := sc_Name cls, sci_Exists := Found, sci_DefaultExists := Found,
               sci_BindingMode := bindingMode cls, sci_Provisioner := sc_Provisioner cls\<rparr>
           | None \<Rightarrow> storage_class_info0\<lparr>sci_Exists := Missing, sci_DefaultExists := Missing\<rparr>),
          Inspect coll ''storageclasses''))"

text \<open>Every caller passes a claim, so the branches for a nil claim are not reached.\<close>

definition storageClassInfo ::
  "('q, 'e) kube_client \<Rightarrow> collection \<Rightarrow> 'q k_pvc \<Rightarrow> storage_class_info \<times> collection" where
  "storageClassInfo cl coll claim =
     (if pvc_StorageClassName claim = Some [] then
        (storage_class_info0\<lparr>sci_ExplicitlyNone := True, sci_BindingMode := ''Immediate''\<rparr>, coll)
      else
       (let name = storageClassName claim in
        if name = [] then defaultStorageClassInfo cl coll
        else
         (let r = get_StorageClass cl name;
              (found, coll) = existence_of (cl_Errors cl) coll ''storageclasses''
                ''checking the requested storage class exists'' (err_of r);
              info = storage_class_info0\<lparr>sci_Name := name, sci_Requested := True, sci_Exists := found\<rparr>
          in case r of
               Inr cls \<Rightarrow> (info\<lparr>sci_BindingMode := bindingMode cls, sci_Provisioner := sc_Provisioner cls\<rparr>,
                 Inspect coll (''storageclass '' @ name))
             | Inl _ \<Rightarrow> (info, coll))))"

section \<open>The Pods behind a workload\<close>

definition maxBackendEvents :: nat where "maxBackendEvents = 8"

definition podReady :: "'q k_pod \<Rightarrow> bool" where
  "podReady pod \<longleftrightarrow>
     pod_Phase pod = ''Running'' \<and>
     (case find_condition ''Ready'' (pod_Conditions pod) of
        None \<Rightarrow> False | Some c \<Rightarrow> cond_Status c = ''True'')"

definition backend_snapshot :: "gotime \<Rightarrow> 'q k_pod \<Rightarrow> 'q pod_snap" where
  "backend_snapshot now pod =
     \<lparr>ps_Collection = collection0, ps_Pod = pod, ps_Events = [], ps_Owners = [], ps_Node = None,
      ps_ConfigMaps = [], ps_Secrets = [], ps_PVCs = [], ps_Now = now\<rparr>"

text \<open>The snapshots whose events are fetched: the first unready ones, up to the limit.\<close>

definition need_events :: "'q pod_snap list \<Rightarrow> 'q pod_snap list" where
  "need_events snaps = take maxBackendEvents (filter (\<lambda>s. \<not> podReady (ps_Pod s)) snaps)"

definition pod_events :: "('q, 'e) kube_client \<Rightarrow> 'q pod_snap \<Rightarrow> 'e + events" where
  "pod_events cl snap = eventsFor cl (Pod_Ref snap) (pod_UID (ps_Pod snap))"

text \<open>What the goroutine of one snapshot does to the shared collection, and to its own snapshot.\<close>

definition record_failure :: "('q, 'e) kube_client \<Rightarrow> collection \<Rightarrow> 'q pod_snap \<Rightarrow> collection" where
  "record_failure cl coll snap =
     degrade (cl_Errors cl) coll ''events'' ''explaining why backend Pods are not ready'' (err_of (pod_events cl snap))"

definition with_events :: "('q, 'e) kube_client \<Rightarrow> 'q pod_snap \<Rightarrow> 'q pod_snap" where
  "with_events cl snap =
     (case pod_events cl snap of Inl _ \<Rightarrow> snap | Inr evs \<Rightarrow> snap\<lparr>ps_Events := Events_Dedup evs\<rparr>)"

text \<open>The first argument counts the unready snapshots that may still fetch their events.\<close>

fun fill_events :: "nat \<Rightarrow> ('q, 'e) kube_client \<Rightarrow> 'q pod_snap list \<Rightarrow> 'q pod_snap list" where
  "fill_events n cl [] = []"
| "fill_events n cl (s # ss) =
     (if podReady (ps_Pod s) then s # fill_events n cl ss
      else (case n of 0 \<Rightarrow> s # fill_events 0 cl ss | Suc m \<Rightarrow> with_events cl s # fill_events m cl ss))"

definition backendSnapshots ::
  "('q, 'e) kube_client \<Rightarrow> collection \<Rightarrow> 'q k_pod list \<Rightarrow> 'q pod_snap list \<times> collection" where
  "backendSnapshots cl coll pods =
     (let snaps = map (backend_snapshot (cl_Now cl coll)) pods;
          need = need_events snaps
      in if need = [] then (snaps, coll)
         else
          (let coll = foldl (record_failure cl) coll (cl_Finish cl need);
               coll = Inspect coll ''events for unready backend Pods'';
               coll = (if length need = maxBackendEvents
                 then Inspect coll (''(events limited to the first '' @ int_str (int maxBackendEvents) @ '' unready Pods)'')
                 else coll)
           in (fill_events maxBackendEvents cl snaps, coll)))"

end
