(* ===== verification/Collect.thy ===== *)
theory Collect
  imports CollectReads
begin

text \<open>
  Package \<open>collect\<close>, one collector per kind: \<open>pod.go\<close>, \<open>service.go\<close>, \<open>deployment.go\<close>,
  \<open>statefulset.go\<close>, \<open>ingress.go\<close> and \<open>pvc.go\<close>. A collector returns the typed error of the
  primary read or the snapshot. A failed read of a related object is recorded in the snapshot. A
  function that fills in part of a snapshot returns the new snapshot here. Go maps are filled in
  the order in which the collector inserts.
\<close>

definition primary_error :: "('q, 'e) kube_client \<Rightarrow> 'e \<Rightarrow> resource_ref \<Rightarrow> 'e go_error" where
  "primary_error cl e ref =
     (case Classify (cl_Errors cl) (Some e) ref (cl_Context cl) of Some err \<Rightarrow> err | None \<Rightarrow> LibError e)"

text \<open>Reading the events of the primary object, and what it records.\<close>

definition collect_events ::
  "('q, 'e) kube_client \<Rightarrow> collection \<Rightarrow> resource_ref \<Rightarrow> string \<Rightarrow> string \<Rightarrow> string \<Rightarrow> events \<times> collection" where
  "collect_events cl coll ref uid requiredFor what =
     (case eventsFor cl ref uid of
        Inl e \<Rightarrow> ([], degrade (cl_Errors cl) coll ''events'' requiredFor (Some e))
      | Inr evs \<Rightarrow> (Events_Dedup evs, Inspect coll what))"

section \<open>Pods\<close>

definition podLooksHealthy :: "'q pod_snap \<Rightarrow> bool" where
  "podLooksHealthy snap \<longleftrightarrow>
     pod_Phase (ps_Pod snap) = ''Running'' \<and>
     (case Pod_Condition snap ''Ready'' of None \<Rightarrow> False | Some c \<Rightarrow> cond_Status c = ''True'')"

definition needsConfigRefs :: "'q pod_snap \<Rightarrow> bool" where
  "needsConfigRefs snap \<longleftrightarrow>
     list_ex (\<lambda>c. case Container_Waiting c of
         None \<Rightarrow> False
       | Some w \<Rightarrow> w_Reason w \<in> set [''CreateContainerConfigError'', ''CreateContainerError'', ''InvalidImageName''])
       (Pod_Containers snap) \<or>
     list_ex (\<lambda>ev. ev_Reason ev \<in> set [''FailedMount'', ''Failed'', ''FailedCreatePodContainer''])
       (Events_Warnings (ps_Events snap))"

definition needsClaims :: "'q pod_snap \<Rightarrow> bool" where
  "needsClaims snap \<longleftrightarrow>
     pod_Phase (ps_Pod snap) = ''Pending'' \<or>
     list_ex (\<lambda>ev. ev_Reason ev \<in> set [''FailedMount'', ''FailedAttachVolume'', ''FailedScheduling''])
       (Events_Warnings (ps_Events snap))"

definition optionalRef :: "bool option \<Rightarrow> bool" where
  "optionalRef opt \<longleftrightarrow> opt = Some True"

text \<open>\<open>nameSet.add\<close>; the order of insertion is the set.\<close>

definition nameSet_add :: "string list \<Rightarrow> string \<Rightarrow> string list" where
  "nameSet_add order name =
     (let name = str_TrimSpace name in if name = [] \<or> name \<in> set order then order else order @ [name])"

definition required_ref :: "k_config_ref option \<Rightarrow> string list" where
  "required_ref ref =
     (case ref of None \<Rightarrow> [] | Some r \<Rightarrow> (if optionalRef (cr_Optional r) then [] else [cr_Name r]))"

text \<open>The names added to the two sets, in the order of the calls to \<open>add\<close>.\<close>

definition container_refs :: "(k_env_from \<Rightarrow> k_config_ref option) \<Rightarrow> (k_env_source \<Rightarrow> k_config_ref option) \<Rightarrow>
    'q k_container \<Rightarrow> string list" where
  "container_refs from_ref key_ref c =
     concat (map (\<lambda>f. required_ref (from_ref f)) (c_EnvFrom c)) @
     concat (map (\<lambda>e. case e of None \<Rightarrow> [] | Some src \<Rightarrow> required_ref (key_ref src)) (c_Env c))"

definition volume_refs :: "(k_volume \<Rightarrow> k_config_ref option) \<Rightarrow> (k_projection \<Rightarrow> k_config_ref option) \<Rightarrow>
    k_volume \<Rightarrow> string list" where
  "volume_refs vol_ref proj_ref vol =
     required_ref (vol_ref vol) @
     (case vol_Projected vol of None \<Rightarrow> [] | Some sources \<Rightarrow> concat (map (\<lambda>s. required_ref (proj_ref s)) sources))"

definition referencedConfig :: "'q k_pod \<Rightarrow> string list \<times> string list" where
  "referencedConfig pod =
     (let containers = pod_InitContainers pod @ pod_Containers pod;
          cms = concat (map (container_refs ef_ConfigMapRef en_ConfigMapKeyRef) containers) @
            concat (map (volume_refs vol_ConfigMap pj_ConfigMap) (pod_Volumes pod));
          secs = concat (map (container_refs ef_SecretRef en_SecretKeyRef) containers) @
            concat (map (volume_refs vol_Secret pj_Secret) (pod_Volumes pod)) @ pod_ImagePullSecrets pod
      in (foldl nameSet_add [] cms, foldl nameSet_add [] secs))"

definition collectPodNode :: "('q, 'e) kube_client \<Rightarrow> 'q pod_snap \<Rightarrow> 'q pod_snap" where
  "collectPodNode cl snap =
     (let nodeName = pod_NodeName (ps_Pod snap) in
      if nodeName = [] \<or> podLooksHealthy snap then snap
      else (case get_Node cl nodeName of
              Inl e \<Rightarrow> snap\<lparr>ps_Collection := degrade (cl_Errors cl) (ps_Collection snap) ''nodes'' ''evaluating node conditions'' (Some e)\<rparr>
            | Inr node \<Rightarrow> snap\<lparr>ps_Node := Some node, ps_Collection := Inspect (ps_Collection snap) (''node '' @ nodeName)\<rparr>))"

text \<open>One iteration of a loop that checks whether named objects exist.\<close>

definition check_existence ::
  "'e api_errors \<Rightarrow> (string \<Rightarrow> 'e option) \<Rightarrow> string \<Rightarrow> string \<Rightarrow>
   existence gomap \<times> collection \<Rightarrow> string \<Rightarrow> existence gomap \<times> collection" where
  "check_existence api read resource requiredFor acc name =
     (let (found, coll) = existence_of api (snd acc) resource requiredFor (read name)
      in (fst acc @ [(name, found)], coll))"

definition collectPodConfigRefs :: "('q, 'e) kube_client \<Rightarrow> 'q pod_snap \<Rightarrow> 'q pod_snap" where
  "collectPodConfigRefs cl snap =
     (if \<not> needsConfigRefs snap then snap
      else
       (let (configMaps, secrets) = referencedConfig (ps_Pod snap);
            ns = pod_Namespace (ps_Pod snap);
            (cms, coll) = foldl (check_existence (cl_Errors cl) (\<lambda>name. err_of (get_ConfigMap cl ns name))
              ''configmaps'' ''checking referenced configuration'') (ps_ConfigMaps snap, ps_Collection snap) configMaps;
            (secs, coll) = foldl (check_existence (cl_Errors cl) (SecretExists cl ns)
              ''secrets'' ''checking referenced secrets exist'') (ps_Secrets snap, coll) secrets;
            coll = (if length configMaps + length secrets > 0
              then Inspect coll ''referenced ConfigMaps and Secret names'' else coll)
        in snap\<lparr>ps_ConfigMaps := cms, ps_Secrets := secs, ps_Collection := coll\<rparr>))"

text \<open>The entry for a claim, shared by the Pod and the StatefulSet collectors.\<close>

definition claim_entry ::
  "('q, 'e) kube_client \<Rightarrow> collection \<Rightarrow> string \<Rightarrow> string \<Rightarrow> string \<Rightarrow> pvc_ref \<times> collection" where
  "claim_entry cl coll requiredFor ns name =
     (let r = get_PVC cl ns name;
          (found, coll) = existence_of (cl_Errors cl) coll ''persistentvolumeclaims'' requiredFor (err_of r);
          entry = \<lparr>pr_Name = name, pr_Exists = found, pr_Phase = [], pr_StorageClass = [], pr_BindingMode = []\<rparr>
      in case r of
           Inl _ \<Rightarrow> (entry, coll)
         | Inr claim \<Rightarrow>
            (let entry = entry\<lparr>pr_Phase := pvc_Phase claim\<rparr> in
             if pvc_Phase claim = ''Bound'' then (entry, coll)
             else
              (let (cls, coll) = storageClassInfo cl coll claim
               in (entry\<lparr>pr_StorageClass := sci_Name cls, pr_BindingMode := sci_BindingMode cls\<rparr>, coll))))"

definition collect_volume_claim ::
  "('q, 'e) kube_client \<Rightarrow> string \<Rightarrow> pvc_ref gomap \<times> collection \<Rightarrow> k_volume \<Rightarrow> pvc_ref gomap \<times> collection" where
  "collect_volume_claim cl ns acc vol =
     (case vol_ClaimName vol of
        None \<Rightarrow> acc
      | Some name \<Rightarrow>
         (if map_of (fst acc) name \<noteq> None then acc
          else
           (let (entry, coll) = claim_entry cl (snd acc) ''checking mounted volumes are bound'' ns name
            in (fst acc @ [(name, entry)], Inspect coll (''persistentvolumeclaim '' @ name)))))"

definition collectPodClaims :: "('q, 'e) kube_client \<Rightarrow> 'q pod_snap \<Rightarrow> 'q pod_snap" where
  "collectPodClaims cl snap =
     (if \<not> needsClaims snap then snap
      else
       (let (claims, coll) = foldl (collect_volume_claim cl (pod_Namespace (ps_Pod snap)))
              (ps_PVCs snap, ps_Collection snap) (pod_Volumes (ps_Pod snap))
        in snap\<lparr>ps_PVCs := claims, ps_Collection := coll\<rparr>))"

text \<open>
  The Pod with its events and owners. The two reads run concurrently; they write to different
  collections, which are merged after both have finished.
\<close>

definition pod_start :: "('q, 'e) kube_client \<Rightarrow> resource_ref \<Rightarrow> 'q k_pod \<Rightarrow> 'q pod_snap" where
  "pod_start cl ref pod =
     (let (owners, ownerColl) = ownerChain cl collection0 (ref_Namespace ref) (pod_OwnerReferences pod);
          (evs, coll) = collect_events cl (Inspect collection0 (''pod '' @ ref_Name ref)) ref (pod_UID pod)
            ''explaining scheduling, image pull and probe failures'' (''events for pod '' @ ref_Name ref);
          coll = foldl Degrade coll (col_Degradations ownerColl);
          coll = (if owners \<noteq> [] then Inspect coll ''ownership chain'' else coll)
      in \<lparr>ps_Collection = coll, ps_Pod = pod, ps_Events = evs, ps_Owners = owners, ps_Node = None,
           ps_ConfigMaps = [], ps_Secrets = [], ps_PVCs = [], ps_Now = cl_Now cl collection0\<rparr>)"

definition pod_ref :: "string \<Rightarrow> string \<Rightarrow> resource_ref" where
  "pod_ref namespace name = \<lparr>ref_Kind = ''Pod'', ref_Namespace = namespace, ref_Name = name\<rparr>"

definition collect_Pod :: "('q, 'e) kube_client \<Rightarrow> string \<Rightarrow> string \<Rightarrow> 'e go_error + 'q pod_snap" where
  "collect_Pod cl namespace name =
     (let ref = pod_ref namespace name in
      case get_Pod cl namespace name of
        Inl e \<Rightarrow> Inl (primary_error cl e ref)
      | Inr pod \<Rightarrow> Inr (collectPodClaims cl (collectPodConfigRefs cl (collectPodNode cl (pod_start cl ref pod)))))"

section \<open>Services\<close>

definition endpoint_set0 :: endpoint_set where
  "endpoint_set0 = \<lparr>es_Source = [], es_Known = False, es_Addresses = []\<rparr>"

text \<open>Listing the Pods a selector matches and turning them into snapshots.\<close>

definition collect_backends ::
  "('q, 'e) kube_client \<Rightarrow> collection \<Rightarrow> string \<Rightarrow> string \<Rightarrow> string \<Rightarrow> 'q pod_snap list option \<times> collection" where
  "collect_backends cl coll requiredFor namespace selector =
     (case list_Pods cl namespace selector of
        Inl e \<Rightarrow> (None, degrade (cl_Errors cl) coll ''pods'' requiredFor (Some e))
      | Inr pods \<Rightarrow>
         (let (snaps, coll) = backendSnapshots cl (Inspect coll (''pods matching '' @ selector)) pods
          in (Some snaps, coll)))"

definition collect_Service :: "('q, 'e) kube_client \<Rightarrow> string \<Rightarrow> string \<Rightarrow> 'e go_error + 'q service_snap" where
  "collect_Service cl namespace name =
     (let ref = \<lparr>ref_Kind = ''Service'', ref_Namespace = namespace, ref_Name = name\<rparr> in
      case get_Service cl namespace name of
        Inl e \<Rightarrow> Inl (primary_error cl e ref)
      | Inr service \<Rightarrow>
         (let (evs, coll) = collect_events cl (Inspect collection0 (''service '' @ name)) ref (svc_UID service)
                ''explaining endpoint and configuration problems'' (''events for service '' @ name);
              snap = \<lparr>ss_Collection = coll, ss_Service = service, ss_Events = evs, ss_Backends = None,
                ss_Endpoints = endpoint_set0, ss_Now = cl_Now cl collection0\<rparr>
          in if Service_IsExternalName snap then Inr snap
             else
              (let (eps, coll) = endpointsFor cl coll namespace name;
                   snap = snap\<lparr>ss_Endpoints := eps, ss_Collection := coll\<rparr>
               in if \<not> Service_HasSelector snap then Inr snap
                  else
                   (let (bs, coll) = collect_backends cl coll ''finding the Pods the selector matches'' namespace
                          (labels_String cl (svc_Selector service))
                    in Inr (snap\<lparr>ss_Backends := bs, ss_Collection := coll\<rparr>)))))"

section \<open>Deployments\<close>

definition revisionNumber :: "k_replica_set \<Rightarrow> int" where
  "revisionNumber rs =
     (case Revision rs of None \<Rightarrow> 0 | Some v \<Rightarrow> (case go_Atoi v of None \<Rightarrow> 0 | Some n \<Rightarrow> n))"

definition ownedReplicaSets :: "k_deployment \<Rightarrow> k_replica_set list \<Rightarrow> k_replica_set list" where
  "ownedReplicaSets deployment sets =
     slice_stable (\<lambda>a b. revisionNumber b < revisionNumber a)
       (filter (\<lambda>rs. list_ex (\<lambda>owner. or_UID owner = dep_UID deployment) (rs_OwnerReferences rs)) sets)"

definition currentReplicaSet :: "k_deployment \<Rightarrow> k_replica_set list \<Rightarrow> k_replica_set option" where
  "currentReplicaSet deployment sets =
     (case sets of
        [] \<Rightarrow> None
      | newest # _ \<Rightarrow>
         (case map_of (dep_Annotations deployment) ''deployment.kubernetes.io/revision'' of
            None \<Rightarrow> Some newest
          | Some revision \<Rightarrow>
             (case find (\<lambda>rs. Revision rs = Some revision) sets of
                Some rs \<Rightarrow> Some rs
              | None \<Rightarrow> Some newest)))"

definition collect_Deployment :: "('q, 'e) kube_client \<Rightarrow> string \<Rightarrow> string \<Rightarrow> 'e go_error + 'q deployment_snap" where
  "collect_Deployment cl namespace name =
     (let ref = \<lparr>ref_Kind = ''Deployment'', ref_Namespace = namespace, ref_Name = name\<rparr> in
      case get_Deployment cl namespace name of
        Inl e \<Rightarrow> Inl (primary_error cl e ref)
      | Inr deployment \<Rightarrow>
         (let (evs, coll) = collect_events cl (Inspect collection0 (''deployment '' @ name)) ref (dep_UID deployment)
                ''explaining failed rollouts and rejected Pods'' (''events for deployment '' @ name);
              snap = \<lparr>ds_Collection = coll, ds_Deployment = deployment, ds_Events = evs, ds_ReplicaSets = [],
                ds_Current = None, ds_Pods = [], ds_Now = cl_Now cl collection0\<rparr>
          in case LabelSelectorAsSelector cl (dep_Selector deployment) of
               Inl e \<Rightarrow> Inr (snap\<lparr>ds_Collection := degrade (cl_Errors cl) coll ''pods'' ''finding the Pods this Deployment owns'' (Some e)\<rparr>)
             | Inr selector \<Rightarrow>
                (let snap = (case list_ReplicaSets cl namespace selector of
                       Inl e \<Rightarrow> snap\<lparr>ds_Collection := degrade (cl_Errors cl) coll ''replicasets'' ''identifying the current revision'' (Some e)\<rparr>
                     | Inr sets \<Rightarrow>
                        (let owned = ownedReplicaSets deployment sets
                         in snap\<lparr>ds_ReplicaSets := owned, ds_Current := currentReplicaSet deployment owned,
                              ds_Collection := Inspect coll (''replicasets matching '' @ selector)\<rparr>));
                     (pods, coll) = collect_backends cl (ds_Collection snap) ''diagnosing the Pods this Deployment owns'' namespace selector
                 in Inr (snap\<lparr>ds_Pods := (case pods of None \<Rightarrow> [] | Some ps \<Rightarrow> ps), ds_Collection := coll\<rparr>))))"

section \<open>StatefulSets\<close>

definition ordinal_less :: "'q k_pod \<Rightarrow> 'q k_pod \<Rightarrow> bool" where
  "ordinal_less p q =
     (case (Ordinal (pod_Name p), Ordinal (pod_Name q)) of
        (Some a, Some b) \<Rightarrow> a < b
      | _ \<Rightarrow> pod_Name p < pod_Name q)"

definition owned_pods :: "k_stateful_set \<Rightarrow> 'q k_pod list \<Rightarrow> 'q k_pod list" where
  "owned_pods sts pods =
     filter (\<lambda>p. list_ex (\<lambda>owner. or_UID owner = sts_UID sts) (pod_OwnerReferences p)) pods"

definition collectStatefulSetPods :: "('q, 'e) kube_client \<Rightarrow> 'q stateful_set_snap \<Rightarrow> 'q stateful_set_snap" where
  "collectStatefulSetPods cl snap =
     (let sts = st_StatefulSet snap; coll = st_Collection snap in
      case LabelSelectorAsSelector cl (sts_Selector sts) of
        Inl e \<Rightarrow> snap\<lparr>st_Collection := degrade (cl_Errors cl) coll ''pods'' ''finding the Pods this StatefulSet owns'' (Some e)\<rparr>
      | Inr selector \<Rightarrow>
         (case list_Pods cl (sts_Namespace sts) selector of
            Inl e \<Rightarrow> snap\<lparr>st_Collection := degrade (cl_Errors cl) coll ''pods'' ''diagnosing the Pods this StatefulSet owns'' (Some e)\<rparr>
          | Inr pods \<Rightarrow>
             (let owned = slice_stable ordinal_less (owned_pods sts pods);
                  (snaps, coll) = backendSnapshots cl (Inspect coll (''pods matching '' @ selector)) owned
              in snap\<lparr>st_Pods := snaps, st_Collection := coll\<rparr>)))"

definition collectHeadlessService :: "('q, 'e) kube_client \<Rightarrow> 'q stateful_set_snap \<Rightarrow> 'q stateful_set_snap" where
  "collectHeadlessService cl snap =
     (let sts = st_StatefulSet snap; name = sts_ServiceName sts in
      if name = [] then snap
      else
       (let r = get_Service cl (sts_Namespace sts) name;
            (found, coll) = existence_of (cl_Errors cl) (st_Collection snap) ''services'' ''checking the governing Service exists'' (err_of r);
            entry = \<lparr>hs_Name = name, hs_Exists = found, hs_Headless = False, hs_Selects = False\<rparr>
        in case r of
             Inl _ \<Rightarrow> snap\<lparr>st_Service := entry, st_Collection := coll\<rparr>
           | Inr service \<Rightarrow>
              snap\<lparr>st_Service := entry\<lparr>hs_Headless := svc_ClusterIP service = ''None'',
                     hs_Selects := svc_Selector service \<noteq> [] \<and> labels_Match cl (svc_Selector service) (sts_TemplateLabels sts)\<rparr>,
                   st_Collection := Inspect coll (''service '' @ name)\<rparr>))"

definition allPodsReady :: "'q stateful_set_snap \<Rightarrow> bool" where
  "allPodsReady snap \<longleftrightarrow>
     \<not> wrap32 (int (length (st_Pods snap))) < StatefulSet_DesiredReplicas snap \<and>
     list_all (\<lambda>p. podReady (ps_Pod p)) (st_Pods snap)"

text \<open>Assigning to a key of a Go map replaces the value the key had.\<close>

definition gomap_put :: "'v gomap \<Rightarrow> string \<Rightarrow> 'v \<Rightarrow> 'v gomap" where
  "gomap_put m k v = (if map_of m k = None then m @ [(k, v)] else map (\<lambda>(k', v'). if k' = k then (k, v) else (k', v')) m)"

definition collect_template_claim ::
  "('q, 'e) kube_client \<Rightarrow> 'q stateful_set_snap \<Rightarrow> pvc_ref gomap \<times> collection \<Rightarrow> int \<times> string \<Rightarrow> pvc_ref gomap \<times> collection" where
  "collect_template_claim cl snap acc replica =
     (let name = StatefulSet_ClaimName snap (snd replica) (fst replica);
          (entry, coll) = claim_entry cl (snd acc) ''checking the volumes each replica needs are bound''
            (sts_Namespace (st_StatefulSet snap)) name
      in (gomap_put (fst acc) name entry, coll))"

definition collectClaimTemplates :: "('q, 'e) kube_client \<Rightarrow> 'q stateful_set_snap \<Rightarrow> 'q stateful_set_snap" where
  "collectClaimTemplates cl snap =
     (let templates = StatefulSet_ClaimTemplates snap in
      if templates = [] \<or> allPodsReady snap then snap
      else
       (let (claims, coll) = foldl (collect_template_claim cl snap) (st_Claims snap, st_Collection snap)
              (List.product (map int [0..<nat (StatefulSet_DesiredReplicas snap)]) templates)
        in snap\<lparr>st_Claims := claims, st_Collection := Inspect coll ''claims from the volume claim templates''\<rparr>))"

definition headless_service0 :: headless_service where
  "headless_service0 = \<lparr>hs_Name = [], hs_Exists = Unknown, hs_Headless = False, hs_Selects = False\<rparr>"

definition collect_StatefulSet :: "('q, 'e) kube_client \<Rightarrow> string \<Rightarrow> string \<Rightarrow> 'e go_error + 'q stateful_set_snap" where
  "collect_StatefulSet cl namespace name =
     (let ref = \<lparr>ref_Kind = ''StatefulSet'', ref_Namespace = namespace, ref_Name = name\<rparr> in
      case get_StatefulSet cl namespace name of
        Inl e \<Rightarrow> Inl (primary_error cl e ref)
      | Inr sts \<Rightarrow>
         (let (evs, coll) = collect_events cl (Inspect collection0 (''statefulset '' @ name)) ref (sts_UID sts)
                ''explaining failed Pod and volume creation'' (''events for statefulset '' @ name);
              snap = \<lparr>st_Collection = coll, st_StatefulSet = sts, st_Events = evs, st_Pods = [],
                st_Service = headless_service0, st_Claims = [], st_Now = cl_Now cl collection0\<rparr>
          in Inr (collectClaimTemplates cl (collectHeadlessService cl (collectStatefulSetPods cl snap)))))"

section \<open>Ingresses\<close>

definition ingressPort :: "k_service_backend \<Rightarrow> ingress_port" where
  "ingressPort b = \<lparr>ip_Name = sb_PortName b, ip_Number = sb_PortNumber b\<rparr>"

definition ingress_port0 :: ingress_port where
  "ingress_port0 = \<lparr>ip_Name = [], ip_Number = 0\<rparr>"

definition rule_path :: "string \<Rightarrow> k_http_path \<Rightarrow> ingress_path" where
  "rule_path host p =
     \<lparr>pa_Host = host, pa_Path = hp_Path p,
      pa_PathType = (case hp_PathType p of None \<Rightarrow> [] | Some t \<Rightarrow> t),
      pa_ServiceName = (case hp_Service p of None \<Rightarrow> [] | Some b \<Rightarrow> sb_Name b),
      pa_Port = (case hp_Service p of None \<Rightarrow> ingress_port0 | Some b \<Rightarrow> ingressPort b),
      pa_IsDefault = False\<rparr>"

definition ingressPaths :: "k_ingress \<Rightarrow> ingress_path list" where
  "ingressPaths ingress =
     (case ing_DefaultBackend ingress of
        Some (Some b) \<Rightarrow> [\<lparr>pa_Host = [], pa_Path = [], pa_PathType = [], pa_ServiceName = sb_Name b,
          pa_Port = ingressPort b, pa_IsDefault = True\<rparr>]
      | _ \<Rightarrow> []) @
     concat (map (\<lambda>rule. case ir_HTTP rule of None \<Rightarrow> [] | Some paths \<Rightarrow> map (rule_path (ir_Host rule)) paths)
       (ing_Rules ingress))"

definition legacyIngressClassAnnotation :: string where
  "legacyIngressClassAnnotation = ''kubernetes.io/ingress.class''"

definition ingress_class0 :: ingress_class where
  "ingress_class0 = \<lparr>ic_Name = [], ic_Exists = Unknown, ic_DefaultExists = Unknown\<rparr>"

definition is_default_ingress_class :: "k_ingress_class \<Rightarrow> bool" where
  "is_default_ingress_class c \<longleftrightarrow>
     gomap_get (kic_Annotations c) ''ingressclass.kubernetes.io/is-default-class'' = ''true''"

definition collectIngressClass :: "('q, 'e) kube_client \<Rightarrow> 'q ingress_snap \<Rightarrow> 'q ingress_snap" where
  "collectIngressClass cl snap =
     (if Ingress_HasAddress snap then snap
      else
       (let ingress = is_Ingress snap;
            coll = is_Collection snap;
            name = (case ing_IngressClassName ingress of
              Some n \<Rightarrow> n | None \<Rightarrow> gomap_get (ing_Annotations ingress) legacyIngressClassAnnotation);
            cls = ingress_class0\<lparr>ic_Name := name\<rparr>
        in if name \<noteq> [] \<and> ing_IngressClassName ingress \<noteq> None then
             (let (found, coll) = existence_of (cl_Errors cl) coll ''ingressclasses'' ''checking the ingress class exists''
                    (err_of (get_IngressClass cl name))
              in snap\<lparr>is_Class := cls\<lparr>ic_Exists := found\<rparr>, is_Collection := Inspect coll (''ingressclass '' @ name)\<rparr>)
           else if name \<noteq> [] then snap\<lparr>is_Class := cls\<lparr>ic_Exists := Unknown\<rparr>\<rparr>
           else
            (case list_IngressClasses cl of
               Inl e \<Rightarrow> snap\<lparr>is_Class := cls,
                 is_Collection := degrade (cl_Errors cl) coll ''ingressclasses'' ''checking whether a default ingress class exists'' (Some e)\<rparr>
             | Inr items \<Rightarrow>
                snap\<lparr>is_Class := (case find is_default_ingress_class items of
                         None \<Rightarrow> cls\<lparr>ic_DefaultExists := Missing\<rparr>
                       | Some c \<Rightarrow> cls\<lparr>ic_Name := kic_Name c, ic_Exists := Found, ic_DefaultExists := Found\<rparr>),
                     is_Collection := Inspect coll ''ingressclasses''\<rparr>)))"

definition collectIngressService ::
  "('q, 'e) kube_client \<Rightarrow> collection \<Rightarrow> string \<Rightarrow> string \<Rightarrow> 'q ingress_service \<times> collection" where
  "collectIngressService cl coll namespace name =
     (let r = get_Service cl namespace name;
          (found, coll) = existence_of (cl_Errors cl) coll ''services'' ''following the Ingress to its backend'' (err_of r);
          entry = \<lparr>is_Name = name, is_Exists = found, is_Service = None, is_Endpoints = endpoint_set0, is_Backends = []\<rparr>
      in case r of
           Inl _ \<Rightarrow> (entry, coll)
         | Inr service \<Rightarrow>
            (let (eps, coll) = endpointsFor cl (Inspect coll (''service '' @ name)) namespace name;
                 entry = entry\<lparr>is_Service := Some service, is_Endpoints := eps\<rparr>
             in if es_Known eps \<and> EndpointSet_Ready eps = 0 \<and> svc_Selector service \<noteq> [] then
                  (let (bs, coll) = collect_backends cl coll ''explaining why a backend Service has no endpoints'' namespace
                         (labels_String cl (svc_Selector service))
                   in (entry\<lparr>is_Backends := (case bs of None \<Rightarrow> [] | Some ps \<Rightarrow> ps)\<rparr>, coll))
                else (entry, coll)))"

definition collect_path_service ::
  "('q, 'e) kube_client \<Rightarrow> string \<Rightarrow> 'q ingress_service gomap \<times> collection \<Rightarrow> ingress_path \<Rightarrow>
   'q ingress_service gomap \<times> collection" where
  "collect_path_service cl namespace acc path =
     (let name = pa_ServiceName path in
      if name = [] \<or> map_of (fst acc) name \<noteq> None then acc
      else (let (entry, coll) = collectIngressService cl (snd acc) namespace name
            in (fst acc @ [(name, entry)], coll)))"

definition collect_Ingress :: "('q, 'e) kube_client \<Rightarrow> string \<Rightarrow> string \<Rightarrow> 'e go_error + 'q ingress_snap" where
  "collect_Ingress cl namespace name =
     (let ref = \<lparr>ref_Kind = ''Ingress'', ref_Namespace = namespace, ref_Name = name\<rparr> in
      case get_Ingress cl namespace name of
        Inl e \<Rightarrow> Inl (primary_error cl e ref)
      | Inr ingress \<Rightarrow>
         (let (evs, coll) = collect_events cl (Inspect collection0 (''ingress '' @ name)) ref (ing_UID ingress)
                ''explaining what the ingress controller reported'' (''events for ingress '' @ name);
              snap = collectIngressClass cl \<lparr>is_Collection = coll, is_Ingress = ingress, is_Events = evs,
                is_Paths = ingressPaths ingress, is_Services = [], is_Class = ingress_class0, is_Now = cl_Now cl collection0\<rparr>;
              (services, coll) = foldl (collect_path_service cl namespace) ([], is_Collection snap) (is_Paths snap)
          in Inr (snap\<lparr>is_Services := services, is_Collection := coll\<rparr>)))"

section \<open>Claims\<close>

definition podUsesClaim :: "'q k_pod \<Rightarrow> string \<Rightarrow> bool" where
  "podUsesClaim pod claim \<longleftrightarrow> list_ex (\<lambda>vol. vol_ClaimName vol = Some claim) (pod_Volumes pod)"

definition collectClaimConsumers :: "('q, 'e) kube_client \<Rightarrow> 'q pvc_snap \<Rightarrow> 'q pvc_snap" where
  "collectClaimConsumers cl snap =
     (case list_Pods cl (pvc_Namespace (vs_Claim snap)) [] of
        Inl e \<Rightarrow> snap\<lparr>vs_Collection := degrade (cl_Errors cl) (vs_Collection snap) ''pods'' ''finding which Pods use this claim'' (Some e)\<rparr>
      | Inr pods \<Rightarrow>
         (let coll = Inspect (vs_Collection snap) (''pods in namespace '' @ pvc_Namespace (vs_Claim snap));
              consumers = filter (\<lambda>p. podUsesClaim p (pvc_Name (vs_Claim snap))) pods;
              (snaps, coll) = (if consumers \<noteq> [] then backendSnapshots cl coll consumers else (vs_Consumers snap, coll))
          in snap\<lparr>vs_ConsumersKnown := True, vs_Consumers := snaps, vs_Collection := coll\<rparr>))"

definition collect_PVC :: "('q, 'e) kube_client \<Rightarrow> string \<Rightarrow> string \<Rightarrow> 'e go_error + 'q pvc_snap" where
  "collect_PVC cl namespace name =
     (let ref = \<lparr>ref_Kind = ''PersistentVolumeClaim'', ref_Namespace = namespace, ref_Name = name\<rparr> in
      case get_PVC cl namespace name of
        Inl e \<Rightarrow> Inl (primary_error cl e ref)
      | Inr claim \<Rightarrow>
         (let (evs, coll) = collect_events cl (Inspect collection0 (''persistentvolumeclaim '' @ name)) ref (pvc_UID claim)
                ''explaining why provisioning or binding has not completed'' (''events for persistentvolumeclaim '' @ name);
              snap = \<lparr>vs_Collection = coll, vs_Claim = claim, vs_Events = evs, vs_Class = storage_class_info0,
                vs_Consumers = [], vs_ConsumersKnown = False, vs_Now = cl_Now cl collection0\<rparr>
          in if PVC_IsBound snap then Inr snap
             else
              (let (cls, coll) = storageClassInfo cl coll claim
               in Inr (collectClaimConsumers cl (snap\<lparr>vs_Class := cls, vs_Collection := coll\<rparr>)))))"

end
