(* ===== verification/CollectContracts.thy ===== *)
theory CollectContracts
  imports Collect
begin

text \<open>
  What the collectors promise. A collection only grows while a collector works, so a failed read
  recorded anywhere is in the snapshot at the end. An object counts as missing only when the API
  server said so, and an object that could not be read leaves a degradation. The locale
  \<open>growing\<close> is the contract every step of a collector keeps with the bookkeeping, and its fold
  lemma is what the loops of the collectors rest on.
\<close>

section \<open>The bookkeeping only grows\<close>

definition grows :: "collection \<Rightarrow> collection \<Rightarrow> bool" where
  "grows c c' \<longleftrightarrow>
     prefix (col_Degradations c) (col_Degradations c') \<and> prefix (col_Inspected c) (col_Inspected c') \<and>
     (collection_ok c \<longrightarrow> collection_ok c')"

named_theorems grows_intros

lemma grows_refl [grows_intros, simp]: "grows c c"
  by (simp add: grows_def)

lemma grows_trans [trans]: "grows a b \<Longrightarrow> grows b c \<Longrightarrow> grows a c"
  unfolding grows_def by (blast intro: prefix_order.trans)

lemma grows_Degrade [grows_intros]: "grows a c \<Longrightarrow> grows a (Degrade c d)"
  using grows_trans [of a c "Degrade c d"] collection_ok_Degrade [of c d] by (auto simp: grows_def Degrade_def)

lemma grows_Inspect [grows_intros]: "grows a c \<Longrightarrow> grows a (Inspect c w)"
  using grows_trans [of a c "Inspect c w"] collection_ok_Inspect [of c w] by (auto simp: grows_def Inspect_def)

lemma grows_degrade [grows_intros]: "grows a c \<Longrightarrow> grows a (degrade api c res req err)"
  by (auto simp: degrade_def intro: grows_intros split: option.split)

lemma grows_existence [grows_intros]: "grows a c \<Longrightarrow> grows a (snd (existence_of api c res req err))"
  by (auto simp: existence_of_def intro: grows_intros split: option.split)

lemma grows_degradations: "grows c c' \<Longrightarrow> set (col_Degradations c) \<subseteq> set (col_Degradations c')"
  by (auto simp: grows_def dest: set_mono_prefix)

lemma grows_nonempty: "grows c c' \<Longrightarrow> col_Degradations c \<noteq> [] \<Longrightarrow> col_Degradations c' \<noteq> []"
  by (auto simp: grows_def)

locale growing =
  fixes coll_of :: "'s \<Rightarrow> collection" and step :: "'s \<Rightarrow> 'x \<Rightarrow> 's"
  assumes step_grows: "grows (coll_of s) (coll_of (step s x))"
begin

lemma foldl_grows: "grows (coll_of s) (coll_of (foldl step s xs))"
  by (induction xs arbitrary: s) (auto intro: grows_trans [OF step_grows])

lemma foldl_grows_from: "grows a (coll_of s) \<Longrightarrow> grows a (coll_of (foldl step s xs))"
  using foldl_grows grows_trans by blast

text \<open>A degradation any step records survives to the end of the loop.\<close>

lemma foldl_keeps:
  assumes "x \<in> set xs" and "\<And>s. P (coll_of (step s x))"
    and "\<And>c c'. P c \<Longrightarrow> grows c c' \<Longrightarrow> P c'"
  shows "P (coll_of (foldl step s xs))"
proof -
  obtain ys zs where "xs = ys @ x # zs" using assms(1) by (auto simp: in_set_conv_decomp)
  then have "foldl step s xs = foldl step (step (foldl step s ys) x) zs" by simp
  then show ?thesis by (simp only:) (rule assms(3) [OF assms(2) foldl_grows])
qed

end

interpretation degrade_loop: growing id Degrade
  by unfold_locales (simp add: grows_intros)

interpretation failure_loop: growing id "record_failure cl" for cl
  by unfold_locales (simp add: record_failure_def grows_intros)

interpretation existence_loop: growing snd "check_existence api read res req" for api read res req
  by unfold_locales (simp add: check_existence_def case_prod_beta Let_def grows_intros)

lemmas loop_grows [grows_intros] =
  degrade_loop.foldl_grows_from [unfolded id_apply] failure_loop.foldl_grows_from [unfolded id_apply]
  existence_loop.foldl_grows_from

lemma grows_endpointsFor [grows_intros]: "grows a c \<Longrightarrow> grows a (snd (endpointsFor cl c ns name))"
  by (auto simp: endpointsFor_def legacyEndpointsFor_def intro: grows_intros split: sum.split)

lemma grows_owner_loop: "grows a c \<Longrightarrow> grows a (snd (owner_loop n cl c ns cur))"
  by (induction n cl c ns cur rule: owner_loop.induct)
    (auto simp: case_prod_beta Let_def intro: grows_intros split: option.split sum.split)

lemma grows_storageClassInfo [grows_intros]: "grows a c \<Longrightarrow> grows a (snd (storageClassInfo cl c claim))"
  by (auto simp: storageClassInfo_def defaultStorageClassInfo_def case_prod_beta Let_def
      intro: grows_intros split: sum.split)

lemma grows_backendSnapshots [grows_intros]: "grows a c \<Longrightarrow> grows a (snd (backendSnapshots cl c pods))"
  by (auto simp: backendSnapshots_def Let_def intro!: grows_intros)

lemma grows_collect_backends [grows_intros]: "grows a c \<Longrightarrow> grows a (snd (collect_backends cl c req ns sel))"
  by (auto simp: collect_backends_def case_prod_beta Let_def intro!: grows_intros split: sum.split)

lemma grows_collect_events [grows_intros]: "grows a c \<Longrightarrow> grows a (snd (collect_events cl c ref uid req what))"
  by (auto simp: collect_events_def intro!: grows_intros split: sum.split)

lemma grows_claim_entry [grows_intros]: "grows a c \<Longrightarrow> grows a (snd (claim_entry cl c req ns name))"
  by (auto simp: claim_entry_def case_prod_beta Let_def intro!: grows_intros split: sum.split)

lemma grows_collectIngressService [grows_intros]: "grows a c \<Longrightarrow> grows a (snd (collectIngressService cl c ns name))"
  by (auto simp: collectIngressService_def case_prod_beta Let_def intro!: grows_intros split: sum.split)

interpretation volume_loop: growing snd "collect_volume_claim cl ns" for cl ns
  by unfold_locales (auto simp: collect_volume_claim_def case_prod_beta Let_def intro!: grows_intros split: option.split)

interpretation template_loop: growing snd "collect_template_claim cl snap" for cl snap
  by unfold_locales (simp add: collect_template_claim_def case_prod_beta Let_def grows_intros)

interpretation path_loop: growing snd "collect_path_service cl ns" for cl ns
  by unfold_locales (simp add: collect_path_service_def case_prod_beta Let_def grows_intros)

lemmas collector_loop_grows [grows_intros] =
  volume_loop.foldl_grows_from template_loop.foldl_grows_from path_loop.foldl_grows_from

section \<open>What an existence check says\<close>

text \<open>
  Whether an object is known to exist, to be missing or not known, against what the server
  answered: a failed read that is not a plain absence is \<open>Unknown\<close> and has left a degradation.
\<close>

definition answered :: "'e api_errors \<Rightarrow> 'e option \<Rightarrow> existence \<Rightarrow> collection \<Rightarrow> bool" where
  "answered api err e c \<longleftrightarrow>
     (e = Found \<longleftrightarrow> err = None) \<and> (e = Missing \<longleftrightarrow> (\<exists>x. err = Some x \<and> api_IsNotFound api x)) \<and>
     (e = Unknown \<longrightarrow> col_Degradations c \<noteq> [])"

lemma Degrade_nonempty [simp]: "col_Degradations (Degrade c d) \<noteq> []"
  by (auto simp: Degrade_def)

lemma degrade_nonempty [simp]: "col_Degradations (degrade api c res req (Some e)) \<noteq> []"
  by (simp add: degrade_def)

lemma answered_existence:
  "answered api err (fst (existence_of api c res req err)) (snd (existence_of api c res req err))"
  by (auto simp: answered_def existence_of_def kube_IsNotFound_def split: option.split)

lemma answered_grows: "answered api err e c \<Longrightarrow> grows c c' \<Longrightarrow> answered api err e c'"
  by (auto simp: answered_def dest: grows_nonempty)

definition entries_ok :: "'e api_errors \<Rightarrow> (string \<Rightarrow> 'e option) \<Rightarrow> existence gomap \<Rightarrow> collection \<Rightarrow> bool" where
  "entries_ok api read m c \<longleftrightarrow> (\<forall>(name, e) \<in> set m. answered api (read name) e c)"

lemma entries_ok_grows: "entries_ok api read m c \<Longrightarrow> grows c c' \<Longrightarrow> entries_ok api read m c'"
  by (auto simp: entries_ok_def intro: answered_grows)

lemma foldl_check_existence:
  assumes "entries_ok api read m c"
  shows "entries_ok api read (fst (foldl (check_existence api read res req) (m, c) names))
      (snd (foldl (check_existence api read res req) (m, c) names)) \<and>
    map fst (fst (foldl (check_existence api read res req) (m, c) names)) = map fst m @ names"
  using assms
proof (induction names arbitrary: m c)
  case (Cons name names)
  let ?e = "existence_of api c res req (read name)"
  have "entries_ok api read m (snd ?e)"
    using Cons.prems by (rule entries_ok_grows) (intro grows_intros)
  then have "entries_ok api read (m @ [(name, fst ?e)]) (snd ?e)"
    using answered_existence [of api "read name"] by (auto simp: entries_ok_def)
  from Cons.IH [OF this] show ?case by (simp add: check_existence_def case_prod_beta Let_def)
qed simp

text \<open>A claim entry is what the server answered for that claim.\<close>

definition claim_ok :: "('q, 'e) kube_client \<Rightarrow> string \<Rightarrow> collection \<Rightarrow> string \<times> pvc_ref \<Rightarrow> bool" where
  "claim_ok cl ns c entry \<longleftrightarrow>
     pr_Name (snd entry) = fst entry \<and>
     answered (cl_Errors cl) (err_of (get_PVC cl ns (fst entry))) (pr_Exists (snd entry)) c \<and>
     pr_Phase (snd entry) = (case get_PVC cl ns (fst entry) of Inl _ \<Rightarrow> [] | Inr claim \<Rightarrow> pvc_Phase claim)"

lemma claim_ok_grows: "claim_ok cl ns c entry \<Longrightarrow> grows c c' \<Longrightarrow> claim_ok cl ns c' entry"
  by (auto simp: claim_ok_def intro: answered_grows)

lemma claim_entry_ok: "claim_ok cl ns (snd (claim_entry cl c req ns name)) (name, fst (claim_entry cl c req ns name))"
proof -
  let ?r = "get_PVC cl ns name"
  let ?e = "existence_of (cl_Errors cl) c ''persistentvolumeclaims'' req (err_of ?r)"
  have "answered (cl_Errors cl) (err_of ?r) (fst ?e) (snd ?e)" by (rule answered_existence)
  moreover have "grows (snd ?e) (snd (storageClassInfo cl (snd ?e) claim))" for claim by (intro grows_intros)
  ultimately show ?thesis
    by (auto simp: claim_ok_def claim_entry_def case_prod_beta Let_def intro: answered_grows split: sum.split)
qed

definition claims_ok :: "('q, 'e) kube_client \<Rightarrow> string \<Rightarrow> pvc_ref gomap \<Rightarrow> collection \<Rightarrow> bool" where
  "claims_ok cl ns m c \<longleftrightarrow> gomap_ok m \<and> (\<forall>entry \<in> set m. claim_ok cl ns c entry)"

lemma claims_ok_grows: "claims_ok cl ns m c \<Longrightarrow> grows c c' \<Longrightarrow> claims_ok cl ns m c'"
  by (auto simp: claims_ok_def intro: claim_ok_grows)

lemma map_of_None_fst: "map_of m k = None \<longleftrightarrow> k \<notin> fst ` set m"
  by (simp add: map_of_eq_None_iff)

lemma claims_ok_snoc:
  assumes "claims_ok cl ns m c" and "map_of m name = None" and "grows c c'" and "claim_ok cl ns c' (name, entry)"
  shows "claims_ok cl ns (m @ [(name, entry)]) c'"
  using claims_ok_grows [OF assms(1,3)] assms(2,4) by (auto simp: claims_ok_def gomap_ok_def map_of_None_fst)

lemma foldl_volume_claims:
  "claims_ok cl ns (fst acc) (snd acc) \<Longrightarrow>
   claims_ok cl ns (fst (foldl (collect_volume_claim cl ns) acc vols)) (snd (foldl (collect_volume_claim cl ns) acc vols))"
proof (induction vols arbitrary: acc)
  case (Cons vol vols)
  have "claims_ok cl ns (fst (collect_volume_claim cl ns acc vol)) (snd (collect_volume_claim cl ns acc vol))"
  proof (cases "vol_ClaimName vol")
    case (Some name)
    let ?e = "claim_entry cl (snd acc) ''checking mounted volumes are bound'' ns name"
    have "claim_ok cl ns (Inspect (snd ?e) w) (name, fst ?e)" for w
      using claim_entry_ok by (rule claim_ok_grows) (intro grows_intros)
    then show ?thesis
      using Some Cons.prems by (auto simp: collect_volume_claim_def case_prod_beta Let_def intro!: claims_ok_snoc grows_intros)
  qed (use Cons.prems in \<open>simp add: collect_volume_claim_def\<close>)
  from Cons.IH [OF this] show ?case by simp
qed simp

section \<open>Pods\<close>

lemma grows_pod_steps:
  "grows (ps_Collection snap) (ps_Collection (collectPodNode cl snap))"
  "grows (ps_Collection snap) (ps_Collection (collectPodConfigRefs cl snap))"
  "grows (ps_Collection snap) (ps_Collection (collectPodClaims cl snap))"
  by (auto simp: collectPodNode_def collectPodConfigRefs_def collectPodClaims_def case_prod_beta Let_def
      intro!: grows_intros split: sum.split)

lemma pod_steps_frame [simp]:
  "ps_Pod (collectPodNode cl snap) = ps_Pod snap" "ps_Pod (collectPodConfigRefs cl snap) = ps_Pod snap"
  "ps_Pod (collectPodClaims cl snap) = ps_Pod snap"
  "ps_ConfigMaps (collectPodNode cl snap) = ps_ConfigMaps snap" "ps_Secrets (collectPodNode cl snap) = ps_Secrets snap"
  "ps_PVCs (collectPodNode cl snap) = ps_PVCs snap" "ps_PVCs (collectPodConfigRefs cl snap) = ps_PVCs snap"
  "ps_ConfigMaps (collectPodClaims cl snap) = ps_ConfigMaps snap" "ps_Secrets (collectPodClaims cl snap) = ps_Secrets snap"
  "ps_Events (collectPodNode cl snap) = ps_Events snap" "ps_Events (collectPodConfigRefs cl snap) = ps_Events snap"
  "ps_Events (collectPodClaims cl snap) = ps_Events snap"
  "ps_Owners (collectPodNode cl snap) = ps_Owners snap" "ps_Owners (collectPodConfigRefs cl snap) = ps_Owners snap"
  "ps_Owners (collectPodClaims cl snap) = ps_Owners snap"
  by (auto simp: collectPodNode_def collectPodConfigRefs_def collectPodClaims_def case_prod_beta Let_def split: sum.split)

definition pod_answers :: "('q, 'e) kube_client \<Rightarrow> 'q pod_snap \<Rightarrow> bool" where
  "pod_answers cl snap \<longleftrightarrow>
     (let ns = pod_Namespace (ps_Pod snap) in
      entries_ok (cl_Errors cl) (\<lambda>name. err_of (get_ConfigMap cl ns name)) (ps_ConfigMaps snap) (ps_Collection snap) \<and>
      entries_ok (cl_Errors cl) (SecretExists cl ns) (ps_Secrets snap) (ps_Collection snap) \<and>
      claims_ok cl ns (ps_PVCs snap) (ps_Collection snap))"

lemma pod_answers_config:
  assumes "ps_ConfigMaps snap = []" and "ps_Secrets snap = []" and "ps_PVCs snap = []"
  shows "pod_answers cl (collectPodConfigRefs cl snap)"
proof (cases "needsConfigRefs snap")
  case True
  let ?api = "cl_Errors cl" and ?ns = "pod_Namespace (ps_Pod snap)"
  let ?cms = "fst (referencedConfig (ps_Pod snap))" and ?secs = "snd (referencedConfig (ps_Pod snap))"
  let ?f = "foldl (check_existence ?api (\<lambda>name. err_of (get_ConfigMap cl ?ns name)) ''configmaps''
    ''checking referenced configuration'') ([], ps_Collection snap) ?cms"
  let ?g = "foldl (check_existence ?api (SecretExists cl ?ns) ''secrets''
    ''checking referenced secrets exist'') ([], snd ?f) ?secs"
  have f: "entries_ok ?api (\<lambda>name. err_of (get_ConfigMap cl ?ns name)) (fst ?f) (snd ?f)"
    using foldl_check_existence [of ?api _ "[]"] by (simp add: entries_ok_def)
  have g: "entries_ok ?api (SecretExists cl ?ns) (fst ?g) (snd ?g)"
    using foldl_check_existence [of ?api _ "[]"] by (simp add: entries_ok_def)
  have fg: "grows (snd ?f) (snd ?g)" by (intro grows_intros) simp
  have "entries_ok ?api (\<lambda>name. err_of (get_ConfigMap cl ?ns name)) (fst ?f) (snd ?g)"
    using f fg by (rule entries_ok_grows)
  with g show ?thesis
    using True assms by (auto simp: pod_answers_def collectPodConfigRefs_def claims_ok_def gomap_ok_def case_prod_beta
        Let_def intro!: entries_ok_grows [OF _ grows_Inspect [OF grows_refl]])
qed (use assms in \<open>simp add: pod_answers_def collectPodConfigRefs_def entries_ok_def claims_ok_def gomap_ok_def\<close>)

lemma pod_answers_claims: "pod_answers cl snap \<Longrightarrow> pod_answers cl (collectPodClaims cl snap)"
  using foldl_volume_claims [of cl "pod_Namespace (ps_Pod snap)" "(ps_PVCs snap, ps_Collection snap)" "pod_Volumes (ps_Pod snap)"]
    grows_pod_steps(3) [of snap cl]
  by (auto simp: pod_answers_def collectPodClaims_def case_prod_beta Let_def intro: entries_ok_grows)

lemma collect_Pod_Inr:
  "collect_Pod cl ns name = Inr snap \<longleftrightarrow>
     (\<exists>pod. get_Pod cl ns name = Inr pod \<and>
        snap = collectPodClaims cl (collectPodConfigRefs cl (collectPodNode cl (pod_start cl (pod_ref ns name) pod))))"
  by (auto simp: collect_Pod_def Let_def split: sum.split)

lemma pod_start_simps [simp]:
  "ps_Pod (pod_start cl ref pod) = pod" "ps_ConfigMaps (pod_start cl ref pod) = []"
  "ps_Secrets (pod_start cl ref pod) = []" "ps_PVCs (pod_start cl ref pod) = []"
  "ps_Owners (pod_start cl ref pod) = fst (ownerChain cl collection0 (ref_Namespace ref) (pod_OwnerReferences pod))"
  by (simp_all add: pod_start_def case_prod_beta Let_def)

lemma pod_start_events:
  "ps_Events (pod_start cl ref pod) = (case eventsFor cl ref (pod_UID pod) of Inl _ \<Rightarrow> [] | Inr evs \<Rightarrow> Events_Dedup evs)"
  by (simp add: pod_start_def collect_events_def case_prod_beta Let_def split: sum.split)

lemma pod_start_collection:
  "collection_ok (ps_Collection (pod_start cl ref pod))"
  "eventsFor cl ref (pod_UID pod) = Inl e \<Longrightarrow> col_Degradations (ps_Collection (pod_start cl ref pod)) \<noteq> []"
proof -
  let ?c = "ps_Collection (pod_start cl ref pod)"
  let ?e = "snd (collect_events cl (Inspect collection0 (''pod '' @ ref_Name ref)) ref (pod_UID pod)
            ''explaining scheduling, image pull and probe failures'' (''events for pod '' @ ref_Name ref))"
  have g: "grows ?e ?c" by (auto simp: pod_start_def case_prod_beta Let_def intro!: grows_intros)
  have "grows collection0 ?e" by (intro grows_intros)
  with g have "grows collection0 ?c" by (rule grows_trans [rotated])
  then show "collection_ok ?c" by (simp add: grows_def collection0_def collection_ok_def)
  show "col_Degradations ?c \<noteq> []" if "eventsFor cl ref (pod_UID pod) = Inl e"
    by (rule grows_nonempty [OF g]) (simp add: collect_events_def that)
qed

lemma collect_Pod_grows:
  "grows (ps_Collection snap)
     (ps_Collection (collectPodClaims cl (collectPodConfigRefs cl (collectPodNode cl snap))))"
  by (meson grows_pod_steps grows_trans)

lemma collect_Pod_answers:
  assumes "collect_Pod cl ns name = Inr snap"
  shows "pod_answers cl snap" "collection_ok (ps_Collection snap)" "get_Pod cl ns name = Inr (ps_Pod snap)"
    "eventsFor cl (pod_ref ns name) (pod_UID (ps_Pod snap)) = Inl e \<Longrightarrow> col_Degradations (ps_Collection snap) \<noteq> []"
proof -
  from assms obtain pod where pod: "get_Pod cl ns name = Inr pod" and
    snap: "snap = collectPodClaims cl (collectPodConfigRefs cl (collectPodNode cl (pod_start cl (pod_ref ns name) pod)))"
    by (auto simp: collect_Pod_Inr)
  then show "pod_answers cl snap" by (simp add: pod_answers_claims pod_answers_config)
  have g: "grows (ps_Collection (pod_start cl (pod_ref ns name) pod)) (ps_Collection snap)"
    unfolding snap by (rule collect_Pod_grows)
  then show "collection_ok (ps_Collection snap)" using pod_start_collection(1) by (auto simp: grows_def)
  show "get_Pod cl ns name = Inr (ps_Pod snap)" using pod snap by simp
  show "col_Degradations (ps_Collection snap) \<noteq> []"
    if "eventsFor cl (pod_ref ns name) (pod_UID (ps_Pod snap)) = Inl e"
    by (rule grows_nonempty [OF g pod_start_collection(2)]) (use that snap in simp)
qed

section \<open>The Services behind an Ingress\<close>

text \<open>The collector makes one entry per name, and the entry carries the name.\<close>

definition services_ok :: "'q ingress_service gomap \<Rightarrow> bool" where
  "services_ok m \<longleftrightarrow> gomap_ok m \<and> (\<forall>(n, s)\<in>set m. is_Name s = n)"

lemma collectIngressService_name: "is_Name (fst (collectIngressService cl coll ns name)) = name"
  by (simp add: collectIngressService_def case_prod_beta Let_def split: sum.split)

lemma collect_path_service_ok:
  "services_ok (fst acc) \<Longrightarrow> services_ok (fst (collect_path_service cl ns acc path))"
  by (auto simp: collect_path_service_def services_ok_def gomap_ok_def case_prod_beta Let_def map_of_None_fst
      collectIngressService_name)

lemma collect_Ingress_services: "collect_Ingress cl ns name = Inr snap \<Longrightarrow> services_ok (is_Services snap)"
proof -
  have "services_ok (fst (foldl (collect_path_service cl ns) acc paths))" if "services_ok (fst acc)" for acc paths
    using that
  proof (induction paths arbitrary: acc)
    case (Cons path paths)
    from Cons.IH [OF collect_path_service_ok [OF Cons.prems]] show ?case by simp
  qed simp
  moreover have "services_ok (fst ([], c))" for c :: collection
    by (simp add: services_ok_def gomap_ok_def)
  ultimately show "collect_Ingress cl ns name = Inr snap \<Longrightarrow> services_ok (is_Services snap)"
    by (auto simp: collect_Ingress_def case_prod_beta Let_def split: sum.splits)
qed

end
