(* ===== verification/Analyze.thy ===== *)
theory Analyze
  imports ReportContracts CollectContracts
begin

text \<open>
  Package \<open>analyze\<close>, from a resource reference to a finished report: \<open>Analyze\<close> of
  \<open>analyze.go\<close> and the function of each kind that collects a snapshot and builds its report.
  The lemmas compose the contracts of the collectors with those of the reports.
\<close>

definition analyze_Pod ::
  "'q kube_lib \<Rightarrow> ('q, 'e) kube_client \<Rightarrow> gocontext \<Rightarrow> string \<Rightarrow> string \<Rightarrow> 'e go_error + report" where
  "analyze_Pod lib cl ctx namespace name =
     (case collect_Pod cl namespace name of Inl err \<Rightarrow> Inl err | Inr snap \<Rightarrow> Inr (PodReport lib ctx snap))"

definition analyze_Service ::
  "'q kube_lib \<Rightarrow> ('q, 'e) kube_client \<Rightarrow> gocontext \<Rightarrow> string \<Rightarrow> string \<Rightarrow> 'e go_error + report" where
  "analyze_Service lib cl ctx namespace name =
     (case collect_Service cl namespace name of Inl err \<Rightarrow> Inl err | Inr snap \<Rightarrow> Inr (ServiceReport lib ctx snap))"

definition analyze_Deployment ::
  "'q kube_lib \<Rightarrow> ('q, 'e) kube_client \<Rightarrow> gocontext \<Rightarrow> string \<Rightarrow> string \<Rightarrow> 'e go_error + report" where
  "analyze_Deployment lib cl ctx namespace name =
     (case collect_Deployment cl namespace name of Inl err \<Rightarrow> Inl err | Inr snap \<Rightarrow> Inr (DeploymentReport lib ctx snap))"

definition analyze_StatefulSet ::
  "'q kube_lib \<Rightarrow> ('q, 'e) kube_client \<Rightarrow> gocontext \<Rightarrow> string \<Rightarrow> string \<Rightarrow> 'e go_error + report" where
  "analyze_StatefulSet lib cl ctx namespace name =
     (case collect_StatefulSet cl namespace name of Inl err \<Rightarrow> Inl err | Inr snap \<Rightarrow> Inr (StatefulSetReport lib ctx snap))"

definition analyze_Ingress ::
  "'q kube_lib \<Rightarrow> ('q, 'e) kube_client \<Rightarrow> gocontext \<Rightarrow> string \<Rightarrow> string \<Rightarrow> 'e go_error + report" where
  "analyze_Ingress lib cl ctx namespace name =
     (case collect_Ingress cl namespace name of Inl err \<Rightarrow> Inl err | Inr snap \<Rightarrow> Inr (IngressReport lib ctx snap))"

definition analyze_PVC ::
  "'q kube_lib \<Rightarrow> ('q, 'e) kube_client \<Rightarrow> gocontext \<Rightarrow> string \<Rightarrow> string \<Rightarrow> 'e go_error + report" where
  "analyze_PVC lib cl ctx namespace name =
     (case collect_PVC cl namespace name of Inl err \<Rightarrow> Inl err | Inr snap \<Rightarrow> Inr (PVCReport lib ctx snap))"

definition Analyze ::
  "'q kube_lib \<Rightarrow> ('q, 'e) kube_client \<Rightarrow> gocontext \<Rightarrow> kind \<Rightarrow> string \<Rightarrow> string \<Rightarrow> 'e go_error + report" where
  "Analyze lib cl ctx kind namespace name =
     (if kind = KindPod then analyze_Pod lib cl ctx namespace name
      else if kind = KindService then analyze_Service lib cl ctx namespace name
      else if kind = KindDeployment then analyze_Deployment lib cl ctx namespace name
      else if kind = KindStatefulSet then analyze_StatefulSet lib cl ctx namespace name
      else if kind = KindIngress then analyze_Ingress lib cl ctx namespace name
      else if kind = KindPVC then analyze_PVC lib cl ctx namespace name
      else Inl (UnsupportedKindError kind))"

section \<open>Which read decides whether there is a report\<close>

text \<open>The error of the read the analysis starts from, if it failed.\<close>

definition primary_read :: "('q, 'e) kube_client \<Rightarrow> kind \<Rightarrow> string \<Rightarrow> string \<Rightarrow> 'e option" where
  "primary_read cl kind ns name =
     (if kind = KindPod then err_of (get_Pod cl ns name)
      else if kind = KindService then err_of (get_Service cl ns name)
      else if kind = KindDeployment then err_of (get_Deployment cl ns name)
      else if kind = KindStatefulSet then err_of (get_StatefulSet cl ns name)
      else if kind = KindIngress then err_of (get_Ingress cl ns name)
      else err_of (get_PVC cl ns name))"

definition supported_kinds :: "kind list" where
  "supported_kinds = [KindPod, KindService, KindDeployment, KindStatefulSet, KindIngress, KindPVC]"

lemma kind_distinct [simp]: "distinct supported_kinds"
  by (simp add: supported_kinds_def kind_defs)

lemma supported_kinds_aliases: "set supported_kinds = snd ` set kindAliases"
  by (auto simp: supported_kinds_def kindAliases_def)

lemma kind_cases:
  assumes "kind \<in> set supported_kinds"
  obtains "kind = KindPod" | "kind = KindService" | "kind = KindDeployment"
    | "kind = KindStatefulSet" | "kind = KindIngress" | "kind = KindPVC"
  using assms by (auto simp: supported_kinds_def)

lemma Analyze_kind [simp]:
  "Analyze lib cl ctx KindPod ns name = analyze_Pod lib cl ctx ns name"
  "Analyze lib cl ctx KindService ns name = analyze_Service lib cl ctx ns name"
  "Analyze lib cl ctx KindDeployment ns name = analyze_Deployment lib cl ctx ns name"
  "Analyze lib cl ctx KindStatefulSet ns name = analyze_StatefulSet lib cl ctx ns name"
  "Analyze lib cl ctx KindIngress ns name = analyze_Ingress lib cl ctx ns name"
  "Analyze lib cl ctx KindPVC ns name = analyze_PVC lib cl ctx ns name"
  using kind_distinct unfolding supported_kinds_def by (auto simp: Analyze_def)

lemma primary_read_kind [simp]:
  "primary_read cl KindPod ns name = err_of (get_Pod cl ns name)"
  "primary_read cl KindService ns name = err_of (get_Service cl ns name)"
  "primary_read cl KindDeployment ns name = err_of (get_Deployment cl ns name)"
  "primary_read cl KindStatefulSet ns name = err_of (get_StatefulSet cl ns name)"
  "primary_read cl KindIngress ns name = err_of (get_Ingress cl ns name)"
  "primary_read cl KindPVC ns name = err_of (get_PVC cl ns name)"
  using kind_distinct unfolding supported_kinds_def by (auto simp: primary_read_def)

lemma err_of_simps [simp]: "err_of (Inl e) = Some e" "err_of (Inr a) = None"
  by (simp_all add: err_of_def)

lemma primary_error_cases:
  "primary_error cl e ref =
     (if api_IsNotFound (cl_Errors cl) e then NotFoundError ref (cl_Context cl)
      else if api_IsForbidden (cl_Errors cl) e \<or> api_IsUnauthorized (cl_Errors cl) e
        then ForbiddenError ref (cl_Context cl) (apiReason (cl_Errors cl) e)
      else LibError e)"
  by (simp add: primary_error_def Classify_def)

lemmas analyze_defs = analyze_Pod_def analyze_Service_def analyze_Deployment_def analyze_StatefulSet_def
  analyze_Ingress_def analyze_PVC_def
lemmas collect_defs = collect_Pod_def collect_Service_def collect_Deployment_def collect_StatefulSet_def
  collect_Ingress_def collect_PVC_def

lemma Analyze_fails:
  assumes "kind \<in> set supported_kinds" and "primary_read cl kind ns name = Some e"
  shows "Analyze lib cl ctx kind ns name =
    Inl (primary_error cl e \<lparr>ref_Kind = kind, ref_Namespace = ns, ref_Name = name\<rparr>)"
  using assms(1)
  by (rule kind_cases)
    (use assms(2) in \<open>auto simp: analyze_defs collect_defs pod_ref_def err_of_def kind_defs [symmetric] split: sum.splits\<close>)

lemma Analyze_succeeds:
  assumes "kind \<in> set supported_kinds" and "primary_read cl kind ns name = None"
  shows "\<exists>r. Analyze lib cl ctx kind ns name = Inr r"
  using assms(1)
  by (rule kind_cases)
    (use assms(2) in \<open>auto simp: analyze_defs collect_defs err_of_def case_prod_beta Let_def split: sum.splits\<close>)

text \<open>
  C6. For every kind the command line accepts, an analysis yields a report exactly when the read
  of the resource itself succeeds. A failed read of a related object never turns into an error.
  The error is the typed not-found error exactly when the server answered that the resource does
  not exist, the typed forbidden error when the server refused, and the client's own error
  otherwise; it names the resource asked for.
\<close>

theorem Analyze_primary_only:
  assumes "(alias, kind) \<in> set kindAliases"
  shows "((\<exists>r. Analyze lib cl ctx kind ns name = Inr r) \<longleftrightarrow> primary_read cl kind ns name = None) \<and>
    (\<forall>e. primary_read cl kind ns name = Some e \<longrightarrow>
       Analyze lib cl ctx kind ns name = Inl
         (let ref = \<lparr>ref_Kind = kind, ref_Namespace = ns, ref_Name = name\<rparr>; api = cl_Errors cl in
          if api_IsNotFound api e then NotFoundError ref (cl_Context cl)
          else if api_IsForbidden api e \<or> api_IsUnauthorized api e
            then ForbiddenError ref (cl_Context cl) (apiReason api e)
          else LibError e))"
proof -
  have kind: "kind \<in> set supported_kinds"
    using assms by (force simp: supported_kinds_aliases)
  show ?thesis
  proof (cases "primary_read cl kind ns name")
    case None
    then show ?thesis using Analyze_succeeds [OF kind] by auto
  next
    case (Some e)
    then show ?thesis by (simp add: Analyze_fails [OF kind Some] primary_error_cases)
  qed
qed

text \<open>A client of a cluster with the given Pods and nothing else, that may not list events.\<close>

definition sample_errors :: "string api_errors" where
  "sample_errors = \<lparr>api_IsNotFound = (\<lambda>e. e = ''NotFound''), api_IsForbidden = (\<lambda>e. e = ''Forbidden''),
     api_IsUnauthorized = (\<lambda>e. e = ''Unauthorized''), api_Message = (\<lambda>e. None), api_Error = (\<lambda>e. e),
     api_DeadlineExceeded = (\<lambda>e. False), api_Canceled = (\<lambda>e. False)\<rparr>"

definition sample_client :: "'q k_pod list \<Rightarrow> ('q, string) kube_client" where
  "sample_client pods =
     \<lparr>cl_Context = ''test'', cl_Errors = sample_errors,
       get_Pod = (\<lambda>ns name. case find (\<lambda>p. pod_Name p = name) pods of None \<Rightarrow> Inl ''NotFound'' | Some p \<Rightarrow> Inr p),
       get_Service = (\<lambda>ns name. Inl ''NotFound''), get_Deployment = (\<lambda>ns name. Inl ''NotFound''), get_StatefulSet = (\<lambda>ns name. Inl ''NotFound''), get_Ingress = (\<lambda>ns name. Inl ''NotFound''),
       get_PVC = (\<lambda>ns name. Inl ''NotFound''), get_Node = (\<lambda>name. Inl ''Forbidden''), get_ConfigMap = (\<lambda>ns name. Inl ''NotFound''),
       get_SecretMetadata = None, get_Secret = (\<lambda>ns name. Inl ''NotFound''), get_ReplicaSet = (\<lambda>ns name. Inl ''NotFound''), get_Job = (\<lambda>ns name. Inl ''NotFound''),
       get_StorageClass = (\<lambda>name. Inl ''NotFound''), get_IngressClass = (\<lambda>name. Inl ''NotFound''),
       get_Endpoints = (\<lambda>ns name. Inl ''NotFound''), list_Events = (\<lambda>ns sel limit. Inl ''Forbidden''),
       list_Pods = (\<lambda>ns sel. Inr pods), list_ReplicaSets = (\<lambda>ns sel. Inr []), list_EndpointSlices = (\<lambda>ns sel. Inr []),
       list_StorageClasses = Inr [], list_IngressClasses = Inr [],
       fields_String = (\<lambda>m. []), labels_String = (\<lambda>m. []), labels_Match = (\<lambda>a b. True),
       LabelSelectorAsSelector = (\<lambda>s. Inr []), cl_Now = (\<lambda>c. 0), cl_Finish = (\<lambda>xs. xs)\<rparr>"

lemma Analyze_primary_only_witness:
  "Analyze int_lib (sample_client ([] :: int k_pod list)) None KindPod ''default'' ''api'' =
     Inl (NotFoundError \<lparr>ref_Kind = KindPod, ref_Namespace = ''default'', ref_Name = ''api''\<rparr> ''test'')"
proof -
  have "primary_read (sample_client ([] :: int k_pod list)) KindPod ''default'' ''api'' = Some ''NotFound''"
    by (simp add: sample_client_def)
  then show ?thesis
    using Analyze_primary_only [of "''pod''" KindPod int_lib "sample_client []" None "''default''" "''api''"]
    by (simp add: kindAliases_def sample_client_def sample_errors_def)
qed

section \<open>What every report promises\<close>

lemma Analyze_report:
  assumes "Analyze lib cl ctx kind ns name = Inr r"
  shows
    "(\<exists>snap. collect_Pod cl ns name = Inr snap \<and> r = PodReport lib ctx snap \<and> kind = KindPod) \<or>
     (\<exists>snap. collect_Service cl ns name = Inr snap \<and> r = ServiceReport lib ctx snap \<and> kind = KindService) \<or>
     (\<exists>snap. collect_Deployment cl ns name = Inr snap \<and> r = DeploymentReport lib ctx snap \<and> kind = KindDeployment) \<or>
     (\<exists>snap. collect_StatefulSet cl ns name = Inr snap \<and> r = StatefulSetReport lib ctx snap \<and> kind = KindStatefulSet) \<or>
     (\<exists>snap. collect_Ingress cl ns name = Inr snap \<and> r = IngressReport lib ctx snap \<and> kind = KindIngress) \<or>
     (\<exists>snap. collect_PVC cl ns name = Inr snap \<and> r = PVCReport lib ctx snap \<and> kind = KindPVC)"
  using assms by (auto simp: Analyze_def analyze_defs split: if_splits sum.splits)

definition report_ids :: "string list" where
  "report_ids = service_report_ids @ deployment_report_ids @ statefulset_report_ids @ ingress_report_ids @ pvc_report_ids"

lemma report_ids_mono:
  "findings_ok pod_report_ids ds \<Longrightarrow> findings_ok report_ids ds"
  "findings_ok service_report_ids ds \<Longrightarrow> findings_ok report_ids ds"
  "findings_ok deployment_report_ids ds \<Longrightarrow> findings_ok report_ids ds"
  "findings_ok statefulset_report_ids ds \<Longrightarrow> findings_ok report_ids ds"
  "findings_ok ingress_report_ids ds \<Longrightarrow> findings_ok report_ids ds"
  "findings_ok pvc_report_ids ds \<Longrightarrow> findings_ok report_ids ds"
  by (erule findings_ok_mono, simp add: report_ids_def service_report_ids_def; blast)+

lemmas every_report_ok =
  pod_report.report_ok [THEN report_ids_mono(1)] service_report.report_ok [THEN report_ids_mono(2)]
  deployment_report.report_ok [THEN report_ids_mono(3)] statefulset_report.report_ok [THEN report_ids_mono(4)]
  ingress_report.report_ok [THEN report_ids_mono(5)] pvc_report.report_ok [THEN report_ids_mono(6)]

lemmas every_report_by_severity =
  pod_report.report_by_severity service_report.report_by_severity deployment_report.report_by_severity
  statefulset_report.report_by_severity ingress_report.report_by_severity pvc_report.report_by_severity

lemmas every_report_status =
  pod_report.report_status service_report.report_status deployment_report.report_status
  statefulset_report.report_status ingress_report.report_status pvc_report.report_status

lemma Analyze_ok:
  assumes "Analyze lib cl ctx kind ns name = Inr r"
  shows "findings_ok report_ids (r_Diagnoses r)" "by_severity (r_Diagnoses r)"
    "r_Status r = first_status (r_Diagnoses r) (r_Degradations r)"
proof -
  show "findings_ok report_ids (r_Diagnoses r)"
    using Analyze_report [OF assms] by (elim disjE exE conjE) (simp_all only: every_report_ok)
  show "by_severity (r_Diagnoses r)"
    using Analyze_report [OF assms] by (elim disjE exE conjE) (simp_all only: every_report_by_severity)
  show "r_Status r = first_status (r_Diagnoses r) (r_Degradations r)"
    using Analyze_report [OF assms] by (elim disjE exE conjE) (simp_all only: every_report_status)
qed

text \<open>A cluster with one Pod whose container was killed for using too much memory.\<close>

lemma oom_cluster_reported:
  "\<exists>r d. Analyze int_lib (sample_client [ps_Pod oom_pod]) None KindPod ''default'' ''web'' = Inr r \<and>
     d \<in> set (r_Diagnoses r) \<and> d_ID d = IDOOMKilled"
proof -
  let ?cl = "sample_client [ps_Pod oom_pod]"
  have get: "get_Pod ?cl ''default'' ''web'' = Inr (ps_Pod oom_pod)"
    by (simp add: sample_client_def oom_pod_def)
  then obtain snap where snap: "collect_Pod ?cl ''default'' ''web'' = Inr snap"
    by (simp add: collect_Pod_def Let_def)
  then have "ps_Pod snap = ps_Pod oom_pod" using collect_Pod_answers(3) [OF snap] get by simp
  then have "Pod_Containers snap = Pod_Containers oom_pod" by (simp add: Pod_Containers_def)
  then obtain d where "evaluateOOM int_lib snap = [d]" "d_ID d = IDOOMKilled"
    by (simp add: evaluateOOM_def oom_pod_container oom_container_def oomTermination_def Container_Terminated_def
        Container_LastTerminated_def oom_status_def status0_def oomReason_def Let_def cong: finding_cong)
  then have d: "d \<in> set (fst (Evaluate None (pod_Rules int_lib) snap))" "d_ID d = IDOOMKilled"
    by (simp_all add: Evaluate_None rule_findings_def pod_Rules_def oomKilledRule_def)
  then have "d \<in> set (fst (pod_findings int_lib None snap))"
    by (auto simp: pod_findings_def case_prod_beta)
  with d(2) snap show ?thesis
    by (intro exI [of _ "PodReport int_lib None snap"] exI [of _ d]) (simp add: analyze_Pod_def pod_report.built)
qed

text \<open>
  C17. The reader of a report sees the worst first: in every report the findings come in order of
  severity, and the verdict is the one the first finding decides, or, when there is none or it
  only informs, healthy if everything could be read and unknown if something could not.
\<close>

theorem Analyze_worst_first:
  assumes "Analyze lib cl ctx kind ns name = Inr r"
  shows "sorted_wrt (\<lambda>a b. severity_rank (d_Severity a) \<le> severity_rank (d_Severity b)) (r_Diagnoses r) \<and>
    r_Status r =
      (case map d_Severity (r_Diagnoses r) of
         SeverityCritical # _ \<Rightarrow> StatusUnhealthy
       | SeverityWarning # _ \<Rightarrow> StatusDegraded
       | _ \<Rightarrow> if r_Degradations r = [] then StatusHealthy else StatusUnknown)"
  using Analyze_ok(2,3) [OF assms]
  by (cases "r_Diagnoses r") (auto simp: by_severity_def split: severity.split)

lemma Analyze_worst_first_witness:
  "\<exists>r. Analyze int_lib (sample_client [ps_Pod oom_pod]) None KindPod ''default'' ''web'' = Inr r \<and>
     sorted_wrt (\<lambda>a b. severity_rank (d_Severity a) \<le> severity_rank (d_Severity b)) (r_Diagnoses r)"
  using oom_cluster_reported Analyze_worst_first by blast

end
