(* ===== verification/KubeClient.thy ===== *)
theory KubeClient
  imports CollectReads
begin

text \<open>
  Package \<open>kube\<close>, building the client (\<open>client.go\<close>). Loading a kubeconfig and building the
  REST clients are functions of the Kubernetes libraries, collected in the parameter
  \<open>client_lib\<close>; the model is what \<open>New\<close> does with their answers.
\<close>

record config_flags =
  Kubeconfig :: string
  cf_Context :: string
  cf_Namespace :: string
  cf_Timeout :: duration

text \<open>The flags handed to the loader: a nil pointer leaves the choice to it.\<close>

record loader_flags =
  lf_KubeConfig :: "string option"
  lf_Context :: "string option"
  lf_Namespace :: "string option"

record 'r rest_config =
  rc_UserAgent :: string
  rc_Timeout :: duration
  rc_Rest :: 'r \<comment> \<open>the connection settings the program does not look at\<close>

record ('r, 'q, 'e) client_lib =
  loader_ClientConfig :: "loader_flags \<Rightarrow> 'e + 'r rest_config"
  loader_Namespace :: "loader_flags \<Rightarrow> 'e + string"
  loader_RawConfig :: "loader_flags \<Rightarrow> 'e + string" \<comment> \<open>the current context\<close>
  IsEmptyConfig :: "'e \<Rightarrow> bool"
  clientset_NewForConfig :: "'r rest_config \<Rightarrow> 'e + ('q, 'e) kube_client"
  metadata_NewForConfig :: "'r rest_config \<Rightarrow> 'e + (string \<Rightarrow> string \<Rightarrow> 'e + unit)"

text \<open>A \<open>kube.Client\<close>; the two clients it holds and its context are in \<open>c_Clientset\<close>.\<close>

record ('q, 'e) client =
  c_Clientset :: "('q, 'e) kube_client"
  c_Namespace :: string
  c_Timeout :: duration

definition UserAgent :: string where "UserAgent = ''kubewhy''"

definition configError :: "('r, 'q, 'e) client_lib \<Rightarrow> 'e \<Rightarrow> config_flags \<Rightarrow> 'e go_error" where
  "configError clib err flags =
     (if IsEmptyConfig clib err
      then PlainError ''no Kubernetes configuration found: set KUBECONFIG or pass --kubeconfig''
      else if cf_Context flags \<noteq> []
      then WrapError (''loading Kubernetes configuration for context '' @ quote_str (cf_Context flags) @ '': '') (LibError err)
      else WrapError ''loading Kubernetes configuration: '' (LibError err))"

definition currentContext :: "('r, 'q, 'e) client_lib \<Rightarrow> loader_flags \<Rightarrow> string \<Rightarrow> string" where
  "currentContext clib loader override =
     (if override \<noteq> [] then override
      else (case loader_RawConfig clib loader of Inl _ \<Rightarrow> [] | Inr current \<Rightarrow> current))"

definition given :: "string \<Rightarrow> string option" where
  "given s = (if s \<noteq> [] then Some s else None)"

definition kube_New :: "('r, 'q, 'e) client_lib \<Rightarrow> config_flags \<Rightarrow> 'e go_error + ('q, 'e) client" where
  "kube_New clib flags =
     (let loader = \<lparr>lf_KubeConfig = given (Kubeconfig flags), lf_Context = given (cf_Context flags),
            lf_Namespace = given (cf_Namespace flags)\<rparr> in
      case loader_ClientConfig clib loader of
        Inl err \<Rightarrow> Inl (configError clib err flags)
      | Inr cfg \<Rightarrow>
         (let cfg = cfg\<lparr>rc_UserAgent := UserAgent\<rparr>;
              cfg = (if cf_Timeout flags > 0 then cfg\<lparr>rc_Timeout := cf_Timeout flags\<rparr> else cfg) in
          case clientset_NewForConfig clib cfg of
            Inl err \<Rightarrow> Inl (WrapError ''building Kubernetes client: '' (LibError err))
          | Inr clientset \<Rightarrow>
             (case metadata_NewForConfig clib cfg of
                Inl err \<Rightarrow> Inl (WrapError ''building Kubernetes metadata client: '' (LibError err))
              | Inr meta \<Rightarrow>
                 (let namespace = (case loader_Namespace clib loader of Inl _ \<Rightarrow> [] | Inr n \<Rightarrow> n);
                      namespace = (if namespace = [] then ''default'' else namespace)
                  in Inr \<lparr>c_Clientset = clientset\<lparr>get_SecretMetadata := Some meta,
                            cl_Context := currentContext clib loader (cf_Context flags)\<rparr>,
                          c_Namespace = namespace, c_Timeout = cf_Timeout flags\<rparr>))))"

lemma kube_New_namespace: "kube_New clib flags = Inr c \<Longrightarrow> c_Namespace c \<noteq> []"
  by (auto simp: kube_New_def Let_def split: sum.splits if_splits)

text \<open>Secrets are read through the metadata client only, so their content never reaches the program.\<close>

lemma kube_New_metadata: "kube_New clib flags = Inr c \<Longrightarrow> get_SecretMetadata (c_Clientset c) \<noteq> None"
  by (auto simp: kube_New_def Let_def split: sum.splits)

end
