(* ===== verification/Style.thy ===== *)
theory Style
  imports Diagnosis "HOL-Library.Word"
begin

unbundle bit_operations_syntax

text \<open>
  Package \<open>output\<close>, presentation choices: symbols, width and line wrapping (\<open>style.go\<close>),
  colours and the words they apply to (\<open>color.go\<close>), and the console mode on Windows
  (\<open>vt_windows.go\<close>, \<open>vt_other.go\<close>). What the process is told by its environment and its
  terminal is a parameter. A regular expression is modelled by the matching it performs. The
  lemmas show what wrapping keeps and that colouring never changes the text.
\<close>

section \<open>Runes and fields\<close>

text \<open>
  \<open>utf8.RuneCountInString\<close>: the number of bytes the first rune takes. A byte that does not start
  a valid encoding counts as one rune.
\<close>

definition byte_in :: "nat \<Rightarrow> nat \<Rightarrow> char \<Rightarrow> bool" where
  "byte_in lo hi c \<longleftrightarrow> lo \<le> of_char c \<and> of_char c \<le> hi"

definition second_byte :: "char \<Rightarrow> char \<Rightarrow> bool" where
  "second_byte a b =
     (if a = CHR 0xE0 then byte_in 0xA0 0xBF b
      else if a = CHR 0xED then byte_in 0x80 0x9F b
      else if a = CHR 0xF0 then byte_in 0x90 0xBF b
      else if a = CHR 0xF4 then byte_in 0x80 0x8F b
      else byte_in 0x80 0xBF b)"

definition rune_len :: "string \<Rightarrow> nat" where
  "rune_len s =
     (case s of
        a # b # rest \<Rightarrow>
          (if byte_in 0xC2 0xDF a \<and> second_byte a b then 2
           else case rest of
             c # rest' \<Rightarrow>
               (if byte_in 0xE0 0xEF a \<and> second_byte a b \<and> byte_in 0x80 0xBF c then 3
                else case rest' of
                  d # _ \<Rightarrow>
                    (if byte_in 0xF0 0xF4 a \<and> second_byte a b \<and> byte_in 0x80 0xBF c \<and> byte_in 0x80 0xBF d then 4 else 1)
                | [] \<Rightarrow> 1)
           | [] \<Rightarrow> 1)
      | _ \<Rightarrow> 1)"

function rune_count :: "string \<Rightarrow> nat" where
  "rune_count [] = 0"
| "rune_count (c # s) = Suc (rune_count (drop (rune_len (c # s) - 1) s))"
  by pat_completeness auto
termination by (relation "measure length") auto

text \<open>\<open>strings.Fields\<close> for ASCII white space.\<close>

function str_Fields :: "string \<Rightarrow> string list" where
  "str_Fields s =
     (let t = dropWhile is_space s in
      if t = [] then []
      else takeWhile (\<lambda>c. \<not> is_space c) t # str_Fields (dropWhile (\<lambda>c. \<not> is_space c) t))"
  by pat_completeness auto
termination
proof (relation "measure length", goal_cases)
  case (2 s t)
  then have "\<not> is_space (hd t)" by (simp add: hd_dropWhile)
  then have "length (dropWhile (\<lambda>c. \<not> is_space c) t) < length t"
    using 2(2) by (cases t) (auto simp: le_imp_less_Suc length_dropWhile_le)
  also have "\<dots> \<le> length s" using 2(1) by (simp add: length_dropWhile_le)
  finally show ?case by simp
qed simp

declare str_Fields.simps [simp del]

section \<open>The terminal\<close>

text \<open>
  The console of a Windows process: the mode \<open>GetConsoleMode\<close> reads, unless it fails, and
  whether \<open>SetConsoleMode\<close> accepts a mode.
\<close>

record windows_console =
  con_GetMode :: "32 word option"
  con_SetMode :: "32 word \<Rightarrow> bool"

record terminal =
  os_LookupEnv :: "string \<Rightarrow> string option"
  t_IsFile :: bool \<comment> \<open>whether the writer is an \<open>os.File\<close>\<close>
  t_IsTerminal :: bool
  t_GetSize :: "int option" \<comment> \<open>the width, unless it cannot be read\<close>
  t_Console :: "windows_console option" \<comment> \<open>\<open>None\<close> on other platforms\<close>

definition os_Getenv :: "terminal \<Rightarrow> string \<Rightarrow> string" where
  "os_Getenv t key = (case os_LookupEnv t key of None \<Rightarrow> [] | Some v \<Rightarrow> v)"

definition ENABLE_VIRTUAL_TERMINAL_PROCESSING :: "32 word" where
  "ENABLE_VIRTUAL_TERMINAL_PROCESSING = 4"

definition enable_windows_console :: "bool \<Rightarrow> windows_console \<Rightarrow> bool" where
  "enable_windows_console isFile console =
     (if \<not> isFile then False
      else
       (case con_GetMode console of
          None \<Rightarrow> True
        | Some mode \<Rightarrow>
           (if mode AND ENABLE_VIRTUAL_TERMINAL_PROCESSING \<noteq> 0 then True
            else con_SetMode console (mode OR ENABLE_VIRTUAL_TERMINAL_PROCESSING))))"

definition enableVirtualTerminal :: "terminal \<Rightarrow> bool" where
  "enableVirtualTerminal t =
     (case t_Console t of None \<Rightarrow> True | Some console \<Rightarrow> enable_windows_console (t_IsFile t) console)"

section \<open>Colour modes\<close>

type_synonym color_mode = string

definition ColorAuto :: color_mode where "ColorAuto = ''auto''"
definition ColorAlways :: color_mode where "ColorAlways = ''always''"
definition ColorNever :: color_mode where "ColorNever = ''never''"

definition errUnknownColorMode_Error :: "string \<Rightarrow> string" where
  "errUnknownColorMode_Error value = ''unknown colour mode '' @ quote_str value @ '': use auto, always or never''"

text \<open>The error is the value \<open>errUnknownColorMode\<close> carries.\<close>

definition ParseColorMode :: "string \<Rightarrow> string + color_mode" where
  "ParseColorMode value = (if value \<in> set [ColorAuto, ColorAlways, ColorNever] then Inr value else Inl value)"

definition isTerminal :: "terminal \<Rightarrow> bool" where
  "isTerminal t = (if \<not> t_IsFile t then False else t_IsTerminal t)"

definition useColor :: "terminal \<Rightarrow> color_mode \<Rightarrow> bool" where
  "useColor t mode =
     (if mode = ColorNever then False
      else if mode = ColorAlways then True
      else if os_LookupEnv t ''NO_COLOR'' \<noteq> None then False
      else if os_Getenv t ''CLICOLOR_FORCE'' \<noteq> [] \<and> os_Getenv t ''CLICOLOR_FORCE'' \<noteq> ''0'' then True
      else if os_Getenv t ''TERM'' = ''dumb'' then False
      else if \<not> isTerminal t then False
      else enableVirtualTerminal t)"

section \<open>Style\<close>

record style =
  Color :: bool
  Unicode :: bool
  Width :: int

fun locale_unicode :: "terminal \<Rightarrow> string list \<Rightarrow> bool" where
  "locale_unicode t [] = (os_Getenv t ''WT_SESSION'' \<noteq> [] \<or> os_Getenv t ''TERM_PROGRAM'' \<noteq> [])"
| "locale_unicode t (key # keys) =
     (let v = str_ToLower (os_Getenv t key) in
      if v = [] then locale_unicode t keys
      else str_Contains v ''utf-8'' \<or> str_Contains v ''utf8'')"

definition supportsUnicode :: "terminal \<Rightarrow> bool" where
  "supportsUnicode t =
     (if os_Getenv t ''KUBEWHY_ASCII'' \<noteq> [] then False else locale_unicode t [''LC_ALL'', ''LC_CTYPE'', ''LANG''])"

definition maxWidth :: int where "maxWidth = 100"

definition columns_width :: "terminal \<Rightarrow> int option" where
  "columns_width t =
     (case go_Atoi (os_Getenv t ''COLUMNS'') of
        Some n \<Rightarrow> (if n > 40 then Some (min n maxWidth) else None)
      | None \<Rightarrow> None)"

definition file_width :: "terminal \<Rightarrow> int option" where
  "file_width t =
     (if \<not> t_IsFile t then None
      else (case t_GetSize t of
              Some w \<Rightarrow> (if w > 40 then Some (min w maxWidth) else None)
            | None \<Rightarrow> None))"

definition terminalWidth :: "terminal \<Rightarrow> int" where
  "terminalWidth t =
     (case columns_width t of
        Some w \<Rightarrow> w
      | None \<Rightarrow> (case file_width t of Some w \<Rightarrow> w | None \<Rightarrow> 80))"

definition DetectStyle :: "terminal \<Rightarrow> color_mode \<Rightarrow> style" where
  "DetectStyle t mode = \<lparr>Color = useColor t mode, Unicode = supportsUnicode t, Width = terminalWidth t\<rparr>"

section \<open>Escape sequences\<close>

definition ESC :: char where "ESC = CHR 0x1B"

definition ansiReset :: string where "ansiReset = ESC # ''[0m''"
definition ansiBold :: string where "ansiBold = ESC # ''[1m''"
definition ansiDim :: string where "ansiDim = ESC # ''[2m''"
definition ansiRed :: string where "ansiRed = ESC # ''[31m''"
definition ansiGreen :: string where "ansiGreen = ESC # ''[32m''"
definition ansiYellow :: string where "ansiYellow = ESC # ''[33m''"
definition ansiBlue :: string where "ansiBlue = ESC # ''[34m''"
definition ansiMagenta :: string where "ansiMagenta = ESC # ''[35m''"
definition ansiCyan :: string where "ansiCyan = ESC # ''[36m''"

definition paint :: "style \<Rightarrow> string \<Rightarrow> string \<Rightarrow> string" where
  "paint s code text = (if \<not> Color s \<or> text = [] then text else code @ text @ ansiReset)"

definition style_key :: "style \<Rightarrow> string \<Rightarrow> string" where "style_key s text = paint s ansiDim text"
definition style_bold :: "style \<Rightarrow> string \<Rightarrow> string" where "style_bold s text = paint s ansiBold text"
definition style_dim :: "style \<Rightarrow> string \<Rightarrow> string" where "style_dim s text = paint s ansiDim text"
definition style_red :: "style \<Rightarrow> string \<Rightarrow> string" where "style_red s text = paint s ansiRed text"
definition style_green :: "style \<Rightarrow> string \<Rightarrow> string" where "style_green s text = paint s ansiGreen text"
definition style_yellow :: "style \<Rightarrow> string \<Rightarrow> string" where "style_yellow s text = paint s ansiYellow text"
definition style_command :: "style \<Rightarrow> string \<Rightarrow> string" where "style_command s text = paint s ansiCyan text"
definition style_ruleID :: "style \<Rightarrow> string \<Rightarrow> string" where "style_ruleID s text = paint s ansiMagenta text"

section \<open>Symbols\<close>

definition symbolOK :: "style \<Rightarrow> string" where
  "symbolOK s = (if Unicode s then [CHR 0xE2, CHR 0x9C, CHR 0x93] else ''[ok]'')"

definition symbolWarn :: "style \<Rightarrow> string" where
  "symbolWarn s = (if Unicode s then ''!'' else ''[!]'')"

definition symbolFail :: "style \<Rightarrow> string" where
  "symbolFail s = (if Unicode s then [CHR 0xE2, CHR 0x9C, CHR 0x97] else ''[x]'')"

definition style_bullet :: "style \<Rightarrow> string" where
  "style_bullet s = (if Unicode s then [CHR 0xE2, CHR 0x80, CHR 0xA2] else ''-'')"

definition treeBranch :: "style \<Rightarrow> string" where
  "treeBranch s =
     (if Unicode s then [CHR 0xE2, CHR 0x94, CHR 0x94, CHR 0xE2, CHR 0x94, CHR 0x80] else [CHR 0x5C, CHR ''_''])"

section \<open>Colouring the vocabulary\<close>

definition goodWords :: "string list" where
  "goodWords =
     [''Running'', ''Ready'', ''True'', ''Bound'', ''Completed'', ''Succeeded'', ''Active'',
      ''Available'', ''Healthy'', ''exists'', ''Found'', ''healthy'']"

definition badWords :: "string list" where
  "badWords =
     [''CrashLoopBackOff'', ''OOMKilled'', ''Error'', ''Failed'', ''False'', ''NotFound'',
      ''Unhealthy'', ''Evicted'', ''ImagePullBackOff'', ''ErrImagePull'', ''InvalidImageName'',
      ''ErrImageNeverPull'', ''CreateContainerConfigError'', ''CreateContainerError'',
      ''Lost'', ''Forbidden'', ''Unschedulable'', ''ProgressDeadlineExceeded'', ''FailedMount'',
      ''FailedScheduling'', ''FailedBinding'', ''ProvisioningFailed'', ''FailedCreate'',
      ''NotReady'', ''unhealthy'',
      ''does not exist'', ''not found'', ''could not be read'', ''not started'',
      ''none published'']"

definition warnWords :: "string list" where
  "warnWords =
     [''Pending'', ''ContainerCreating'', ''PodInitializing'', ''Unknown'', ''Terminating'',
      ''Waiting'', ''Terminated'', ''BackOff'', ''ContainersNotReady'', ''Paused'', ''paused'',
      ''degraded'', ''unknown'', ''no status reported'', ''no reason reported'']"

text \<open>
  The expression \<open>words\<close> builds is an alternative of literal words between two word boundaries.
  At each position the first word that fits wins, as Go prefers leftmost-first matches; the
  replacement goes on after the match. The character before the position is passed along.
\<close>

definition word_char :: "char \<Rightarrow> bool" where
  "word_char c \<longleftrightarrow>
     byte_in 0x30 0x39 c \<or> byte_in 0x41 0x5A c \<or> byte_in 0x61 0x7A c \<or> c = CHR ''_''"

definition starts_word :: "string \<Rightarrow> bool" where
  "starts_word s = (case s of [] \<Rightarrow> False | c # _ \<Rightarrow> word_char c)"

definition boundary :: "char option \<Rightarrow> string \<Rightarrow> bool" where
  "boundary prev rest \<longleftrightarrow> (case prev of None \<Rightarrow> False | Some c \<Rightarrow> word_char c) \<noteq> starts_word rest"

definition match_word :: "string list \<Rightarrow> char option \<Rightarrow> string \<Rightarrow> string option" where
  "match_word ws prev s =
     (if boundary prev s
      then find (\<lambda>w. prefix w s \<and> boundary (Some (last w)) (drop (length w) s)) ws
      else None)"

function replace_words :: "string list \<Rightarrow> string \<Rightarrow> char option \<Rightarrow> string \<Rightarrow> string" where
  "replace_words ws code prev [] = []"
| "replace_words ws code prev (c # s) =
     (case match_word ws prev (c # s) of
        Some w \<Rightarrow> code @ w @ ansiReset @ replace_words ws code (Some (last w)) (drop (length w - 1) s)
      | None \<Rightarrow> c # replace_words ws code (Some c) s)"
  by pat_completeness auto
termination by (relation "measure (\<lambda>(_, _, _, s). length s)") auto

text \<open>The two numbers of a ratio; \<open>strconv.Atoi\<close> saturates and its error is ignored.\<close>

definition atoi_saturated :: "string \<Rightarrow> int" where
  "atoi_saturated digits = min (int (dec_val digits)) (2 ^ 63 - 1)"

definition ratio_separator :: "string \<Rightarrow> string option" where
  "ratio_separator s =
     (if prefix ''of'' s then Some (drop 2 s) else if prefix ''/'' s then Some (drop 1 s) else None)"

definition ratioRe :: "string \<Rightarrow> (int \<times> int) option" where
  "ratioRe text =
     (let have = takeWhile is_digit text in
      case ratio_separator (dropWhile is_re_space (dropWhile is_digit text)) of
        None \<Rightarrow> None
      | Some rest \<Rightarrow>
         (let rest = dropWhile is_re_space rest; want = takeWhile is_digit rest in
          if have \<noteq> [] \<and> want \<noteq> [] \<and> \<not> starts_word (dropWhile is_digit rest)
          then Some (atoi_saturated have, atoi_saturated want) else None))"

definition style_value :: "style \<Rightarrow> string \<Rightarrow> string" where
  "style_value s text =
     (if \<not> Color s \<or> text = [] then text
      else
       (case ratioRe text of
          Some (have, want) \<Rightarrow>
            (if want > 0 \<and> have = 0 then paint s ansiRed text
             else if have < want then paint s ansiYellow text
             else paint s ansiGreen text)
        | None \<Rightarrow>
           replace_words goodWords ansiGreen None
             (replace_words warnWords ansiYellow None
               (replace_words badWords ansiRed None text))))"

definition style_note :: "style \<Rightarrow> string \<Rightarrow> string" where
  "style_note s text =
     (if \<not> Color s \<or> text = [] then text
      else (let painted = style_value s text in if painted \<noteq> text then painted else paint s ansiDim text))"

datatype severity_tone = toneInfo | toneWarning | toneCritical

definition style_heading :: "style \<Rightarrow> string \<Rightarrow> severity_tone \<Rightarrow> string" where
  "style_heading s text tone =
     (case tone of
        toneCritical \<Rightarrow> paint s (ansiBold @ ansiRed) text
      | toneWarning \<Rightarrow> paint s (ansiBold @ ansiYellow) text
      | toneInfo \<Rightarrow> paint s (ansiBold @ ansiBlue) text)"

section \<open>Wrapping\<close>

fun wrap_loop :: "int \<Rightarrow> string \<Rightarrow> string list \<Rightarrow> string list" where
  "wrap_loop width line [] = [line]"
| "wrap_loop width line (word # ws) =
     (if int (rune_count line) + 1 + int (rune_count word) > width
      then line # wrap_loop width word ws
      else wrap_loop width (line @ '' '' @ word) ws)"

definition wrap :: "string \<Rightarrow> int \<Rightarrow> string list" where
  "wrap text width = (case str_Fields text of [] \<Rightarrow> [] | w # ws \<Rightarrow> wrap_loop width w ws)"

section \<open>What wrapping keeps\<close>

lemma rune_len_le: "s \<noteq> [] \<Longrightarrow> rune_len s \<le> length s"
  by (auto simp: rune_len_def split: list.split)

lemma second_byte_high: "second_byte a b \<Longrightarrow> of_char b \<ge> (128 :: nat)"
  by (auto simp: second_byte_def byte_in_def split: if_splits)

lemma rune_len_append:
  assumes "s \<noteq> []" and "of_char c < (128 :: nat)"
  shows "rune_len (s @ c # t) = rune_len s"
proof -
  have "\<not> second_byte a c" and "\<not> byte_in 0x80 0xBF c" for a
    using assms(2) second_byte_high [of a c] by (auto simp: byte_in_def)
  then show ?thesis
    using assms(1) by (auto simp: rune_len_def split: list.split)
qed

lemma rune_count_append: "of_char c < (128 :: nat) \<Longrightarrow> rune_count (s @ c # t) = rune_count s + rune_count (c # t)"
proof (induction s rule: rune_count.induct)
  case (2 a s)
  have "rune_len (a # s) - 1 \<le> length s" using rune_len_le [of "a # s"] by simp
  moreover have "rune_len (a # s @ c # t) = rune_len (a # s)" using rune_len_append [of "a # s" c t] 2(2) by simp
  ultimately show ?case using 2 by simp
qed simp

lemma rune_count_space: "rune_count (s @ CHR '' '' # t) = Suc (rune_count s + rune_count t)"
proof -
  have "rune_len (CHR '' '' # t) = 1"
    by (auto simp: rune_len_def byte_in_def split: list.split)
  then show ?thesis using rune_count_append [of "CHR '' ''" s t] by simp
qed

text \<open>A word is a field: not empty and without white space.\<close>

definition is_word :: "string \<Rightarrow> bool" where
  "is_word w \<longleftrightarrow> w \<noteq> [] \<and> list_all (\<lambda>c. \<not> is_space c) w"

lemma str_Fields_words: "list_all is_word (str_Fields s)"
proof (induction s rule: str_Fields.induct)
  case (1 s)
  let ?t = "dropWhile is_space s"
  have "is_word (takeWhile (\<lambda>c. \<not> is_space c) ?t)" if "?t \<noteq> []"
    using that hd_dropWhile [of is_space s]
    by (cases ?t) (auto simp: is_word_def list_all_iff dest: set_takeWhileD)
  then show ?case using 1 by (subst str_Fields.simps) (simp add: Let_def)
qed

lemma str_Fields_Nil [simp]: "str_Fields [] = []"
  by (subst str_Fields.simps) simp

lemma str_Fields_word_append:
  assumes "is_word w" and "t = [] \<or> is_space (hd t)"
  shows "str_Fields (w @ t) = w # str_Fields t"
proof -
  have "dropWhile is_space (w @ t) = w @ t"
    using assms(1) by (cases w) (auto simp: is_word_def)
  moreover have "takeWhile (\<lambda>c. \<not> is_space c) (w @ t) = w" "dropWhile (\<lambda>c. \<not> is_space c) (w @ t) = t"
    using assms by (cases t; auto simp: is_word_def list_all_iff takeWhile_append dropWhile_append)+
  ultimately show ?thesis
    using assms(1) by (subst str_Fields.simps) (auto simp: is_word_def Let_def)
qed

lemma str_Fields_space: "is_space c \<Longrightarrow> str_Fields (c # t) = str_Fields t"
  by (subst (1 2) str_Fields.simps) simp

lemma str_Fields_Join: "list_all is_word ws \<Longrightarrow> str_Fields (str_Join '' '' ws) = ws"
proof (induction ws)
  case (Cons w ws)
  then show ?case
    using str_Fields_word_append [of w "[]"] str_Fields_word_append [of w "CHR '' '' # str_Join '' '' ws"]
    by (cases ws) (auto simp: str_Fields_space is_space_def)
qed simp

lemma str_Join_snoc: "ws \<noteq> [] \<Longrightarrow> str_Join sep (ws @ [w]) = str_Join sep ws @ sep @ w"
  by (induction sep ws rule: str_Join.induct) auto

text \<open>The groups of words the lines are made of.\<close>

definition wrap_groups :: "int \<Rightarrow> string list list \<Rightarrow> bool" where
  "wrap_groups width gs \<longleftrightarrow>
     list_all (\<lambda>g. g \<noteq> [] \<and> (length g = 1 \<or> int (rune_count (str_Join '' '' g)) \<le> width)) gs \<and>
     successively (\<lambda>g h. int (rune_count (str_Join '' '' (g @ [hd h]))) > width) gs"

lemma wrap_loop_groups:
  assumes "g \<noteq> []" and "length g = 1 \<or> int (rune_count (str_Join '' '' g)) \<le> width"
  shows "\<exists>g' gs. wrap_loop width (str_Join '' '' g) ws = map (str_Join '' '') (g' # gs) \<and>
    concat (g' # gs) = g @ ws \<and> wrap_groups width (g' # gs)"
  using assms
proof (induction ws arbitrary: g)
  case Nil
  then show ?case by (intro exI [of _ g] exI [of _ "[]"]) (simp add: wrap_groups_def)
next
  case (Cons w ws)
  have join: "rune_count (str_Join '' '' (g @ [w])) = rune_count (str_Join '' '' g) + 1 + rune_count w"
    using Cons.prems(1) by (simp add: str_Join_snoc rune_count_space)
  show ?case
  proof (cases "int (rune_count (str_Join '' '' g)) + 1 + int (rune_count w) > width")
    case True
    obtain g' gs where "wrap_loop width (str_Join '' '' [w]) ws = map (str_Join '' '') (g' # gs)"
      "concat (g' # gs) = [w] @ ws" "wrap_groups width (g' # gs)"
      using Cons.IH [of "[w]"] by auto
    moreover from this have "hd g' = w" by (cases g') (auto simp: wrap_groups_def)
    ultimately show ?thesis
      using True Cons.prems join
      by (intro exI [of _ g] exI [of _ "g' # gs"]) (auto simp: wrap_groups_def)
  next
    case False
    then show ?thesis using Cons.IH [of "g @ [w]"] Cons.prems(1) join by (simp add: str_Join_snoc)
  qed
qed

lemma wrap_groups_exist:
  "\<exists>gs. wrap text width = map (str_Join '' '') gs \<and> concat gs = str_Fields text \<and> wrap_groups width gs"
proof (cases "str_Fields text")
  case Nil
  then show ?thesis by (intro exI [of _ "[]"]) (simp add: wrap_def wrap_groups_def)
next
  case (Cons w ws)
  obtain g gs where "wrap_loop width w ws = map (str_Join '' '') (g # gs)" "concat (g # gs) = w # ws"
    "wrap_groups width (g # gs)"
    using wrap_loop_groups [of "[w]" width ws] by auto
  with Cons show ?thesis by (intro exI [of _ "g # gs"]) (simp add: wrap_def)
qed

text \<open>
  C22. Wrapping neither loses nor splits nor reorders a word: the fields of the lines are the fields
  of the text. A line fits the width unless it is a single word that is too long on its own, and
  lines are filled greedily: the first word of the next line would not have fitted.
\<close>

theorem wrap_contract:
  "concat (map str_Fields (wrap text width)) = str_Fields text \<and>
   list_all (\<lambda>line. int (rune_count line) \<le> width \<or> length (str_Fields line) = 1) (wrap text width) \<and>
   successively (\<lambda>line nxt. int (rune_count line) + 1 + int (rune_count (hd (str_Fields nxt))) > width)
     (wrap text width)"
proof -
  obtain gs where gs: "wrap text width = map (str_Join '' '') gs" "concat gs = str_Fields text" "wrap_groups width gs"
    using wrap_groups_exist by blast
  have words: "list_all is_word g" if "g \<in> set gs" for g
    using that str_Fields_words [of "text"] gs(2) [symmetric] by (auto simp: list_all_iff)
  then have fields: "str_Fields (str_Join '' '' g) = g" if "g \<in> set gs" for g
    using that str_Fields_Join by blast
  have "concat (map (str_Fields \<circ> str_Join '' '') gs) = concat gs"
    using fields by (simp add: map_idI)
  moreover have "list_all (\<lambda>g. int (rune_count (str_Join '' '' g)) \<le> width \<or> length (str_Fields (str_Join '' '' g)) = 1) gs"
    using gs(3) fields by (auto simp: wrap_groups_def list_all_iff)
  moreover have "successively (\<lambda>g h. int (rune_count (str_Join '' '' g)) + 1 +
      int (rune_count (hd (str_Fields (str_Join '' '' h)))) > width) gs"
  proof (rule successively_mono)
    show "successively (\<lambda>g h. g \<in> set gs \<and> h \<in> set gs \<and> int (rune_count (str_Join '' '' (g @ [hd h]))) > width) gs"
      using gs(3) by (auto simp: wrap_groups_def successively_conv_nth)
  qed (use gs(3) fields in \<open>auto simp: wrap_groups_def list_all_iff str_Join_snoc rune_count_space\<close>)
  ultimately show ?thesis using gs(1,2) by (simp add: list_all_iff successively_map comp_def)
qed

section \<open>Colouring keeps the text\<close>

text \<open>What a terminal shows: everything from an escape character to the next \<open>m\<close> is a command.\<close>

function strip_ansi :: "string \<Rightarrow> string" where
  "strip_ansi [] = []"
| "strip_ansi (c # s) =
     (if c = ESC then strip_ansi (drop 1 (dropWhile (\<lambda>c. c \<noteq> CHR ''m'') s)) else c # strip_ansi s)"
  by pat_completeness auto
termination
proof (relation "measure length")
  show "(drop 1 (dropWhile (\<lambda>c. c \<noteq> CHR ''m'') s), c # s) \<in> measure length" for c s
    using length_dropWhile_le [of "\<lambda>c. c \<noteq> CHR ''m''" s] by simp
qed simp_all

definition ansi_codes :: "string list" where
  "ansi_codes = [ansiReset, ansiBold, ansiDim, ansiRed, ansiGreen, ansiYellow, ansiBlue, ansiMagenta, ansiCyan]"

lemmas ansi_defs = ansiReset_def ansiBold_def ansiDim_def ansiRed_def ansiGreen_def ansiYellow_def ansiBlue_def
  ansiMagenta_def ansiCyan_def

lemma ansi_codes_shape:
  "list_all (\<lambda>code. (\<exists>a. code = [ESC, CHR ''['', a, CHR ''m''] \<and> is_digit a) \<or>
     (\<exists>a b. code = [ESC, CHR ''['', a, b, CHR ''m''] \<and> is_digit a \<and> is_digit b)) ansi_codes"
  by (simp add: ansi_codes_def ansi_defs is_digit_def)

lemma ansi_code_cases:
  assumes "code \<in> set ansi_codes"
  obtains a where "code = [ESC, CHR ''['', a, CHR ''m'']" "is_digit a"
    | a b where "code = [ESC, CHR ''['', a, b, CHR ''m'']" "is_digit a" "is_digit b"
  using assms ansi_codes_shape unfolding list_all_iff by blast

text \<open>A coloured text and the text it shows.\<close>

inductive shows_text :: "string \<Rightarrow> string \<Rightarrow> bool" where
  shows_Nil: "shows_text [] []"
| shows_char: "c \<noteq> ESC \<Longrightarrow> shows_text s t \<Longrightarrow> shows_text (c # s) (c # t)"
| shows_code: "code \<in> set ansi_codes \<Longrightarrow> shows_text s t \<Longrightarrow> shows_text (code @ s) t"

named_theorems shows_intros

lemma ESC_simps [simp]: "ESC \<noteq> CHR ''m''" "ESC \<noteq> CHR ''[''" "\<not> is_digit ESC" "\<not> word_char ESC"
  by (auto simp: ESC_def is_digit_def word_char_def byte_in_def)

lemma digit_not_m: "is_digit a \<Longrightarrow> a \<noteq> CHR ''m''"
  by (auto simp: is_digit_def)

lemma shows_strip: "shows_text s t \<Longrightarrow> strip_ansi s = t"
  by (induction rule: shows_text.induct) (auto elim!: ansi_code_cases simp: digit_not_m)

lemma shows_plain [shows_intros]: "ESC \<notin> set s \<Longrightarrow> shows_text s s"
  by (induction s) (auto intro: shows_text.intros)

lemma shows_append [shows_intros]: "shows_text s t \<Longrightarrow> shows_text s' t' \<Longrightarrow> shows_text (s @ s') (t @ t')"
  by (induction rule: shows_text.induct) (auto intro: shows_text.intros)

lemma shows_Cons [shows_intros]: "c \<noteq> ESC \<Longrightarrow> shows_text s t \<Longrightarrow> shows_text (c # s) (c # t)"
  by (rule shows_char)

inductive_cases shows_NilE: "shows_text [] t"
inductive_cases shows_ConsE: "shows_text (c # s) t"

lemma shows_Cons_plain:
  assumes "shows_text (c # s) t" and "c \<noteq> ESC"
  shows "\<exists>t'. t = c # t' \<and> shows_text s t'"
  using assms(1) by (rule shows_ConsE) (use assms(2) in \<open>auto elim!: ansi_code_cases\<close>)

lemma shows_prefix:
  "shows_text (w @ s) t \<Longrightarrow> ESC \<notin> set w \<Longrightarrow> \<exists>t'. t = w @ t' \<and> shows_text s t'"
  by (induction w arbitrary: t) (fastforce dest: shows_Cons_plain)+

lemma shows_ESC:
  assumes "shows_text (ESC # s) t"
  shows "\<exists>code s'. code \<in> set ansi_codes \<and> ESC # s = code @ s' \<and> shows_text s' t"
  using assms by (rule shows_ConsE) auto

text \<open>A vocabulary: its words are not empty, start with a letter and hold no escape character.\<close>

definition vocabulary :: "string list \<Rightarrow> bool" where
  "vocabulary ws \<longleftrightarrow>
     list_all (\<lambda>w. w \<noteq> [] \<and> word_char (hd w) \<and> \<not> is_digit (hd w) \<and> ESC \<notin> set w) ws"

lemma vocabularies: "vocabulary goodWords" "vocabulary badWords" "vocabulary warnWords"
  by (simp_all add: vocabulary_def goodWords_def badWords_def warnWords_def word_char_def byte_in_def is_digit_def ESC_def)

lemma match_word_Some:
  assumes "match_word ws prev s = Some w" and "vocabulary ws"
  shows "w \<noteq> []" "ESC \<notin> set w" "prefix w s" "boundary prev s" "word_char (hd s)" "\<not> is_digit (hd s)"
proof -
  have w: "w \<in> set ws" "prefix w s" "boundary prev s"
    using assms(1) by (auto simp: match_word_def find_Some_iff split: if_splits)
  then show "prefix w s" "boundary prev s" by simp_all
  from w(1) assms(2) have "w \<noteq> [] \<and> word_char (hd w) \<and> \<not> is_digit (hd w) \<and> ESC \<notin> set w"
    by (auto simp: vocabulary_def list_all_iff)
  moreover from this w(2) have "hd s = hd w" by (auto simp: prefix_def)
  ultimately show "w \<noteq> []" "ESC \<notin> set w" "word_char (hd s)" "\<not> is_digit (hd s)" by simp_all
qed

lemma no_match:
  assumes "vocabulary ws"
  shows "\<not> word_char c \<Longrightarrow> match_word ws prev (c # s) = None"
    "is_digit c \<Longrightarrow> match_word ws prev (c # s) = None"
    "word_char p \<Longrightarrow> word_char c \<Longrightarrow> match_word ws (Some p) (c # s) = None"
  using match_word_Some [OF _ assms, of prev "c # s"] match_word_Some [OF _ assms, of "Some p" "c # s"]
  by (cases "match_word ws prev (c # s)"; cases "match_word ws (Some p) (c # s)";
      force simp: boundary_def starts_word_def)+

lemma replace_words_code:
  assumes "vocabulary ws" and "code \<in> set ansi_codes"
  shows "replace_words ws painted prev (code @ s) = code @ replace_words ws painted (Some CHR ''m'') s"
proof -
  have m: "word_char CHR ''m''" "\<not> word_char CHR ''[''" by (auto simp: word_char_def byte_in_def)
  have digit: "word_char a" if "is_digit a" for a
    using that by (auto simp: is_digit_def word_char_def byte_in_def)
  show ?thesis
    using assms(2) by (rule ansi_code_cases) (simp_all add: no_match [OF assms(1)] m digit)
qed

lemma shows_replace_words:
  assumes "vocabulary ws" and "code \<in> set ansi_codes" and "shows_text s t"
  shows "shows_text (replace_words ws code prev s) t"
  using assms(3)
proof (induction s arbitrary: prev t rule: length_induct)
  case (1 s)
  show ?case
  proof (cases s)
    case Nil
    with 1(2) show ?thesis by simp
  next
    case (Cons c r)
    show ?thesis
    proof (cases "c = ESC")
      case True
      with 1(2) Cons obtain code' s' where code: "code' \<in> set ansi_codes" "s = code' @ s'" "shows_text s' t"
        using shows_ESC by blast
      then have "length s' < length s" by (auto elim!: ansi_code_cases)
      with 1(1) code show ?thesis by (auto simp: replace_words_code [OF assms(1)] intro: shows_code)
    next
      case False
      show ?thesis
      proof (cases "match_word ws prev s")
        case None
        obtain t' where "t = c # t'" "shows_text r t'" using 1(2) Cons False shows_Cons_plain by blast
        with 1(1) Cons None False show ?thesis by (auto intro: shows_char)
      next
        case (Some w)
        note w = match_word_Some [OF Some assms(1)]
        from w(3) obtain r' where r': "s = w @ r'" by (auto simp: prefix_def)
        with w(1) Cons have drop: "drop (length w - 1) r = r'" by (cases w) auto
        obtain t' where "t = w @ t'" "shows_text r' t'" using shows_prefix 1(2) r' w(2) by blast
        moreover have "length r' < length s" using r' w(1) by simp
        moreover have "ansiReset \<in> set ansi_codes" by (simp add: ansi_codes_def)
        ultimately have "shows_text (code @ w @ ansiReset @ replace_words ws code (Some (last w)) r') (w @ t')"
          using 1(1) w(2) assms(2) by (intro shows_code shows_append shows_plain) auto
        then show ?thesis using Cons Some drop \<open>t = w @ t'\<close> by simp
      qed
    qed
  qed
qed

lemma codes_known [simp]:
  "ansiReset \<in> set ansi_codes" "ansiBold \<in> set ansi_codes" "ansiDim \<in> set ansi_codes" "ansiRed \<in> set ansi_codes"
  "ansiGreen \<in> set ansi_codes" "ansiYellow \<in> set ansi_codes" "ansiBlue \<in> set ansi_codes"
  "ansiMagenta \<in> set ansi_codes" "ansiCyan \<in> set ansi_codes"
  by (simp_all add: ansi_codes_def)

lemma shows_paint:
  assumes "ESC \<notin> set str" and "code \<in> set ansi_codes"
  shows "shows_text (paint s code str) str" "shows_text (paint s (ansiBold @ code) str) str"
proof -
  have "shows_text (str @ ansiReset @ []) (str @ [])"
    using assms by (intro shows_append shows_plain shows_code shows_Nil) simp_all
  with assms(2) have "shows_text (code @ str @ ansiReset) str" "shows_text (ansiBold @ code @ str @ ansiReset) str"
    by (auto intro: shows_code)
  with assms(1) show "shows_text (paint s code str) str" "shows_text (paint s (ansiBold @ code) str) str"
    by (auto simp: paint_def intro: shows_plain)
qed

lemma shows_value [shows_intros]: "ESC \<notin> set str \<Longrightarrow> shows_text (style_value s str) str"
  by (auto simp: style_value_def intro!: shows_paint shows_replace_words vocabularies intro: shows_plain split: option.split)

lemma shows_note [shows_intros]: "ESC \<notin> set str \<Longrightarrow> shows_text (style_note s str) str"
  by (auto simp: style_note_def Let_def intro: shows_plain shows_paint shows_value)

lemma shows_styles [shows_intros]:
  assumes "ESC \<notin> set str"
  shows "shows_text (style_key s str) str" "shows_text (style_bold s str) str" "shows_text (style_dim s str) str"
    "shows_text (style_red s str) str" "shows_text (style_green s str) str" "shows_text (style_yellow s str) str"
    "shows_text (style_command s str) str" "shows_text (style_ruleID s str) str"
    "shows_text (style_heading s str tone) str"
  using assms by (auto simp: style_key_def style_bold_def style_dim_def style_red_def style_green_def style_yellow_def
      style_command_def style_ruleID_def style_heading_def intro!: shows_paint split: severity_tone.split)

section \<open>The width and the colour decision\<close>

lemma terminalWidth_bounds: "40 < terminalWidth t \<and> terminalWidth t \<le> maxWidth"
  by (auto simp: terminalWidth_def columns_width_def file_width_def maxWidth_def split: option.split if_splits)

end
