(* ===== verification/TextOutput.thy ===== *)
theory TextOutput
  imports Style
begin

text \<open>
  Package \<open>output\<close>, the text renderer (\<open>text.go\<close>) and the entry points \<open>Text\<close> and \<open>JSON\<close>
  (\<open>json.go\<close>). Every function of the renderer prints whole lines, so a function that prints is
  modelled by the list of the lines it prints; \<open>Text\<close> passes them to the writer one by one and
  stops at its first error. The writer and the JSON encoder are parameters.
\<close>

section \<open>Lines\<close>

fun severity_str :: "severity \<Rightarrow> string" where
  "severity_str SeverityInfo = ''info''"
| "severity_str SeverityWarning = ''warning''"
| "severity_str SeverityCritical = ''critical''"
| "severity_str (SeverityOther s) = s"

fun confidence_str :: "confidence \<Rightarrow> string" where
  "confidence_str ConfidenceCertain = ''certain''"
| "confidence_str ConfidenceLikely = ''likely''"
| "confidence_str ConfidencePossible = ''possible''"
| "confidence_str (ConfidenceOther s) = s"

definition spaces :: "int \<Rightarrow> string" where
  "spaces n = replicate (nat n) CHR '' ''"

definition pad :: "int \<Rightarrow> string" where
  "pad n = (if n \<le> 0 then [] else spaces n)"

definition evidenceLabel :: "evidence \<Rightarrow> string" where
  "evidenceLabel e = (if e_Field e \<noteq> [] then e_Field e else e_Source e)"

definition orText :: "string \<Rightarrow> string \<Rightarrow> string" where
  "orText primary fallback = (if str_TrimSpace primary \<noteq> [] then primary else fallback)"

definition tone :: "severity \<Rightarrow> severity_tone" where
  "tone sev = (case sev of SeverityCritical \<Rightarrow> toneCritical | SeverityWarning \<Rightarrow> toneWarning | _ \<Rightarrow> toneInfo)"

definition paragraph_lines :: "style \<Rightarrow> string \<Rightarrow> string \<Rightarrow> string list" where
  "paragraph_lines s txt indent = map (\<lambda>l. indent @ l) (wrap txt (Width s - int (length indent)))"

definition bullet_lines :: "style \<Rightarrow> string \<Rightarrow> string \<Rightarrow> string list" where
  "bullet_lines s txt indent =
     (let marker = style_bullet s @ '' '';
          hanging = indent @ spaces (int (rune_count marker))
      in case wrap txt (Width s - int (length hanging)) of
           [] \<Rightarrow> []
         | l # ls \<Rightarrow> (indent @ marker @ l) # map (\<lambda>l. hanging @ l) ls)"

section \<open>Evidence\<close>

definition evidence_width :: "evidence list \<Rightarrow> nat" where
  "evidence_width items = foldl (\<lambda>w e. let n = rune_count (evidenceLabel e) in if n > w then n else w) 0 items"

definition evidence_item_lines :: "style \<Rightarrow> nat \<Rightarrow> evidence \<Rightarrow> string list" where
  "evidence_item_lines s width e =
     (let label = evidenceLabel e; padding = spaces (int width - int (rune_count label)) in
      (if e_Value e \<noteq> [] then [''    '' @ style_key s label @ padding @ ''  '' @ style_value s (e_Value e)]
       else [''    '' @ style_key s label]) @
      (if e_Message e \<noteq> [] then map (\<lambda>l. ''      '' @ l) (wrap (e_Message e) (Width s - 6)) else []))"

definition evidence_lines :: "style \<Rightarrow> bool \<Rightarrow> evidence list \<Rightarrow> string list" where
  "evidence_lines s verbose items =
     (let shown = (if \<not> verbose \<and> length items > 8 then take 8 items else items);
          width = evidence_width shown
      in concat (map (evidence_item_lines s width) shown) @
         (if length shown < length items
          then [''    '' @ style_dim s (''... '' @ int_str (int (length items) - int (length shown)) @ '' more (use --verbose)'')]
          else []))"

section \<open>Findings\<close>

definition text_heading :: "diagnosis \<Rightarrow> bool \<Rightarrow> string set \<Rightarrow> string" where
  "text_heading d first shown =
     (if d_CausedBy d \<noteq> [] \<and> d_CausedBy d \<in> shown then ''CONSEQUENCE''
      else if \<not> first then ''ALSO DETECTED''
      else (case d_Severity d of
              SeverityCritical \<Rightarrow> ''ROOT CAUSE''
            | SeverityWarning \<Rightarrow> ''WARNING''
            | _ \<Rightarrow> ''OBSERVATION''))"

definition summary_text :: "diagnosis \<Rightarrow> string" where
  "summary_text d =
     (case d_Aggregate d of
        Some a \<Rightarrow> (if agg_Count a > 1
          then d_Summary d @ '' ('' @ int_str (agg_Count a) @ '' of '' @ int_str (agg_Total a) @ '' Pods)''
          else d_Summary d)
      | None \<Rightarrow> d_Summary d)"

definition suggestion_lines :: "style \<Rightarrow> suggestion \<Rightarrow> string list" where
  "suggestion_lines s sg =
     paragraph_lines s (s_Description sg) ''    '' @ map (\<lambda>cmd. ''      '' @ style_command s cmd) (s_Commands sg)"

fun suggestions_lines :: "style \<Rightarrow> suggestion list \<Rightarrow> string list" where
  "suggestions_lines s [] = []"
| "suggestions_lines s [sg] = suggestion_lines s sg"
| "suggestions_lines s (sg # sg' # sgs) = suggestion_lines s sg @ [[]] @ suggestions_lines s (sg' # sgs)"

definition rule_line :: "style \<Rightarrow> diagnosis \<Rightarrow> string" where
  "rule_line s d =
     ''  '' @ style_dim s ''rule '' @ style_ruleID s (d_ID d) @
     style_dim s ('', confidence '' @ confidence_str (d_Confidence d) @ '', severity '' @ severity_str (d_Severity d))"

definition diagnosis_lines :: "style \<Rightarrow> bool \<Rightarrow> diagnosis \<Rightarrow> bool \<Rightarrow> string set \<Rightarrow> string list" where
  "diagnosis_lines s verbose d first shown =
     [style_heading s (text_heading d first shown) (tone (d_Severity d))] @
     paragraph_lines s (summary_text d) ''  '' @
     (if d_Explanation d \<noteq> [] then [[]] @ paragraph_lines s (d_Explanation d) ''  '' else []) @
     (if d_Evidence d \<noteq> [] then [[], ''  Evidence''] @ evidence_lines s verbose (d_Evidence d) else []) @
     (if d_PossibleCauses d \<noteq> []
      then [[], ''  Possible causes''] @ concat (map (\<lambda>c. bullet_lines s c ''    '') (d_PossibleCauses d)) else []) @
     (if d_Suggestions d \<noteq> []
      then [[], (if length (d_Suggestions d) = 1 then ''  Suggested action'' else ''  Suggested actions'')] @
        suggestions_lines s (d_Suggestions d)
      else []) @
     (if \<not> verbose then [] else [[], rule_line s d])"

section \<open>Sections and degradations\<close>

definition key_width :: "item list \<Rightarrow> nat" where
  "key_width items = foldl (\<lambda>w i. let n = rune_count (i_Key i) in if n > w then n else w) 0 items"

definition value_width :: "item list \<Rightarrow> nat" where
  "value_width items =
     foldl (\<lambda>w i. let n = rune_count (i_Value i) in if i_Note i \<noteq> [] \<and> n > w then n else w) 0 items"

definition item_line :: "style \<Rightarrow> nat \<Rightarrow> nat \<Rightarrow> item \<Rightarrow> string" where
  "item_line s keyWidth valueWidth i =
     ''  '' @ i_Key i @ pad (int keyWidth - int (rune_count (i_Key i))) @ ''  '' @ style_value s (i_Value i) @
     (if i_Note i \<noteq> [] then pad (int valueWidth - int (rune_count (i_Value i))) @ ''  '' @ style_note s (i_Note i) else [])"

definition tree_line :: "style \<Rightarrow> nat \<Rightarrow> string \<Rightarrow> string" where
  "tree_line s i node =
     (if i = 0 then ''  '' @ node
      else ''  '' @ concat (replicate (i - 1) ''   '') @ treeBranch s @ '' '' @ node)"

definition section_lines :: "style \<Rightarrow> report_section \<Rightarrow> string list" where
  "section_lines s sec =
     [style_bold s (sec_Title sec)] @
     map (item_line s (key_width (sec_Items sec)) (value_width (sec_Items sec))) (sec_Items sec) @
     map (\<lambda>(i, node). tree_line s i node) (enumerate 0 (sec_Tree sec))"

definition degradation_lines :: "style \<Rightarrow> degradation \<Rightarrow> string list" where
  "degradation_lines s d =
     [[]] @ paragraph_lines s (''KubeWhy could not read '' @ deg_Resource d @ '' in this cluster.'') ''  '' @
     (if deg_RequiredFor d \<noteq> [] then [[], ''  Required for''] @ paragraph_lines s (deg_RequiredFor d) ''    '' else []) @
     [[], ''  Kubernetes returned''] @ paragraph_lines s (orText (deg_Detail d) (deg_Reason d)) ''    ''"

definition degradations_lines :: "style \<Rightarrow> degradation list \<Rightarrow> string list" where
  "degradations_lines s items =
     [style_yellow s (symbolWarn s) @ '' '' @ style_bold s ''Diagnosis is incomplete''] @
     concat (map (degradation_lines s) items)"

section \<open>Reports\<close>

definition headline_line :: "style \<Rightarrow> report \<Rightarrow> string" where
  "headline_line s report =
     (case r_Status report of
        StatusUnhealthy \<Rightarrow> style_red s (symbolFail s)
      | StatusDegraded \<Rightarrow> style_yellow s (symbolWarn s)
      | StatusUnknown \<Rightarrow> style_yellow s (symbolWarn s)
      | StatusHealthy \<Rightarrow> style_green s (symbolOK s)) @ '' '' @ style_bold s (r_Headline report)"

text \<open>The loop over the findings, with the identifiers shown so far.\<close>

fun diagnoses_lines :: "style \<Rightarrow> bool \<Rightarrow> bool \<Rightarrow> string set \<Rightarrow> diagnosis list \<Rightarrow> string list" where
  "diagnoses_lines s verbose first shown [] = []"
| "diagnoses_lines s verbose first shown (d # ds) =
     [[]] @ diagnosis_lines s verbose d first shown @ diagnoses_lines s verbose False (insert (d_ID d) shown) ds"

definition render_lines :: "style \<Rightarrow> bool \<Rightarrow> report \<Rightarrow> string list" where
  "render_lines s verbose report =
     [headline_line s report] @
     diagnoses_lines s verbose True {} (r_Diagnoses report) @
     concat (map (\<lambda>sec. [[]] @ section_lines s sec) (r_Overview report)) @
     (if r_Degradations report \<noteq> [] then [[]] @ degradations_lines s (r_Degradations report) else []) @
     (if r_Status report = StatusHealthy then [[], ''No obvious Kubernetes-level issue detected.''] else []) @
     (if verbose \<and> r_Inspected report \<noteq> []
      then [[], style_bold s ''Inspected''] @ map (\<lambda>i. ''  '' @ i) (r_Inspected report) else [])"

section \<open>Writing\<close>

text \<open>
  A writer gets what was written before and the next bytes, and answers how many it took and
  with which error.
\<close>

type_synonym 'e writer = "string \<Rightarrow> string \<Rightarrow> nat \<times> 'e option"

record 'e text_renderer =
  tr_Written :: string
  tr_Err :: "'e option"

definition tr_printf :: "'e writer \<Rightarrow> 'e text_renderer \<Rightarrow> string \<Rightarrow> 'e text_renderer" where
  "tr_printf w r str =
     (if tr_Err r \<noteq> None then r
      else (let (n, err) = w (tr_Written r) str
            in r\<lparr>tr_Written := tr_Written r @ take n str, tr_Err := err\<rparr>))"

definition tr_line :: "'e writer \<Rightarrow> 'e text_renderer \<Rightarrow> string \<Rightarrow> 'e text_renderer" where
  "tr_line w r str = tr_printf w r (str @ [newline])"

record text_options =
  Style :: style
  Verbose :: bool

text \<open>\<open>Text\<close> returns the error; what it wrote is returned with it.\<close>

definition output_Text :: "'e writer \<Rightarrow> report \<Rightarrow> text_options \<Rightarrow> string \<times> 'e option" where
  "output_Text w report opts =
     (let r = foldl (tr_line w) \<lparr>tr_Written = [], tr_Err = None\<rparr> (render_lines (Style opts) (Verbose opts) report)
      in (tr_Written r, tr_Err r))"

text \<open>\<open>json.Encoder\<close> with its indent and whether it escapes HTML.\<close>

type_synonym 'e json_encoder = "string \<Rightarrow> bool \<Rightarrow> report \<Rightarrow> 'e writer \<Rightarrow> string \<times> 'e option"

definition output_JSON :: "'e json_encoder \<Rightarrow> 'e writer \<Rightarrow> report \<Rightarrow> string \<times> 'e option" where
  "output_JSON encoder w report = encoder ''  '' False report w"

section \<open>Colour only decorates\<close>

abbreviation plain :: "style \<Rightarrow> style" where
  "plain s \<equiv> s\<lparr>Color := False\<rparr>"

lemma plain_styles [simp]:
  "paint (plain s) code str = str" "style_key (plain s) str = str" "style_bold (plain s) str = str"
  "style_dim (plain s) str = str" "style_red (plain s) str = str" "style_green (plain s) str = str"
  "style_yellow (plain s) str = str" "style_command (plain s) str = str" "style_ruleID (plain s) str = str"
  "style_heading (plain s) str tn = str" "style_value (plain s) str = str" "style_note (plain s) str = str"
  "symbolOK (plain s) = symbolOK s" "symbolWarn (plain s) = symbolWarn s" "symbolFail (plain s) = symbolFail s"
  "style_bullet (plain s) = style_bullet s" "treeBranch (plain s) = treeBranch s"
  by (simp_all add: paint_def style_key_def style_bold_def style_dim_def style_red_def style_green_def style_yellow_def
      style_command_def style_ruleID_def style_heading_def style_value_def style_note_def symbolOK_def symbolWarn_def
      symbolFail_def style_bullet_def treeBranch_def split: severity_tone.split)

text \<open>The lines a coloured rendering shows, against the plain ones.\<close>

definition no_escape :: "string list \<Rightarrow> bool" where
  "no_escape ls \<longleftrightarrow> list_all (\<lambda>l. ESC \<notin> set l) ls"

lemma no_escape_simps [simp]:
  "no_escape []" "no_escape (l # ls) \<longleftrightarrow> ESC \<notin> set l \<and> no_escape ls"
  "no_escape (ls @ ls') \<longleftrightarrow> no_escape ls \<and> no_escape ls'"
  "no_escape (concat lss) \<longleftrightarrow> (\<forall>ls\<in>set lss. no_escape ls)"
  "no_escape (map f xs) \<longleftrightarrow> (\<forall>x\<in>set xs. ESC \<notin> set (f x))"
  by (auto simp: no_escape_def list_all_iff)

abbreviation shows_lines :: "string list \<Rightarrow> string list \<Rightarrow> bool" where
  "shows_lines \<equiv> list_all2 shows_text"

named_theorems shows_lines_intros

lemma shows_lines_same [shows_lines_intros]: "no_escape ls \<Longrightarrow> shows_lines ls ls"
  by (auto simp: no_escape_def list_all_iff list_all2_same intro: shows_plain)

lemma shows_lines_append [shows_lines_intros]:
  "shows_lines a b \<Longrightarrow> shows_lines a' b' \<Longrightarrow> shows_lines (a @ a') (b @ b')"
  by (rule list_all2_appendI)

lemma shows_lines_Cons [shows_lines_intros]: "shows_text l m \<Longrightarrow> shows_lines ls ms \<Longrightarrow> shows_lines (l # ls) (m # ms)"
  by simp

lemma shows_lines_if [shows_lines_intros]:
  "(P \<Longrightarrow> shows_lines a b) \<Longrightarrow> shows_lines (if P then a else []) (if P then b else [])"
  "(\<not> P \<Longrightarrow> shows_lines a b) \<Longrightarrow> shows_lines (if P then [] else a) (if P then [] else b)"
  by simp_all

lemma no_escape_if [simp]:
  "no_escape (if P then a else []) \<longleftrightarrow> (P \<longrightarrow> no_escape a)"
  "no_escape (if P then [] else a) \<longleftrightarrow> (\<not> P \<longrightarrow> no_escape a)"
  by simp_all

lemma shows_lines_concat:
  "(\<And>x. x \<in> set xs \<Longrightarrow> shows_lines (f x) (g x)) \<Longrightarrow> shows_lines (concat (map f xs)) (concat (map g xs))"
  by (induction xs) (auto intro: list_all2_appendI)

lemma shows_lines_map:
  "(\<And>x. x \<in> set xs \<Longrightarrow> shows_text (f x) (g x)) \<Longrightarrow> shows_lines (map f xs) (map g xs)"
  by (induction xs) auto

lemma literal_chars [simp]: "CHR '' '' \<noteq> ESC" "ESC \<noteq> CHR '' ''"
  by (simp_all add: ESC_def)

lemma spaces_no_escape [simp]: "ESC \<notin> set (spaces n)" "ESC \<notin> set (pad n)"
  by (auto simp: pad_def spaces_def ESC_def)

lemma paragraph_plain [simp]: "paragraph_lines (plain s) txt indent = paragraph_lines s txt indent"
  "bullet_lines (plain s) txt indent = bullet_lines s txt indent"
  "tree_line (plain s) i node = tree_line s i node"
  by (simp_all add: paragraph_lines_def bullet_lines_def tree_line_def Let_def)

lemma degradation_plain [simp]: "degradation_lines (plain s) d = degradation_lines s d"
  by (simp add: degradation_lines_def)

lemma shows_evidence_item:
  "no_escape (evidence_item_lines (plain s) w e) \<Longrightarrow>
   shows_lines (evidence_item_lines s w e) (evidence_item_lines (plain s) w e)"
  by (auto simp: evidence_item_lines_def Let_def intro!: shows_intros shows_lines_intros)

lemma shows_evidence:
  "no_escape (evidence_lines (plain s) v es) \<Longrightarrow> shows_lines (evidence_lines s v es) (evidence_lines (plain s) v es)"
  by (auto simp: evidence_lines_def Let_def intro!: shows_intros shows_lines_intros shows_lines_concat shows_evidence_item)

lemma shows_suggestions:
  "no_escape (suggestions_lines (plain s) sgs) \<Longrightarrow> shows_lines (suggestions_lines s sgs) (suggestions_lines (plain s) sgs)"
  by (induction s sgs rule: suggestions_lines.induct)
    (auto simp: suggestion_lines_def intro!: shows_intros shows_lines_intros shows_lines_map)

lemma shows_rule_line: "ESC \<notin> set (rule_line (plain s) d) \<Longrightarrow> shows_text (rule_line s d) (rule_line (plain s) d)"
  unfolding rule_line_def plain_styles by (intro shows_append shows_styles shows_plain) (simp_all add: ESC_def)

lemma shows_diagnosis:
  "no_escape (diagnosis_lines (plain s) v d first shown) \<Longrightarrow>
   shows_lines (diagnosis_lines s v d first shown) (diagnosis_lines (plain s) v d first shown)"
  unfolding diagnosis_lines_def
  by (intro shows_lines_append shows_lines_Cons shows_lines_if)
    (simp_all add: shows_styles shows_lines_same shows_evidence shows_suggestions shows_rule_line shows_plain)

lemma shows_diagnoses:
  "no_escape (diagnoses_lines (plain s) v first shown ds) \<Longrightarrow>
   shows_lines (diagnoses_lines s v first shown ds) (diagnoses_lines (plain s) v first shown ds)"
  by (induction s v first shown ds rule: diagnoses_lines.induct) (auto intro!: shows_intros shows_lines_append shows_diagnosis)

lemma shows_section:
  "no_escape (section_lines (plain s) sec) \<Longrightarrow> shows_lines (section_lines s sec) (section_lines (plain s) sec)"
  by (auto simp: section_lines_def item_line_def case_prod_beta
      intro!: shows_intros shows_lines_append shows_lines_map)

lemma shows_degradations:
  "no_escape (degradations_lines (plain s) ds) \<Longrightarrow> shows_lines (degradations_lines s ds) (degradations_lines (plain s) ds)"
  by (auto simp: degradations_lines_def intro!: shows_intros shows_lines_intros shows_lines_concat)

lemma shows_headline:
  "ESC \<notin> set (headline_line (plain s) r) \<Longrightarrow> shows_text (headline_line s r) (headline_line (plain s) r)"
  unfolding headline_line_def plain_styles
  by (intro shows_append) (auto intro: shows_styles shows_plain split: status.splits)

lemma shows_render:
  assumes "no_escape (render_lines (plain s) v r)"
  shows "shows_lines (render_lines s v r) (render_lines (plain s) v r)"
  using assms unfolding render_lines_def
  by (intro shows_lines_append shows_lines_Cons shows_lines_concat shows_lines_if)
    (simp_all add: shows_headline shows_styles shows_lines_same shows_diagnoses shows_section shows_degradations shows_plain)

text \<open>
  C19. Colour is decoration only: for every report and every style, removing the escape sequences
  from the coloured lines gives exactly the lines printed without colour, symbols, padding and
  wrapping included. The report's own texts must not contain the escape character.
\<close>

theorem color_only_decorates:
  assumes "list_all (\<lambda>l. ESC \<notin> set l) (render_lines (s\<lparr>Color := False\<rparr>) verbose report)"
  shows "map strip_ansi (render_lines s verbose report) = render_lines (s\<lparr>Color := False\<rparr>) verbose report"
proof -
  have "shows_lines (render_lines s verbose report) (render_lines (plain s) verbose report)"
    using assms by (intro shows_render) (simp add: no_escape_def)
  then show ?thesis
    by (induction rule: list_all2_induct) (auto intro: shows_strip)
qed

definition sample_report :: report where
  "sample_report = \<lparr>r_Resource = \<lparr>ref_Kind = ''Pod'', ref_Namespace = ''default'', ref_Name = ''api''\<rparr>,
     r_Status = StatusUnhealthy, r_Headline = ''Pod/api is unhealthy'', r_Diagnoses = [],
     r_Overview = [\<lparr>sec_Title = ''Containers'', sec_Items = [Item ''app'' ''CrashLoopBackOff'' ''not found''], sec_Tree = []\<rparr>],
     r_Degradations = [], r_Inspected = []\<rparr>"

lemma color_only_decorates_witness:
  "map strip_ansi (render_lines \<lparr>Color = True, Unicode = False, Width = 80\<rparr> False sample_report) =
     [''[x] Pod/api is unhealthy'', [], ''Containers'', ''  app  CrashLoopBackOff  not found'']"
proof -
  have plain: "render_lines \<lparr>Color = False, Unicode = False, Width = 80\<rparr> False sample_report =
      [''[x] Pod/api is unhealthy'', [], ''Containers'', ''  app  CrashLoopBackOff  not found'']"
    by code_simp
  show ?thesis
    using color_only_decorates [of "\<lparr>Color = True, Unicode = False, Width = 80\<rparr>" False sample_report]
    by (simp add: plain ESC_def)
qed

section \<open>What reaches the writer\<close>

lemma tr_lines_err: "tr_Err r \<noteq> None \<Longrightarrow> foldl (tr_line w) r ls = r"
  by (induction ls) (auto simp: tr_line_def tr_printf_def)

lemma tr_lines:
  assumes "\<And>out str n. w out str = (n, None) \<Longrightarrow> n = length str" and "tr_Err r = None"
  shows "prefix (tr_Written r) (tr_Written (foldl (tr_line w) r ls)) \<and>
    prefix (tr_Written (foldl (tr_line w) r ls)) (tr_Written r @ concat (map (\<lambda>l. l @ [newline]) ls)) \<and>
    (tr_Err (foldl (tr_line w) r ls) = None \<longrightarrow>
       tr_Written (foldl (tr_line w) r ls) = tr_Written r @ concat (map (\<lambda>l. l @ [newline]) ls))"
  using assms(2)
proof (induction ls arbitrary: r)
  case (Cons l ls)
  obtain n err where w: "w (tr_Written r) (l @ [newline]) = (n, err)" by fastforce
  let ?r = "r\<lparr>tr_Written := tr_Written r @ take n (l @ [newline]), tr_Err := err\<rparr>"
  have step: "foldl (tr_line w) r (l # ls) = foldl (tr_line w) ?r ls"
    using Cons.prems w by (simp add: tr_line_def tr_printf_def)
  show ?case
  proof (cases err)
    case None
    have "n = length (l @ [newline])" using assms(1) [OF w [unfolded None]] .
    then show ?thesis using Cons.IH [of ?r] None step by (auto simp: prefix_def)
  next
    case (Some e)
    have "prefix (take n (l @ [newline])) ((l @ [newline]) @ rest)" for rest
      by (rule prefix_order.trans [OF take_is_prefix]) simp
    with Some show ?thesis unfolding step by (simp add: tr_lines_err)
  qed
qed simp

text \<open>
  C36. The text output is all or a prefix: with a writer that reports an error whenever it takes
  fewer bytes than it was given, \<open>Text\<close> returns no error only when every line was written, and
  in any case what was written is the beginning of the report, with nothing after a failure.
\<close>

theorem Text_all_or_prefix:
  assumes "\<And>out str n. w out str = (n, None) \<Longrightarrow> n = length str"
  shows "(let full = concat (map (\<lambda>l. l @ [newline]) (render_lines (Style opts) (Verbose opts) report)) in
    prefix (fst (output_Text w report opts)) full \<and>
    (snd (output_Text w report opts) = None \<longrightarrow> fst (output_Text w report opts) = full))"
  using tr_lines [OF assms, where r = "\<lparr>tr_Written = [], tr_Err = None\<rparr>" and
      ls = "render_lines (Style opts) (Verbose opts) report"]
  by (simp add: output_Text_def Let_def)

text \<open>A writer that fails once ten bytes were written.\<close>

definition full_writer :: "string writer" where
  "full_writer out str = (if length out + length str \<le> 10 then (length str, None) else (10 - length out, Some ''no space left''))"

lemma Text_all_or_prefix_witness:
  "prefix (fst (output_Text full_writer sample_report \<lparr>Style = \<lparr>Color = False, Unicode = False, Width = 80\<rparr>, Verbose = False\<rparr>))
     (concat (map (\<lambda>l. l @ [newline]) (render_lines \<lparr>Color = False, Unicode = False, Width = 80\<rparr> False sample_report)))"
proof -
  have "n = length str" if "full_writer out str = (n, None)" for out str n
    using that by (simp add: full_writer_def split: if_splits)
  from Text_all_or_prefix [where w = full_writer and report = sample_report and
      opts = "\<lparr>Style = \<lparr>Color = False, Unicode = False, Width = 80\<rparr>, Verbose = False\<rparr>", OF this]
  show ?thesis by (simp add: Let_def)
qed

end
