(* ===== verification/Version.thy ===== *)
theory Version
  imports Prelude
begin

text \<open>
  Package \<open>version\<close> (\<open>version.go\<close>): the build metadata. The values injected at build time and
  what the toolchain recorded are arguments. The lemmas show when a version is canonical.
\<close>

record info =
  v_Version :: string
  v_Commit :: string
  v_BuildDate :: string
  v_GoVersion :: string
  v_Platform :: string

record build_info =
  bi_MainVersion :: string
  bi_Settings :: "(string \<times> string) list"

text \<open>The variables set with ldflags, and what the runtime says.\<close>

record build_vars =
  bv_Version :: string
  bv_Commit :: string
  bv_Date :: string
  bv_GoVersion :: string
  bv_GOOS :: string
  bv_GOARCH :: string
  bv_BuildInfo :: "build_info option"

text \<open>A number followed by the given continuation of the expression.\<close>

definition match_number :: "string \<Rightarrow> string option" where
  "match_number s = (if takeWhile is_digit s = [] then None else Some (dropWhile is_digit s))"

definition match_dot :: "string \<Rightarrow> string option" where
  "match_dot s = (case s of c # rest \<Rightarrow> (if c = CHR ''.'' then Some rest else None) | [] \<Rightarrow> None)"

definition semverRe :: "string \<Rightarrow> bool" where
  "semverRe s \<longleftrightarrow>
     Option.bind (Option.bind (Option.bind (Option.bind (match_number s) match_dot) match_number) match_dot) match_number
       \<noteq> None"

definition canonical :: "string \<Rightarrow> string" where
  "canonical version = (if semverRe version then ''v'' @ version else version)"

definition apply_setting :: "info \<Rightarrow> string \<times> string \<Rightarrow> info" where
  "apply_setting info setting =
     (if fst setting = ''vcs.revision'' then info\<lparr>v_Commit := snd setting\<rparr>
      else if fst setting = ''vcs.time'' \<and> v_BuildDate info = [] then info\<lparr>v_BuildDate := snd setting\<rparr>
      else info)"

definition applyBuildInfo :: "info \<Rightarrow> build_info \<Rightarrow> info" where
  "applyBuildInfo info build =
     (let info = (if v_Version info = ''dev'' \<and> bi_MainVersion build \<noteq> [] \<and> bi_MainVersion build \<noteq> ''(devel)''
            then info\<lparr>v_Version := canonical (bi_MainVersion build)\<rparr> else info)
      in if v_Commit info \<noteq> [] then info else foldl apply_setting info (bi_Settings build))"

definition version_Get :: "build_vars \<Rightarrow> info" where
  "version_Get vars =
     (let info = \<lparr>v_Version = canonical (bv_Version vars), v_Commit = bv_Commit vars, v_BuildDate = bv_Date vars,
            v_GoVersion = bv_GoVersion vars, v_Platform = bv_GOOS vars @ ''/'' @ bv_GOARCH vars\<rparr>
      in case bv_BuildInfo vars of Some build \<Rightarrow> applyBuildInfo info build | None \<Rightarrow> info)"

definition info_String :: "info \<Rightarrow> string" where
  "info_String i =
     ''KubeWhy '' @ v_Version i @
     (if v_Commit i \<noteq> [] then [newline] @ ''commit:   '' @ v_Commit i else []) @
     (if v_BuildDate i \<noteq> [] then [newline] @ ''built:    '' @ v_BuildDate i else []) @
     [newline] @ ''go:       '' @ v_GoVersion i @ [newline] @ ''platform: '' @ v_Platform i"

lemma semverRe_digit: "semverRe s \<Longrightarrow> s \<noteq> [] \<and> is_digit (hd s)"
  by (cases s) (auto simp: semverRe_def match_number_def split: if_splits)

lemma not_semver_v: "\<not> semverRe (CHR ''v'' # s)"
  using semverRe_digit [of "CHR ''v'' # s"] by (auto simp: is_digit_def)

lemma canonical_idem [simp]: "canonical (canonical s) = canonical s"
  by (simp add: canonical_def not_semver_v)

lemma settings_version [simp]: "v_Version (foldl apply_setting info settings) = v_Version info"
  by (induction settings arbitrary: info) (simp_all add: apply_setting_def)

lemma applyBuildInfo_version:
  "v_Version (applyBuildInfo info build) =
     (if v_Version info = ''dev'' \<and> bi_MainVersion build \<noteq> [] \<and> bi_MainVersion build \<noteq> ''(devel)''
      then canonical (bi_MainVersion build) else v_Version info)"
  by (auto simp: applyBuildInfo_def Let_def)

text \<open>The version shown is always canonical.\<close>

lemma Get_canonical: "canonical (v_Version (version_Get vars)) = v_Version (version_Get vars)"
  by (simp add: version_Get_def applyBuildInfo_version Let_def split: option.split)

end
