(* ===== verification/Cli.thy ===== *)
theory Cli
  imports Analyze KubeClient TextOutput Version
begin

text \<open>
  Package \<open>cli\<close>: the commands and their flags, error reporting (\<open>root.go\<close>), the exit codes
  (\<open>exit.go\<close>), the listing of the rules (\<open>rules.go\<close>) and the version (\<open>version.go\<close>). Parsing the
  arguments is the work of the library cobra, so what it makes of them is part of the parameter
  \<open>world\<close>, with the environment of the process. The lemmas show what an exit code means, that
  every identifier a report can carry is listed, and that registering the flags cannot panic.
\<close>

section \<open>Exit codes\<close>

definition ExitOK :: int where "ExitOK = 0"
definition ExitIssueFound :: int where "ExitIssueFound = 1"
definition ExitError :: int where "ExitError = 2"
definition ExitNotFound :: int where "ExitNotFound = 3"
definition ExitForbidden :: int where "ExitForbidden = 4"

lemmas exit_defs = ExitOK_def ExitIssueFound_def ExitError_def ExitNotFound_def ExitForbidden_def

section \<open>Listing the rules\<close>

record rule_group =
  rg_Kind :: string
  rg_Rules :: "rule_meta list"

definition ruleGroups :: "'q kube_lib \<Rightarrow> rule_group list" where
  "ruleGroups lib =
     [\<lparr>rg_Kind = ''Pod'', rg_Rules = pod_Catalog lib @ [FallbackMeta]\<rparr>,
      \<lparr>rg_Kind = ''Service'', rg_Rules = service_Catalog\<rparr>,
      \<lparr>rg_Kind = ''Deployment'', rg_Rules = deployment_Catalog\<rparr>,
      \<lparr>rg_Kind = ''StatefulSet'', rg_Rules = statefulset_Catalog\<rparr>,
      \<lparr>rg_Kind = ''Ingress'', rg_Rules = ingress_Catalog\<rparr>,
      \<lparr>rg_Kind = ''PersistentVolumeClaim'', rg_Rules = pvc_Catalog @ [pvc_FallbackMeta]\<rparr>]"

definition str_ToUpper :: "string \<Rightarrow> string" where
  "str_ToUpper = map upper_char"

definition rule_lines :: "rule_meta \<Rightarrow> string list" where
  "rule_lines m = (''  '' @ m_Title m) # map (\<lambda>id. ''    '' @ id) (rule_meta_IDs m)"

definition rules_lines :: "rule_group list \<Rightarrow> string list" where
  "rules_lines groups =
     concat (map (\<lambda>g. str_ToUpper (rg_Kind g) # concat (map rule_lines (rg_Rules g)) @ [[]]) groups)"

section \<open>The process\<close>

record options =
  o_kubeconfig :: string
  o_context :: string
  o_namespace :: string
  o_output :: string
  o_color :: string
  o_noColor :: bool
  o_verbose :: bool
  o_timeout :: duration

text \<open>
  What cobra makes of the arguments: it rejects them, it prints help or a completion itself, or
  it runs a command with the parsed flags; the root command also gets its version flag and its
  at most two arguments.
\<close>

datatype 'e command =
    BadUsage 'e
  | BuiltIn
  | RootCommand options bool "string list"
  | VersionCommand options
  | RulesCommand options

record ('r, 'q, 'e) world =
  os_Args0 :: string
  cobra :: "string list \<Rightarrow> 'e command"
  cobra_Help :: "'e option" \<comment> \<open>the error of printing the help\<close>
  w_Context :: "duration \<Rightarrow> gocontext" \<comment> \<open>the context with the given timeout\<close>
  w_Terminal :: terminal
  w_Stdout :: "'e writer"
  w_Lib :: "'q kube_lib"
  w_ClientLib :: "('r, 'q, 'e) client_lib"
  w_Errors :: "'e api_errors"
  w_JSON :: "'e json_encoder"
  w_GroupsJSON :: "rule_group list \<Rightarrow> string \<times> 'e option"
  w_InfoJSON :: "info \<Rightarrow> string \<times> 'e option"
  w_BuildVars :: build_vars
  w_HelpText :: string

text \<open>\<open>filepath.Base\<close> with the separator of Unix.\<close>

definition filepath_Base :: "string \<Rightarrow> string" where
  "filepath_Base path =
     (if path = [] then ''.''
      else
       (let path = rev (dropWhile (\<lambda>c. c = CHR ''/'') (rev path)) in
        if path = [] then ''/'' else rev (takeWhile (\<lambda>c. c \<noteq> CHR ''/'') (rev path))))"

definition binaryName :: "string \<Rightarrow> string" where
  "binaryName args0 =
     (let base = filepath_Base args0 in
      if base = [] \<or> base = ''.'' \<or> prefix ''-'' base then ''kubectl-why'' else base)"

definition invocationName :: "string \<Rightarrow> string" where
  "invocationName args0 =
     (let base = binaryName args0 in
      if prefix ''kubectl-'' base then ''kubectl '' @ drop 8 base else base)"

definition examples :: "string \<Rightarrow> string" where
  "examples block = str_Trim block [newline]"

definition longDescription :: "string \<Rightarrow> string" where
  "longDescription args0 =
     ''KubeWhy correlates the status, conditions, events and related objects of a'' @ [newline] @
     ''Kubernetes resource, and explains what they say about it.'' @ [newline] @ [newline] @
     ''It is read-only: it never modifies, restarts or deletes anything, never runs'' @ [newline] @
     ''commands inside containers, and never reads Secret contents.'' @
     [newline] @ [newline] @ ''Resources it can diagnose:'' @ [newline] @ [newline] @
     concat (map (\<lambda>r. ''  '' @ r @ [newline]) (SupportedResources kindAliases)) @
     [newline] @ ''Run '' @ [CHR 0x27] @ invocationName args0 @ '' rules'' @ [CHR 0x27] @ '' for every diagnosis it can produce.''"

definition completeArgs :: "string list \<Rightarrow> string list" where
  "completeArgs args = (if args = [] then KindAliases kindAliases else [])"

section \<open>The commands\<close>

text \<open>
  What the program registers with cobra: a flag has a name, a shorthand (empty for none), the
  text of its default and its usage; a command has its texts, the number of arguments it takes at
  most, its flags and its subcommands.
\<close>

record flag_spec =
  fl_Name :: string
  fl_Shorthand :: string
  fl_Default :: string
  fl_Usage :: string

datatype command_spec = CommandSpec
  (cmd_Use: string) (cmd_Short: string) (cmd_Long: string) (cmd_Example: string) (cmd_MaxArgs: nat)
  (cmd_PersistentFlags: "flag_spec list") (cmd_Flags: "flag_spec list") (cmd_Commands: "command_spec list")

definition newVersionCommand :: command_spec where
  "newVersionCommand = CommandSpec ''version'' ''Print version information'' [] [] 0 [] [] []"

definition newRulesCommand :: command_spec where
  "newRulesCommand =
     CommandSpec ''rules'' ''List the diagnostic rules and the identifiers they produce'' [] [] 0 [] [] []"

definition root_example :: "string \<Rightarrow> string" where
  "root_example name =
     [newline] @ ''  # Diagnose a Pod in the current namespace'' @ [newline] @
     ''  '' @ name @ '' pod api-7b89d8c9-xfd2'' @ [newline] @ [newline] @
     ''  # A Service with no ready endpoints: the backend Pods are diagnosed too'' @ [newline] @
     ''  '' @ name @ '' service payments -n production'' @ [newline] @ [newline] @
     ''  # A StatefulSet: which replica is blocking the ones after it'' @ [newline] @
     ''  '' @ name @ '' sts postgres -n production'' @ [newline] @ [newline] @
     ''  # Another cluster, and machine-readable output for scripts and CI'' @ [newline] @
     ''  '' @ name @ '' pod api-7b89d8c9-xfd2 --context prod-cluster -o json''"

definition root_persistent_flags :: "flag_spec list" where
  "root_persistent_flags =
     [\<lparr>fl_Name = ''kubeconfig'', fl_Shorthand = [], fl_Default = [], fl_Usage = ''path to the kubeconfig file to use''\<rparr>,
      \<lparr>fl_Name = ''context'', fl_Shorthand = [], fl_Default = [], fl_Usage = ''name of the kubeconfig context to use''\<rparr>,
      \<lparr>fl_Name = ''namespace'', fl_Shorthand = ''n'', fl_Default = [],
       fl_Usage = ''namespace of the resource (defaults to the context'' @ [CHR 0x27] @ ''s namespace)''\<rparr>,
      \<lparr>fl_Name = ''output'', fl_Shorthand = ''o'', fl_Default = ''text'', fl_Usage = ''output format: text or json''\<rparr>,
      \<lparr>fl_Name = ''color'', fl_Shorthand = [], fl_Default = ''auto'', fl_Usage = ''when to colour the output: auto, always or never''\<rparr>,
      \<lparr>fl_Name = ''no-color'', fl_Shorthand = [], fl_Default = ''false'', fl_Usage = ''disable coloured output (same as --color never)''\<rparr>,
      \<lparr>fl_Name = ''verbose'', fl_Shorthand = ''v'', fl_Default = ''false'', fl_Usage = ''show every piece of evidence and what KubeWhy inspected''\<rparr>,
      \<lparr>fl_Name = ''timeout'', fl_Shorthand = [], fl_Default = ''15s'', fl_Usage = ''maximum time to wait for the Kubernetes API''\<rparr>]"

definition root_local_flags :: "flag_spec list" where
  "root_local_flags =
     [\<lparr>fl_Name = ''version'', fl_Shorthand = ''V'', fl_Default = ''false'', fl_Usage = ''print version information and exit''\<rparr>]"

definition newRootCommand :: "string \<Rightarrow> command_spec" where
  "newRootCommand args0 =
     CommandSpec (binaryName args0 @ '' RESOURCE NAME'') ''Explain why a Kubernetes resource is not working''
       (longDescription args0) (examples (root_example (invocationName args0))) 2
       root_persistent_flags root_local_flags [newVersionCommand, newRulesCommand]"

text \<open>The options before a flag is read: the defaults the flags are registered with.\<close>

definition default_options :: options where
  "default_options = \<lparr>o_kubeconfig = [], o_context = [], o_namespace = [], o_output = ''text'', o_color = ''auto'',
     o_noColor = False, o_verbose = False, o_timeout = 15 * go_Second\<rparr>"

text \<open>
  Registering a flag or a shorthand twice panics, and cobra adds the flag \<open>help\<close> with the
  shorthand \<open>h\<close> to every command; the root command does not run into it.
\<close>

lemma root_flags_distinct:
  "distinct (''help'' # map fl_Name (cmd_PersistentFlags (newRootCommand args0) @ cmd_Flags (newRootCommand args0)))"
  "distinct (''h'' # filter (\<lambda>s. s \<noteq> []) (map fl_Shorthand
     (cmd_PersistentFlags (newRootCommand args0) @ cmd_Flags (newRootCommand args0))))"
  by (simp_all add: newRootCommand_def root_persistent_flags_def root_local_flags_def)

section \<open>The root command\<close>

definition colorMode :: "options \<Rightarrow> 'e go_error + color_mode" where
  "colorMode o' =
     (if o_noColor o' then Inr ColorNever
      else (case ParseColorMode (o_color o') of
              Inl value \<Rightarrow> Inl (PlainError (errUnknownColorMode_Error value))
            | Inr mode \<Rightarrow> Inr mode))"

lemma default_options_accepted: "colorMode default_options = Inr ColorAuto" "o_output default_options \<in> {''text'', ''json''}"
  by (simp_all add: colorMode_def default_options_def ParseColorMode_def ColorAuto_def)

definition lib_error :: "'e option \<Rightarrow> 'e go_error option" where
  "lib_error err = map_option LibError err"

text \<open>\<open>render\<close>: what is written and the error.\<close>

definition cli_render :: "('r, 'q, 'e) world \<Rightarrow> options \<Rightarrow> report \<Rightarrow> string \<times> 'e go_error option" where
  "cli_render w o' report =
     (if o_output o' = ''json'' then
        (let (out, err) = output_JSON (w_JSON w) (w_Stdout w) report in (out, lib_error err))
      else
       (case colorMode o' of
          Inl err \<Rightarrow> ([], Some err)
        | Inr mode \<Rightarrow>
           (let (out, err) = output_Text (w_Stdout w) report
                  \<lparr>Style = DetectStyle (w_Terminal w) mode, Verbose = o_verbose o'\<rparr>
            in (out, lib_error err))))"

text \<open>\<open>run\<close>: what is written, whether an issue was found, and the error.\<close>

definition cli_run :: "('r, 'q, 'e) world \<Rightarrow> options \<Rightarrow> string list \<Rightarrow> string \<times> bool \<times> 'e go_error option" where
  "cli_run w o' args =
     (case args of
        resource # name # _ \<Rightarrow>
         (if o_output o' \<noteq> ''text'' \<and> o_output o' \<noteq> ''json''
          then ([], False, Some (PlainError (''unknown output format '' @ quote_str (o_output o') @ '': use text or json'')))
          else
           (case colorMode o' of
              Inl err \<Rightarrow> ([], False, Some err)
            | Inr _ \<Rightarrow>
           (case ResolveKind kindAliases resource of
              Inl err \<Rightarrow> ([], False, Some err)
            | Inr kind \<Rightarrow>
           (case kube_New (w_ClientLib w) \<lparr>Kubeconfig = o_kubeconfig o', cf_Context = o_context o',
                   cf_Namespace = o_namespace o', cf_Timeout = o_timeout o'\<rparr> of
              Inl err \<Rightarrow> ([], False, Some err)
            | Inr client \<Rightarrow>
           (case Analyze (w_Lib w) (c_Clientset client) (w_Context w (o_timeout o')) kind (c_Namespace client) name of
              Inl err \<Rightarrow> ([], False, Some err)
            | Inr report \<Rightarrow>
               (let issueFound = (r_Status report = StatusUnhealthy \<or> r_Status report = StatusDegraded);
                    (out, err) = cli_render w o' report
                in (out, issueFound, err)))))))
      | _ \<Rightarrow>
         ([], False, Some (PlainError (''a resource name is required.'' @ [newline] @ [newline] @ ''Usage'' @ [newline] @ ''  '' @
            invocationName (os_Args0 w) @ '' RESOURCE NAME'' @ [newline] @ [newline] @ ''Supported resources'' @ [newline] @ ''  '' @
            str_Join ([newline] @ ''  '') (SupportedResources kindAliases)))))"

text \<open>The function \<open>RunE\<close> of each command.\<close>

definition root_RunE :: "('r, 'q, 'e) world \<Rightarrow> options \<Rightarrow> bool \<Rightarrow> string list \<Rightarrow> string \<times> bool \<times> 'e go_error option" where
  "root_RunE w o' showVersion args =
     (if showVersion then (info_String (version_Get (w_BuildVars w)) @ [newline], False, None)
      else if args = [] then (w_HelpText w, False, lib_error (cobra_Help w))
      else cli_run w o' args)"

definition rules_RunE :: "('r, 'q, 'e) world \<Rightarrow> options \<Rightarrow> string \<times> bool \<times> 'e go_error option" where
  "rules_RunE w o' =
     (if o_output o' = ''json'' then
        (let (out, err) = w_GroupsJSON w (ruleGroups (w_Lib w)) in (out, False, lib_error err))
      else (concat (map (\<lambda>l. l @ [newline]) (rules_lines (ruleGroups (w_Lib w)))), False, None))"

definition version_RunE :: "('r, 'q, 'e) world \<Rightarrow> options \<Rightarrow> string \<times> bool \<times> 'e go_error option" where
  "version_RunE w o' =
     (let info = version_Get (w_BuildVars w) in
      if o_output o' = ''json'' then (let (out, err) = w_InfoJSON w info in (out, False, lib_error err))
      else (info_String info @ [newline], False, None))"

definition ExecuteContext :: "('r, 'q, 'e) world \<Rightarrow> string list \<Rightarrow> string \<times> bool \<times> 'e go_error option" where
  "ExecuteContext w args =
     (case cobra w args of
        BadUsage e \<Rightarrow> ([], False, Some (LibError e))
      | BuiltIn \<Rightarrow> (w_HelpText w, False, None)
      | RootCommand o' showVersion rest \<Rightarrow> root_RunE w o' showVersion rest
      | VersionCommand o' \<Rightarrow> version_RunE w o'
      | RulesCommand o' \<Rightarrow> rules_RunE w o')"

section \<open>Errors\<close>

text \<open>\<open>errors.As\<close> and \<open>errors.Is\<close> look behind a wrapping error.\<close>

fun root_error :: "'e go_error \<Rightarrow> 'e go_error" where
  "root_error (WrapError msg e) = root_error e"
| "root_error e = e"

text \<open>What \<open>reportError\<close> prints to the standard error, and the exit code.\<close>

definition reportError :: "'e api_errors \<Rightarrow> 'e go_error \<Rightarrow> string \<times> int" where
  "reportError api err =
     (case root_error err of
        NotFoundError ref context \<Rightarrow> (''Error: '' @ NotFoundError_Error ref context @ [newline], ExitNotFound)
      | ForbiddenError ref context detail \<Rightarrow> (''Error: '' @ ForbiddenError_Error ref context detail @ [newline], ExitForbidden)
      | LibError e \<Rightarrow>
         (if api_DeadlineExceeded api e
          then (''Error: the Kubernetes API did not answer in time.'' @ [newline] @ [newline] @ ''Try'' @ [newline] @
             ''  raising --timeout, or checking that the cluster is reachable'' @ [newline], ExitError)
          else (''Error: '' @ go_Error api err @ [newline], ExitError))
      | _ \<Rightarrow> (''Error: '' @ go_Error api err @ [newline], ExitError))"

text \<open>What is written to the two outputs, and the exit code.\<close>

definition execute :: "('r, 'q, 'e) world \<Rightarrow> string list \<Rightarrow> string \<times> string \<times> int" where
  "execute w args =
     (let (out, issueFound, err) = ExecuteContext w args in
      case err of
        Some e \<Rightarrow> (let (msg, code) = reportError (w_Errors w) e in (out, msg, code))
      | None \<Rightarrow> (out, [], if issueFound then ExitIssueFound else ExitOK))"

definition Execute :: "('r, 'q, 'e) world \<Rightarrow> string list \<Rightarrow> string \<times> string \<times> int" where
  "Execute w args = execute w args"

text \<open>
  The program, given all of \<open>os.Args\<close>. The context that a signal cancels is the one \<open>w_Context\<close>
  derives its deadlines from. Slicing off the name of the program panics when there is none.
\<close>

definition cli_main :: "('r, 'q, 'e) world \<Rightarrow> string list \<Rightarrow> (string \<times> string \<times> int) option" where
  "cli_main w argv = (case argv of [] \<Rightarrow> None | _ # args \<Rightarrow> Some (Execute w args))"

section \<open>Every identifier is listed\<close>

definition listed_ids :: "'q kube_lib \<Rightarrow> string list" where
  "listed_ids lib = concat (map rule_meta_IDs (concat (map rg_Rules (ruleGroups lib))))"

lemma listed_in_rules: "i \<in> set (listed_ids lib) \<Longrightarrow> ''    '' @ i \<in> set (rules_lines (ruleGroups lib))"
  by (fastforce simp: listed_ids_def rules_lines_def rule_lines_def)

lemma report_ids_listed: "set report_ids \<subseteq> set (listed_ids lib)"
proof -
  have pod: "set (rule_set_ids (pod_Rules lib)) \<subseteq> set (listed_ids lib)"
    by (auto simp: listed_ids_def ruleGroups_def pod_Catalog_def rule_set_ids_def)
  have "rule_meta_IDs FallbackMeta = [IDNotReadyUnexplained]" "rule_meta_IDs pvc_FallbackMeta = [pvc_IDPending]"
    by (simp_all add: rule_meta_IDs_def FallbackMeta_def pvc_FallbackMeta_def)
  then have fallbacks: "IDNotReadyUnexplained \<in> set (listed_ids lib)" "pvc_IDPending \<in> set (listed_ids lib)"
    by (auto simp: listed_ids_def ruleGroups_def)
  have "set (rule_set_ids (service_Rules :: unit service_snap rule list)) \<subseteq> set (listed_ids lib)"
    "set (rule_set_ids (deployment_Rules :: unit deployment_snap rule list)) \<subseteq> set (listed_ids lib)"
    "set (rule_set_ids (statefulset_Rules :: unit stateful_set_snap rule list)) \<subseteq> set (listed_ids lib)"
    "set (rule_set_ids (ingress_Rules :: unit ingress_snap rule list)) \<subseteq> set (listed_ids lib)"
    "set (rule_set_ids (pvc_Rules :: unit pvc_snap rule list)) \<subseteq> set (listed_ids lib)"
    by (auto simp: listed_ids_def ruleGroups_def service_Catalog_def deployment_Catalog_def statefulset_Catalog_def
        ingress_Catalog_def pvc_Catalog_def rule_set_ids_def)
  with pod fallbacks show ?thesis
    by (auto simp: report_ids_def service_report_ids_def deployment_report_ids_def statefulset_report_ids_def
        ingress_report_ids_def pvc_report_ids_def rule_set_ids_pod)
qed

text \<open>
  C5. Every finding of every report, whatever the kind analysed, can be looked up and checked by
  the user: its identifier is a line of what the \<open>rules\<close> command prints, it has a known severity
  and confidence, a summary and evidence, and every command it suggests only reads.
\<close>

theorem every_finding_listed:
  assumes "Analyze lib cl ctx kind ns name = Inr r" and "d \<in> set (r_Diagnoses r)"
  shows "''    '' @ d_ID d \<in> set (rules_lines (ruleGroups lib)) \<and>
    known_severity (d_Severity d) \<and> known_confidence (d_Confidence d) \<and> d_Summary d \<noteq> [] \<and> d_Evidence d \<noteq> [] \<and>
    read_only_suggestions (d_Suggestions d)"
proof -
  have "finding_ok report_ids d"
    using Analyze_ok(1) [OF assms(1)] assms(2) by (simp add: findings_ok_def list_all_iff)
  then show ?thesis
    using report_ids_listed listed_in_rules by (fastforce simp: finding_ok_def)
qed

lemma every_finding_listed_witness:
  "\<exists>r d. Analyze int_lib (sample_client [ps_Pod oom_pod]) None KindPod ''default'' ''web'' = Inr r \<and>
     d \<in> set (r_Diagnoses r) \<and> ''    '' @ d_ID d \<in> set (rules_lines (ruleGroups int_lib))"
  using oom_cluster_reported every_finding_listed by blast

section \<open>What an exit code means\<close>

text \<open>The analysis a command line asks for: the kind, the client, the namespace and the name.\<close>

definition requested ::
  "('r, 'q, 'e) world \<Rightarrow> string list \<Rightarrow> (options \<times> kind \<times> ('q, 'e) client \<times> string) option" where
  "requested w args =
     (case cobra w args of
        RootCommand o' False (resource # name # _) \<Rightarrow>
         (if o_output o' \<noteq> ''text'' \<and> o_output o' \<noteq> ''json'' then None
          else
           (case (colorMode o' :: 'e go_error + color_mode, ResolveKind kindAliases resource :: 'e go_error + kind,
              kube_New (w_ClientLib w) \<lparr>Kubeconfig = o_kubeconfig o', cf_Context = o_context o',
                   cf_Namespace = o_namespace o', cf_Timeout = o_timeout o'\<rparr>) of
              (Inr _, Inr kind, Inr client) \<Rightarrow> Some (o', kind, client, name)
            | _ \<Rightarrow> None))
      | _ \<Rightarrow> None)"

definition asked :: "('r, 'q, 'e) world \<Rightarrow> options \<times> kind \<times> ('q, 'e) client \<times> string \<Rightarrow> 'e go_error + report" where
  "asked w q =
     (case q of (o', kind, client, name) \<Rightarrow>
        Analyze (w_Lib w) (c_Clientset client) (w_Context w (o_timeout o')) kind (c_Namespace client) name)"

text \<open>An error that is neither of the two typed ones about the resource.\<close>

fun other_error :: "'e go_error \<Rightarrow> bool" where
  "other_error (NotFoundError _ _) = False"
| "other_error (ForbiddenError _ _ _) = False"
| "other_error (WrapError _ e) = other_error e"
| "other_error _ = True"

lemma reportError_other: "other_error e \<Longrightarrow> snd (reportError api e) = ExitError"
proof -
  have "root_error e = root_error e \<and> (other_error e \<longleftrightarrow> other_error (root_error e)) \<and> (\<forall>m x. root_error e \<noteq> WrapError m x)"
    by (induction e) auto
  then show "snd (reportError api e) = ExitError" if "other_error e"
    using that by (cases "root_error e") (auto simp: reportError_def)
qed

lemma setup_errors:
  "colorMode o' = Inl e \<Longrightarrow> other_error e"
  "ResolveKind aliases arg = Inl e \<Longrightarrow> other_error e"
  "kube_New clib flags = Inl e \<Longrightarrow> other_error e"
  "lib_error x = Some e \<Longrightarrow> other_error e"
  by (auto simp: colorMode_def ResolveKind_def kube_New_def configError_def lib_error_def Let_def split: sum.splits if_splits option.splits)

lemma cli_render_error: "snd (cli_render w o' r) = Some e \<Longrightarrow> other_error e"
  by (auto simp: cli_render_def case_prod_beta Let_def intro: setup_errors split: if_splits sum.splits)

text \<open>A command line that does not lead to an analysis ends with success or with the plain error code.\<close>

lemma not_requested:
  assumes "requested w args = None"
  shows "fst (snd (ExecuteContext w args)) = False"
    "snd (snd (ExecuteContext w args)) = Some e \<Longrightarrow> other_error e"
  using assms
  by (auto simp: requested_def ExecuteContext_def root_RunE_def cli_run_def version_RunE_def rules_RunE_def case_prod_beta Let_def
      intro: setup_errors split: command.splits list.splits bool.splits if_splits sum.splits)

lemma requested_Some:
  fixes w :: "('r, 'q, 'e) world"
  assumes "requested w args = Some (o', kind, client, name)"
  obtains resource rest mode where
    "cobra w args = RootCommand o' False (resource # name # rest)" "o_output o' = ''text'' \<or> o_output o' = ''json''"
    "(colorMode o' :: 'e go_error + color_mode) = Inr mode" "(ResolveKind kindAliases resource :: 'e go_error + kind) = Inr kind"
    "kube_New (w_ClientLib w) \<lparr>Kubeconfig = o_kubeconfig o', cf_Context = o_context o',
       cf_Namespace = o_namespace o', cf_Timeout = o_timeout o'\<rparr> = Inr client"
  using assms unfolding requested_def
  by (auto split: command.splits list.splits bool.splits if_splits sum.splits)

lemma ResolveKind_supported: "ResolveKind kindAliases resource = Inr kind \<Longrightarrow> kind \<in> set supported_kinds"
  by (auto simp: ResolveKind_def supported_kinds_aliases dest!: map_of_SomeD split: option.splits intro: rev_image_eqI)

lemma requested_run:
  fixes w :: "('r, 'q, 'e) world"
  assumes "requested w args = Some (o', kind, client, name)"
  shows "ExecuteContext w args =
      (case asked w (o', kind, client, name) of
         Inl err \<Rightarrow> ([], False, Some err)
       | Inr r \<Rightarrow> (fst (cli_render w o' r), r_Status r = StatusUnhealthy \<or> r_Status r = StatusDegraded, snd (cli_render w o' r)))"
    "kind \<in> set supported_kinds"
proof -
  obtain resource rest mode where q: "cobra w args = RootCommand o' False (resource # name # rest)"
    "o_output o' = ''text'' \<or> o_output o' = ''json''" "(colorMode o' :: 'e go_error + color_mode) = Inr mode"
    "(ResolveKind kindAliases resource :: 'e go_error + kind) = Inr kind"
    "kube_New (w_ClientLib w) \<lparr>Kubeconfig = o_kubeconfig o', cf_Context = o_context o',
       cf_Namespace = o_namespace o', cf_Timeout = o_timeout o'\<rparr> = Inr client"
    using requested_Some [OF assms] by blast
  then show "kind \<in> set supported_kinds" by (blast intro: ResolveKind_supported)
  have "\<not> (o_output o' \<noteq> ''text'' \<and> o_output o' \<noteq> ''json'')" using q(2) by blast
  then have "ExecuteContext w args = cli_run w o' (resource # name # rest)" and
    "cli_run w o' (resource # name # rest) = (case asked w (o', kind, client, name) of
         Inl err \<Rightarrow> ([], False, Some err)
       | Inr r \<Rightarrow> (let (out, err) = cli_render w o' r in (out, r_Status r = StatusUnhealthy \<or> r_Status r = StatusDegraded, err)))"
    by (simp_all only: q ExecuteContext_def command.case root_RunE_def cli_run_def asked_def list.case sum.case prod.case
        Let_def if_False list.distinct)
  then show "ExecuteContext w args =
      (case asked w (o', kind, client, name) of
         Inl err \<Rightarrow> ([], False, Some err)
       | Inr r \<Rightarrow> (fst (cli_render w o' r), r_Status r = StatusUnhealthy \<or> r_Status r = StatusDegraded, snd (cli_render w o' r)))"
    by (simp add: case_prod_beta Let_def split: sum.split)
qed

lemma reportError_primary:
  "snd (reportError api (primary_error cl e ref)) =
     (if api_IsNotFound (cl_Errors cl) e then ExitNotFound
      else if api_IsForbidden (cl_Errors cl) e \<or> api_IsUnauthorized (cl_Errors cl) e then ExitForbidden
      else ExitError)"
  by (simp add: primary_error_cases reportError_def)

lemma execute_code:
  "snd (snd (execute w args)) =
     (case snd (snd (ExecuteContext w args)) of
        Some e \<Rightarrow> snd (reportError (w_Errors w) e)
      | None \<Rightarrow> if fst (snd (ExecuteContext w args)) then ExitIssueFound else ExitOK)"
  by (simp add: execute_def case_prod_beta Let_def split: option.split)

lemma exit_not_requested:
  "requested w args = None \<Longrightarrow> snd (snd (execute w args)) \<in> {ExitOK, ExitError}"
  using not_requested [of w args] by (auto simp: execute_code reportError_other split: option.split)

lemma exit_requested:
  assumes "requested w args = Some (o', kind, client, name)"
  shows "snd (snd (execute w args)) =
    (case asked w (o', kind, client, name) of
       Inl err \<Rightarrow> snd (reportError (w_Errors w) err)
     | Inr r \<Rightarrow> if snd (cli_render w o' r) \<noteq> None then ExitError
         else if r_Status r = StatusUnhealthy \<or> r_Status r = StatusDegraded then ExitIssueFound else ExitOK)"
  unfolding execute_code requested_run(1) [OF assms]
  by (auto simp: reportError_other cli_render_error split: sum.split option.split)

text \<open>
  C1. The exit code, which scripts rely on. A command line that asks for no analysis never ends
  with the codes for an issue, a missing or a forbidden resource. One that does ends with the
  code for missing exactly when the API server answered that the resource itself does not exist,
  with the code for forbidden when the server refused to show it, and with the plain error code
  for any other failure of that read. Once the resource was read, failures of related reads do
  not matter: the code says whether the report's verdict is unhealthy or degraded, unless
  writing the report failed.
\<close>

theorem exit_code_meaning:
  "case requested w args of
     None \<Rightarrow> snd (snd (execute w args)) = ExitOK \<or> snd (snd (execute w args)) = ExitError
   | Some (o', kind, client, name) \<Rightarrow>
      (let cl = c_Clientset client; api = cl_Errors cl in
       case primary_read cl kind (c_Namespace client) name of
         Some e \<Rightarrow> snd (snd (execute w args)) =
           (if api_IsNotFound api e then ExitNotFound
            else if api_IsForbidden api e \<or> api_IsUnauthorized api e then ExitForbidden
            else ExitError)
       | None \<Rightarrow> (\<exists>r. Analyze (w_Lib w) cl (w_Context w (o_timeout o')) kind (c_Namespace client) name = Inr r \<and>
           snd (snd (execute w args)) =
             (if snd (cli_render w o' r) \<noteq> None then ExitError
              else if r_Status r = StatusUnhealthy \<or> r_Status r = StatusDegraded then ExitIssueFound
              else ExitOK)))"
proof (cases "requested w args")
  case None
  then show ?thesis using exit_not_requested [of w args] by simp
next
  case (Some q)
  obtain o' kind client name where q: "q = (o', kind, client, name)" by (cases q)
  note req = Some [unfolded q]
  note kind = requested_run(2) [OF req]
  let ?cl = "c_Clientset client" and ?ns = "c_Namespace client"
  show ?thesis
  proof (cases "primary_read ?cl kind ?ns name")
    case (Some e)
    then show ?thesis
      by (simp add: req exit_requested [OF req] asked_def Analyze_fails [OF kind Some] reportError_primary)
  next
    case None
    then obtain r where "Analyze (w_Lib w) ?cl (w_Context w (o_timeout o')) kind ?ns name = Inr r"
      using Analyze_succeeds [OF kind] by blast
    then show ?thesis by (simp add: req None exit_requested [OF req] asked_def)
  qed
qed

end
