(* ===== verification/Causes.thy ===== *)
theory Causes
  imports Analyze
begin

text \<open>
  Where the findings of a report come from, end to end. A finding about a missing object is traced
  back to the API server's answer, and the cause a finding names is always a finding of the same
  report. The second needs what the collectors promise about claims and storage classes, and
  that only three Pod rules and one claim rule ever name a cause.
\<close>

section \<open>Findings that name no cause\<close>

definition uncaused :: "diagnosis list \<Rightarrow> bool" where
  "uncaused ds \<longleftrightarrow> list_all (\<lambda>d. d_CausedBy d = []) ds"

lemma uncaused_simps [simp]:
  "uncaused []" "uncaused (d # ds) \<longleftrightarrow> d_CausedBy d = [] \<and> uncaused ds"
  "uncaused (ds @ ds') \<longleftrightarrow> uncaused ds \<and> uncaused ds'"
  by (simp_all add: uncaused_def)

lemma uncaused_concat: "(\<And>x. x \<in> set xs \<Longrightarrow> uncaused (f x)) \<Longrightarrow> uncaused (concat (map f xs))"
  by (induction xs) auto

lemma uncaused_map: "(\<And>x. x \<in> set xs \<Longrightarrow> d_CausedBy (f x) = []) \<Longrightarrow> uncaused (map f xs)"
  by (induction xs) auto

lemma uncaused_Prioritize [simp]: "uncaused (Prioritize ds) = uncaused ds"
  by (simp add: uncaused_def list_all_iff)

named_theorems uncaused_rules

lemma uncaused_containers [uncaused_rules]:
  "uncaused (evaluateOOM lib snap)" "uncaused (evaluateCrashLoop snap)" "uncaused (evaluateRestartHistory snap)"
  "uncaused (evaluateTerminated snap)"
proof -
  have "uncaused (oom_container lib snap c)" "uncaused (crash_loop_container snap c)" "uncaused (restart_container snap c)"
    "uncaused (terminated_container snap c)" for c
    by (simp_all add: oom_container_def crash_loop_container_def restart_container_def terminated_container_def Let_def
        cong: finding_cong split: option.split)
  moreover have "evictionDiagnosis snap = Some d \<Longrightarrow> d_CausedBy d = []" for d
    by (auto simp: evictionDiagnosis_def Let_def cong: finding_cong split: if_splits)
  ultimately show "uncaused (evaluateOOM lib snap)" "uncaused (evaluateCrashLoop snap)"
    "uncaused (evaluateRestartHistory snap)" "uncaused (evaluateTerminated snap)"
    by (auto simp: evaluateOOM_def evaluateCrashLoop_def evaluateRestartHistory_def evaluateTerminated_def Let_def
        uncaused_concat split: option.split)
qed

lemma uncaused_images [uncaused_rules]: "uncaused (evaluateImagePull snap)"
proof -
  have "uncaused (image_pull_container snap c)" for c
    by (simp add: image_pull_container_def Let_def cong: finding_cong split: option.split)
  then show ?thesis by (simp add: evaluateImagePull_def uncaused_concat)
qed

lemma uncaused_probes [uncaused_rules]: "uncaused (evaluateProbes lib snap)"
proof -
  have "d_CausedBy (probeDiagnosis lib snap ev kind ident c known) = []" for ev kind ident c known
    by (simp add: probeDiagnosis_def Let_def cong: finding_cong)
  then have "d_CausedBy (probe_finding lib snap hit) = []" for hit
    by (simp add: probe_finding_def case_prod_beta split: option.split)
  then show ?thesis by (simp add: evaluateProbes_def uncaused_map)
qed

lemma uncaused_claims [uncaused_rules]: "uncaused (evaluateClaims snap)" "uncaused (evaluateNode snap)"
proof -
  have "uncaused (claim_findings snap name)" for name
    by (simp add: claim_findings_def missing_claim_diagnosis_def unboundClaimDiagnosis_def Let_def
        cong: finding_cong split: option.split)
  then show "uncaused (evaluateClaims snap)" "uncaused (evaluateNode snap)"
    by (simp_all add: evaluateClaims_def evaluateNode_def Let_def uncaused_concat cong: finding_cong split: option.split)
qed

lemma uncaused_Fallback [uncaused_rules]: "uncaused (Fallback snap)" "uncaused (pvc_Fallback v)"
  by (simp_all add: Fallback_def pvc_Fallback_def Let_def cong: finding_cong)

lemma uncaused_service [uncaused_rules]:
  "uncaused (evaluateSelector s)" "uncaused (evaluateEndpoints s)" "uncaused (evaluateTargetPorts s)"
proof -
  have "uncaused (target_port_finding s declared port)" for declared port
    by (simp add: target_port_finding_def Let_def cong: finding_cong split: intstr.split)
  then show "uncaused (evaluateSelector s)" "uncaused (evaluateEndpoints s)" "uncaused (evaluateTargetPorts s)"
    by (simp_all add: evaluateSelector_def no_endpoints_finding_def no_matching_pods_finding_def evaluateEndpoints_def
        no_ready_endpoints_finding_def some_endpoints_finding_def evaluateTargetPorts_def Let_def uncaused_concat cong: finding_cong)
qed

lemma uncaused_deployment [uncaused_rules]:
  "uncaused (evaluateIntent d)" "uncaused (evaluateConditions d)" "uncaused (deployment_evaluateAvailability d)"
  by (simp_all add: evaluateIntent_def scaled_to_zero_finding_def paused_finding_def evaluateConditions_def
      replica_failure_finding_def deadline_finding_def rollout_finding_def deployment_evaluateAvailability_def
      unavailable_finding_def Let_def cong: finding_cong split: option.split)

lemma uncaused_statefulset [uncaused_rules]:
  "uncaused (evaluateOrdering t)" "uncaused (statefulset_evaluateClaims t)" "uncaused (evaluateService t)"
  "uncaused (evaluateUpdateStrategy t)" "uncaused (statefulset_evaluateAvailability t)"
proof -
  have "uncaused (statefulset_claim_findings t name)" for name
    by (simp add: statefulset_claim_findings_def statefulset_missing_claim_def statefulset_unbound_claim_def Let_def
        cong: finding_cong split: option.split)
  then show "uncaused (statefulset_evaluateClaims t)"
    by (simp add: statefulset_evaluateClaims_def uncaused_concat)
qed (simp_all add: evaluateOrdering_def ordering_finding_def evaluateService_def governing_missing_finding_def
    not_headless_finding_def evaluateUpdateStrategy_def statefulset_scaled_finding_def on_delete_finding_def
    partition_finding_def statefulset_evaluateAvailability_def statefulset_gap_finding_def Let_def
    cong: finding_cong split: option.split)

lemma uncaused_ingress [uncaused_rules]:
  "uncaused (evaluateBackends i)" "uncaused (evaluateClass i)" "uncaused (evaluateAddress i)"
proof -
  have "portDiagnosis i service paths = Some d \<Longrightarrow> d_CausedBy d = []"
    "endpointDiagnosis i service paths = Some d \<Longrightarrow> d_CausedBy d = []" for service paths d
    by (auto simp: portDiagnosis_def endpointDiagnosis_def Let_def cong: finding_cong split: if_splits option.splits)
  then have "uncaused (backend_findings i name)" for name
    by (auto simp: backend_findings_def missingServiceDiagnosis_def Let_def cong: finding_cong split: option.split)
  then show "uncaused (evaluateBackends i)"
    by (simp add: evaluateBackends_def no_rules_finding_def Let_def uncaused_concat cong: finding_cong)
qed (simp_all add: evaluateClass_def class_missing_finding_def no_class_finding_def evaluateAddress_def
    no_address_finding_def Let_def cong: finding_cong)

lemma uncaused_pvc [uncaused_rules]:
  "uncaused (evaluateStorageClass v)" "uncaused (evaluateConsumers v)" "uncaused (evaluateLost v)"
  by (simp_all add: evaluateStorageClass_def class_not_found_finding_def no_default_class_finding_def evaluateConsumers_def
      no_consumer_finding_def waiting_finding_def evaluateLost_def Let_def
      cong: finding_cong split: list.split)

section \<open>The causes a Pod report names\<close>

definition explained :: "diagnosis list \<Rightarrow> bool" where
  "explained ds \<longleftrightarrow> (\<forall>d\<in>set ds. d_CausedBy d = [] \<or> d_CausedBy d \<in> d_ID ` set ds)"

lemma explained_uncaused: "uncaused ds \<Longrightarrow> explained ds"
  by (simp add: explained_def uncaused_def list_all_iff)

lemma explained_Prioritize [simp]: "explained (Prioritize ds) = explained ds"
  by (simp add: explained_def)

text \<open>What a collected snapshot promises about its claims.\<close>

definition claims_known :: "pvc_ref gomap \<Rightarrow> bool" where
  "claims_known claims \<longleftrightarrow>
     gomap_ok claims \<and> (\<forall>(name, claim)\<in>set claims. pr_Phase claim = ''Pending'' \<longrightarrow> pr_Exists claim = Found)"

lemma claims_reported:
  assumes "\<not> Pod_IsTerminal snap" and "gomap_ok (ps_PVCs snap)" and "(name, claim) \<in> set (ps_PVCs snap)"
  shows "pr_Exists claim = Missing \<Longrightarrow> IDPVCNotFound \<in> d_ID ` set (evaluateClaims snap)"
    "pr_Exists claim = Found \<Longrightarrow> pr_Phase claim \<noteq> ''Bound'' \<Longrightarrow> IDPVCNotBound \<in> d_ID ` set (evaluateClaims snap)"
proof -
  have "map_of (ps_PVCs snap) name = Some claim" using assms(2,3) by (simp add: gomap_ok_def)
  moreover have "d_ID (missing_claim_diagnosis snap name) = IDPVCNotFound" "d_ID (unboundClaimDiagnosis snap claim) = IDPVCNotBound"
    by (simp_all add: missing_claim_diagnosis_def unboundClaimDiagnosis_def Let_def cong: finding_cong)
  moreover have "d_ID ` set (claim_findings snap name) \<subseteq> d_ID ` set (evaluateClaims snap)"
    using assms(1,3) by (force simp: evaluateClaims_def)
  ultimately show "pr_Exists claim = Missing \<Longrightarrow> IDPVCNotFound \<in> d_ID ` set (evaluateClaims snap)"
    "pr_Exists claim = Found \<Longrightarrow> pr_Phase claim \<noteq> ''Bound'' \<Longrightarrow> IDPVCNotBound \<in> d_ID ` set (evaluateClaims snap)"
    by (auto simp: claim_findings_def)
qed

lemma missing_reported:
  "missingNames (ps_ConfigMaps snap) \<noteq> [] \<Longrightarrow> IDMissingConfigMap \<in> d_ID ` set (evaluateConfigRefs snap)"
  "missingNames (ps_Secrets snap) \<noteq> [] \<Longrightarrow> IDMissingSecret \<in> d_ID ` set (evaluateConfigRefs snap)"
proof -
  have ident: "d_ID (missingObjectDiagnosis snap i kind name) = i" for i kind name
    by (simp add: missingObjectDiagnosis_def cong: finding_cong)
  then show "missingNames (ps_ConfigMaps snap) \<noteq> [] \<Longrightarrow> IDMissingConfigMap \<in> d_ID ` set (evaluateConfigRefs snap)"
    "missingNames (ps_Secrets snap) \<noteq> [] \<Longrightarrow> IDMissingSecret \<in> d_ID ` set (evaluateConfigRefs snap)"
    by (cases "missingNames (ps_ConfigMaps snap)"; cases "missingNames (ps_Secrets snap)";
        simp add: evaluateConfigRefs_def Let_def image_Un ident)+
qed

lemma referencesAny_Nil [simp]: "\<not> referencesAny msg []"
  by (simp add: referencesAny_def list_ex_iff)

lemma config_causes:
  assumes "d \<in> set (evaluateConfigRefs snap)" and "d_CausedBy d \<noteq> []"
  shows "d_CausedBy d \<in> d_ID ` set (evaluateConfigRefs snap)"
proof -
  have "d_CausedBy (missingObjectDiagnosis snap i kind name) = []" for i kind name
    by (simp add: missingObjectDiagnosis_def cong: finding_cong)
  with assms obtain c where "d \<in> set (config_error_container snap (missingNames (ps_ConfigMaps snap))
      (missingNames (ps_Secrets snap)) c)"
    by (auto simp: evaluateConfigRefs_def Let_def)
  then obtain msg where "d_CausedBy d = config_error_cause msg (missingNames (ps_ConfigMaps snap)) (missingNames (ps_Secrets snap))"
    by (auto simp: config_error_container_def cong: finding_cong split: option.splits if_splits)
  then show ?thesis
    using assms(2) missing_reported [of snap] referencesAny_Nil [of msg]
    by (cases "missingNames (ps_ConfigMaps snap)"; cases "missingNames (ps_Secrets snap)")
      (auto simp: config_error_cause_def split: if_splits)
qed

lemma mount_causes_found:
  assumes "d \<in> set (evaluateMounts snap)" and "d_CausedBy d \<noteq> []" and "claims_known (ps_PVCs snap)"
  shows "d_CausedBy d \<in> d_ID ` (set (evaluateConfigRefs snap) \<union> set (evaluateClaims snap))"
proof -
  from assms(1) have d: "d_CausedBy d = mount_cause snap" "\<not> Pod_IsTerminal snap"
    by (auto simp: evaluateMounts_def Let_def cong: finding_cong split: option.splits if_splits)
  have "IDPVCNotFound \<in> d_ID ` set (evaluateClaims snap)" if "x \<in> set (ps_PVCs snap)" "pr_Exists (snd x) = Missing" for x
    using claims_reported(1) [OF d(2), of "fst x" "snd x"] that assms(3) by (simp add: claims_known_def)
  then show ?thesis
    using assms(2) missing_reported [of snap] unfolding d mount_cause_eq by (auto split: if_splits)
qed

lemma scheduling_causes:
  assumes "d \<in> set (evaluateScheduling lib snap)" and "d_CausedBy d \<noteq> []" and "claims_known (ps_PVCs snap)"
  shows "d_CausedBy d \<in> d_ID ` set (evaluateClaims snap)"
proof -
  have "d_CausedBy (gatedDiagnosis snap) = []"
    by (simp add: gatedDiagnosis_def cong: finding_cong)
  moreover have "d_CausedBy (unschedulable_diagnosis lib snap msg src) \<in> {[], claim_cause (ps_PVCs snap)}" for msg src
    by (simp add: unschedulable_diagnosis_def Let_def cong: finding_cong)
  ultimately have d: "d_CausedBy d = claim_cause (ps_PVCs snap)" "\<not> Pod_IsTerminal snap"
    using assms(1,2) by (fastforce simp: evaluateScheduling_def case_prod_beta Let_def split: if_splits)+
  have "IDPVCNotFound \<in> d_ID ` set (evaluateClaims snap)" if "x \<in> set (ps_PVCs snap)" "pr_Exists (snd x) = Missing" for x
    using claims_reported(1) [OF d(2), of "fst x" "snd x"] that assms(3) by (simp add: claims_known_def)
  moreover have "IDPVCNotBound \<in> d_ID ` set (evaluateClaims snap)" if "x \<in> set (ps_PVCs snap)" "pr_Phase (snd x) = ''Pending''" for x
    using claims_reported(2) [OF d(2), of "fst x" "snd x"] that assms(3) by (auto simp: claims_known_def)
  ultimately show ?thesis using assms(2) claim_cause_cases [of "ps_PVCs snap"] unfolding d by auto
qed

lemma pod_rules_explained:
  assumes "claims_known (ps_PVCs snap)"
  shows "explained (rule_findings (pod_Rules lib) snap)"
proof -
  let ?all = "set (rule_findings (pod_Rules lib) snap)"
  have parts: "?all = set (evaluateOOM lib snap) \<union> set (evaluateCrashLoop snap) \<union> set (evaluateTerminated snap) \<union>
      set (evaluateImagePull snap) \<union> set (evaluateScheduling lib snap) \<union> set (evaluateProbes lib snap) \<union>
      set (evaluateConfigRefs snap) \<union> set (evaluateMounts snap) \<union> set (evaluateClaims snap) \<union>
      set (evaluateNode snap) \<union> set (evaluateRestartHistory snap)"
    by (simp add: rule_findings_def pod_Rules_def pod_rule_defs Un_ac)
  have "d_CausedBy d = []" if "d \<in> set ds" "uncaused ds" for d ds
    using that by (simp add: uncaused_def list_all_iff)
  note this [OF _ uncaused_containers(1)] this [OF _ uncaused_containers(2)] this [OF _ uncaused_containers(3)]
    this [OF _ uncaused_containers(4)] this [OF _ uncaused_images] this [OF _ uncaused_probes]
    this [OF _ uncaused_claims(1)] this [OF _ uncaused_claims(2)]
  then have "d \<in> set (evaluateScheduling lib snap) \<union> set (evaluateConfigRefs snap) \<union> set (evaluateMounts snap)"
    if "d \<in> ?all" "d_CausedBy d \<noteq> []" for d
    using that unfolding parts by blast
  then have "d_CausedBy d \<in> d_ID ` (set (evaluateConfigRefs snap) \<union> set (evaluateClaims snap))"
    if "d \<in> ?all" "d_CausedBy d \<noteq> []" for d
    using that scheduling_causes [OF _ _ assms] config_causes mount_causes_found [OF _ _ assms] by blast
  then show ?thesis unfolding explained_def parts by blast
qed

section \<open>Reports about a workload\<close>

text \<open>The snapshots of the Pods behind a workload hold no related objects.\<close>

definition bare :: "'q pod_snap \<Rightarrow> bool" where
  "bare snap \<longleftrightarrow> ps_ConfigMaps snap = [] \<and> ps_Secrets snap = [] \<and> ps_PVCs snap = []"

lemma bare_uncaused:
  assumes "bare snap"
  shows "uncaused (rule_findings (pod_Rules lib) snap)"
proof -
  have known: "claims_known (ps_PVCs snap)" using assms by (simp add: bare_def claims_known_def gomap_ok_def)
  have "uncaused (evaluateConfigRefs snap)"
    using assms by (auto simp: bare_def evaluateConfigRefs_def missingNames_def config_error_container_def
        config_error_cause_def Let_def intro!: uncaused_concat cong: finding_cong split: option.split)
  moreover have "uncaused (evaluateMounts snap)"
    using assms by (auto simp: bare_def evaluateMounts_def mount_cause_def missingNames_def Let_def
        cong: finding_cong split: option.split)
  moreover have "uncaused (evaluateScheduling lib snap)"
  proof -
    have "set (evaluateClaims snap) = {}" using assms by (simp add: bare_def evaluateClaims_def)
    then show ?thesis
      using scheduling_causes [OF _ _ known, of _ lib] by (auto simp: uncaused_def list_all_iff)
  qed
  ultimately show ?thesis
    by (simp add: rule_findings_def pod_Rules_def pod_rule_defs uncaused_rules)
qed

lemma uncaused_subset: "uncaused ds \<Longrightarrow> set ds' \<subseteq> set ds \<Longrightarrow> uncaused ds'"
  by (auto simp: uncaused_def list_all_iff)

lemma bare_Evaluate: "bare snap \<Longrightarrow> uncaused (fst (Evaluate ctx (pod_Rules lib) snap))"
  by (rule uncaused_subset [OF bare_uncaused Evaluate_subset])

lemma aggregated_loop_uncaused:
  "list_all bare pods \<Longrightarrow> uncaused out \<Longrightarrow> uncaused (fst (aggregated_loop lib ctx pods out))"
  by (induction pods arbitrary: ctx out)
    (simp_all add: pod_findings_def case_prod_beta Let_def bare_Evaluate uncaused_Fallback)

lemma statefulset_pod_loop_uncaused:
  "list_all bare pods \<Longrightarrow> uncaused out \<Longrightarrow> uncaused (fst (statefulset_pod_loop lib names ctx pods out))"
  by (induction pods arbitrary: ctx out) (simp_all add: case_prod_beta Let_def bare_Evaluate uncaused_Fallback)

lemma AggregateByRule_uncaused:
  assumes "uncaused ds"
  shows "uncaused (AggregateByRule ds tot)"
proof -
  have "d_CausedBy d = []" if d: "d \<in> set (AggregateByRule ds tot)" for d
  proof -
    obtain x xs where x: "filter (\<lambda>y. agg_key y = agg_key d) ds = x # xs" "d = collapsed tot x xs"
      using AggregateByRule_entry [OF d] by blast
    then have "x \<in> set ds" by (metis filter_is_subset list.set_intros(1) subsetD)
    with x(2) assms show ?thesis by (simp add: collapsed_def uncaused_def list_all_iff)
  qed
  then show ?thesis by (simp add: uncaused_def list_all_iff)
qed

lemma workload_findings_uncaused:
  "list_all bare pods \<Longrightarrow> uncaused (fst (Aggregated lib ctx pods))"
  "list_all bare (backends s) \<Longrightarrow> uncaused (fst (BackendFindings lib ctx s))"
  "list_all bare (st_Pods t) \<Longrightarrow> uncaused (fst (statefulset_PodFindings lib ctx t))"
proof -
  show agg: "uncaused (fst (Aggregated lib ctx pods))" if "list_all bare pods" for pods
    using that by (simp add: Aggregated_def case_prod_beta Let_def AggregateByRule_uncaused aggregated_loop_uncaused)
  show "uncaused (fst (BackendFindings lib ctx s))" if "list_all bare (backends s)"
    using agg [OF that] by (auto simp: BackendFindings_def case_prod_beta Let_def soften_def uncaused_def list_all_iff)
  show "uncaused (fst (statefulset_PodFindings lib ctx t))" if "list_all bare (st_Pods t)"
    using that by (simp add: statefulset_PodFindings_def case_prod_beta Let_def AggregateByRule_uncaused statefulset_pod_loop_uncaused)
qed

lemma own_rules_uncaused:
  "uncaused (fst (Evaluate ctx service_Rules s))" "uncaused (fst (Evaluate ctx deployment_Rules d))"
  "uncaused (fst (Evaluate ctx statefulset_Rules t))" "uncaused (fst (Evaluate ctx ingress_Rules i))"
  by (rule uncaused_subset [OF _ Evaluate_subset],
      simp add: rule_findings_def service_Rules_def service_rule_defs deployment_Rules_def deployment_rule_defs
        statefulset_Rules_def statefulset_rule_defs ingress_Rules_def ingress_rule_defs uncaused_rules)+

lemma linked_explained:
  assumes "uncaused ds" and "uncaused causes"
  shows "explained (link_cause ids causes ds @ causes)"
  using assms by (cases causes) (auto simp: link_cause_def explained_def uncaused_def list_all_iff)

lemma service_link: "(case dominantFinding bs of None \<Rightarrow> ds
    | Some cause \<Rightarrow> map (\<lambda>d. if d_ID d = i then d\<lparr>d_CausedBy := cause\<rparr> else d) ds) = link_cause [i] bs ds"
  by (simp add: dominantFinding_def link_cause_def split: list.split)

lemma workload_explained:
  "list_all bare (backends s) \<Longrightarrow> explained (service_diagnoses lib ctx s)"
  "list_all bare (ds_Pods d) \<Longrightarrow> explained (deployment_diagnoses lib ctx d)"
  "list_all bare (st_Pods t) \<Longrightarrow> explained (statefulset_diagnoses lib ctx t)"
  "list_all bare (ingress_pods i) \<Longrightarrow> explained (ingress_diagnoses lib ctx i)"
  by (simp_all add: service_diagnoses_def deployment_diagnoses_def statefulset_diagnoses_def ingress_diagnoses_def
      service_link deployment_PodFindings_def ingress_PodFindings_def case_prod_beta Let_def
      linked_explained own_rules_uncaused workload_findings_uncaused)

section \<open>What the collectors hand over\<close>

lemma fill_events_bare: "list_all bare ss \<Longrightarrow> list_all bare (fill_events n cl ss)"
  by (induction n cl ss rule: fill_events.induct) (auto simp: with_events_def bare_def split: nat.split sum.split)

lemma backendSnapshots_bare: "list_all bare (fst (backendSnapshots cl coll pods))"
proof -
  have "list_all bare (map (backend_snapshot now) pods)" for now
    by (simp add: list_all_iff bare_def backend_snapshot_def)
  then show ?thesis by (simp add: backendSnapshots_def Let_def fill_events_bare)
qed

lemma collect_backends_bare: "fst (collect_backends cl coll req ns sel) = Some ps \<Longrightarrow> list_all bare ps"
  using backendSnapshots_bare by (auto simp: collect_backends_def case_prod_beta Let_def split: sum.splits)

lemma collect_Service_bare: "collect_Service cl ns name = Inr snap \<Longrightarrow> list_all bare (backends snap)"
  by (auto simp: collect_Service_def case_prod_beta Let_def backends_def dest: collect_backends_bare
      split: sum.splits if_splits option.splits)

lemma collect_Deployment_bare: "collect_Deployment cl ns name = Inr snap \<Longrightarrow> list_all bare (ds_Pods snap)"
  by (auto simp: collect_Deployment_def case_prod_beta Let_def dest: collect_backends_bare split: sum.splits option.splits)

lemma statefulset_steps_pods [simp]:
  "st_Pods (collectHeadlessService cl t) = st_Pods t" "st_Pods (collectClaimTemplates cl t) = st_Pods t"
  by (simp_all add: collectHeadlessService_def collectClaimTemplates_def case_prod_beta Let_def split: sum.split)

lemma collect_StatefulSet_bare: "collect_StatefulSet cl ns name = Inr snap \<Longrightarrow> list_all bare (st_Pods snap)"
  by (auto simp: collect_StatefulSet_def collectStatefulSetPods_def case_prod_beta Let_def backendSnapshots_bare split: sum.splits)

lemma path_services_bare:
  "\<forall>(n, s)\<in>set (fst acc). list_all bare (is_Backends s) \<Longrightarrow>
   \<forall>(n, s)\<in>set (fst (foldl (collect_path_service cl ns) acc paths)). list_all bare (is_Backends s)"
proof (induction paths arbitrary: acc)
  case (Cons path paths)
  have "list_all bare (is_Backends (fst (collectIngressService cl coll ns name)))" for coll name
    by (auto simp: collectIngressService_def case_prod_beta Let_def dest: collect_backends_bare split: sum.split option.split)
  then have "\<forall>(n, s)\<in>set (fst (collect_path_service cl ns acc path)). list_all bare (is_Backends s)"
    using Cons.prems by (auto simp: collect_path_service_def case_prod_beta Let_def)
  from Cons.IH [OF this] show ?case by simp
qed simp

lemma collect_Ingress_bare:
  assumes "collect_Ingress cl ns name = Inr snap"
  shows "list_all bare (ingress_pods snap)"
proof -
  obtain acc where "is_Services snap = fst (foldl (collect_path_service cl ns) ([], acc) (is_Paths snap))"
    using assms by (auto simp: collect_Ingress_def case_prod_beta Let_def split: sum.splits)
  then have "\<forall>(n, s)\<in>set (is_Services snap). list_all bare (is_Backends s)"
    using path_services_bare [of "([], acc)"] by simp
  then have "list_all bare (case map_of (is_Services snap) n of None \<Rightarrow> [] | Some s \<Rightarrow> is_Backends s)" for n
    by (auto dest: map_of_SomeD split: option.split)
  then show ?thesis by (simp add: ingress_pods_def list_all_iff)
qed

lemma collect_Pod_claims_known:
  assumes "collect_Pod cl ns name = Inr snap"
  shows "claims_known (ps_PVCs snap)"
proof -
  have "claims_ok cl (pod_Namespace (ps_Pod snap)) (ps_PVCs snap) (ps_Collection snap)"
    using collect_Pod_answers(1) [OF assms] by (simp add: pod_answers_def Let_def)
  then have "gomap_ok (ps_PVCs snap)" and
    claims: "\<And>x. x \<in> set (ps_PVCs snap) \<Longrightarrow> claim_ok cl (pod_Namespace (ps_Pod snap)) (ps_Collection snap) x"
    by (simp_all add: claims_ok_def)
  moreover have "pr_Exists (snd x) = Found" if "x \<in> set (ps_PVCs snap)" "pr_Phase (snd x) = ''Pending''" for x
    using claims [OF that(1)] that(2) by (auto simp: claim_ok_def answered_def err_of_def split: sum.splits)
  ultimately show ?thesis by (auto simp: claims_known_def)
qed

text \<open>What a collected snapshot promises about the storage class of a claim.\<close>

definition class_known :: "storage_class_info \<Rightarrow> bool" where
  "class_known cls \<longleftrightarrow>
     (sci_Exists cls = Missing \<longrightarrow>
        \<not> sci_ExplicitlyNone cls \<and> (sci_Requested cls \<or> sci_DefaultExists cls = Missing))"

lemma storageClassInfo_known: "class_known (fst (storageClassInfo cl coll claim))"
  by (simp add: class_known_def storageClassInfo_def defaultStorageClassInfo_def storage_class_info0_def case_prod_beta Let_def
      split: sum.split option.split)

lemma collect_PVC_class_known: "collect_PVC cl ns name = Inr snap \<Longrightarrow> class_known (vs_Class snap)"
proof -
  have "vs_Class (collectClaimConsumers cl snap) = vs_Class snap" for snap
    by (simp add: collectClaimConsumers_def case_prod_beta Let_def split: sum.split)
  moreover have "class_known storage_class_info0" by (simp add: class_known_def storage_class_info0_def)
  ultimately show "collect_PVC cl ns name = Inr snap \<Longrightarrow> class_known (vs_Class snap)"
    by (auto simp: collect_PVC_def case_prod_beta Let_def storageClassInfo_known split: sum.splits if_splits)
qed

lemma pvc_explained:
  assumes "class_known (vs_Class v)"
  shows "explained (pvc_diagnoses None v)"
proof -
  have ids: "d_ID (class_not_found_finding v) = pvc_IDStorageClassNotFound" "d_ID (no_default_class_finding v) = pvc_IDNoDefaultClass"
    by (simp_all add: class_not_found_finding_def no_default_class_finding_def Let_def cong: finding_cong)
  have "d_CausedBy d = [] \<or> d_CausedBy d \<in> d_ID ` set (evaluateStorageClass v)" if d: "d \<in> set (evaluateProvisioning v)" for d
  proof -
    have causes: "d_CausedBy (binding_finding v ev) = []"
      "d_CausedBy (provisioning_finding v ev) =
         (if sci_Exists (vs_Class v) = Missing
          then (if sci_Requested (vs_Class v) then pvc_IDStorageClassNotFound else pvc_IDNoDefaultClass) else [])" for ev
      by (simp_all add: binding_finding_def provisioning_finding_def Let_def cong: finding_cong)
    obtain ev where "\<not> PVC_IsBound v" "d = binding_finding v ev \<or> d = provisioning_finding v ev"
      using d by (auto simp: evaluateProvisioning_def split: if_splits option.splits)
    with causes assms ids show ?thesis
      by (auto simp: evaluateStorageClass_def class_known_def Let_def split: if_splits)
  qed
  moreover have "set (rule_findings pvc_Rules v) = set (evaluateStorageClass v) \<union> set (evaluateProvisioning v) \<union>
      set (evaluateConsumers v) \<union> set (evaluateLost v)"
    by (simp add: rule_findings_def pvc_Rules_def pvc_rule_defs Un_ac)
  ultimately have "explained (rule_findings pvc_Rules v)"
    using uncaused_pvc [of v] unfolding explained_def uncaused_def list_all_iff by blast
  then show ?thesis
    by (simp add: pvc_diagnoses_def Evaluate_None Let_def explained_uncaused uncaused_Fallback)
qed

lemma pod_explained:
  assumes "claims_known (ps_PVCs snap)"
  shows "explained (fst (pod_findings lib None snap))"
  using pod_rules_explained [OF assms, of lib]
  by (simp add: pod_findings_def Evaluate_None explained_uncaused uncaused_Fallback)

text \<open>
  C10. In every report of an analysis that ran to its end, whatever the kind, the cause a finding
  names is the identifier of a finding of the same report: the story a report tells is complete.
\<close>

theorem causes_in_report:
  assumes "Analyze lib cl None kind ns name = Inr r" and "d \<in> set (r_Diagnoses r)" and "d_CausedBy d \<noteq> []"
  shows "\<exists>cause\<in>set (r_Diagnoses r). d_ID cause = d_CausedBy d"
proof -
  have "explained (r_Diagnoses r)"
    using Analyze_report [OF assms(1)]
  proof (elim disjE exE conjE)
    fix snap assume "collect_Pod cl ns name = Inr snap" "r = PodReport lib None snap"
    then show ?thesis by (simp add: pod_report.built pod_explained collect_Pod_claims_known)
  next
    fix snap assume "collect_Service cl ns name = Inr snap" "r = ServiceReport lib None snap"
    then show ?thesis by (simp add: service_report.built workload_explained collect_Service_bare)
  next
    fix snap assume "collect_Deployment cl ns name = Inr snap" "r = DeploymentReport lib None snap"
    then show ?thesis by (simp add: deployment_report.built workload_explained collect_Deployment_bare)
  next
    fix snap assume "collect_StatefulSet cl ns name = Inr snap" "r = StatefulSetReport lib None snap"
    then show ?thesis by (simp add: statefulset_report.built workload_explained collect_StatefulSet_bare)
  next
    fix snap assume "collect_Ingress cl ns name = Inr snap" "r = IngressReport lib None snap"
    then show ?thesis by (simp add: ingress_report.built workload_explained collect_Ingress_bare)
  next
    fix snap assume "collect_PVC cl ns name = Inr snap" "r = PVCReport lib None snap"
    then show ?thesis by (simp add: pvc_report.built pvc_explained collect_PVC_class_known)
  qed
  with assms(2,3) show ?thesis unfolding explained_def by (metis imageE)
qed

text \<open>A cluster with one Pod whose container needs a ConfigMap that does not exist.\<close>

definition config_error_pod :: "int k_pod" where
  "config_error_pod = pod0\<lparr>pod_Name := ''web'', pod_Namespace := ''default'', pod_Phase := ''Pending'',
     pod_Containers := [container_spec0\<lparr>c_Name := ''app'',
       c_EnvFrom := [\<lparr>ef_ConfigMapRef = Some \<lparr>cr_Name = ''settings'', cr_Optional = None\<rparr>, ef_SecretRef = None\<rparr>]\<rparr>],
     pod_ContainerStatuses := [status0\<lparr>cs_Name := ''app'',
       cs_Waiting := Some \<lparr>w_Reason = ''CreateContainerConfigError'', w_Message = []\<rparr>\<rparr>]\<rparr>"

lemma config_error_collected:
  "\<exists>snap. collect_Pod (sample_client [config_error_pod]) ''default'' ''web'' = Inr snap \<and>
     ps_Pod snap = config_error_pod \<and> ps_ConfigMaps snap = [(''settings'', Missing)]"
proof -
  have "(case collect_Pod (sample_client [config_error_pod]) ''default'' ''web'' of
      Inl _ \<Rightarrow> False | Inr snap \<Rightarrow> ps_ConfigMaps snap = [(''settings'', Missing)])"
    by code_simp
  then obtain snap where snap: "collect_Pod (sample_client [config_error_pod]) ''default'' ''web'' = Inr snap"
    "ps_ConfigMaps snap = [(''settings'', Missing)]"
    by (auto split: sum.splits)
  moreover have "get_Pod (sample_client [config_error_pod]) ''default'' ''web'' = Inr config_error_pod"
    by (simp add: sample_client_def config_error_pod_def)
  ultimately show ?thesis using collect_Pod_answers(3) [OF snap(1)] by simp
qed

lemma config_error_reported:
  "\<exists>r d. Analyze int_lib (sample_client [config_error_pod]) None KindPod ''default'' ''web'' = Inr r \<and>
     d \<in> set (r_Diagnoses r) \<and> d_CausedBy d = IDMissingConfigMap \<and> IDMissingConfigMap \<in> d_ID ` set (r_Diagnoses r)"
proof -
  obtain snap where snap: "collect_Pod (sample_client [config_error_pod]) ''default'' ''web'' = Inr snap"
    "ps_Pod snap = config_error_pod" "ps_ConfigMaps snap = [(''settings'', Missing)]"
    using config_error_collected by blast
  have "\<not> referencesAny [] names" for names
    by (simp add: referencesAny_def)
  then have "IDMissingConfigMap \<in> d_CausedBy ` set (evaluateConfigRefs snap)"
    by (simp add: evaluateConfigRefs_def Pod_Containers_def snap config_error_pod_def pod0_def regular_container_def findStatus_def
        container_spec0_def status0_def missingNames_def config_error_container_def Container_Waiting_def
        config_error_cause_def Let_def cong: finding_cong)
  then obtain d where d: "d \<in> set (evaluateConfigRefs snap)" "d_CausedBy d = IDMissingConfigMap"
    by (metis imageE)
  then have "d \<in> set (fst (Evaluate None (pod_Rules int_lib) snap))"
    by (simp add: Evaluate_None rule_findings_def pod_Rules_def configRefRule_def)
  then have report: "fst (pod_findings int_lib None snap) = fst (Evaluate None (pod_Rules int_lib) snap)"
    "d \<in> set (fst (pod_findings int_lib None snap))"
    by (auto simp: pod_findings_def case_prod_beta)
  have "IDMissingConfigMap \<in> d_ID ` set (evaluateConfigRefs snap)"
    by (rule missing_reported(1)) (simp add: snap(3) missingNames_def)
  then have "IDMissingConfigMap \<in> d_ID ` set (fst (pod_findings int_lib None snap))"
    unfolding report(1) by (auto simp: Evaluate_None rule_findings_def pod_Rules_def configRefRule_def)
  with snap(1) d(2) report(2) show ?thesis
    by (intro exI [of _ "PodReport int_lib None snap"] exI [of _ d]) (simp add: analyze_Pod_def pod_report.built)
qed

lemma causes_in_report_witness:
  "\<exists>r. Analyze int_lib (sample_client [config_error_pod]) None KindPod ''default'' ''web'' = Inr r \<and>
     IDMissingConfigMap \<in> d_ID ` set (r_Diagnoses r)"
proof -
  obtain r d where r: "Analyze int_lib (sample_client [config_error_pod]) None KindPod ''default'' ''web'' = Inr r"
    "d \<in> set (r_Diagnoses r)" "d_CausedBy d = IDMissingConfigMap"
    using config_error_reported by blast
  have "IDMissingConfigMap \<noteq> []" by (simp add: pod_ID_defs)
  with r(3) have "\<exists>cause\<in>set (r_Diagnoses r). d_ID cause = d_CausedBy d"
    by (intro causes_in_report [OF r(1,2)]) simp
  with r show ?thesis by force
qed

section \<open>What a report says is missing\<close>

lemma finding_ID: "d \<in> set ds \<Longrightarrow> findings_ok ids ds \<Longrightarrow> d_ID d \<in> set ids"
  by (auto simp: findings_ok_def list_all_iff finding_ok_def)

text \<open>Which rule a finding about a missing object comes from.\<close>

lemma missing_origin:
  assumes "d \<in> set (fst (pod_findings lib ctx snap))"
  shows "d_ID d = IDMissingConfigMap \<or> d_ID d = IDMissingSecret \<Longrightarrow> d \<in> set (evaluateConfigRefs snap)"
    "d_ID d = IDPVCNotFound \<Longrightarrow> d \<in> set (evaluateClaims snap)"
proof -
  have "set (fst (pod_findings lib ctx snap)) \<subseteq> set (rule_findings (pod_Rules lib) snap) \<union> set (Fallback snap)"
    using Evaluate_subset [of ctx "pod_Rules lib" snap] by (auto simp: pod_findings_def case_prod_beta)
  with assms have "d \<in> set (evaluateOOM lib snap) \<or> d \<in> set (evaluateCrashLoop snap) \<or> d \<in> set (evaluateTerminated snap) \<or>
      d \<in> set (evaluateImagePull snap) \<or> d \<in> set (evaluateScheduling lib snap) \<or> d \<in> set (evaluateProbes lib snap) \<or>
      d \<in> set (evaluateConfigRefs snap) \<or> d \<in> set (evaluateMounts snap) \<or> d \<in> set (evaluateClaims snap) \<or>
      d \<in> set (evaluateNode snap) \<or> d \<in> set (evaluateRestartHistory snap) \<or> d \<in> set (Fallback snap)"
    by (auto simp: rule_findings_def pod_Rules_def pod_rule_defs)
  then have "d \<in> set (evaluateConfigRefs snap) \<or> d \<in> set (evaluateClaims snap) \<or>
      d_ID d \<in> set [IDOOMKilled, IDCrashLoop, IDInitContainerFailed, IDContainerTerminatedError, IDEvicted, IDImagePullFailed,
        IDUnschedulable, IDUnschedulableCPU, IDUnschedulableMemory, IDUntoleratedTaint, IDUnschedulableAffinity,
        IDUnschedulableVolume, IDSchedulingGated, IDReadinessProbeFailed, IDLivenessProbeFailed, IDStartupProbeFailed,
        IDFailedMount, IDNodeNotReady, IDRestarted, IDNotReadyUnexplained]"
    by (elim disjE) (auto dest!: finding_ID [OF _ evaluateOOM_ok] finding_ID [OF _ evaluateCrashLoop_ok]
      finding_ID [OF _ evaluateTerminated_ok] finding_ID [OF _ evaluateImagePull_ok] finding_ID [OF _ evaluateScheduling_ok]
      finding_ID [OF _ evaluateProbes_ok] finding_ID [OF _ evaluateMounts_ok] finding_ID [OF _ evaluateNode_ok]
      finding_ID [OF _ evaluateRestartHistory_ok] finding_ID [OF _ Fallback_ok])
  moreover have "d \<in> set (evaluateConfigRefs snap) \<Longrightarrow> d_ID d \<noteq> IDPVCNotFound"
    "d \<in> set (evaluateClaims snap) \<Longrightarrow> d_ID d \<noteq> IDMissingConfigMap \<and> d_ID d \<noteq> IDMissingSecret"
    using finding_ID [OF _ evaluateConfigRefs_ok, of d snap] finding_ID [OF _ evaluateClaims_ok, of d snap]
    by (auto simp: pod_ID_defs)
  ultimately show "d_ID d = IDMissingConfigMap \<or> d_ID d = IDMissingSecret \<Longrightarrow> d \<in> set (evaluateConfigRefs snap)"
    "d_ID d = IDPVCNotFound \<Longrightarrow> d \<in> set (evaluateClaims snap)"
    by (auto simp: pod_ID_defs)
qed

lemma missingNames_iff: "name \<in> set (missingNames refs) \<longleftrightarrow> (name, Missing) \<in> set refs"
  by (force simp: missingNames_def)

lemma missing_config_found:
  assumes "d \<in> set (evaluateConfigRefs snap)"
  shows "d_ID d = IDMissingConfigMap \<Longrightarrow>
      \<exists>n. (n, Missing) \<in> set (ps_ConfigMaps snap) \<and> d = missingObjectDiagnosis snap IDMissingConfigMap ''ConfigMap'' n"
    "d_ID d = IDMissingSecret \<Longrightarrow>
      \<exists>n. (n, Missing) \<in> set (ps_Secrets snap) \<and> d = missingObjectDiagnosis snap IDMissingSecret ''Secret'' n"
proof -
  have "d_ID (missingObjectDiagnosis snap i kind n) = i" for i kind n
    by (simp add: missingObjectDiagnosis_def cong: finding_cong)
  moreover have "IDMissingConfigMap \<noteq> IDMissingSecret" "IDCreateContainerConfigErr \<noteq> IDMissingConfigMap"
    "IDCreateContainerConfigErr \<noteq> IDMissingSecret"
    by (simp_all add: pod_ID_defs)
  ultimately show "d_ID d = IDMissingConfigMap \<Longrightarrow>
      \<exists>n. (n, Missing) \<in> set (ps_ConfigMaps snap) \<and> d = missingObjectDiagnosis snap IDMissingConfigMap ''ConfigMap'' n"
    "d_ID d = IDMissingSecret \<Longrightarrow>
      \<exists>n. (n, Missing) \<in> set (ps_Secrets snap) \<and> d = missingObjectDiagnosis snap IDMissingSecret ''Secret'' n"
    using assms config_error_container_ID by (fastforce simp: set_evaluateConfigRefs)+
qed

lemma missing_claim_found:
  assumes "d \<in> set (evaluateClaims snap)" and "d_ID d = IDPVCNotFound"
  shows "\<exists>n claim. (n, claim) \<in> set (ps_PVCs snap) \<and> pr_Exists claim = Missing \<and> d = missing_claim_diagnosis snap n"
proof -
  have "d_ID (unboundClaimDiagnosis snap claim) = IDPVCNotBound" for claim
    by (simp add: unboundClaimDiagnosis_def Let_def cong: finding_cong)
  moreover have "IDPVCNotBound \<noteq> IDPVCNotFound" by (simp add: pod_ID_defs)
  moreover obtain n where "d \<in> set (claim_findings snap n)"
    using assms(1) by (auto simp: evaluateClaims_def split: if_splits)
  ultimately obtain claim where "map_of (ps_PVCs snap) n = Some claim" "pr_Exists claim = Missing" "d = missing_claim_diagnosis snap n"
    using assms(2) by (cases "map_of (ps_PVCs snap) n") (auto simp: claim_findings_def split: if_splits)
  then show ?thesis by (blast dest: map_of_SomeD)
qed

text \<open>
  C4. End to end, for a Pod: a report says that a ConfigMap, a Secret or a claim is missing only
  when the API server answered, to a read of exactly that object in the Pod's namespace, that it
  does not exist. A refused or failed read never becomes an absence, and the finding names the
  object that was read.
\<close>

theorem absence_is_the_servers_answer:
  assumes "Analyze lib cl ctx KindPod ns name = Inr r" and "d \<in> set (r_Diagnoses r)"
    and "get_Pod cl ns name = Inr pod"
  shows "(d_ID d = IDMissingConfigMap \<longrightarrow>
      (\<exists>n e. get_ConfigMap cl (pod_Namespace pod) n = Inl e \<and> api_IsNotFound (cl_Errors cl) e \<and>
         map e_Field (d_Evidence d) = [''configmap/'' @ n])) \<and>
    (d_ID d = IDMissingSecret \<longrightarrow>
      (\<exists>n e. SecretExists cl (pod_Namespace pod) n = Some e \<and> api_IsNotFound (cl_Errors cl) e \<and>
         map e_Field (d_Evidence d) = [''secret/'' @ n])) \<and>
    (d_ID d = IDPVCNotFound \<longrightarrow>
      (\<exists>n e. get_PVC cl (pod_Namespace pod) n = Inl e \<and> api_IsNotFound (cl_Errors cl) e \<and>
         map e_Field (d_Evidence d) = [''persistentvolumeclaim/'' @ n]))"
proof -
  obtain snap where snap: "collect_Pod cl ns name = Inr snap" "r = PodReport lib ctx snap"
    using assms(1) by (auto simp: analyze_Pod_def split: sum.splits)
  have d: "d \<in> set (fst (pod_findings lib ctx snap))" using assms(2) snap(2) by (simp add: pod_report.built)
  have pod: "ps_Pod snap = pod" using collect_Pod_answers(3) [OF snap(1)] assms(3) by simp
  note ok = collect_Pod_answers(1) [OF snap(1), unfolded pod_answers_def Let_def pod]
  have lower: "str_ToLower ''ConfigMap'' = ''configmap''" "str_ToLower ''Secret'' = ''secret''" by code_simp+
  have fields: "map e_Field (d_Evidence (missingObjectDiagnosis snap i ''ConfigMap'' n)) = [''configmap/'' @ n]"
    "map e_Field (d_Evidence (missingObjectDiagnosis snap i ''Secret'' n)) = [''secret/'' @ n]"
    "map e_Field (d_Evidence (missing_claim_diagnosis snap n)) = [''persistentvolumeclaim/'' @ n]" for i n
    by (simp_all add: missingObjectDiagnosis_def missing_claim_diagnosis_def lower cong: finding_cong)
  have cms: "\<exists>e. get_ConfigMap cl (pod_Namespace pod) n = Inl e \<and> api_IsNotFound (cl_Errors cl) e"
    if "(n, Missing) \<in> set (ps_ConfigMaps snap)" for n
    using ok that by (auto simp: entries_ok_def answered_def err_of_def split: sum.splits)
  have secs: "\<exists>e. SecretExists cl (pod_Namespace pod) n = Some e \<and> api_IsNotFound (cl_Errors cl) e"
    if "(n, Missing) \<in> set (ps_Secrets snap)" for n
    using ok that by (auto simp: entries_ok_def answered_def)
  have claims: "\<exists>e. get_PVC cl (pod_Namespace pod) n = Inl e \<and> api_IsNotFound (cl_Errors cl) e"
    if "(n, claim) \<in> set (ps_PVCs snap)" "pr_Exists claim = Missing" for n claim
  proof -
    have "claim_ok cl (pod_Namespace pod) (ps_Collection snap) (n, claim)" using ok that(1) by (simp add: claims_ok_def)
    with that(2) show ?thesis by (auto simp: claim_ok_def answered_def err_of_def split: sum.splits)
  qed
  show ?thesis
    using missing_config_found [of d snap] missing_claim_found [of d snap] missing_origin [OF d] cms secs claims fields by metis
qed

lemma absence_is_the_servers_answer_witness:
  "\<exists>n. get_ConfigMap (sample_client [config_error_pod]) ''default'' n = Inl ''NotFound''"
proof -
  obtain r where r: "Analyze int_lib (sample_client [config_error_pod]) None KindPod ''default'' ''web'' = Inr r"
    "IDMissingConfigMap \<in> d_ID ` set (r_Diagnoses r)"
    using config_error_reported by blast
  then obtain d where d: "d \<in> set (r_Diagnoses r)" "d_ID d = IDMissingConfigMap" by force
  have "get_Pod (sample_client [config_error_pod]) ''default'' ''web'' = Inr config_error_pod"
    by (simp add: sample_client_def config_error_pod_def)
  from absence_is_the_servers_answer [OF r(1) d(1) this] d(2) show ?thesis
    by (auto simp: config_error_pod_def sample_client_def sample_errors_def)
qed

end
