(* ===== verification/Reads.thy ===== *)
theory Reads
  imports Causes
begin

text \<open>
  What an analysis reads and what it makes of it: the events that count as evidence, the reads
  for the Pods behind a workload, which run concurrently, and the walk up the owners of a Pod.
\<close>

section \<open>More steps that only grow a collection\<close>

lemma grows_statefulset_steps [grows_intros]:
  "grows c (st_Collection t) \<Longrightarrow> grows c (st_Collection (collectStatefulSetPods cl t))"
  "grows c (st_Collection t) \<Longrightarrow> grows c (st_Collection (collectHeadlessService cl t))"
  "grows c (st_Collection t) \<Longrightarrow> grows c (st_Collection (collectClaimTemplates cl t))"
  by (auto simp: collectStatefulSetPods_def collectHeadlessService_def collectClaimTemplates_def case_prod_beta Let_def
      intro!: grows_intros split: sum.split)

lemma grows_ingress_class [grows_intros]:
  "grows c (is_Collection i) \<Longrightarrow> grows c (is_Collection (collectIngressClass cl i))"
  by (auto simp: collectIngressClass_def case_prod_beta Let_def intro!: grows_intros split: sum.split option.split)

lemma grows_consumers [grows_intros]:
  "grows c (vs_Collection v) \<Longrightarrow> grows c (vs_Collection (collectClaimConsumers cl v))"
  by (auto simp: collectClaimConsumers_def case_prod_beta Let_def intro!: grows_intros split: sum.split)

text \<open>A cluster with one running Pod, whose events may be listed and are none.\<close>

definition quiet_client :: "(int, string) kube_client" where
  "quiet_client = (sample_client [pod0\<lparr>pod_Name := ''web'', pod_Namespace := ''default'', pod_Phase := ''Running'',
     pod_Conditions := [\<lparr>cond_Type = ''Ready'', cond_Status = ''True'', cond_Reason = [], cond_Message = []\<rparr>]\<rparr>])\<lparr>list_Events := (\<lambda>ns sel limit. Inr [])\<rparr>"

lemma quiet_report:
  "\<exists>r. Analyze int_lib quiet_client None KindPod ''default'' ''web'' = Inr r \<and> r_Status r = StatusHealthy"
proof -
  have "(case Analyze int_lib quiet_client None KindPod ''default'' ''web'' of Inr r \<Rightarrow> r_Status r = StatusHealthy | Inl _ \<Rightarrow> False)"
    by code_simp
  then show ?thesis by (auto split: sum.splits)
qed

section \<open>The events that count as evidence\<close>

lemma collect_Pod_events:
  assumes "collect_Pod cl ns name = Inr snap"
  shows "ps_Events snap = (case eventsFor cl (pod_ref ns name) (pod_UID (ps_Pod snap)) of
    Inl _ \<Rightarrow> [] | Inr evs \<Rightarrow> Events_Dedup evs)"
  using assms by (auto simp: collect_Pod_Inr pod_start_events)

text \<open>
  C18. The evidence of a Pod is its own: when the events are listed, the snapshot has exactly the
  reasons, messages and containers of the listed events that concern this Pod, each once, most
  recent first. An event that names a UID concerns the Pod with that UID, so the events of a
  deleted Pod of the same name are left out; kind and name decide only when the Pod or the event
  has none. Each event of the snapshot has the time at which its reason, message and container
  were last seen, and, unless a listed event has a negative count or the occurrences together
  exceed the 32-bit counter, the time they were first seen and the number of occurrences.
\<close>

theorem evidence_is_own:
  assumes "collect_Pod cl ns name = Inr snap"
    and "list_Events cl ns (fields_String cl (event_selector (pod_ref ns name) (pod_UID (ps_Pod snap)))) eventLimit = Inr items"
  shows "let own = filter (\<lambda>ev. if pod_UID (ps_Pod snap) \<noteq> [] \<and> ke_UID ev \<noteq> [] then ke_UID ev = pod_UID (ps_Pod snap)
        else str_EqualFold (ke_Kind ev) ''Pod'' \<and> ke_Name ev = name) items;
      group = (\<lambda>b. filter (\<lambda>e. dedup_key e = dedup_key b) (map normalizeEvent own)) in
    dedup_key ` set (ps_Events snap) = (\<lambda>ev. (ke_Reason ev, str_TrimSpace (ke_Message ev), ke_FieldPath ev)) ` set own \<and>
    distinct (map dedup_key (ps_Events snap)) \<and>
    sorted_wrt (\<lambda>a b. ev_LastSeen b \<le> ev_LastSeen a) (ps_Events snap) \<and>
    (\<forall>b\<in>set (ps_Events snap). ev_LastSeen b = Max (ev_LastSeen ` set (group b))) \<and>
    ((\<forall>ev\<in>set own. 0 \<le> ev_Count (normalizeEvent ev)) \<longrightarrow>
      (\<forall>b\<in>set (ps_Events snap). ev_FirstSeen b = Min (ev_FirstSeen ` set (group b)) \<and>
        ((\<Sum>ev\<leftarrow>own. occurrences (normalizeEvent ev)) < 2 ^ 31 \<longrightarrow>
          ev_Count b = (\<Sum>e\<leftarrow>group b. occurrences e))))"
proof -
  let ?own = "filter (\<lambda>ev. matchesObject ev (pod_ref ns name) (pod_UID (ps_Pod snap))) items"
  let ?evs = "Events_Sort (map normalizeEvent ?own)"
  have key: "dedup_key (normalizeEvent ev) = (ke_Reason ev, str_TrimSpace (ke_Message ev), ke_FieldPath ev)" for ev
    by (simp add: normalizeEvent_def dedup_key_def Let_def split: option.split)
  have "eventsFor cl (pod_ref ns name) (pod_UID (ps_Pod snap)) = Inr ?evs"
    using assms(2) by (simp add: eventsFor_def pod_ref_def)
  then have evs: "ps_Events snap = Events_Dedup ?evs"
    using collect_Pod_events [OF assms(1)] by simp
  have own: "filter (\<lambda>ev. if pod_UID (ps_Pod snap) \<noteq> [] \<and> ke_UID ev \<noteq> [] then ke_UID ev = pod_UID (ps_Pod snap)
        else str_EqualFold (ke_Kind ev) ''Pod'' \<and> ke_Name ev = name) items = ?own"
    by (rule filter_cong) (simp_all add: matchesObject_def pod_ref_def)
  have grp: "{e \<in> set ?evs. dedup_key e = dedup_key b} = set (filter (\<lambda>e. dedup_key e = dedup_key b) (map normalizeEvent ?own))" for b
    by auto
  have nonneg: "\<forall>e\<in>set ?evs. 0 \<le> ev_Count e" if "\<forall>ev\<in>set ?own. 0 \<le> ev_Count (normalizeEvent ev)"
    using that by auto
  have sums: "(\<Sum>e\<leftarrow>filter P ?evs. occurrences e) = (\<Sum>e\<leftarrow>filter P (map normalizeEvent ?own). occurrences e)"
    "(\<Sum>e\<leftarrow>?evs. occurrences e) = (\<Sum>ev\<leftarrow>?own. occurrences (normalizeEvent ev))" for P
    using sum_list_filter_Events_Sort [of P] sum_list_filter_Events_Sort [of "\<lambda>_. True" "map normalizeEvent ?own"]
    by (simp_all add: comp_def)
  have "dedup_key ` set (Events_Dedup ?evs) = (\<lambda>ev. (ke_Reason ev, str_TrimSpace (ke_Message ev), ke_FieldPath ev)) ` set ?own"
    unfolding Events_Dedup_keys by (simp add: image_image key)
  moreover have "\<forall>b\<in>set (Events_Dedup ?evs). ev_FirstSeen b = Min (ev_FirstSeen ` set (filter (\<lambda>e. dedup_key e = dedup_key b) (map normalizeEvent ?own))) \<and>
        ((\<Sum>ev\<leftarrow>?own. occurrences (normalizeEvent ev)) < 2 ^ 31 \<longrightarrow>
          ev_Count b = (\<Sum>e\<leftarrow>filter (\<lambda>e. dedup_key e = dedup_key b) (map normalizeEvent ?own). occurrences e))"
    if "\<forall>ev\<in>set ?own. 0 \<le> ev_Count (normalizeEvent ev)"
    using Events_Dedup_group(2,3) [OF _ nonneg [OF that]] unfolding grp sums by blast
  moreover have "\<forall>b\<in>set (Events_Dedup ?evs). ev_LastSeen b = Max (ev_LastSeen ` set (filter (\<lambda>e. dedup_key e = dedup_key b) (map normalizeEvent ?own)))"
    using Events_Dedup_group(1) [where evs = ?evs] unfolding grp by blast
  ultimately show ?thesis
    using Events_Dedup_distinct [of ?evs] Events_Dedup_ordered [of ?evs] unfolding own evs Let_def by blast
qed

text \<open>The events of two Pods of the same name: one of the Pod that is gone, two of its replacement.\<close>

definition replaced_event :: "string \<Rightarrow> string \<Rightarrow> k_event" where
  "replaced_event uid reason =
     \<lparr>ke_Type = ''Warning'', ke_Reason = reason, ke_Message = ''m'', ke_Count = 1, ke_FirstTimestamp = 1, ke_LastTimestamp = 2,
      ke_EventTime = 0, ke_Series = None, ke_Kind = ''Pod'', ke_Namespace = ''default'', ke_Name = ''web'', ke_UID = uid,
      ke_FieldPath = []\<rparr>"

definition replaced_client :: "(int, string) kube_client" where
  "replaced_client = (sample_client [pod0\<lparr>pod_Name := ''web'', pod_Namespace := ''default'', pod_UID := ''u2''\<rparr>])
     \<lparr>list_Events := (\<lambda>ns sel limit. Inr [replaced_event ''u1'' ''OOMKilling'', replaced_event ''u2'' ''BackOff'', replaced_event ''u2'' ''BackOff''])\<rparr>"

theorem evidence_is_own_witness:
  "\<exists>snap. collect_Pod replaced_client ''default'' ''web'' = Inr snap \<and>
     dedup_key ` set (ps_Events snap) = {(''BackOff'', ''m'', [])} \<and> (\<forall>b\<in>set (ps_Events snap). ev_Count b = 2)"
proof -
  let ?own = "[replaced_event ''u2'' ''BackOff'', replaced_event ''u2'' ''BackOff'']"
  let ?items = "replaced_event ''u1'' ''OOMKilling'' # ?own"
  have "(case collect_Pod replaced_client ''default'' ''web'' of
      Inr snap \<Rightarrow> pod_UID (ps_Pod snap) = ''u2'' | Inl _ \<Rightarrow> False)"
    by code_simp
  then obtain snap where snap: "collect_Pod replaced_client ''default'' ''web'' = Inr snap" "pod_UID (ps_Pod snap) = ''u2''"
    by (auto split: sum.splits)
  have own: "filter (\<lambda>ev. if pod_UID (ps_Pod snap) \<noteq> [] \<and> ke_UID ev \<noteq> [] then ke_UID ev = pod_UID (ps_Pod snap)
      else str_EqualFold (ke_Kind ev) ''Pod'' \<and> ke_Name ev = ''web'') ?items = ?own"
    by (simp add: snap(2) replaced_event_def)
  have trim: "str_TrimSpace ''m'' = ''m''" by code_simp
  have norm: "dedup_key (normalizeEvent (replaced_event ''u2'' ''BackOff'')) = (''BackOff'', ''m'', [])"
    "ev_Count (normalizeEvent (replaced_event ''u2'' ''BackOff'')) = 1"
    "occurrences (normalizeEvent (replaced_event ''u2'' ''BackOff'')) = 1"
    by (simp_all add: trim replaced_event_def normalizeEvent_def dedup_key_def occurrences_def)
  have list: "list_Events replaced_client ns sel lim = Inr ?items" for ns sel lim
    by (simp add: replaced_client_def)
  note C = evidence_is_own [OF snap(1) list, unfolded own Let_def]
  have keys: "dedup_key ` set (ps_Events snap) = {(''BackOff'', ''m'', [])}"
    using C by (simp add: trim replaced_event_def)
  then have k: "dedup_key b = (''BackOff'', ''m'', [])" if "b \<in> set (ps_Events snap)" for b
    using that by blast
  have "ev_Count b = 2" if "b \<in> set (ps_Events snap)" for b
    using C that k [OF that] by (simp add: norm)
  with keys snap(1) show ?thesis by blast
qed

section \<open>Concurrent reads\<close>

lemma foldl_record_failure_inspected [simp]:
  "col_Inspected (foldl (record_failure cl) coll xs) = col_Inspected coll"
proof (induction xs arbitrary: coll)
  case (Cons x xs)
  then show ?case by (simp add: record_failure_def degrade_def Degrade_def split: option.split)
qed simp

lemma foldl_record_failure_keys:
  "deg_key ` set (col_Degradations (foldl (record_failure cl) coll xs)) =
     deg_key ` set (col_Degradations coll) \<union>
     {(''events'', degrade_reason (cl_Errors cl) e) | e. \<exists>x\<in>set xs. pod_events cl x = Inl e}"
proof (induction xs arbitrary: coll)
  case (Cons x xs)
  then show ?case
    by (cases "pod_events cl x") (auto simp: record_failure_def degrade_def err_of_def Degrade_keys)
qed simp

text \<open>
  When failures with the same reason come with the same message, what is recorded does not
  depend on which of them came first.
\<close>

definition events_failure :: "('q, 'e) kube_client \<Rightarrow> 'e \<Rightarrow> degradation" where
  "events_failure cl e = \<lparr>deg_Resource = ''events'', deg_Reason = degrade_reason (cl_Errors cl) e,
     deg_RequiredFor = ''explaining why backend Pods are not ready'', deg_Detail = APIMessage (cl_Errors cl) (Some e)\<rparr>"

lemma set_Degrade:
  "set (col_Degradations (Degrade c d)) =
     (if deg_key d \<in> deg_key ` set (col_Degradations c) then set (col_Degradations c) else insert d (set (col_Degradations c)))"
proof -
  have "list_ex (\<lambda>e. deg_Resource e = deg_Resource d \<and> deg_Reason e = deg_Reason d) (col_Degradations c) \<longleftrightarrow>
      deg_key d \<in> deg_key ` set (col_Degradations c)"
    by (simp add: list_ex_iff image_iff eq_commute [of "deg_Resource d"] eq_commute [of "deg_Reason d"])
  then show ?thesis by (simp add: Degrade_def)
qed

lemma foldl_record_failure_set:
  assumes "\<forall>x\<in>set xs. \<forall>y\<in>set xs. \<forall>e e'. pod_events cl x = Inl e \<and> pod_events cl y = Inl e' \<and>
      deg_key (events_failure cl e) = deg_key (events_failure cl e') \<longrightarrow> events_failure cl e = events_failure cl e'"
  shows "set (col_Degradations (foldl (record_failure cl) coll xs)) = set (col_Degradations coll) \<union>
     {events_failure cl e | e. (\<exists>x\<in>set xs. pod_events cl x = Inl e) \<and>
        deg_key (events_failure cl e) \<notin> deg_key ` set (col_Degradations coll)}"
  using assms
proof (induction xs rule: rev_induct)
  case (snoc x xs)
  let ?c = "foldl (record_failure cl) coll xs"
  have IH: "set (col_Degradations ?c) = set (col_Degradations coll) \<union>
     {events_failure cl e | e. (\<exists>x\<in>set xs. pod_events cl x = Inl e) \<and>
        deg_key (events_failure cl e) \<notin> deg_key ` set (col_Degradations coll)}"
    using snoc by simp
  show ?case
  proof (cases "pod_events cl x")
    case (Inl e)
    have step: "record_failure cl ?c x = Degrade ?c (events_failure cl e)"
      by (simp add: record_failure_def degrade_def err_of_def Inl events_failure_def)
    have same: "events_failure cl e = events_failure cl e'"
      if "y \<in> set xs" "pod_events cl y = Inl e'" "deg_key (events_failure cl e) = deg_key (events_failure cl e')" for y e'
      using snoc.prems that Inl by auto
    show ?thesis
      unfolding foldl_append foldl.simps step set_Degrade IH using same by (auto simp: Inl)
  next
    case (Inr evs)
    then have step: "record_failure cl ?c x = ?c" by (simp add: record_failure_def degrade_def err_of_def)
    show ?thesis unfolding foldl_append foldl.simps step IH by (auto simp: Inr)
  qed
qed simp

lemma fill_events_nth:
  "i < length ss \<Longrightarrow> fill_events n cl ss ! i =
     (if \<not> podReady (ps_Pod (ss ! i)) \<and> length (filter (\<lambda>s. \<not> podReady (ps_Pod s)) (take i ss)) < n
      then with_events cl (ss ! i) else ss ! i)"
  by (induction n cl ss arbitrary: i rule: fill_events.induct) (auto simp: nth_Cons split: nat.split)

lemma fill_events_length [simp]: "length (fill_events n cl ss) = length ss"
  by (induction n cl ss rule: fill_events.induct) (auto split: nat.split)

lemma fill_events_finish [simp]: "fill_events n (cl\<lparr>cl_Finish := f\<rparr>) ss = fill_events n cl ss"
  by (induction n cl ss rule: fill_events.induct) (auto simp: with_events_def pod_events_def eventsFor_def split: nat.split)

lemma Inspect_proj [simp]:
  "col_Degradations (Inspect c w) = col_Degradations c"
  "col_Inspected (Inspect c w) = (if w \<in> set (col_Inspected c) then col_Inspected c else col_Inspected c @ [w])"
  by (auto simp: Inspect_def list_ex_iff)

lemma fill_events_none: "filter (\<lambda>s. \<not> podReady (ps_Pod s)) ss = [] \<Longrightarrow> fill_events n cl ss = ss"
  by (induction n cl ss rule: fill_events.induct) (auto split: if_splits)

lemma backendSnapshots_fst:
  "fst (backendSnapshots cl coll pods) = fill_events maxBackendEvents cl (map (backend_snapshot (cl_Now cl coll)) pods)"
  by (auto simp: backendSnapshots_def Let_def need_events_def maxBackendEvents_def intro!: fill_events_none [symmetric])

lemma backendSnapshots_finish:
  assumes "\<And>xs. mset (cl_Finish cl xs) = mset xs" and "\<And>xs. mset (f xs) = mset xs"
  shows "fst (backendSnapshots (cl\<lparr>cl_Finish := f\<rparr>) coll pods) = fst (backendSnapshots cl coll pods)"
    "col_Inspected (snd (backendSnapshots (cl\<lparr>cl_Finish := f\<rparr>) coll pods)) = col_Inspected (snd (backendSnapshots cl coll pods))"
    "deg_key ` set (col_Degradations (snd (backendSnapshots (cl\<lparr>cl_Finish := f\<rparr>) coll pods))) =
     deg_key ` set (col_Degradations (snd (backendSnapshots cl coll pods)))"
proof -
  have sets: "set (cl_Finish cl xs) = set xs" "set (f xs) = set xs" for xs
    using assms by (metis set_mset_mset)+
  have ev: "pod_events (cl\<lparr>cl_Finish := f\<rparr>) x = pod_events cl x" for x
    by (simp add: pod_events_def eventsFor_def)
  show "fst (backendSnapshots (cl\<lparr>cl_Finish := f\<rparr>) coll pods) = fst (backendSnapshots cl coll pods)"
    by (simp add: backendSnapshots_fst)
  show "col_Inspected (snd (backendSnapshots (cl\<lparr>cl_Finish := f\<rparr>) coll pods)) = col_Inspected (snd (backendSnapshots cl coll pods))"
    by (simp add: backendSnapshots_def Let_def)
  show "deg_key ` set (col_Degradations (snd (backendSnapshots (cl\<lparr>cl_Finish := f\<rparr>) coll pods))) =
     deg_key ` set (col_Degradations (snd (backendSnapshots cl coll pods)))"
    by (simp add: backendSnapshots_def Let_def foldl_record_failure_keys sets ev)
qed

lemma pod_events_finish [simp]: "pod_events (cl\<lparr>cl_Finish := f\<rparr>) x = pod_events cl x"
  by (simp add: pod_events_def eventsFor_def)

lemma backendSnapshots_finish_set:
  assumes "\<And>xs. mset (cl_Finish cl xs) = mset xs" and "\<And>xs. mset (f xs) = mset xs"
    and "\<forall>x\<in>set snaps. \<forall>y\<in>set snaps. \<forall>e e'. pod_events cl x = Inl e \<and> pod_events cl y = Inl e' \<and>
      deg_key (events_failure cl e) = deg_key (events_failure cl e') \<longrightarrow> events_failure cl e = events_failure cl e'"
    and "snaps = map (backend_snapshot (cl_Now cl coll)) pods"
  shows "set (col_Degradations (snd (backendSnapshots (cl\<lparr>cl_Finish := f\<rparr>) coll pods))) =
     set (col_Degradations (snd (backendSnapshots cl coll pods)))"
proof -
  let ?need = "need_events snaps"
  have need: "set ?need \<subseteq> set snaps" by (auto simp: need_events_def dest!: in_set_takeD)
  have sets: "set (cl_Finish cl ?need) = set ?need" "set (f ?need) = set ?need"
    using assms(1,2) by (metis set_mset_mset)+
  have ef: "events_failure (cl\<lparr>cl_Finish := f\<rparr>) = events_failure cl"
    by (rule ext) (simp add: events_failure_def)
  have same: "\<forall>x\<in>set ?need. \<forall>y\<in>set ?need. \<forall>e e'. pod_events cl x = Inl e \<and> pod_events cl y = Inl e' \<and>
      deg_key (events_failure cl e) = deg_key (events_failure cl e') \<longrightarrow> events_failure cl e = events_failure cl e'"
    using assms(3) need by blast
  have "set (col_Degradations (foldl (record_failure (cl\<lparr>cl_Finish := f\<rparr>)) coll (f ?need))) =
      set (col_Degradations (foldl (record_failure cl) coll (cl_Finish cl ?need)))"
    by (subst (1 2) foldl_record_failure_set) (use same in \<open>simp_all add: sets ef\<close>)
  then show ?thesis unfolding backendSnapshots_def Let_def by (simp add: assms(4) [symmetric])
qed

text \<open>
  C14. The snapshots of the Pods behind a workload are in the order of the Pods, and the events
  are fetched for exactly the first eight Pods that are not ready. The goroutines that fetch
  them may finish in any order: the snapshots, the list of what was inspected, and the resource
  and reason of each read recorded as failed stay the same. The detail of such a record is the
  message of the failure that came first, so the records themselves are the same in every order
  only if failures with the same reason have the same message.
\<close>

theorem backend_reads_any_order:
  assumes "\<And>xs. mset (cl_Finish cl xs) = mset xs" and "\<And>xs. mset (f xs) = mset xs"
    and "backendSnapshots cl coll pods = (snaps, coll')"
    and "backendSnapshots (cl\<lparr>cl_Finish := f\<rparr>) coll pods = (snaps', coll'')"
  shows "snaps' = snaps \<and> col_Inspected coll'' = col_Inspected coll' \<and>
    (\<lambda>d. (deg_Resource d, deg_Reason d)) ` set (col_Degradations coll'') =
      (\<lambda>d. (deg_Resource d, deg_Reason d)) ` set (col_Degradations coll') \<and>
    ((\<forall>p\<in>set pods. \<forall>q\<in>set pods. \<forall>e e'.
        pod_events cl (backend_snapshot (cl_Now cl coll) p) = Inl e \<and>
        pod_events cl (backend_snapshot (cl_Now cl coll) q) = Inl e' \<and>
        degrade_reason (cl_Errors cl) e = degrade_reason (cl_Errors cl) e' \<longrightarrow>
        APIMessage (cl_Errors cl) (Some e) = APIMessage (cl_Errors cl) (Some e')) \<longrightarrow>
      set (col_Degradations coll'') = set (col_Degradations coll')) \<and>
    length snaps = length pods \<and>
    (\<forall>i < length pods. snaps ! i =
      (let snap = backend_snapshot (cl_Now cl coll) (pods ! i)
       in if \<not> podReady (pods ! i) \<and> length (filter (\<lambda>p. \<not> podReady p) (take i pods)) < 8
          then with_events cl snap else snap))"
proof -
  have snaps: "snaps = fill_events maxBackendEvents cl (map (backend_snapshot (cl_Now cl coll)) pods)"
    using assms(3) backendSnapshots_fst [of cl coll pods] by simp
  have nth: "snaps ! i = (let snap = backend_snapshot (cl_Now cl coll) (pods ! i)
       in if \<not> podReady (pods ! i) \<and> length (filter (\<lambda>p. \<not> podReady p) (take i pods)) < 8
          then with_events cl snap else snap)" if "i < length pods" for i
    using that by (simp add: snaps fill_events_nth take_map filter_map comp_def backend_snapshot_def maxBackendEvents_def Let_def)
  have details: "set (col_Degradations coll'') = set (col_Degradations coll')"
    if same: "\<forall>p\<in>set pods. \<forall>q\<in>set pods. \<forall>e e'.
        pod_events cl (backend_snapshot (cl_Now cl coll) p) = Inl e \<and>
        pod_events cl (backend_snapshot (cl_Now cl coll) q) = Inl e' \<and>
        degrade_reason (cl_Errors cl) e = degrade_reason (cl_Errors cl) e' \<longrightarrow>
        APIMessage (cl_Errors cl) (Some e) = APIMessage (cl_Errors cl) (Some e')"
  proof -
    have "deg_key (events_failure cl e) = deg_key (events_failure cl e') \<longrightarrow> events_failure cl e = events_failure cl e'"
      if "p \<in> set pods" "q \<in> set pods" "pod_events cl (backend_snapshot (cl_Now cl coll) p) = Inl e"
        "pod_events cl (backend_snapshot (cl_Now cl coll) q) = Inl e'" for p q e e'
      using same [rule_format, of p q e e'] that by (simp add: events_failure_def)
    then show ?thesis
      using backendSnapshots_finish_set [OF assms(1,2) _ refl, of coll pods] assms(3,4) by simp
  qed
  have fin: "snaps' = snaps" "col_Inspected coll'' = col_Inspected coll'"
    "deg_key ` set (col_Degradations coll'') = deg_key ` set (col_Degradations coll')"
    using backendSnapshots_finish [OF assms(1,2), of coll pods] assms(3,4) by simp_all
  have len: "length snaps = length pods" by (simp add: snaps)
  show ?thesis by (intro conjI fin len allI impI details nth)
qed

text \<open>Two unready Pods, the second goroutine finishing first.\<close>

theorem backend_reads_any_order_witness:
  "fst (backendSnapshots (quiet_client\<lparr>cl_Finish := rev\<rparr>) collection0 [pod0, pod0\<lparr>pod_Name := ''b''\<rparr>]) =
   fst (backendSnapshots quiet_client collection0 [pod0, pod0\<lparr>pod_Name := ''b''\<rparr>])"
proof -
  have "mset (cl_Finish quiet_client xs) = mset xs" for xs
    by (simp add: quiet_client_def sample_client_def)
  then show ?thesis
    using backend_reads_any_order [of quiet_client rev, OF _ mset_rev prod.collapse [symmetric] prod.collapse [symmetric]] by blast
qed

section \<open>The ownership walk\<close>

abbreviation owner_ref :: "string \<Rightarrow> k_owner_ref \<Rightarrow> resource_ref" where
  "owner_ref ns r \<equiv> \<lparr>ref_Kind = or_Kind r, ref_Namespace = ns, ref_Name = or_Name r\<rparr>"

text \<open>
  The walk as a relation, without a bound: from a controller it goes to the controller of that
  one, as long as it can be read. It ends with the controller it did not visit, or with the
  error of the read that failed.
\<close>

inductive climbs ::
  "('q, 'e) kube_client \<Rightarrow> string \<Rightarrow> k_owner_ref option \<Rightarrow> resource_ref list \<Rightarrow> k_owner_ref option + 'e \<Rightarrow> bool"
  for cl :: "('q, 'e) kube_client" and ns :: string where
  stop: "climbs cl ns cur [] (Inl cur)"
| failed: "parentOf cl (owner_ref ns r) = Inl e \<Longrightarrow> climbs cl ns (Some r) [owner_ref ns r] (Inr e)"
| up: "parentOf cl (owner_ref ns r) = Inr nxt \<Longrightarrow> climbs cl ns nxt chain end' \<Longrightarrow>
    climbs cl ns (Some r) (owner_ref ns r # chain) end'"

inductive_cases climbs_ConsE: "climbs cl ns cur (ref # chain) end'"

lemma climbs_parent:
  assumes "climbs cl ns cur chain end'" and "Suc i < length chain"
  shows "\<exists>r. parentOf cl (chain ! i) = Inr (Some r) \<and> chain ! Suc i = owner_ref ns r"
  using assms
proof (induction arbitrary: i rule: climbs.induct)
  case (up r nxt chain end')
  show ?case
  proof (cases i)
    case 0
    with up obtain x xs where "chain = x # xs" by (cases chain) auto
    with up 0 show ?thesis by (auto elim: climbs_ConsE)
  next
    case (Suc j)
    with up show ?thesis by simp
  qed
qed simp_all

lemma climbs_last:
  "climbs cl ns cur chain end' \<Longrightarrow> chain \<noteq> [] \<Longrightarrow>
     parentOf cl (last chain) = (case end' of Inl rest \<Rightarrow> Inr rest | Inr e \<Rightarrow> Inl e)"
proof (induction rule: climbs.induct)
  case (up r nxt chain end')
  then show ?case by (cases chain) (auto elim: climbs.cases)
qed simp_all

lemma climbs_hd: "climbs cl ns cur chain end' \<Longrightarrow> chain \<noteq> [] \<Longrightarrow> \<exists>r. cur = Some r \<and> hd chain = owner_ref ns r"
  by (auto elim: climbs.cases)

lemma climbs_Nil: "climbs cl ns cur [] end' \<Longrightarrow> end' = Inl cur"
  by (auto elim: climbs.cases)

lemma controllerRef_None: "controllerRef refs = None \<longleftrightarrow> refs = []"
  by (auto simp: controllerRef_def split: option.split list.split)

text \<open>
  Why a walk of at most \<open>n\<close> steps ended, and what it recorded: at the root or at the bound
  with nothing, or at a controller that could not be read with that failure.
\<close>

definition walk_ended ::
  "('q, 'e) kube_client \<Rightarrow> nat \<Rightarrow> collection \<Rightarrow> resource_ref list \<times> collection \<Rightarrow> k_owner_ref option + 'e \<Rightarrow> bool" where
  "walk_ended cl n coll res end' \<longleftrightarrow> length (fst res) \<le> n \<and>
     (case end' of
        Inl rest \<Rightarrow> snd res = coll \<and> (rest = None \<or> length (fst res) = n)
      | Inr e \<Rightarrow> fst res \<noteq> [] \<and> snd res = degrade (cl_Errors cl) coll (kindResource (ref_Kind (last (fst res))))
          ''resolving the full ownership chain'' (Some e))"

lemma walk_ended_up:
  "walk_ended cl n coll (chain, coll') end' \<Longrightarrow> walk_ended cl (Suc n) coll (ref # chain, coll') end'"
  by (auto simp: walk_ended_def split: sum.splits)

lemma owner_loop_climbs:
  "\<exists>end'. climbs cl ns cur (fst (owner_loop n cl coll ns cur)) end' \<and> walk_ended cl n coll (owner_loop n cl coll ns cur) end'"
proof (induction n arbitrary: cur)
  case 0
  show ?case by (intro exI [of _ "Inl cur"]) (simp add: climbs.stop walk_ended_def)
next
  case (Suc n)
  consider (root) "cur = None" | (unread) r e where "cur = Some r" "parentOf cl (owner_ref ns r) = Inl e"
    | (parent) r nxt where "cur = Some r" "parentOf cl (owner_ref ns r) = Inr nxt"
    by (metis not_None_eq obj_sumE)
  then show ?case
  proof cases
    case root
    then show ?thesis by (intro exI [of _ "Inl None"]) (simp add: climbs.stop walk_ended_def)
  next
    case unread
    then show ?thesis by (intro exI [of _ "Inr e"]) (simp add: Let_def climbs.failed walk_ended_def)
  next
    case parent
    obtain end' where "climbs cl ns nxt (fst (owner_loop n cl coll ns nxt)) end'"
      and "walk_ended cl n coll (owner_loop n cl coll ns nxt) end'"
      using Suc.IH by blast
    then have "climbs cl ns cur (fst (owner_loop (Suc n) cl coll ns cur)) end'"
      and "walk_ended cl (Suc n) coll (owner_loop (Suc n) cl coll ns cur) end'"
      using parent by (auto simp: Let_def case_prod_beta intro!: climbs.up walk_ended_up)
    then show ?thesis by blast
  qed
qed

text \<open>
  C23. Resolving the owners of an object always ends, even when owners form a cycle: the chain
  starts with the controller of the object, each entry is the controller of the one before, it
  has at most four entries, and a shorter one ends either at a root or at a controller that
  could not be read, which is then the only failure recorded.
\<close>

theorem ownerChain_bounded_walk:
  assumes "ownerChain cl coll ns refs = (chain, coll')"
  shows "length chain \<le> 4 \<and> (chain = [] \<longleftrightarrow> refs = []) \<and>
    (\<forall>r. controllerRef refs = Some r \<longrightarrow> hd chain = \<lparr>ref_Kind = or_Kind r, ref_Namespace = ns, ref_Name = or_Name r\<rparr>) \<and>
    (\<forall>i. Suc i < length chain \<longrightarrow> (\<exists>r. parentOf cl (chain ! i) = Inr (Some r) \<and>
       chain ! Suc i = \<lparr>ref_Kind = or_Kind r, ref_Namespace = ns, ref_Name = or_Name r\<rparr>)) \<and>
    (chain \<noteq> [] \<longrightarrow> (case parentOf cl (last chain) of
       Inl e \<Rightarrow> coll' = degrade (cl_Errors cl) coll (kindResource (ref_Kind (last chain))) ''resolving the full ownership chain'' (Some e)
     | Inr parent \<Rightarrow> coll' = coll \<and> (parent = None \<or> length chain = 4)))"
proof -
  obtain end' where climb: "climbs cl ns (controllerRef refs) chain end'" and end': "walk_ended cl 4 coll (chain, coll') end'"
    using owner_loop_climbs [of cl ns "controllerRef refs" 4 coll] assms by (auto simp: ownerChain_def maxOwnerDepth_def)
  have "chain = [] \<longleftrightarrow> refs = []"
  proof
    assume "chain = []"
    then show "refs = []" using climb end' climbs_Nil by (fastforce simp: walk_ended_def controllerRef_None)
  next
    assume "refs = []"
    then show "chain = []" using climbs_hd [OF climb] controllerRef_None [of refs] by fastforce
  qed
  moreover have "hd chain = owner_ref ns r" if "controllerRef refs = Some r" for r
    using climbs_hd [OF climb] controllerRef_None [of refs] that calculation by auto
  moreover have "case parentOf cl (last chain) of
       Inl e \<Rightarrow> coll' = degrade (cl_Errors cl) coll (kindResource (ref_Kind (last chain))) ''resolving the full ownership chain'' (Some e)
     | Inr parent \<Rightarrow> coll' = coll \<and> (parent = None \<or> length chain = 4)" if "chain \<noteq> []"
    using climbs_last [OF climb that] end' by (auto simp: walk_ended_def split: sum.splits)
  ultimately show ?thesis
    using climbs_parent [OF climb] end' by (simp add: walk_ended_def)
qed

text \<open>Two Jobs that name each other as their controller: the walk stops after four steps.\<close>

definition job_owner :: "string \<Rightarrow> k_owner_ref" where
  "job_owner name = \<lparr>or_Kind = ''Job'', or_Name = name, or_UID = [], or_Controller = Some True\<rparr>"

definition cyclic_client :: "(int, string) kube_client" where
  "cyclic_client = (sample_client [])\<lparr>get_Job := (\<lambda>ns name. Inr [job_owner (if name = ''a'' then ''b'' else ''a'')])\<rparr>"

theorem ownerChain_bounded_walk_witness:
  "map ref_Name (fst (ownerChain cyclic_client collection0 ''default'' [job_owner ''a''])) = [''a'', ''b'', ''a'', ''b''] \<and>
   length (fst (ownerChain cyclic_client collection0 ''default'' [job_owner ''a''])) \<le> 4"
proof -
  have "map ref_Name (fst (ownerChain cyclic_client collection0 ''default'' [job_owner ''a''])) = [''a'', ''b'', ''a'', ''b'']"
    by code_simp
  then show ?thesis
    using ownerChain_bounded_walk [OF prod.collapse [symmetric], of cyclic_client collection0 "''default''" "[job_owner ''a'']"] by blast
qed

end
