(* ===== verification/Verdicts.thy ===== *)
theory Verdicts
  imports Reads
begin

text \<open>
  What a healthy verdict rests on. Two clients agree when every read that one of them answered,
  with an object or with the statement that there is none, has the same answer from the other;
  reads that failed in any other way may have any answer. The lemmas follow the collectors: a
  step that recorded no failed read does the same with both clients. So a report without a
  recorded failure does not depend on any answer the server withheld.
\<close>

definition settled :: "'e api_errors \<Rightarrow> 'e + 'a \<Rightarrow> 'e + 'a \<Rightarrow> bool" where
  "settled api r r' \<longleftrightarrow> (case r of Inr _ \<Rightarrow> r' = r | Inl e \<Rightarrow> kube_IsNotFound api e \<longrightarrow> r' = r)"

definition agrees :: "('q, 'e) kube_client \<Rightarrow> ('q, 'e) kube_client \<Rightarrow> bool" where
  "agrees cl cl' \<longleftrightarrow>
     cl_Context cl' = cl_Context cl \<and>
     cl_Errors cl' = cl_Errors cl \<and>
     fields_String cl' = fields_String cl \<and>
     labels_String cl' = labels_String cl \<and>
     labels_Match cl' = labels_Match cl \<and>
     cl_Now cl' = cl_Now cl \<and>
     cl_Finish cl' = cl_Finish cl \<and>
     (\<forall>a b. settled (cl_Errors cl) (get_Pod cl a b) (get_Pod cl' a b)) \<and>
     (\<forall>a b. settled (cl_Errors cl) (get_Service cl a b) (get_Service cl' a b)) \<and>
     (\<forall>a b. settled (cl_Errors cl) (get_Deployment cl a b) (get_Deployment cl' a b)) \<and>
     (\<forall>a b. settled (cl_Errors cl) (get_StatefulSet cl a b) (get_StatefulSet cl' a b)) \<and>
     (\<forall>a b. settled (cl_Errors cl) (get_Ingress cl a b) (get_Ingress cl' a b)) \<and>
     (\<forall>a b. settled (cl_Errors cl) (get_PVC cl a b) (get_PVC cl' a b)) \<and>
     (\<forall>a b. settled (cl_Errors cl) (get_ConfigMap cl a b) (get_ConfigMap cl' a b)) \<and>
     (\<forall>a b. settled (cl_Errors cl) (get_Secret cl a b) (get_Secret cl' a b)) \<and>
     (\<forall>a b. settled (cl_Errors cl) (get_ReplicaSet cl a b) (get_ReplicaSet cl' a b)) \<and>
     (\<forall>a b. settled (cl_Errors cl) (get_Job cl a b) (get_Job cl' a b)) \<and>
     (\<forall>a b. settled (cl_Errors cl) (get_Endpoints cl a b) (get_Endpoints cl' a b)) \<and>
     (\<forall>a b. settled (cl_Errors cl) (list_Pods cl a b) (list_Pods cl' a b)) \<and>
     (\<forall>a b. settled (cl_Errors cl) (list_ReplicaSets cl a b) (list_ReplicaSets cl' a b)) \<and>
     (\<forall>a b. settled (cl_Errors cl) (list_EndpointSlices cl a b) (list_EndpointSlices cl' a b)) \<and>
     (\<forall>a. settled (cl_Errors cl) (get_Node cl a) (get_Node cl' a)) \<and>
     (\<forall>a. settled (cl_Errors cl) (get_StorageClass cl a) (get_StorageClass cl' a)) \<and>
     (\<forall>a. settled (cl_Errors cl) (get_IngressClass cl a) (get_IngressClass cl' a)) \<and>
     (\<forall>a. settled (cl_Errors cl) (LabelSelectorAsSelector cl a) (LabelSelectorAsSelector cl' a)) \<and>
     settled (cl_Errors cl) (list_StorageClasses cl) (list_StorageClasses cl') \<and>
     settled (cl_Errors cl) (list_IngressClasses cl) (list_IngressClasses cl') \<and>
     (\<forall>a b n. settled (cl_Errors cl) (list_Events cl a b n) (list_Events cl' a b n)) \<and>
     rel_option (\<lambda>get get'. \<forall>a b. settled (cl_Errors cl) (get a b) (get' a b)) (get_SecretMetadata cl) (get_SecretMetadata cl')"

lemma settledD:
  "settled api (Inr x) r' \<Longrightarrow> r' = Inr x"
  "settled api (Inl e) r' \<Longrightarrow> kube_IsNotFound api e \<Longrightarrow> r' = Inl e"
  by (simp_all add: settled_def)

lemma settled_refl [simp]: "settled api r r"
  by (simp add: settled_def split: sum.split)

lemma agrees_same:
  assumes "agrees cl cl'"
  shows "cl_Context cl' = cl_Context cl" "cl_Errors cl' = cl_Errors cl" "fields_String cl' = fields_String cl"
    "labels_String cl' = labels_String cl" "labels_Match cl' = labels_Match cl" "cl_Now cl' = cl_Now cl"
    "cl_Finish cl' = cl_Finish cl"
  using assms by (simp_all add: agrees_def)

text \<open>Reads that were answered with something, and reads that may also say there is nothing.\<close>

lemma agrees_answer:
  assumes "agrees cl cl'"
  shows "get_Pod cl ns name = Inr x1 \<Longrightarrow> get_Pod cl' ns name = Inr x1"
    "get_Service cl ns name = Inr x2 \<Longrightarrow> get_Service cl' ns name = Inr x2"
    "get_Deployment cl ns name = Inr x3 \<Longrightarrow> get_Deployment cl' ns name = Inr x3"
    "get_StatefulSet cl ns name = Inr x4 \<Longrightarrow> get_StatefulSet cl' ns name = Inr x4"
    "get_Ingress cl ns name = Inr x5 \<Longrightarrow> get_Ingress cl' ns name = Inr x5"
    "get_PVC cl ns name = Inr x6 \<Longrightarrow> get_PVC cl' ns name = Inr x6"
    "get_ReplicaSet cl ns name = Inr x7 \<Longrightarrow> get_ReplicaSet cl' ns name = Inr x7"
    "get_Job cl ns name = Inr x8 \<Longrightarrow> get_Job cl' ns name = Inr x8"
    "get_Endpoints cl ns name = Inr x9 \<Longrightarrow> get_Endpoints cl' ns name = Inr x9"
    "list_Pods cl ns sel = Inr x10 \<Longrightarrow> list_Pods cl' ns sel = Inr x10"
    "list_ReplicaSets cl ns sel = Inr x11 \<Longrightarrow> list_ReplicaSets cl' ns sel = Inr x11"
    "list_EndpointSlices cl ns sel = Inr x12 \<Longrightarrow> list_EndpointSlices cl' ns sel = Inr x12"
    "get_Node cl name = Inr x13 \<Longrightarrow> get_Node cl' name = Inr x13"
    "get_StorageClass cl name = Inr x14 \<Longrightarrow> get_StorageClass cl' name = Inr x14"
    "LabelSelectorAsSelector cl q = Inr x15 \<Longrightarrow> LabelSelectorAsSelector cl' q = Inr x15"
    "list_StorageClasses cl = Inr x16 \<Longrightarrow> list_StorageClasses cl' = Inr x16"
    "list_IngressClasses cl = Inr x17 \<Longrightarrow> list_IngressClasses cl' = Inr x17"
    "list_Events cl ns sel n = Inr x18 \<Longrightarrow> list_Events cl' ns sel n = Inr x18"
  using assms unfolding agrees_def by (metis settledD(1))+

lemma agrees_settled:
  assumes "agrees cl cl'"
  shows "settled (cl_Errors cl) (get_Service cl ns name) (get_Service cl' ns name)"
    "settled (cl_Errors cl) (get_PVC cl ns name) (get_PVC cl' ns name)"
    "settled (cl_Errors cl) (get_ConfigMap cl ns name) (get_ConfigMap cl' ns name)"
    "settled (cl_Errors cl) (get_Endpoints cl ns name) (get_Endpoints cl' ns name)"
    "settled (cl_Errors cl) (list_EndpointSlices cl ns name) (list_EndpointSlices cl' ns name)"
    "settled (cl_Errors cl) (get_StorageClass cl name) (get_StorageClass cl' name)"
    "settled (cl_Errors cl) (get_IngressClass cl name) (get_IngressClass cl' name)"
  using assms by (simp_all add: agrees_def)

section \<open>Reads\<close>

abbreviation unrecorded :: "collection \<Rightarrow> bool" where
  "unrecorded c \<equiv> col_Degradations c = []"

lemma unrecorded_grows: "grows c c' \<Longrightarrow> unrecorded c' \<Longrightarrow> unrecorded c"
  using grows_nonempty by blast

lemma existence_same:
  "unrecorded (snd (existence_of api c res req (err_of r))) \<Longrightarrow> settled api r r' \<Longrightarrow> r' = r"
  by (cases r) (auto simp: existence_of_def settled_def split: if_splits)

lemma existence_Secret:
  assumes "agrees cl cl'" and "unrecorded (snd (existence_of (cl_Errors cl) c res req (SecretExists cl ns name)))"
  shows "SecretExists cl' ns name = SecretExists cl ns name"
proof (cases "get_SecretMetadata cl")
  case None
  then have "get_SecretMetadata cl' = None" using assms(1) by (simp add: agrees_def)
  moreover have "settled (cl_Errors cl) (get_Secret cl ns name) (get_Secret cl' ns name)"
    using assms(1) by (simp add: agrees_def)
  ultimately show ?thesis
    using existence_same [of "cl_Errors cl" c res req "get_Secret cl ns name" "get_Secret cl' ns name"] assms(2) None
    by (simp add: SecretExists_def)
next
  case (Some get)
  then obtain get' where "get_SecretMetadata cl' = Some get'" "settled (cl_Errors cl) (get ns name) (get' ns name)"
    using assms(1) unfolding agrees_def by (auto simp: option_rel_Some1)
  then show ?thesis
    using existence_same [of "cl_Errors cl" c res req "get ns name" "get' ns name"] assms(2) Some
    by (simp add: SecretExists_def)
qed

lemma eventsFor_same: "agrees cl cl' \<Longrightarrow> eventsFor cl ref uid = Inr evs \<Longrightarrow> eventsFor cl' ref uid = Inr evs"
  by (auto simp: eventsFor_def agrees_same agrees_answer split: sum.splits)

lemma collect_events_same:
  "agrees cl cl' \<Longrightarrow> unrecorded (snd (collect_events cl c ref uid req what)) \<Longrightarrow>
   collect_events cl' c ref uid req what = collect_events cl c ref uid req what"
  by (cases "eventsFor cl ref uid") (simp_all add: collect_events_def eventsFor_same)

lemma parentOf_same: "agrees cl cl' \<Longrightarrow> parentOf cl ref = Inr x \<Longrightarrow> parentOf cl' ref = Inr x"
  by (auto simp: parentOf_def agrees_answer split: sum.splits if_splits)

lemma owner_loop_same:
  assumes "agrees cl cl'"
  shows "unrecorded (snd (owner_loop n cl c ns cur)) \<Longrightarrow> owner_loop n cl' c ns cur = owner_loop n cl c ns cur"
proof (induction n arbitrary: cur)
  case (Suc n)
  show ?case
  proof (cases cur)
    case (Some r)
    then obtain nxt where "parentOf cl (owner_ref ns r) = Inr nxt"
      using Suc.prems by (auto simp: Let_def split: sum.splits)
    then show ?thesis
      using Suc.prems Suc.IH [of nxt] Some parentOf_same [OF assms] by (auto simp: Let_def case_prod_beta)
  qed simp
qed simp

lemma endpointsFor_same:
  assumes A: "agrees cl cl'" and u: "unrecorded (snd (endpointsFor cl c ns name))"
  shows "endpointsFor cl' c ns name = endpointsFor cl c ns name"
proof (cases "list_EndpointSlices cl ns (''kubernetes.io/service-name='' @ name)")
  case (Inl e)
  then have nf: "kube_IsNotFound (cl_Errors cl) e" using u by (auto simp: endpointsFor_def split: if_splits)
  then have "get_Endpoints cl' ns name = get_Endpoints cl ns name"
    using u Inl agrees_settled(4) [OF A, of ns name]
    by (auto simp: endpointsFor_def legacyEndpointsFor_def settled_def split: sum.splits if_splits)
  moreover have "list_EndpointSlices cl' ns (''kubernetes.io/service-name='' @ name) = Inl e"
    using nf Inl agrees_settled(5) [OF A, of ns "''kubernetes.io/service-name='' @ name"] settledD(2) by simp
  ultimately show ?thesis
    using Inl unfolding endpointsFor_def legacyEndpointsFor_def agrees_same [OF A] by simp
qed (simp add: endpointsFor_def agrees_answer [OF A])

lemma storageClassInfo_same:
  assumes A: "agrees cl cl'" and u: "unrecorded (snd (storageClassInfo cl c claim))"
  shows "storageClassInfo cl' c claim = storageClassInfo cl c claim"
proof -
  let ?name = "storageClassName claim"
  have "get_StorageClass cl' ?name = get_StorageClass cl ?name" if "pvc_StorageClassName claim \<noteq> Some []" "?name \<noteq> []"
    by (rule existence_same [OF _ agrees_settled(6) [OF A]])
      (use u that in \<open>auto simp: storageClassInfo_def case_prod_beta Let_def split: sum.splits\<close>)
  moreover have "list_StorageClasses cl' = list_StorageClasses cl" if "pvc_StorageClassName claim \<noteq> Some []" "?name = []"
    using u that agrees_answer(16) [OF A]
    by (auto simp: storageClassInfo_def defaultStorageClassInfo_def Let_def split: sum.splits)
  ultimately show ?thesis
    unfolding storageClassInfo_def defaultStorageClassInfo_def agrees_same [OF A] Let_def by simp
qed

section \<open>The Pods behind a workload\<close>

definition all_finish :: "('q, 'e) kube_client \<Rightarrow> bool" where
  "all_finish cl \<longleftrightarrow> (\<forall>xs. mset (cl_Finish cl xs) = mset xs)"

lemma all_finish_set: "all_finish cl \<Longrightarrow> set (cl_Finish cl xs) = set xs"
  unfolding all_finish_def by (metis set_mset_mset)

lemma record_failure_same:
  assumes A: "agrees cl cl'" and "unrecorded (foldl (record_failure cl) c xs)"
  shows "\<forall>x\<in>set xs. \<exists>evs. pod_events cl x = Inr evs \<and> pod_events cl' x = Inr evs"
    and "foldl (record_failure cl') c xs = foldl (record_failure cl) c xs"
proof -
  show ev: "\<forall>x\<in>set xs. \<exists>evs. pod_events cl x = Inr evs \<and> pod_events cl' x = Inr evs"
  proof
    fix x assume x: "x \<in> set xs"
    have "pod_events cl x \<noteq> Inl e" for e
    proof
      assume e: "pod_events cl x = Inl e"
      have "\<not> unrecorded (foldl (record_failure cl) c xs)"
        by (rule failure_loop.foldl_keeps [OF x, unfolded id_apply])
          (auto simp: record_failure_def err_of_def e dest: grows_nonempty)
      with assms(2) show False by contradiction
    qed
    then obtain evs where "pod_events cl x = Inr evs" by (cases "pod_events cl x") auto
    then show "\<exists>evs. pod_events cl x = Inr evs \<and> pod_events cl' x = Inr evs"
      using eventsFor_same [OF A] by (auto simp: pod_events_def)
  qed
  show "foldl (record_failure cl') c xs = foldl (record_failure cl) c xs"
    by (rule foldl_cong) (use ev in \<open>auto simp: record_failure_def agrees_same [OF A]\<close>)
qed

lemma fill_events_same:
  "\<forall>s\<in>set (take n (filter (\<lambda>s. \<not> podReady (ps_Pod s)) ss)). with_events cl' s = with_events cl s \<Longrightarrow>
   fill_events n cl' ss = fill_events n cl ss"
  by (induction n cl ss rule: fill_events.induct) (auto split: nat.split)

lemma backendSnapshots_same:
  assumes A: "agrees cl cl'" and fin: "all_finish cl" and u: "unrecorded (snd (backendSnapshots cl c pods))"
  shows "backendSnapshots cl' c pods = backendSnapshots cl c pods"
proof -
  let ?snaps = "map (backend_snapshot (cl_Now cl c)) pods"
  let ?need = "need_events ?snaps"
  show ?thesis
  proof (cases "?need = []")
    case True
    then show ?thesis by (simp add: backendSnapshots_def Let_def agrees_same [OF A])
  next
    case False
    then have q: "unrecorded (foldl (record_failure cl) c (cl_Finish cl ?need))"
      using u by (auto simp: backendSnapshots_def Let_def split: if_splits)
    then have "\<forall>s\<in>set ?need. with_events cl' s = with_events cl s"
      using record_failure_same(1) [OF A q] all_finish_set [OF fin, of ?need] by (fastforce simp: with_events_def)
    then have "fill_events maxBackendEvents cl' ?snaps = fill_events maxBackendEvents cl ?snaps"
      by (intro fill_events_same) (simp add: need_events_def)
    then show ?thesis
      using record_failure_same(2) [OF A q] unfolding backendSnapshots_def agrees_same [OF A] Let_def by simp
  qed
qed

lemma collect_backends_same:
  assumes A: "agrees cl cl'" and fin: "all_finish cl" and u: "unrecorded (snd (collect_backends cl c req ns sel))"
  shows "collect_backends cl' c req ns sel = collect_backends cl c req ns sel"
proof (cases "list_Pods cl ns sel")
  case (Inr pods)
  then show ?thesis
    using u backendSnapshots_same [OF A fin] by (simp add: collect_backends_def agrees_answer [OF A] case_prod_beta)
qed (use u in \<open>simp add: collect_backends_def\<close>)

section \<open>Loops\<close>

context growing
begin

text \<open>A loop that recorded nothing has run only steps that recorded nothing.\<close>

lemma foldl_same:
  assumes "\<And>s x. unrecorded (coll_of (step s x)) \<Longrightarrow> step' s x = step s x"
  shows "unrecorded (coll_of (foldl step s xs)) \<Longrightarrow> foldl step' s xs = foldl step s xs"
proof (induction xs arbitrary: s)
  case (Cons x xs)
  have "unrecorded (coll_of (step s x))"
    using Cons.prems foldl_grows [of "step s x" xs] unrecorded_grows by simp
  with Cons show ?case by (simp add: assms)
qed simp

end

lemma check_existence_same:
  assumes "\<And>c. unrecorded (snd (existence_of api c res req (read name))) \<Longrightarrow> read' name = read name"
    and "unrecorded (snd (check_existence api read res req acc name))"
  shows "check_existence api read' res req acc name = check_existence api read res req acc name"
  using assms by (simp add: check_existence_def case_prod_beta)

lemma claim_entry_same:
  assumes A: "agrees cl cl'" and u: "unrecorded (snd (claim_entry cl c req ns name))"
  shows "claim_entry cl' c req ns name = claim_entry cl c req ns name"
proof -
  let ?e = "existence_of (cl_Errors cl) c ''persistentvolumeclaims'' req (err_of (get_PVC cl ns name))"
  have "grows (snd ?e) (snd (claim_entry cl c req ns name))"
    by (auto simp: claim_entry_def case_prod_beta Let_def intro!: grows_intros split: sum.split)
  then have "get_PVC cl' ns name = get_PVC cl ns name"
    using u unrecorded_grows by (intro existence_same [OF _ agrees_settled(2) [OF A]])
  moreover have "storageClassInfo cl' (snd ?e) claim = storageClassInfo cl (snd ?e) claim"
    if "get_PVC cl ns name = Inr claim" "pvc_Phase claim \<noteq> ''Bound''" for claim
    using u that by (intro storageClassInfo_same [OF A]) (simp add: claim_entry_def case_prod_beta Let_def)
  ultimately show ?thesis
    by (cases "get_PVC cl ns name") (simp_all add: claim_entry_def case_prod_beta Let_def agrees_same [OF A])
qed

section \<open>Pods\<close>

lemma pod_start_same:
  assumes A: "agrees cl cl'" and u: "unrecorded (ps_Collection (pod_start cl ref pod))"
  shows "pod_start cl' ref pod = pod_start cl ref pod"
proof -
  let ?own = "ownerChain cl collection0 (ref_Namespace ref) (pod_OwnerReferences pod)"
  let ?ev = "collect_events cl (Inspect collection0 (''pod '' @ ref_Name ref)) ref (pod_UID pod)
    ''explaining scheduling, image pull and probe failures'' (''events for pod '' @ ref_Name ref)"
  have m: "unrecorded (foldl Degrade (snd ?ev) (col_Degradations (snd ?own)))"
    using u by (auto simp: pod_start_def case_prod_beta Let_def split: if_splits)
  then have "unrecorded (snd ?ev)"
    using degrade_loop.foldl_grows [unfolded id_apply] unrecorded_grows by blast
  then have ev: "collect_events cl' (Inspect collection0 (''pod '' @ ref_Name ref)) ref (pod_UID pod)
    ''explaining scheduling, image pull and probe failures'' (''events for pod '' @ ref_Name ref) = ?ev"
    by (rule collect_events_same [OF A])
  have "unrecorded (snd ?own)"
    using m by (cases "col_Degradations (snd ?own)" rule: rev_cases) simp_all
  then have "ownerChain cl' collection0 (ref_Namespace ref) (pod_OwnerReferences pod) = ?own"
    unfolding ownerChain_def by (rule owner_loop_same [OF A])
  with ev show ?thesis by (simp add: pod_start_def agrees_same [OF A])
qed

lemma collectPodNode_same:
  assumes A: "agrees cl cl'" and u: "unrecorded (ps_Collection (collectPodNode cl snap))"
  shows "collectPodNode cl' snap = collectPodNode cl snap"
  by (cases "get_Node cl (pod_NodeName (ps_Pod snap))")
    (use u in \<open>auto simp: collectPodNode_def Let_def agrees_answer [OF A] split: if_splits\<close>)

lemma collectPodClaims_same:
  assumes A: "agrees cl cl'" and u: "unrecorded (ps_Collection (collectPodClaims cl snap))"
  shows "collectPodClaims cl' snap = collectPodClaims cl snap"
proof (cases "needsClaims snap")
  case True
  let ?ns = "pod_Namespace (ps_Pod snap)"
  have loop: "unrecorded (snd (foldl (collect_volume_claim cl ?ns) (ps_PVCs snap, ps_Collection snap) (pod_Volumes (ps_Pod snap))))"
    using u True by (simp add: collectPodClaims_def case_prod_beta Let_def)
  have "collect_volume_claim cl' ?ns acc vol = collect_volume_claim cl ?ns acc vol"
    if "unrecorded (snd (collect_volume_claim cl ?ns acc vol))" for acc vol
    using that claim_entry_same [OF A]
    by (auto simp: collect_volume_claim_def case_prod_beta Let_def split: option.splits if_splits)
  then have "foldl (collect_volume_claim cl' ?ns) (ps_PVCs snap, ps_Collection snap) (pod_Volumes (ps_Pod snap)) =
      foldl (collect_volume_claim cl ?ns) (ps_PVCs snap, ps_Collection snap) (pod_Volumes (ps_Pod snap))"
    by (rule volume_loop.foldl_same [OF _ loop])
  then show ?thesis by (simp add: collectPodClaims_def)
qed (simp add: collectPodClaims_def)

lemma collectPodConfigRefs_same:
  assumes A: "agrees cl cl'" and u: "unrecorded (ps_Collection (collectPodConfigRefs cl snap))"
  shows "collectPodConfigRefs cl' snap = collectPodConfigRefs cl snap"
proof (cases "needsConfigRefs snap")
  case True
  let ?ns = "pod_Namespace (ps_Pod snap)" and ?api = "cl_Errors cl"
  let ?refs = "referencedConfig (ps_Pod snap)"
  let ?cm = "\<lambda>cl. check_existence ?api (\<lambda>name. err_of (get_ConfigMap cl ?ns name)) ''configmaps'' ''checking referenced configuration''"
  let ?sec = "\<lambda>cl. check_existence ?api (SecretExists cl ?ns) ''secrets'' ''checking referenced secrets exist''"
  let ?f = "foldl (?cm cl) (ps_ConfigMaps snap, ps_Collection snap) (fst ?refs)"
  let ?g = "foldl (?sec cl) (ps_Secrets snap, snd ?f) (snd ?refs)"
  have g: "unrecorded (snd ?g)"
    using u True by (simp add: collectPodConfigRefs_def case_prod_beta Let_def split: if_splits)
  then have f: "unrecorded (snd ?f)"
    using existence_loop.foldl_grows [of "(ps_Secrets snap, snd ?f)" ?api "SecretExists cl ?ns"] unrecorded_grows by fastforce
  have "foldl (?cm cl') (ps_ConfigMaps snap, ps_Collection snap) (fst ?refs) = ?f"
    by (rule existence_loop.foldl_same [OF check_existence_same f])
      (auto dest: existence_same [OF _ agrees_settled(3) [OF A]])
  moreover have "foldl (?sec cl') (ps_Secrets snap, snd ?f) (snd ?refs) = ?g"
    by (rule existence_loop.foldl_same [OF check_existence_same g]) (auto dest: existence_Secret [OF A])
  ultimately show ?thesis
    using True by (simp add: collectPodConfigRefs_def case_prod_beta Let_def agrees_same [OF A])
qed (simp add: collectPodConfigRefs_def)

lemma collect_Pod_same:
  assumes A: "agrees cl cl'" and snap: "collect_Pod cl ns name = Inr snap" and u: "unrecorded (ps_Collection snap)"
  shows "collect_Pod cl' ns name = Inr snap"
proof -
  obtain pod where pod: "get_Pod cl ns name = Inr pod" and
    steps: "snap = collectPodClaims cl (collectPodConfigRefs cl (collectPodNode cl (pod_start cl (pod_ref ns name) pod)))"
    using snap by (auto simp: collect_Pod_Inr)
  let ?s0 = "pod_start cl (pod_ref ns name) pod"
  let ?s1 = "collectPodNode cl ?s0"
  let ?s2 = "collectPodConfigRefs cl ?s1"
  have "unrecorded (ps_Collection (collectPodClaims cl ?s2))" using u steps by simp
  moreover from this have "unrecorded (ps_Collection ?s2)" by (rule unrecorded_grows [OF grows_pod_steps(3)])
  moreover from this have "unrecorded (ps_Collection ?s1)" by (rule unrecorded_grows [OF grows_pod_steps(2)])
  moreover from this have "unrecorded (ps_Collection ?s0)" by (rule unrecorded_grows [OF grows_pod_steps(1)])
  ultimately have "snap = collectPodClaims cl' (collectPodConfigRefs cl' (collectPodNode cl' (pod_start cl' (pod_ref ns name) pod)))"
    unfolding steps
    by (simp add: collectPodClaims_same [OF A] collectPodConfigRefs_same [OF A] collectPodNode_same [OF A] pod_start_same [OF A])
  then show ?thesis using agrees_answer(1) [OF A pod] by (auto simp: collect_Pod_Inr)
qed

section \<open>Services and workloads\<close>

lemma collect_Service_same:
  assumes A: "agrees cl cl'" and fin: "all_finish cl"
    and snap: "collect_Service cl ns name = Inr snap" and u: "unrecorded (ss_Collection snap)"
  shows "collect_Service cl' ns name = Inr snap"
proof -
  obtain service where svc: "get_Service cl ns name = Inr service"
    using snap by (auto simp: collect_Service_def Let_def split: sum.splits)
  let ?ref = "\<lparr>ref_Kind = ''Service'', ref_Namespace = ns, ref_Name = name\<rparr>"
  let ?ev = "\<lambda>cl. collect_events cl (Inspect collection0 (''service '' @ name)) ?ref (svc_UID service)
    ''explaining endpoint and configuration problems'' (''events for service '' @ name)"
  let ?s0 = "\<lparr>ss_Collection = snd (?ev cl), ss_Service = service, ss_Events = fst (?ev cl), ss_Backends = None,
    ss_Endpoints = endpoint_set0, ss_Now = cl_Now cl collection0\<rparr>"
  let ?ep = "\<lambda>cl. endpointsFor cl (snd (?ev cl)) ns name"
  let ?bs = "\<lambda>cl. collect_backends cl (snd (?ep cl)) ''finding the Pods the selector matches'' ns (labels_String cl (svc_Selector service))"
  have g: "grows (snd (?ev cl)) (snd (?ep cl))" "grows (snd (?ep cl)) (snd (?bs cl))" by (intro grows_intros)+
  let ?ext = "svc_Type service = ''ExternalName''" and ?sel = "svc_Selector service \<noteq> []"
  note defs = Service_IsExternalName_def Service_HasSelector_def
  have eq: "snap = (if ?ext then ?s0
      else let s = ?s0\<lparr>ss_Endpoints := fst (?ep cl), ss_Collection := snd (?ep cl)\<rparr> in
        if \<not> ?sel then s else s\<lparr>ss_Backends := fst (?bs cl), ss_Collection := snd (?bs cl)\<rparr>)"
    using snap svc by (auto simp: collect_Service_def defs case_prod_beta Let_def)
  have bs: "unrecorded (snd (?bs cl)) \<Longrightarrow> unrecorded (snd (?ep cl))" and ep: "unrecorded (snd (?ep cl)) \<Longrightarrow> unrecorded (snd (?ev cl))"
    using g unrecorded_grows by blast+
  have "unrecorded (snd (?ev cl))"
    using u bs ep unfolding eq by (simp add: Let_def split: if_splits)
  then have ev: "?ev cl' = ?ev cl" by (rule collect_events_same [OF A])
  have "?ep cl' = ?ep cl" if "\<not> ?ext"
    unfolding ev using u bs that unfolding eq by (intro endpointsFor_same [OF A]) (simp add: Let_def split: if_splits)
  moreover have "?bs cl' = ?bs cl" if "\<not> ?ext" "?sel"
    unfolding calculation [OF that(1)] agrees_same [OF A] using u that unfolding eq
    by (intro collect_backends_same [OF A fin]) (simp add: Let_def)
  ultimately show ?thesis
    using ev agrees_answer(2) [OF A svc] unfolding eq collect_Service_def
    by (simp add: defs case_prod_beta Let_def agrees_same [OF A])
qed

lemma collect_Deployment_same:
  assumes A: "agrees cl cl'" and fin: "all_finish cl"
    and snap: "collect_Deployment cl ns name = Inr snap" and u: "unrecorded (ds_Collection snap)"
  shows "collect_Deployment cl' ns name = Inr snap"
proof -
  obtain dep where dep: "get_Deployment cl ns name = Inr dep"
    using snap by (auto simp: collect_Deployment_def Let_def split: sum.splits)
  let ?ref = "\<lparr>ref_Kind = ''Deployment'', ref_Namespace = ns, ref_Name = name\<rparr>"
  let ?ev = "\<lambda>cl. collect_events cl (Inspect collection0 (''deployment '' @ name)) ?ref (dep_UID dep)
    ''explaining failed rollouts and rejected Pods'' (''events for deployment '' @ name)"
  obtain sel where sel: "LabelSelectorAsSelector cl (dep_Selector dep) = Inr sel"
    using snap u dep by (auto simp: collect_Deployment_def case_prod_beta Let_def split: sum.splits)
  have "\<exists>sets. list_ReplicaSets cl ns sel = Inr sets"
  proof (rule ccontr)
    assume "\<nexists>sets. list_ReplicaSets cl ns sel = Inr sets"
    then obtain e where e: "list_ReplicaSets cl ns sel = Inl e" by (cases "list_ReplicaSets cl ns sel") auto
    let ?c = "degrade (cl_Errors cl) (snd (?ev cl)) ''replicasets'' ''identifying the current revision'' (Some e)"
    have "grows ?c (ds_Collection snap)"
      using snap by (auto simp: collect_Deployment_def dep sel e case_prod_beta Let_def intro!: grows_intros)
    then show False using u grows_nonempty by fastforce
  qed
  then obtain sets where sets: "list_ReplicaSets cl ns sel = Inr sets" by blast
  let ?c = "Inspect (snd (?ev cl)) (''replicasets matching '' @ sel)"
  let ?bs = "\<lambda>cl. collect_backends cl ?c ''diagnosing the Pods this Deployment owns'' ns sel"
  have coll: "ds_Collection snap = snd (?bs cl)"
    using snap by (auto simp: collect_Deployment_def dep sel sets case_prod_beta Let_def)
  have "grows (snd (?ev cl)) (snd (?bs cl))" by (intro grows_intros)
  then have "?ev cl' = ?ev cl" using u coll unrecorded_grows by (intro collect_events_same [OF A]) simp
  moreover have "?bs cl' = ?bs cl" using u coll by (intro collect_backends_same [OF A fin]) simp
  ultimately show ?thesis
    using snap agrees_answer(3) [OF A dep] agrees_answer(15) [OF A sel] agrees_answer(11) [OF A sets]
    by (simp add: collect_Deployment_def dep sel sets case_prod_beta Let_def agrees_same [OF A])
qed

lemma collectStatefulSetPods_same:
  assumes A: "agrees cl cl'" and fin: "all_finish cl" and u: "unrecorded (st_Collection (collectStatefulSetPods cl snap))"
  shows "collectStatefulSetPods cl' snap = collectStatefulSetPods cl snap"
proof -
  let ?sts = "st_StatefulSet snap"
  obtain sel where sel: "LabelSelectorAsSelector cl (sts_Selector ?sts) = Inr sel"
    using u by (auto simp: collectStatefulSetPods_def Let_def split: sum.splits)
  obtain pods where pods: "list_Pods cl (sts_Namespace ?sts) sel = Inr pods"
    using u sel by (auto simp: collectStatefulSetPods_def Let_def split: sum.splits)
  let ?owned = "slice_stable ordinal_less (owned_pods ?sts pods)" and ?c = "Inspect (st_Collection snap) (''pods matching '' @ sel)"
  have "backendSnapshots cl' ?c ?owned = backendSnapshots cl ?c ?owned"
    by (rule backendSnapshots_same [OF A fin])
      (use u in \<open>simp add: collectStatefulSetPods_def sel pods case_prod_beta Let_def\<close>)
  then show ?thesis
    by (simp add: collectStatefulSetPods_def sel pods agrees_answer(15) [OF A sel] agrees_answer(10) [OF A pods] Let_def)
qed

lemma collectHeadlessService_same:
  assumes A: "agrees cl cl'" and u: "unrecorded (st_Collection (collectHeadlessService cl snap))"
  shows "collectHeadlessService cl' snap = collectHeadlessService cl snap"
proof (cases "sts_ServiceName (st_StatefulSet snap) = []")
  case False
  let ?r = "\<lambda>cl. get_Service cl (sts_Namespace (st_StatefulSet snap)) (sts_ServiceName (st_StatefulSet snap))"
  have "?r cl' = ?r cl"
    by (rule existence_same [OF _ agrees_settled(1) [OF A]])
      (use u False in \<open>auto simp: collectHeadlessService_def case_prod_beta Let_def split: sum.splits\<close>)
  then show ?thesis unfolding collectHeadlessService_def agrees_same [OF A] Let_def by simp
qed (simp add: collectHeadlessService_def)

lemma collectClaimTemplates_same:
  assumes A: "agrees cl cl'" and u: "unrecorded (st_Collection (collectClaimTemplates cl snap))"
  shows "collectClaimTemplates cl' snap = collectClaimTemplates cl snap"
proof (cases "StatefulSet_ClaimTemplates snap = [] \<or> allPodsReady snap")
  case False
  let ?xs = "List.product (map int [0..<nat (StatefulSet_DesiredReplicas snap)]) (StatefulSet_ClaimTemplates snap)"
  have loop: "unrecorded (snd (foldl (collect_template_claim cl snap) (st_Claims snap, st_Collection snap) ?xs))"
    using u False by (simp add: collectClaimTemplates_def case_prod_beta Let_def)
  have "collect_template_claim cl' snap acc x = collect_template_claim cl snap acc x"
    if "unrecorded (snd (collect_template_claim cl snap acc x))" for acc x
    using that claim_entry_same [OF A] by (simp add: collect_template_claim_def case_prod_beta Let_def)
  then have "foldl (collect_template_claim cl' snap) (st_Claims snap, st_Collection snap) ?xs =
      foldl (collect_template_claim cl snap) (st_Claims snap, st_Collection snap) ?xs"
    by (rule template_loop.foldl_same [OF _ loop])
  then show ?thesis by (simp add: collectClaimTemplates_def Let_def)
qed (simp add: collectClaimTemplates_def)

lemma collect_StatefulSet_same:
  assumes A: "agrees cl cl'" and fin: "all_finish cl"
    and snap: "collect_StatefulSet cl ns name = Inr snap" and u: "unrecorded (st_Collection snap)"
  shows "collect_StatefulSet cl' ns name = Inr snap"
proof -
  obtain sts where sts: "get_StatefulSet cl ns name = Inr sts"
    using snap by (auto simp: collect_StatefulSet_def Let_def split: sum.splits)
  let ?ref = "\<lparr>ref_Kind = ''StatefulSet'', ref_Namespace = ns, ref_Name = name\<rparr>"
  let ?ev = "\<lambda>cl. collect_events cl (Inspect collection0 (''statefulset '' @ name)) ?ref (sts_UID sts)
    ''explaining failed Pod and volume creation'' (''events for statefulset '' @ name)"
  let ?s0 = "\<lparr>st_Collection = snd (?ev cl), st_StatefulSet = sts, st_Events = fst (?ev cl), st_Pods = [],
    st_Service = headless_service0, st_Claims = [], st_Now = cl_Now cl collection0\<rparr>"
  let ?s1 = "collectStatefulSetPods cl ?s0"
  let ?s2 = "collectHeadlessService cl ?s1"
  have eq: "snap = collectClaimTemplates cl ?s2"
    using snap by (simp add: collect_StatefulSet_def sts case_prod_beta Let_def)
  have u3: "unrecorded (st_Collection (collectClaimTemplates cl ?s2))" using u eq by simp
  then have u2: "unrecorded (st_Collection ?s2)" by (rule unrecorded_grows [OF grows_statefulset_steps(3) [OF grows_refl]])
  then have u1: "unrecorded (st_Collection ?s1)" by (rule unrecorded_grows [OF grows_statefulset_steps(2) [OF grows_refl]])
  from unrecorded_grows [OF grows_statefulset_steps(1) [OF grows_refl] this] have "?ev cl' = ?ev cl"
    by (intro collect_events_same [OF A]) simp
  then show ?thesis
    using agrees_answer(4) [OF A sts] collectClaimTemplates_same [OF A u3] collectHeadlessService_same [OF A u2]
      collectStatefulSetPods_same [OF A fin u1]
    unfolding eq by (simp add: collect_StatefulSet_def case_prod_beta Let_def agrees_same [OF A])
qed

section \<open>Ingresses and claims\<close>

lemma collectIngressClass_same:
  assumes A: "agrees cl cl'" and u: "unrecorded (is_Collection (collectIngressClass cl snap))"
  shows "collectIngressClass cl' snap = collectIngressClass cl snap"
proof -
  have "get_IngressClass cl' n = get_IngressClass cl n"
    if "\<not> Ingress_HasAddress snap" "ing_IngressClassName (is_Ingress snap) = Some n" "n \<noteq> []" for n
    by (rule existence_same [OF _ agrees_settled(7) [OF A]])
      (use u that in \<open>simp add: collectIngressClass_def case_prod_beta Let_def\<close>)
  moreover have "list_IngressClasses cl' = list_IngressClasses cl" if "\<exists>items. list_IngressClasses cl = Inr items"
    using that agrees_answer(17) [OF A] by metis
  ultimately show ?thesis
    using u unfolding collectIngressClass_def agrees_same [OF A] Let_def case_prod_beta
    by (cases "list_IngressClasses cl") (auto split: option.splits if_splits)
qed

lemma collectIngressService_same:
  assumes A: "agrees cl cl'" and fin: "all_finish cl" and u: "unrecorded (snd (collectIngressService cl c ns name))"
  shows "collectIngressService cl' c ns name = collectIngressService cl c ns name"
proof -
  let ?e = "existence_of (cl_Errors cl) c ''services'' ''following the Ingress to its backend'' (err_of (get_Service cl ns name))"
  have "grows (snd ?e) (snd (collectIngressService cl c ns name))"
    by (auto simp: collectIngressService_def case_prod_beta Let_def intro!: grows_intros split: sum.split)
  then have get: "get_Service cl' ns name = get_Service cl ns name"
    using u unrecorded_grows by (intro existence_same [OF _ agrees_settled(1) [OF A]])
  show ?thesis
  proof (cases "get_Service cl ns name")
    case (Inr service)
    let ?ep = "endpointsFor cl (Inspect (snd ?e) (''service '' @ name)) ns name"
    let ?bs = "collect_backends cl (snd ?ep) ''explaining why a backend Service has no endpoints'' ns (labels_String cl (svc_Selector service))"
    let ?look = "es_Known (fst ?ep) \<and> EndpointSet_Ready (fst ?ep) = 0 \<and> svc_Selector service \<noteq> []"
    have bs: "unrecorded (snd ?bs)" if ?look
      using u Inr that by (simp add: collectIngressService_def case_prod_beta Let_def)
    have "unrecorded (snd ?ep)" if "\<not> ?look"
      using u Inr that by (simp add: collectIngressService_def case_prod_beta Let_def split: if_splits)
    then have "unrecorded (snd ?ep)"
      using bs unrecorded_grows [OF grows_collect_backends [OF grows_refl]] by blast
    then have "endpointsFor cl' (Inspect (snd ?e) (''service '' @ name)) ns name = ?ep"
      by (rule endpointsFor_same [OF A])
    moreover have "collect_backends cl' (snd ?ep) ''explaining why a backend Service has no endpoints'' ns
        (labels_String cl (svc_Selector service)) = ?bs" if ?look
      by (rule collect_backends_same [OF A fin bs [OF that]])
    ultimately show ?thesis
      using get Inr unfolding collectIngressService_def agrees_same [OF A] by (simp add: case_prod_beta Let_def)
  qed (simp add: collectIngressService_def get agrees_same [OF A])
qed

lemma collect_Ingress_same:
  assumes A: "agrees cl cl'" and fin: "all_finish cl"
    and snap: "collect_Ingress cl ns name = Inr snap" and u: "unrecorded (is_Collection snap)"
  shows "collect_Ingress cl' ns name = Inr snap"
proof -
  obtain ing where ing: "get_Ingress cl ns name = Inr ing"
    using snap by (auto simp: collect_Ingress_def Let_def split: sum.splits)
  let ?ref = "\<lparr>ref_Kind = ''Ingress'', ref_Namespace = ns, ref_Name = name\<rparr>"
  let ?ev = "\<lambda>cl. collect_events cl (Inspect collection0 (''ingress '' @ name)) ?ref (ing_UID ing)
    ''explaining what the ingress controller reported'' (''events for ingress '' @ name)"
  let ?s0 = "\<lparr>is_Collection = snd (?ev cl), is_Ingress = ing, is_Events = fst (?ev cl), is_Paths = ingressPaths ing, is_Services = [],
    is_Class = ingress_class0, is_Now = cl_Now cl collection0\<rparr>"
  let ?s1 = "collectIngressClass cl ?s0"
  let ?f = "\<lambda>cl. foldl (collect_path_service cl ns) ([], is_Collection ?s1) (is_Paths ?s1)"
  have eq: "snap = ?s1\<lparr>is_Services := fst (?f cl), is_Collection := snd (?f cl)\<rparr>"
    using snap by (simp add: collect_Ingress_def ing case_prod_beta Let_def)
  have loop: "unrecorded (snd (?f cl))" using u eq by simp
  then have u1: "unrecorded (is_Collection ?s1)"
    using path_loop.foldl_grows [of "([], is_Collection ?s1)"] unrecorded_grows by fastforce
  from unrecorded_grows [OF grows_ingress_class [OF grows_refl] this] have ev: "?ev cl' = ?ev cl"
    by (intro collect_events_same [OF A]) simp
  have "collect_path_service cl' ns acc path = collect_path_service cl ns acc path"
    if "unrecorded (snd (collect_path_service cl ns acc path))" for acc path
    using that collectIngressService_same [OF A fin] by (auto simp: collect_path_service_def case_prod_beta Let_def split: if_splits)
  then have "?f cl' = ?f cl" by (rule path_loop.foldl_same [OF _ loop])
  then show ?thesis
    using agrees_answer(5) [OF A ing] ev collectIngressClass_same [OF A u1]
    unfolding eq by (simp add: collect_Ingress_def case_prod_beta Let_def agrees_same [OF A])
qed

lemma collectClaimConsumers_same:
  assumes A: "agrees cl cl'" and fin: "all_finish cl" and u: "unrecorded (vs_Collection (collectClaimConsumers cl snap))"
  shows "collectClaimConsumers cl' snap = collectClaimConsumers cl snap"
proof -
  let ?claim = "vs_Claim snap"
  obtain pods where pods: "list_Pods cl (pvc_Namespace ?claim) [] = Inr pods"
    using u by (auto simp: collectClaimConsumers_def split: sum.splits)
  let ?consumers = "filter (\<lambda>p. podUsesClaim p (pvc_Name ?claim)) pods"
  let ?c = "Inspect (vs_Collection snap) (''pods in namespace '' @ pvc_Namespace ?claim)"
  have "backendSnapshots cl' ?c ?consumers = backendSnapshots cl ?c ?consumers" if "?consumers \<noteq> []"
    using u that by (intro backendSnapshots_same [OF A fin]) (simp add: collectClaimConsumers_def pods case_prod_beta Let_def)
  then show ?thesis
    by (simp add: collectClaimConsumers_def pods agrees_answer(10) [OF A pods] Let_def)
qed

lemma collect_PVC_same:
  assumes A: "agrees cl cl'" and fin: "all_finish cl"
    and snap: "collect_PVC cl ns name = Inr snap" and u: "unrecorded (vs_Collection snap)"
  shows "collect_PVC cl' ns name = Inr snap"
proof -
  obtain claim where claim: "get_PVC cl ns name = Inr claim"
    using snap by (auto simp: collect_PVC_def Let_def split: sum.splits)
  let ?ref = "\<lparr>ref_Kind = ''PersistentVolumeClaim'', ref_Namespace = ns, ref_Name = name\<rparr>"
  let ?ev = "\<lambda>cl. collect_events cl (Inspect collection0 (''persistentvolumeclaim '' @ name)) ?ref (pvc_UID claim)
    ''explaining why provisioning or binding has not completed'' (''events for persistentvolumeclaim '' @ name)"
  let ?s0 = "\<lparr>vs_Collection = snd (?ev cl), vs_Claim = claim, vs_Events = fst (?ev cl), vs_Class = storage_class_info0,
    vs_Consumers = [], vs_ConsumersKnown = False, vs_Now = cl_Now cl collection0\<rparr>"
  let ?cls = "storageClassInfo cl (snd (?ev cl)) claim"
  let ?s1 = "?s0\<lparr>vs_Class := fst ?cls, vs_Collection := snd ?cls\<rparr>"
  have eq: "snap = (if PVC_IsBound ?s0 then ?s0 else collectClaimConsumers cl ?s1)"
    using snap by (auto simp: collect_PVC_def claim case_prod_beta Let_def split: if_splits)
  show ?thesis
  proof (cases "PVC_IsBound ?s0")
    case True
    then have "?ev cl' = ?ev cl" using u eq by (intro collect_events_same [OF A]) simp
    then show ?thesis
      using agrees_answer(6) [OF A claim] True unfolding eq
      by (simp add: collect_PVC_def case_prod_beta Let_def agrees_same [OF A])
  next
    case False
    have u2: "unrecorded (vs_Collection (collectClaimConsumers cl ?s1))" using u eq False by simp
    then have "unrecorded (vs_Collection ?s1)" by (rule unrecorded_grows [OF grows_consumers [OF grows_refl]])
    then have u1: "unrecorded (snd ?cls)" by simp
    then have "unrecorded (snd (?ev cl))" by (rule unrecorded_grows [OF grows_storageClassInfo [OF grows_refl]])
    then have "?ev cl' = ?ev cl" by (rule collect_events_same [OF A])
    then show ?thesis
      using agrees_answer(6) [OF A claim] False storageClassInfo_same [OF A u1] collectClaimConsumers_same [OF A fin u2]
      unfolding eq by (simp add: collect_PVC_def case_prod_beta Let_def agrees_same [OF A])
  qed
qed

section \<open>The verdict\<close>

lemma Analyze_same:
  assumes A: "agrees cl cl'" and fin: "all_finish cl"
    and r: "Analyze lib cl ctx kind ns name = Inr r" and u: "r_Degradations r = []"
  shows "Analyze lib cl' ctx kind ns name = Inr r"
  using Analyze_report [OF r] u collect_Pod_same [OF A] collect_Service_same [OF A fin] collect_Deployment_same [OF A fin]
    collect_StatefulSet_same [OF A fin] collect_Ingress_same [OF A fin] collect_PVC_same [OF A fin]
  by (elim disjE exE conjE)
    (auto simp: analyze_defs pod_report.built service_report.built deployment_report.built statefulset_report.built
      ingress_report.built pvc_report.built)

text \<open>
  C8. No verdict of health without the evidence: when a report of any kind says healthy, no read
  it made failed. Stronger than the empty list of failures: whatever the API server would have
  answered to the reads that did fail on this client, Forbidden or a timeout or anything but that
  the object does not exist, the report would be the same, to the last finding and fact. So a
  collector that lost a failed read without recording it, of the events, of the node, of the
  Pods behind a workload or of any other object, would break this. The one hypothesis on the
  client is that every goroutine that reads events finishes once.
\<close>

theorem healthy_only_if_read:
  assumes "Analyze lib cl ctx kind ns name = Inr r" and "r_Status r = StatusHealthy"
    and "\<And>xs. mset (cl_Finish cl xs) = mset xs" and "agrees cl cl'"
  shows "r_Degradations r = [] \<and> Analyze lib cl' ctx kind ns name = Inr r"
proof -
  have "r_Degradations r = []"
    using Analyze_ok(3) [OF assms(1)] assms(2)
    by (cases "r_Diagnoses r") (auto split: severity.splits if_splits)
  moreover have "all_finish cl" using assms(3) by (simp add: all_finish_def)
  ultimately show ?thesis using Analyze_same [OF assms(4) _ assms(1)] by blast
qed

text \<open>A healthy Pod on a node the client may not read, and the same cluster where it may.\<close>

definition pressed_node :: k_node where
  "pressed_node = \<lparr>node_Name = ''n1'', node_Conditions =
     [\<lparr>cond_Type = ''MemoryPressure'', cond_Status = ''True'', cond_Reason = [], cond_Message = []\<rparr>]\<rparr>"

lemma healthy_only_if_read_witness:
  "\<exists>r. r_Status r = StatusHealthy \<and> r_Degradations r = [] \<and>
     Analyze int_lib quiet_client None KindPod ''default'' ''web'' = Inr r \<and>
     Analyze int_lib (quiet_client\<lparr>get_Node := (\<lambda>name. Inr pressed_node)\<rparr>) None KindPod ''default'' ''web'' = Inr r"
proof -
  have "agrees quiet_client (quiet_client\<lparr>get_Node := (\<lambda>name. Inr pressed_node)\<rparr>)"
    by (simp add: agrees_def settled_def kube_IsNotFound_def quiet_client_def sample_client_def sample_errors_def)
  moreover have "mset (cl_Finish quiet_client xs) = mset xs" for xs
    by (simp add: quiet_client_def sample_client_def)
  moreover obtain r where "Analyze int_lib quiet_client None KindPod ''default'' ''web'' = Inr r" "r_Status r = StatusHealthy"
    using quiet_report by blast
  ultimately show ?thesis using healthy_only_if_read by blast
qed

end
