(* ===== verification/KubeTest.thy ===== *)
theory KubeTest
  imports Collect
begin

text \<open>
  Package \<open>kubetest\<close>: the builders of Kubernetes objects and snapshots the repository's tests are
  written with, one group per file. A builder is the object built so far, and each method returns
  the changed builder. A method that may panic returns \<open>None\<close> then: \<open>resource.MustParse\<close>, a
  parameter, on text that is no quantity, and a nil pointer that is followed. Only the fields
  the program reads are in the model.
\<close>

section \<open>Time\<close>

definition wrap64 :: "int \<Rightarrow> int" where
  "wrap64 x = (x + 2 ^ 63) mod 2 ^ 64 - 2 ^ 63"

lemma wrap64_id: "- (2 ^ 63) \<le> x \<Longrightarrow> x < 2 ^ 63 \<Longrightarrow> wrap64 x = x"
  by (simp add: wrap64_def)

text \<open>The first of March 2026 at noon: nanoseconds from the zero time.\<close>

definition Now :: gotime where
  "Now = 63907963200 * go_Second"

text \<open>\<open>Now.Add(-d)\<close>: negating a duration wraps around.\<close>

definition ago :: "duration \<Rightarrow> gotime" where
  "ago d = Now + wrap64 (- d)"

section \<open>Containers (\<open>pod.go\<close>)\<close>

record 'q container_builder =
  cb_spec :: "'q k_container"
  cb_status :: k_container_status

definition kt_Container :: "string \<Rightarrow> 'q container_builder" where
  "kt_Container name =
     \<lparr>cb_spec = container_spec0\<lparr>c_Name := name, c_Image := name @ '':latest''\<rparr>,
      cb_status = status0\<lparr>cs_Name := name, cs_Ready := True, cs_Running := Some (ago go_Hour)\<rparr>\<rparr>"

definition ContainerBuilder_Image :: "string \<Rightarrow> 'q container_builder \<Rightarrow> 'q container_builder" where
  "ContainerBuilder_Image img c = c\<lparr>cb_spec := cb_spec c\<lparr>c_Image := img\<rparr>\<rparr>"

text \<open>One entry of a resource list, when its text is not empty.\<close>

definition put_quantity :: "(string \<Rightarrow> 'q option) \<Rightarrow> string \<Rightarrow> string \<Rightarrow> 'q gomap \<Rightarrow> 'q gomap option" where
  "put_quantity MustParse key str m =
     (if str = [] then Some m else map_option (gomap_put m key) (MustParse str))"

definition ContainerBuilder_Memory :: "(string \<Rightarrow> 'q option) \<Rightarrow> string \<Rightarrow> string \<Rightarrow> 'q container_builder \<Rightarrow> 'q container_builder option" where
  "ContainerBuilder_Memory MustParse request limit c =
     (case put_quantity MustParse ''memory'' request (c_Requests (cb_spec c)) of
        None \<Rightarrow> None
      | Some requests \<Rightarrow>
         (case put_quantity MustParse ''memory'' limit (c_Limits (cb_spec c)) of
            None \<Rightarrow> None
          | Some limits \<Rightarrow> Some (c\<lparr>cb_spec := cb_spec c\<lparr>c_Requests := requests, c_Limits := limits\<rparr>\<rparr>)))"

definition ContainerBuilder_CPURequest :: "(string \<Rightarrow> 'q option) \<Rightarrow> string \<Rightarrow> 'q container_builder \<Rightarrow> 'q container_builder option" where
  "ContainerBuilder_CPURequest MustParse request c =
     map_option (\<lambda>q. c\<lparr>cb_spec := cb_spec c\<lparr>c_Requests := gomap_put (c_Requests (cb_spec c)) ''cpu'' q\<rparr>\<rparr>) (MustParse request)"

text \<open>Assigning a \<open>ContainerState\<close> replaces all three of its pointers.\<close>

definition set_state :: "k_waiting option \<Rightarrow> k_terminated option \<Rightarrow> k_container_status \<Rightarrow> k_container_status" where
  "set_state w t s = s\<lparr>cs_Ready := False, cs_Waiting := w, cs_Running := None, cs_Terminated := t\<rparr>"

definition ContainerBuilder_Waiting :: "string \<Rightarrow> string \<Rightarrow> 'q container_builder \<Rightarrow> 'q container_builder" where
  "ContainerBuilder_Waiting reason msg c =
     c\<lparr>cb_status := set_state (Some \<lparr>w_Reason = reason, w_Message = msg\<rparr>) None (cb_status c)\<rparr>"

definition kt_terminated :: "string \<Rightarrow> int \<Rightarrow> k_terminated" where
  "kt_terminated reason exitCode =
     \<lparr>t_ExitCode = exitCode, t_Signal = 0, t_Reason = reason, t_Message = [],
      t_StartedAt = ago (10 * go_Minute), t_FinishedAt = ago (5 * go_Minute)\<rparr>"

definition ContainerBuilder_Terminated :: "string \<Rightarrow> int \<Rightarrow> 'q container_builder \<Rightarrow> 'q container_builder" where
  "ContainerBuilder_Terminated reason exitCode c =
     c\<lparr>cb_status := set_state None (Some (kt_terminated reason exitCode)) (cb_status c)\<rparr>"

definition ContainerBuilder_LastTerminated :: "string \<Rightarrow> int \<Rightarrow> 'q container_builder \<Rightarrow> 'q container_builder" where
  "ContainerBuilder_LastTerminated reason exitCode c =
     c\<lparr>cb_status := cb_status c\<lparr>cs_LastTerminated := Some (kt_terminated reason exitCode)\<rparr>\<rparr>"

definition ContainerBuilder_LastTerminatedAgo :: "string \<Rightarrow> int \<Rightarrow> duration \<Rightarrow> 'q container_builder \<Rightarrow> 'q container_builder" where
  "ContainerBuilder_LastTerminatedAgo reason exitCode d c =
     (let term = kt_terminated reason exitCode;
          term = term\<lparr>t_FinishedAt := ago d\<rparr>;
          term = term\<lparr>t_StartedAt := Now + wrap64 (wrap64 (- d) - go_Minute)\<rparr>
      in c\<lparr>cb_status := cb_status c\<lparr>cs_LastTerminated := Some term\<rparr>\<rparr>)"

definition ContainerBuilder_Restarts :: "int \<Rightarrow> 'q container_builder \<Rightarrow> 'q container_builder" where
  "ContainerBuilder_Restarts n c = c\<lparr>cb_status := cb_status c\<lparr>cs_RestartCount := n\<rparr>\<rparr>"

definition ContainerBuilder_NotReady :: "'q container_builder \<Rightarrow> 'q container_builder" where
  "ContainerBuilder_NotReady c = c\<lparr>cb_status := cb_status c\<lparr>cs_Ready := False\<rparr>\<rparr>"

definition ContainerBuilder_NoStatus :: "'q container_builder \<Rightarrow> 'q container_builder" where
  "ContainerBuilder_NoStatus c = c\<lparr>cb_status := status0\<lparr>cs_Name := c_Name (cb_spec c)\<rparr>\<rparr>"

definition ContainerBuilder_Sidecar :: "'q container_builder \<Rightarrow> 'q container_builder" where
  "ContainerBuilder_Sidecar c = c\<lparr>cb_spec := cb_spec c\<lparr>c_RestartPolicy := Some ''Always''\<rparr>\<rparr>"

definition intOrString :: "int \<Rightarrow> intstr" where
  "intOrString port = IntVal port"

definition httpProbe :: "string \<Rightarrow> int \<Rightarrow> k_probe" where
  "httpProbe path port =
     \<lparr>pb_HTTPGet = Some \<lparr>hg_Scheme = ''HTTP'', hg_Path = path, hg_Port = intOrString port\<rparr>,
      pb_TCPSocket = None, pb_GRPC = None, pb_Exec = None, pb_InitialDelaySeconds = 5,
      pb_PeriodSeconds = 10, pb_TimeoutSeconds = 1, pb_FailureThreshold = 3\<rparr>"

definition ContainerBuilder_HTTPReadiness :: "string \<Rightarrow> int \<Rightarrow> 'q container_builder \<Rightarrow> 'q container_builder" where
  "ContainerBuilder_HTTPReadiness path port c = c\<lparr>cb_spec := cb_spec c\<lparr>c_ReadinessProbe := Some (httpProbe path port)\<rparr>\<rparr>"

definition ContainerBuilder_HTTPLiveness :: "string \<Rightarrow> int \<Rightarrow> 'q container_builder \<Rightarrow> 'q container_builder" where
  "ContainerBuilder_HTTPLiveness path port c = c\<lparr>cb_spec := cb_spec c\<lparr>c_LivenessProbe := Some (httpProbe path port)\<rparr>\<rparr>"

section \<open>Pods (\<open>pod.go\<close>)\<close>

type_synonym 'q pod_builder = "'q k_pod"

definition kt_Pod :: "string \<Rightarrow> 'q pod_builder" where
  "kt_Pod name =
     pod0\<lparr>pod_Name := name, pod_Namespace := ''default'', pod_UID := ''uid-'' @ name,
       pod_CreationTimestamp := ago go_Hour, pod_RestartPolicy := ''Always'', pod_Phase := ''Running''\<rparr>"

definition PodBuilder_Namespace :: "string \<Rightarrow> 'q pod_builder \<Rightarrow> 'q pod_builder" where
  "PodBuilder_Namespace ns b = b\<lparr>pod_Namespace := ns\<rparr>"

definition PodBuilder_Phase :: "string \<Rightarrow> 'q pod_builder \<Rightarrow> 'q pod_builder" where
  "PodBuilder_Phase phase b = b\<lparr>pod_Phase := phase\<rparr>"

definition PodBuilder_Age :: "duration \<Rightarrow> 'q pod_builder \<Rightarrow> 'q pod_builder" where
  "PodBuilder_Age d b = b\<lparr>pod_CreationTimestamp := ago d\<rparr>"

definition PodBuilder_RestartPolicy :: "string \<Rightarrow> 'q pod_builder \<Rightarrow> 'q pod_builder" where
  "PodBuilder_RestartPolicy policy b = b\<lparr>pod_RestartPolicy := policy\<rparr>"

definition PodBuilder_Node :: "string \<Rightarrow> 'q pod_builder \<Rightarrow> 'q pod_builder" where
  "PodBuilder_Node name b = b\<lparr>pod_NodeName := name\<rparr>"

definition PodBuilder_Reason :: "string \<Rightarrow> string \<Rightarrow> 'q pod_builder \<Rightarrow> 'q pod_builder" where
  "PodBuilder_Reason reason msg b = b\<lparr>pod_Reason := reason, pod_Message := msg\<rparr>"

definition PodBuilder_Condition :: "string \<Rightarrow> string \<Rightarrow> string \<Rightarrow> string \<Rightarrow> 'q pod_builder \<Rightarrow> 'q pod_builder" where
  "PodBuilder_Condition t status reason msg b =
     b\<lparr>pod_Conditions := pod_Conditions b @
       [\<lparr>cond_Type = t, cond_Status = status, cond_Reason = reason, cond_Message = msg\<rparr>]\<rparr>"

definition PodBuilder_Ready :: "'q pod_builder \<Rightarrow> 'q pod_builder" where
  "PodBuilder_Ready b =
     PodBuilder_Condition ''Ready'' ''True'' [] []
       (PodBuilder_Condition ''ContainersReady'' ''True'' [] []
         (PodBuilder_Condition ''PodScheduled'' ''True'' [] []
           (PodBuilder_Condition ''Initialized'' ''True'' [] [] b)))"

definition PodBuilder_Container :: "'q container_builder \<Rightarrow> 'q pod_builder \<Rightarrow> 'q pod_builder" where
  "PodBuilder_Container c b =
     b\<lparr>pod_Containers := pod_Containers b @ [cb_spec c], pod_ContainerStatuses := pod_ContainerStatuses b @ [cb_status c]\<rparr>"

definition PodBuilder_InitContainer :: "'q container_builder \<Rightarrow> 'q pod_builder \<Rightarrow> 'q pod_builder" where
  "PodBuilder_InitContainer c b =
     b\<lparr>pod_InitContainers := pod_InitContainers b @ [cb_spec c],
       pod_InitContainerStatuses := pod_InitContainerStatuses b @ [cb_status c]\<rparr>"

definition PodBuilder_Owner :: "string \<Rightarrow> string \<Rightarrow> 'q pod_builder \<Rightarrow> 'q pod_builder" where
  "PodBuilder_Owner kind name b =
     b\<lparr>pod_OwnerReferences := pod_OwnerReferences b @
       [\<lparr>or_Kind = kind, or_Name = name, or_UID = [], or_Controller = Some True\<rparr>]\<rparr>"

text \<open>The name of the volume itself is not read.\<close>

definition PodBuilder_ClaimVolume :: "string \<Rightarrow> string \<Rightarrow> 'q pod_builder \<Rightarrow> 'q pod_builder" where
  "PodBuilder_ClaimVolume volume claim b =
     b\<lparr>pod_Volumes := pod_Volumes b @
       [\<lparr>vol_ClaimName = Some claim, vol_ConfigMap = None, vol_Secret = None, vol_Projected = None\<rparr>]\<rparr>"

definition PodBuilder_SchedulingGate :: "string \<Rightarrow> 'q pod_builder \<Rightarrow> 'q pod_builder" where
  "PodBuilder_SchedulingGate name b = b\<lparr>pod_SchedulingGates := pod_SchedulingGates b @ [name]\<rparr>"

definition PodBuilder_Deleting :: "duration \<Rightarrow> 'q pod_builder \<Rightarrow> 'q pod_builder" where
  "PodBuilder_Deleting since b = b\<lparr>pod_DeletionTimestamp := Some (ago since)\<rparr>"

definition PodBuilder_Build :: "'q pod_builder \<Rightarrow> 'q k_pod" where
  "PodBuilder_Build b = b"

section \<open>Snapshots, events and references (\<open>pod.go\<close>)\<close>

definition Snap :: "'q k_pod \<Rightarrow> 'q pod_snap" where
  "Snap pod =
     \<lparr>ps_Collection = collection0, ps_Pod = pod, ps_Events = [], ps_Owners = [], ps_Node = None,
      ps_ConfigMaps = [], ps_Secrets = [], ps_PVCs = [], ps_Now = Now\<rparr>"

definition kt_Event :: "string \<Rightarrow> string \<Rightarrow> string \<Rightarrow> event" where
  "kt_Event eventType reason msg =
     \<lparr>ev_Type = eventType, ev_Reason = reason, ev_Message = msg, ev_Count = 1,
      ev_FirstSeen = ago (5 * go_Minute), ev_LastSeen = ago go_Minute, ev_Object = resource_ref0, ev_FieldPath = []\<rparr>"

definition ForContainer :: "event \<Rightarrow> string \<Rightarrow> event" where
  "ForContainer ev name = ev\<lparr>ev_FieldPath := ''spec.containers{'' @ name @ ''}''\<rparr>"

definition kt_Ref :: "string \<Rightarrow> string \<Rightarrow> string \<Rightarrow> resource_ref" where
  "kt_Ref kind ns name = \<lparr>ref_Kind = kind, ref_Namespace = ns, ref_Name = name\<rparr>"

text \<open>The name and the creation time of a node.\<close>

definition NodeMeta :: "string \<Rightarrow> string \<times> gotime" where
  "NodeMeta name = (name, ago (24 * go_Hour))"

section \<open>Services (\<open>service.go\<close>)\<close>

type_synonym service_builder = k_service

definition kt_Service :: "string \<Rightarrow> service_builder" where
  "kt_Service name =
     \<lparr>svc_Name = name, svc_Namespace = ''default'', svc_Selector = [], svc_Type = ''ClusterIP'',
      svc_ClusterIP = ''10.96.0.10'', svc_ExternalName = [], svc_Ports = [], svc_UID = ''uid-svc-'' @ name\<rparr>"

definition ServiceBuilder_Namespace :: "string \<Rightarrow> service_builder \<Rightarrow> service_builder" where
  "ServiceBuilder_Namespace ns b = b\<lparr>svc_Namespace := ns\<rparr>"

text \<open>The arguments are read in pairs; a key without a value is left out.\<close>

fun put_pairs :: "string list \<Rightarrow> string gomap \<Rightarrow> string gomap" where
  "put_pairs (k # v # pairs) m = put_pairs pairs (gomap_put m k v)"
| "put_pairs _ m = m"

definition ServiceBuilder_Selector :: "string list \<Rightarrow> service_builder \<Rightarrow> service_builder" where
  "ServiceBuilder_Selector pairs b = b\<lparr>svc_Selector := put_pairs pairs (svc_Selector b)\<rparr>"

definition add_port :: "int \<Rightarrow> intstr \<Rightarrow> service_builder \<Rightarrow> service_builder" where
  "add_port port target b =
     b\<lparr>svc_Ports := svc_Ports b @
       [\<lparr>sp_Name = [], sp_Port = port, sp_Protocol = ''TCP'', sp_TargetPort = target, sp_NodePort = 0\<rparr>]\<rparr>"

definition ServiceBuilder_Port :: "int \<Rightarrow> int \<Rightarrow> service_builder \<Rightarrow> service_builder" where
  "ServiceBuilder_Port port targetPort b = add_port port (IntVal targetPort) b"

definition ServiceBuilder_NamedTargetPort :: "int \<Rightarrow> string \<Rightarrow> service_builder \<Rightarrow> service_builder" where
  "ServiceBuilder_NamedTargetPort port targetName b = add_port port (StrVal targetName) b"

definition ServiceBuilder_Headless :: "service_builder \<Rightarrow> service_builder" where
  "ServiceBuilder_Headless b = b\<lparr>svc_ClusterIP := ''None''\<rparr>"

definition ServiceBuilder_ExternalName :: "string \<Rightarrow> service_builder \<Rightarrow> service_builder" where
  "ServiceBuilder_ExternalName target b =
     b\<lparr>svc_Type := ''ExternalName'', svc_ExternalName := target, svc_ClusterIP := []\<rparr>"

definition ServiceBuilder_Build :: "service_builder \<Rightarrow> k_service" where
  "ServiceBuilder_Build b = b"

definition ServiceSnap :: "k_service \<Rightarrow> 'q k_pod list \<Rightarrow> 'q service_snap" where
  "ServiceSnap service pods =
     \<lparr>ss_Collection = collection0, ss_Service = service, ss_Events = [], ss_Backends = Some (map Snap pods),
      ss_Endpoints = endpoint_set0, ss_Now = Now\<rparr>"

text \<open>
  \<open>string(rune(n))\<close>: the UTF-8 encoding of a code point, of U+FFFD when it is none. The conversion
  to a rune keeps the low 32 bits.
\<close>

definition low_bits :: "nat \<Rightarrow> nat \<Rightarrow> nat \<Rightarrow> nat" where
  "low_bits bits shift n = (n div 2 ^ shift) mod 2 ^ bits"

definition utf8_encode :: "nat \<Rightarrow> string" where
  "utf8_encode n =
     (if n < 0x80 then [char_of n]
      else if n < 0x800 then [char_of (0xC0 + low_bits 5 6 n), char_of (0x80 + low_bits 6 0 n)]
      else if n < 0x10000 then
        [char_of (0xE0 + low_bits 4 12 n), char_of (0x80 + low_bits 6 6 n), char_of (0x80 + low_bits 6 0 n)]
      else
        [char_of (0xF0 + low_bits 3 18 n), char_of (0x80 + low_bits 6 12 n),
         char_of (0x80 + low_bits 6 6 n), char_of (0x80 + low_bits 6 0 n)])"

definition rune_str :: "int \<Rightarrow> string" where
  "rune_str n =
     (let r = wrap32 n in
      if r < 0 \<or> 0x10FFFF < r \<or> (0xD800 \<le> r \<and> r \<le> 0xDFFF) then utf8_encode 0xFFFD else utf8_encode (nat r))"

definition kt_endpoint :: "string \<Rightarrow> bool \<Rightarrow> nat \<Rightarrow> endpoint" where
  "kt_endpoint net ready i =
     \<lparr>ep_Address = net @ rune_str (49 + int i), ep_Ready = ready, ep_Node = [],
      ep_TargetRef = \<lparr>ref_Kind = ''Pod'', ref_Namespace = ''default'', ref_Name = []\<rparr>\<rparr>"

definition ReadyEndpoints :: "int \<Rightarrow> int \<Rightarrow> endpoint_set" where
  "ReadyEndpoints ready notReady =
     \<lparr>es_Source = ''EndpointSlice'', es_Known = True,
      es_Addresses = map (kt_endpoint ''10.1.0.'' True) [0..<nat ready] @
        map (kt_endpoint ''10.1.1.'' False) [0..<nat notReady]\<rparr>"

section \<open>Deployments (\<open>deployment.go\<close>)\<close>

type_synonym deployment_builder = k_deployment

definition app_selector :: "string \<Rightarrow> k_label_selector" where
  "app_selector name = \<lparr>ls_MatchLabels = [(''app'', name)], ls_MatchExpressions = []\<rparr>"

definition kt_Deployment :: "string \<Rightarrow> deployment_builder" where
  "kt_Deployment name =
     \<lparr>dep_Name = name, dep_Namespace = ''default'', dep_CreationTimestamp = ago (24 * go_Hour), dep_Replicas = Some 1,
      dep_Paused = False, dep_ProgressDeadlineSeconds = None, dep_StrategyType = ''RollingUpdate'',
      dep_MaxSurge = None, dep_MaxUnavailable = None, dep_AvailableReplicas = 0, dep_ReadyReplicas = 0,
      dep_UpdatedReplicas = 0, dep_Conditions = [], dep_UID = ''uid-deploy-'' @ name,
      dep_Annotations = [(''deployment.kubernetes.io/revision'', ''1'')], dep_Selector = Some (app_selector name)\<rparr>"

definition DeploymentBuilder_Namespace :: "string \<Rightarrow> deployment_builder \<Rightarrow> deployment_builder" where
  "DeploymentBuilder_Namespace ns b = b\<lparr>dep_Namespace := ns\<rparr>"

definition DeploymentBuilder_Replicas :: "int \<Rightarrow> deployment_builder \<Rightarrow> deployment_builder" where
  "DeploymentBuilder_Replicas n b = b\<lparr>dep_Replicas := Some n\<rparr>"

definition DeploymentBuilder_Status :: "int \<Rightarrow> int \<Rightarrow> int \<Rightarrow> deployment_builder \<Rightarrow> deployment_builder" where
  "DeploymentBuilder_Status ready available updated b =
     b\<lparr>dep_ReadyReplicas := ready, dep_AvailableReplicas := available, dep_UpdatedReplicas := updated\<rparr>"

definition DeploymentBuilder_Paused :: "deployment_builder \<Rightarrow> deployment_builder" where
  "DeploymentBuilder_Paused b = b\<lparr>dep_Paused := True\<rparr>"

definition DeploymentBuilder_Revision :: "string \<Rightarrow> deployment_builder \<Rightarrow> deployment_builder" where
  "DeploymentBuilder_Revision revision b =
     b\<lparr>dep_Annotations := gomap_put (dep_Annotations b) ''deployment.kubernetes.io/revision'' revision\<rparr>"

definition DeploymentBuilder_Condition ::
  "string \<Rightarrow> string \<Rightarrow> string \<Rightarrow> string \<Rightarrow> deployment_builder \<Rightarrow> deployment_builder" where
  "DeploymentBuilder_Condition t status reason msg b =
     b\<lparr>dep_Conditions := dep_Conditions b @
       [\<lparr>cond_Type = t, cond_Status = status, cond_Reason = reason, cond_Message = msg\<rparr>]\<rparr>"

definition DeploymentBuilder_Available :: "deployment_builder \<Rightarrow> deployment_builder option" where
  "DeploymentBuilder_Available b =
     (case dep_Replicas b of
        None \<Rightarrow> None
      | Some n \<Rightarrow>
         Some (DeploymentBuilder_Condition ''Progressing'' ''True'' ''NewReplicaSetAvailable'' []
           (DeploymentBuilder_Condition ''Available'' ''True'' ''MinimumReplicasAvailable'' []
             (DeploymentBuilder_Status n n n b))))"

definition DeploymentBuilder_Build :: "deployment_builder \<Rightarrow> k_deployment" where
  "DeploymentBuilder_Build b = b"

definition kt_ReplicaSet :: "string \<Rightarrow> string \<Rightarrow> k_deployment \<Rightarrow> int \<Rightarrow> int \<Rightarrow> k_replica_set option" where
  "kt_ReplicaSet name revision owner replicas ready =
     (case dep_Selector owner of
        None \<Rightarrow> None
      | Some _ \<Rightarrow>
         Some \<lparr>rs_Name = name, rs_UID = ''uid-rs-'' @ name,
           rs_Annotations = [(''deployment.kubernetes.io/revision'', revision)],
           rs_Replicas = replicas, rs_ReadyReplicas = ready,
           rs_OwnerReferences = [\<lparr>or_Kind = ''Deployment'', or_Name = dep_Name owner, or_UID = dep_UID owner,
             or_Controller = Some True\<rparr>]\<rparr>)"

definition DeploymentSnap :: "k_deployment \<Rightarrow> 'q k_pod list \<Rightarrow> 'q deployment_snap" where
  "DeploymentSnap deployment pods =
     \<lparr>ds_Collection = collection0, ds_Deployment = deployment, ds_Events = [], ds_ReplicaSets = [], ds_Current = None,
      ds_Pods = map Snap pods, ds_Now = Now\<rparr>"

section \<open>StatefulSets (\<open>statefulset.go\<close>)\<close>

type_synonym stateful_set_builder = k_stateful_set

definition kt_StatefulSet :: "string \<Rightarrow> stateful_set_builder" where
  "kt_StatefulSet name =
     \<lparr>sts_Name = name, sts_Namespace = ''default'', sts_CreationTimestamp = ago (24 * go_Hour), sts_Replicas = Some 1,
      sts_PodManagementPolicy = [], sts_UpdateStrategyType = ''RollingUpdate'', sts_Partition = None,
      sts_VolumeClaimTemplates = [], sts_CurrentRevision = name @ ''-abc123'', sts_UpdateRevision = name @ ''-abc123'',
      sts_ReadyReplicas = 0, sts_CurrentReplicas = 0, sts_UpdatedReplicas = 0, sts_UID = ''uid-sts-'' @ name,
      sts_Selector = Some (app_selector name), sts_ServiceName = name, sts_TemplateLabels = [(''app'', name)]\<rparr>"

definition StatefulSetBuilder_Namespace :: "string \<Rightarrow> stateful_set_builder \<Rightarrow> stateful_set_builder" where
  "StatefulSetBuilder_Namespace ns b = b\<lparr>sts_Namespace := ns\<rparr>"

definition StatefulSetBuilder_Replicas :: "int \<Rightarrow> stateful_set_builder \<Rightarrow> stateful_set_builder" where
  "StatefulSetBuilder_Replicas n b = b\<lparr>sts_Replicas := Some n\<rparr>"

definition StatefulSetBuilder_Status :: "int \<Rightarrow> int \<Rightarrow> int \<Rightarrow> stateful_set_builder \<Rightarrow> stateful_set_builder" where
  "StatefulSetBuilder_Status ready current updated b =
     b\<lparr>sts_ReadyReplicas := ready, sts_CurrentReplicas := current, sts_UpdatedReplicas := updated\<rparr>"

definition StatefulSetBuilder_Parallel :: "stateful_set_builder \<Rightarrow> stateful_set_builder" where
  "StatefulSetBuilder_Parallel b = b\<lparr>sts_PodManagementPolicy := ''Parallel''\<rparr>"

text \<open>The strategy is replaced as a whole, so a partition set before is gone.\<close>

definition StatefulSetBuilder_OnDelete :: "stateful_set_builder \<Rightarrow> stateful_set_builder" where
  "StatefulSetBuilder_OnDelete b = b\<lparr>sts_UpdateStrategyType := ''OnDelete'', sts_Partition := None\<rparr>"

definition StatefulSetBuilder_Partition :: "int \<Rightarrow> stateful_set_builder \<Rightarrow> stateful_set_builder" where
  "StatefulSetBuilder_Partition n b = b\<lparr>sts_Partition := Some n\<rparr>"

definition StatefulSetBuilder_PendingRollout :: "stateful_set_builder \<Rightarrow> stateful_set_builder" where
  "StatefulSetBuilder_PendingRollout b = b\<lparr>sts_UpdateRevision := sts_Name b @ ''-def456''\<rparr>"

definition StatefulSetBuilder_ServiceName :: "string \<Rightarrow> stateful_set_builder \<Rightarrow> stateful_set_builder" where
  "StatefulSetBuilder_ServiceName name b = b\<lparr>sts_ServiceName := name\<rparr>"

text \<open>Of a template only the name is read, but its size has to parse.\<close>

definition StatefulSetBuilder_ClaimTemplate ::
  "(string \<Rightarrow> 'q option) \<Rightarrow> string \<Rightarrow> stateful_set_builder \<Rightarrow> stateful_set_builder option" where
  "StatefulSetBuilder_ClaimTemplate MustParse name b =
     map_option (\<lambda>_. b\<lparr>sts_VolumeClaimTemplates := sts_VolumeClaimTemplates b @ [name]\<rparr>) (MustParse ''10Gi'')"

definition StatefulSetBuilder_Build :: "stateful_set_builder \<Rightarrow> k_stateful_set" where
  "StatefulSetBuilder_Build b = b"

definition StatefulSetPod :: "k_stateful_set \<Rightarrow> int \<Rightarrow> bool \<Rightarrow> 'q pod_snap" where
  "StatefulSetPod sts ordinal ready =
     (let name = sts_Name sts @ ''-'' @ int_str ordinal;
          builder = PodBuilder_Container (kt_Container ''app'') (PodBuilder_Namespace (sts_Namespace sts) (kt_Pod name));
          builder = (if ready then PodBuilder_Ready builder
            else PodBuilder_Condition ''Ready'' ''False'' ''ContainersNotReady'' [] (PodBuilder_Phase ''Pending'' builder));
          pod = PodBuilder_Build builder
      in Snap (pod\<lparr>pod_OwnerReferences := [\<lparr>or_Kind = ''StatefulSet'', or_Name = sts_Name sts, or_UID = sts_UID sts,
           or_Controller = Some True\<rparr>]\<rparr>))"

definition StatefulSetSnap :: "k_stateful_set \<Rightarrow> bool list \<Rightarrow> 'q stateful_set_snap" where
  "StatefulSetSnap sts readyByOrdinal =
     \<lparr>st_Collection = collection0, st_StatefulSet = sts, st_Events = [],
      st_Pods = map (\<lambda>(ordinal, ready). StatefulSetPod sts (int ordinal) ready) (enumerate 0 readyByOrdinal),
      st_Service = \<lparr>hs_Name = sts_ServiceName sts, hs_Exists = Found, hs_Headless = True, hs_Selects = True\<rparr>,
      st_Claims = [], st_Now = Now\<rparr>"

text \<open>The snapshot with the claim registered, and the claim.\<close>

definition TemplatedClaim ::
  "'q stateful_set_snap \<Rightarrow> string \<Rightarrow> int \<Rightarrow> string \<Rightarrow> 'q stateful_set_snap \<times> pvc_ref" where
  "TemplatedClaim snap template ordinal phase =
     (let ref = \<lparr>pr_Name = StatefulSet_ClaimName snap template ordinal, pr_Exists = Found, pr_Phase = phase,
            pr_StorageClass = [], pr_BindingMode = []\<rparr>
      in (snap\<lparr>st_Claims := gomap_put (st_Claims snap) (pr_Name ref) ref\<rparr>, ref))"

section \<open>Ingresses (\<open>ingress.go\<close>)\<close>

type_synonym ingress_builder = k_ingress

definition kt_Ingress :: "string \<Rightarrow> ingress_builder" where
  "kt_Ingress name =
     \<lparr>ing_Name = name, ing_Namespace = ''default'', ing_CreationTimestamp = ago go_Hour, ing_TLSHosts = [],
      ing_LoadBalancer = [], ing_UID = ''uid-ing-'' @ name, ing_Annotations = [], ing_IngressClassName = None,
      ing_DefaultBackend = None, ing_Rules = []\<rparr>"

definition IngressBuilder_Namespace :: "string \<Rightarrow> ingress_builder \<Rightarrow> ingress_builder" where
  "IngressBuilder_Namespace ns b = b\<lparr>ing_Namespace := ns\<rparr>"

definition IngressBuilder_Age :: "duration \<Rightarrow> ingress_builder \<Rightarrow> ingress_builder" where
  "IngressBuilder_Age d b = b\<lparr>ing_CreationTimestamp := ago d\<rparr>"

definition IngressBuilder_Class :: "string \<Rightarrow> ingress_builder \<Rightarrow> ingress_builder" where
  "IngressBuilder_Class name b = b\<lparr>ing_IngressClassName := Some name\<rparr>"

definition IngressBuilder_Address :: "string \<Rightarrow> ingress_builder \<Rightarrow> ingress_builder" where
  "IngressBuilder_Address address b = b\<lparr>ing_LoadBalancer := ing_LoadBalancer b @ [(address, [])]\<rparr>"

text \<open>
  The loop over the rules: the path is added to the first rule for the host, or in a new rule.
  Following the HTTP section of a rule that has none panics.
\<close>

fun add_path :: "string \<Rightarrow> k_http_path \<Rightarrow> k_ingress_rule list \<Rightarrow> k_ingress_rule list option" where
  "add_path host entry [] = Some [\<lparr>ir_Host = host, ir_HTTP = Some [entry]\<rparr>]"
| "add_path host entry (r # rs) =
     (if ir_Host r = host
      then (case ir_HTTP r of None \<Rightarrow> None | Some paths \<Rightarrow> Some (r\<lparr>ir_HTTP := Some (paths @ [entry])\<rparr> # rs))
      else map_option ((#) r) (add_path host entry rs))"

definition IngressBuilder_rule ::
  "string \<Rightarrow> string \<Rightarrow> string \<Rightarrow> string \<times> int \<Rightarrow> ingress_builder \<Rightarrow> ingress_builder option" where
  "IngressBuilder_rule host path service port b =
     (let entry = \<lparr>hp_Path = path, hp_PathType = Some ''Prefix'',
            hp_Service = Some \<lparr>sb_Name = service, sb_PortName = fst port, sb_PortNumber = snd port\<rparr>\<rparr>
      in map_option (\<lambda>rules. b\<lparr>ing_Rules := rules\<rparr>) (add_path host entry (ing_Rules b)))"

definition IngressBuilder_Rule :: "string \<Rightarrow> string \<Rightarrow> string \<Rightarrow> int \<Rightarrow> ingress_builder \<Rightarrow> ingress_builder option" where
  "IngressBuilder_Rule host path service port b = IngressBuilder_rule host path service ([], port) b"

definition IngressBuilder_NamedPortRule ::
  "string \<Rightarrow> string \<Rightarrow> string \<Rightarrow> string \<Rightarrow> ingress_builder \<Rightarrow> ingress_builder option" where
  "IngressBuilder_NamedPortRule host path service portName b = IngressBuilder_rule host path service (portName, 0) b"

definition IngressBuilder_Build :: "ingress_builder \<Rightarrow> k_ingress" where
  "IngressBuilder_Build b = b"

definition kt_IngressClass :: "string \<Rightarrow> bool \<Rightarrow> k_ingress_class" where
  "kt_IngressClass name isDefault =
     \<lparr>kic_Name = name,
      kic_Annotations = (if isDefault then [(''ingressclass.kubernetes.io/is-default-class'', ''true'')] else [])\<rparr>"

definition snap_paths :: "string \<Rightarrow> k_http_path list \<Rightarrow> ingress_path list" where
  "snap_paths host paths =
     map (\<lambda>path.
       let entry = \<lparr>pa_Host = host, pa_Path = hp_Path path, pa_PathType = [], pa_ServiceName = [],
             pa_Port = ingress_port0, pa_IsDefault = False\<rparr>;
           entry = (case hp_PathType path of None \<Rightarrow> entry | Some t \<Rightarrow> entry\<lparr>pa_PathType := t\<rparr>)
       in (case hp_Service path of
             None \<Rightarrow> entry
           | Some service \<Rightarrow> entry\<lparr>pa_ServiceName := sb_Name service,
               pa_Port := \<lparr>ip_Name = sb_PortName service, ip_Number = sb_PortNumber service\<rparr>\<rparr>)) paths"

definition IngressSnap :: "k_ingress \<Rightarrow> 'q ingress_snap" where
  "IngressSnap ingress =
     (let paths = (case ing_DefaultBackend ingress of
            Some (Some service) \<Rightarrow> [\<lparr>pa_Host = [], pa_Path = [], pa_PathType = [], pa_ServiceName = sb_Name service,
              pa_Port = \<lparr>ip_Name = sb_PortName service, ip_Number = sb_PortNumber service\<rparr>, pa_IsDefault = True\<rparr>]
          | _ \<Rightarrow> []);
          paths = foldl (\<lambda>paths rule. case ir_HTTP rule of None \<Rightarrow> paths | Some ps \<Rightarrow> paths @ snap_paths (ir_Host rule) ps)
            paths (ing_Rules ingress)
      in \<lparr>is_Collection = collection0, is_Ingress = ingress, is_Events = [], is_Paths = paths, is_Services = [],
          is_Class = ingress_class0, is_Now = Now\<rparr>)"

text \<open>The snapshot with the backend registered, and the backend.\<close>

definition IngressBackend ::
  "'q ingress_snap \<Rightarrow> string \<Rightarrow> existence \<Rightarrow> int list \<Rightarrow> endpoint_set \<Rightarrow> 'q ingress_snap \<times> 'q ingress_service" where
  "IngressBackend snap name exists ports endpoints =
     (let entry = \<lparr>is_Name = name, is_Exists = exists, is_Service = None, is_Endpoints = endpoints, is_Backends = []\<rparr>;
          entry = (if exists = Found then
            (let service = ServiceBuilder_Selector [''app'', name]
                   (ServiceBuilder_Namespace (ing_Namespace (is_Ingress snap)) (kt_Service name));
                 service = foldl (\<lambda>b port. ServiceBuilder_Port port port b) service ports
             in entry\<lparr>is_Service := Some (ServiceBuilder_Build service)\<rparr>)
            else entry)
      in (snap\<lparr>is_Services := gomap_put (is_Services snap) name entry\<rparr>, entry))"

section \<open>Claims (\<open>pvc.go\<close>)\<close>

type_synonym 'q claim_builder = "'q k_pvc"

definition kt_Claim :: "(string \<Rightarrow> 'q option) \<Rightarrow> string \<Rightarrow> 'q claim_builder option" where
  "kt_Claim MustParse name =
     map_option (\<lambda>size. \<lparr>pvc_Name = name, pvc_Namespace = ''default'', pvc_CreationTimestamp = ago go_Hour,
       pvc_VolumeName = [], pvc_AccessModes = [''ReadWriteOnce''], pvc_Requests = [(''storage'', size)],
       pvc_Phase = ''Pending'', pvc_UID = ''uid-pvc-'' @ name, pvc_Annotations = [], pvc_StorageClassName = None\<rparr>)
       (MustParse ''10Gi'')"

definition ClaimBuilder_Namespace :: "string \<Rightarrow> 'q claim_builder \<Rightarrow> 'q claim_builder" where
  "ClaimBuilder_Namespace ns b = b\<lparr>pvc_Namespace := ns\<rparr>"

definition ClaimBuilder_Age :: "duration \<Rightarrow> 'q claim_builder \<Rightarrow> 'q claim_builder" where
  "ClaimBuilder_Age d b = b\<lparr>pvc_CreationTimestamp := ago d\<rparr>"

definition ClaimBuilder_StorageClass :: "string \<Rightarrow> 'q claim_builder \<Rightarrow> 'q claim_builder" where
  "ClaimBuilder_StorageClass name b = b\<lparr>pvc_StorageClassName := Some name\<rparr>"

definition ClaimBuilder_NoStorageClass :: "'q claim_builder \<Rightarrow> 'q claim_builder" where
  "ClaimBuilder_NoStorageClass b = b\<lparr>pvc_StorageClassName := Some []\<rparr>"

definition ClaimBuilder_Phase :: "string \<Rightarrow> 'q claim_builder \<Rightarrow> 'q claim_builder" where
  "ClaimBuilder_Phase phase b = b\<lparr>pvc_Phase := phase\<rparr>"

definition ClaimBuilder_Bound :: "string \<Rightarrow> 'q claim_builder \<Rightarrow> 'q claim_builder" where
  "ClaimBuilder_Bound volume b = b\<lparr>pvc_Phase := ''Bound'', pvc_VolumeName := volume\<rparr>"

definition ClaimBuilder_Build :: "'q claim_builder \<Rightarrow> 'q k_pvc" where
  "ClaimBuilder_Build b = b"

definition kt_StorageClass :: "string \<Rightarrow> string \<Rightarrow> bool \<Rightarrow> k_storage_class" where
  "kt_StorageClass name mode isDefault =
     \<lparr>sc_Name = name,
      sc_Annotations = (if isDefault then [(''storageclass.kubernetes.io/is-default-class'', ''true'')] else []),
      sc_VolumeBindingMode = Some mode, sc_Provisioner = ''example.com/'' @ name\<rparr>"

definition PVCSnap :: "'q k_pvc \<Rightarrow> 'q pvc_snap" where
  "PVCSnap claim =
     \<lparr>vs_Collection = collection0, vs_Claim = claim, vs_Events = [], vs_Class = storage_class_info0, vs_Consumers = [],
      vs_ConsumersKnown = True, vs_Now = Now\<rparr>"

definition ClassInfo :: "string \<Rightarrow> string \<Rightarrow> bool \<Rightarrow> existence \<Rightarrow> storage_class_info" where
  "ClassInfo name mode requested exists =
     (let info = \<lparr>sci_Name = name, sci_Requested = requested, sci_ExplicitlyNone = False, sci_Exists = exists,
            sci_DefaultExists = Unknown, sci_BindingMode = mode, sci_Provisioner = ''example.com/'' @ name\<rparr>
      in if \<not> requested then info\<lparr>sci_DefaultExists := exists\<rparr> else info)"

end
