(* ===== verification/Quiet.thy ===== *)
theory Quiet
  imports Verdicts KubeTest
begin

text \<open>
  The other side of the verdict: when nothing is wrong, nothing is reported. A Pod that runs and
  is ready, whose containers have no failure on record and whose events are no warnings, gets no
  finding from any rule, and an analysis of it reads nothing beyond the Pod, its events and its
  owners.
\<close>

section \<open>Quiet Pods\<close>

definition quiet_container :: "'q container \<Rightarrow> bool" where
  "quiet_container c \<longleftrightarrow>
     Container_Waiting c = None \<and> Container_LastTerminated c = None \<and> Container_Restarts c = 0 \<and>
     (case Container_Terminated c of None \<Rightarrow> True | Some t \<Rightarrow> t_ExitCode t = 0 \<and> t_Reason t \<noteq> ''OOMKilled'')"

definition quiet_event :: "event \<Rightarrow> bool" where
  "quiet_event e \<longleftrightarrow> \<not> Event_IsWarning e \<and> ev_Reason e \<notin> {''Unhealthy'', ''FailedScheduling''}"

text \<open>A Pod that runs has been placed on a node, or at least nothing says that it could not be.\<close>

definition quiet_pod :: "'q pod_snap \<Rightarrow> bool" where
  "quiet_pod snap \<longleftrightarrow>
     podLooksHealthy snap \<and> pod_Reason (ps_Pod snap) \<noteq> ''Evicted'' \<and>
     (pod_NodeName (ps_Pod snap) \<noteq> [] \<or> pod_SchedulingGates (ps_Pod snap) = [] \<and>
       (case Pod_Condition snap ''PodScheduled'' of None \<Rightarrow> True | Some c \<Rightarrow> cond_Status c \<noteq> ''False'')) \<and>
     list_all quiet_container (Pod_Containers snap) \<and> list_all quiet_event (ps_Events snap)"

definition nothing_referenced :: "'q pod_snap \<Rightarrow> bool" where
  "nothing_referenced snap \<longleftrightarrow> ps_Node snap = None \<and> ps_ConfigMaps snap = [] \<and> ps_Secrets snap = [] \<and> ps_PVCs snap = []"

lemma quiet_container_rules:
  assumes "quiet_container c"
  shows "oom_container lib snap c = []" "crash_loop_container snap c = []" "restart_container snap c = []"
    "terminated_container snap c = []" "image_pull_container snap c = []" "config_error_container snap cms secs c = []"
  using assms
  by (auto simp: quiet_container_def oom_container_Nil_iff crash_loop_container_Nil_iff restart_container_Nil_iff
      oom_recorded_def crash_looping_def inBackoff_def isFlapping_def image_pull_container_def config_error_container_def
      terminated_container_def split: option.splits)

lemma quiet_no_reason:
  assumes "list_all quiet_event evs" and "set rs \<subseteq> {''Unhealthy'', ''FailedScheduling''}"
  shows "Events_WithReason rs evs = []" "Events_Latest rs evs = None"
  using assms by (fastforce simp: Events_WithReason_def Events_Latest_None quiet_event_def list_all_iff filter_empty_conv)+

lemma quiet_scheduling:
  assumes "quiet_pod snap"
  shows "evaluateScheduling lib snap = []"
proof -
  have "Events_Latest [''FailedScheduling''] (ps_Events snap) = None"
    using assms by (intro quiet_no_reason) (auto simp: quiet_pod_def)
  then show ?thesis
    using assms by (auto simp: quiet_pod_def evaluateScheduling_def schedulerMessage_def Let_def split: option.splits)
qed

lemma quiet_containers:
  assumes "quiet_pod snap" and "\<And>c. quiet_container c \<Longrightarrow> f c = []"
  shows "concat (map f (Pod_Containers snap)) = []"
  using assms by (auto simp: quiet_pod_def list_all_iff)

lemma quiet_container_lists:
  assumes "quiet_pod snap"
  shows "evaluateOOM lib snap = []" "evaluateCrashLoop snap = []" "evaluateRestartHistory snap = []"
    "evaluateImagePull snap = []"
  using quiet_containers [OF assms, of "oom_container lib snap"] quiet_containers [OF assms, of "crash_loop_container snap"]
    quiet_containers [OF assms, of "restart_container snap"] quiet_containers [OF assms, of "image_pull_container snap"]
  by (simp_all add: evaluateOOM_def evaluateCrashLoop_def evaluateRestartHistory_def evaluateImagePull_def quiet_container_rules)

lemma quiet_terminated:
  assumes "quiet_pod snap"
  shows "evaluateTerminated snap = []"
proof -
  have "evictionDiagnosis snap = None"
    using assms evictionDiagnosis_Some [of snap] by (auto simp: quiet_pod_def)
  then show ?thesis
    using quiet_containers [OF assms, of "terminated_container snap"] by (simp add: evaluateTerminated_def quiet_container_rules)
qed

lemma quiet_probes:
  assumes "quiet_pod snap"
  shows "evaluateProbes lib snap = []"
proof -
  have "Events_WithReason [''Unhealthy''] (ps_Events snap) = []"
    using assms by (intro quiet_no_reason) (auto simp: quiet_pod_def)
  then have "probe_hits snap = []" by (simp only: probe_hits_def) (simp add: Events_Sort_def slice_stable_def)
  then show ?thesis by (simp add: evaluateProbes_def)
qed

lemma quiet_mounts:
  assumes "quiet_pod snap"
  shows "evaluateMounts snap = []"
proof -
  have "\<not> anyContainerWaiting snap"
    using assms by (auto simp: quiet_pod_def anyContainerWaiting_def quiet_container_def list_all_iff list_ex_iff)
  then show ?thesis by (simp add: evaluateMounts_def split: option.split)
qed

lemma quiet_references:
  assumes quiet: "quiet_pod snap" and unread: "nothing_referenced snap"
  shows "evaluateConfigRefs snap = []" "evaluateClaims snap = []" "evaluateNode snap = []"
proof -
  have none: "ps_Node snap = None" "ps_ConfigMaps snap = []" "ps_Secrets snap = []" "ps_PVCs snap = []"
    using unread by (simp_all add: nothing_referenced_def)
  have "concat (map (config_error_container snap [] []) (Pod_Containers snap)) = []"
    using quiet by (rule quiet_containers) (rule quiet_container_rules)
  then show "evaluateConfigRefs snap = []"
    by (simp only: evaluateConfigRefs_def none missingNames_def Let_def) simp
  show "evaluateClaims snap = []" "evaluateNode snap = []"
    by (simp_all only: evaluateClaims_def evaluateNode_def none) simp_all
qed

lemmas quiet_rule_silent = quiet_container_lists quiet_terminated quiet_probes quiet_mounts quiet_scheduling

lemma quiet_rules:
  assumes "quiet_pod snap" and "nothing_referenced snap"
  shows "rule_findings (pod_Rules lib) snap = []"
  using quiet_rule_silent [OF assms(1)] quiet_references [OF assms]
  by (simp add: rule_findings_def pod_Rules_def pod_rule_defs)

lemma quiet_fallback: "quiet_pod snap \<Longrightarrow> Fallback snap = []"
  by (simp add: Fallback_Nil_iff podIsReady_def quiet_pod_def podLooksHealthy_def)

lemma quiet_findings:
  assumes "quiet_pod snap" and "nothing_referenced snap"
  shows "fst (pod_findings lib ctx snap) = []"
proof -
  have "fst (Evaluate ctx (pod_Rules lib) snap) = []"
    using Evaluate_subset [of ctx "pod_Rules lib" snap] quiet_rules [OF assms, of lib] by simp
  with quiet_fallback [OF assms(1)] show ?thesis by (simp add: pod_findings_def case_prod_beta Let_def)
qed

section \<open>Quiet reads\<close>

text \<open>The events only add to what the Pod itself shows.\<close>

lemma quiet_pod_events:
  assumes "quiet_pod (backend_snapshot now pod)" and "ps_Pod snap = pod" and "list_all quiet_event (ps_Events snap)"
  shows "quiet_pod snap"
  using assms
  by (simp add: quiet_pod_def podLooksHealthy_def Pod_Condition_def Pod_Containers_def Let_def backend_snapshot_def)

lemma foldl_dedup_merge_kind [simp]:
  "ev_Type (foldl dedup_merge b es) = ev_Type b" "ev_Reason (foldl dedup_merge b es) = ev_Reason b"
  by (induction es arbitrary: b) (simp_all add: dedup_merge_def)

lemma quiet_dedup:
  assumes "list_all quiet_event evs"
  shows "list_all quiet_event (Events_Dedup evs)"
proof -
  have "quiet_event b" if "b \<in> set (Events_Dedup evs)" for b
  proof -
    obtain x xs where group: "filter (\<lambda>e. dedup_key e = dedup_key b) (Events_Sort evs) = x # xs"
      and b: "b = foldl dedup_merge (dedup_start x) xs"
      using Events_Dedup_entry [OF \<open>b \<in> _\<close>] by blast
    from group have "x \<in> set (filter (\<lambda>e. dedup_key e = dedup_key b) (Events_Sort evs))" by simp
    then have "quiet_event x" using assms by (simp add: list_all_iff)
    then show ?thesis by (simp add: b quiet_event_def Event_IsWarning_def dedup_start_def)
  qed
  then show ?thesis by (simp add: list_all_iff)
qed

lemma quiet_no_warnings: "list_all quiet_event evs \<Longrightarrow> Events_Warnings evs = []"
  by (auto simp: Events_Warnings_def quiet_event_def list_all_iff filter_empty_conv)

lemma quiet_steps:
  assumes "quiet_pod snap"
  shows "collectPodNode cl snap = snap" "collectPodConfigRefs cl snap = snap" "collectPodClaims cl snap = snap"
proof -
  have "Events_Warnings (ps_Events snap) = []"
    using assms by (auto simp: quiet_pod_def intro: quiet_no_warnings)
  moreover have "\<not> list_ex (\<lambda>c. case Container_Waiting c of None \<Rightarrow> False | Some w \<Rightarrow> P w) (Pod_Containers snap)" for P
    using assms by (auto simp: quiet_pod_def quiet_container_def list_all_iff list_ex_iff)
  ultimately show "collectPodConfigRefs cl snap = snap" "collectPodClaims cl snap = snap"
    using assms by (simp_all add: collectPodConfigRefs_def collectPodClaims_def needsConfigRefs_def needsClaims_def
        quiet_pod_def podLooksHealthy_def)
  show "collectPodNode cl snap = snap"
    using assms by (simp add: collectPodNode_def Let_def quiet_pod_def)
qed

text \<open>Degradations that are distinct are all kept when they are merged into a collection that has none.\<close>

lemma foldl_Degrade_distinct:
  assumes "distinct (map deg_key (col_Degradations c @ ds))"
  shows "col_Degradations (foldl Degrade c ds) = col_Degradations c @ ds"
  using assms
proof (induction ds arbitrary: c)
  case (Cons d ds)
  then have "deg_key d \<notin> deg_key ` set (col_Degradations c)" by auto
  then have "col_Degradations (Degrade c d) = col_Degradations c @ [d]"
    by (force simp: Degrade_def list_ex_iff image_iff)
  with Cons show ?case by simp
qed simp

lemma ownerChain_ok: "collection_ok (snd (ownerChain cl collection0 ns refs))"
proof -
  have "grows collection0 (snd (ownerChain cl collection0 ns refs))"
    unfolding ownerChain_def by (intro grows_owner_loop) simp
  then show ?thesis by (simp add: grows_def collection0_def collection_ok_def)
qed

lemma quiet_start:
  assumes "eventsFor cl ref (pod_UID pod) = Inr evs"
  shows "ps_Events (pod_start cl ref pod) = Events_Dedup evs" "nothing_referenced (pod_start cl ref pod)"
    "col_Degradations (ps_Collection (pod_start cl ref pod)) =
       col_Degradations (snd (ownerChain cl collection0 (ref_Namespace ref) (pod_OwnerReferences pod)))"
proof -
  let ?owners = "snd (ownerChain cl collection0 (ref_Namespace ref) (pod_OwnerReferences pod))"
  have "distinct (map deg_key (col_Degradations ?owners))"
    using ownerChain_ok [of cl "ref_Namespace ref" "pod_OwnerReferences pod"] by (simp add: collection_ok_def)
  then show "col_Degradations (ps_Collection (pod_start cl ref pod)) = col_Degradations ?owners"
    using assms by (simp add: pod_start_def collect_events_def case_prod_beta Let_def foldl_Degrade_distinct
        Inspect_def collection0_def)
  show "ps_Events (pod_start cl ref pod) = Events_Dedup evs" using assms by (simp add: pod_start_events)
  show "nothing_referenced (pod_start cl ref pod)"
    by (simp add: nothing_referenced_def pod_start_def case_prod_beta Let_def)
qed

lemma quiet_collected:
  assumes "get_Pod cl ns name = Inr pod" and "eventsFor cl (pod_ref ns name) (pod_UID pod) = Inr evs"
    and "quiet_pod (backend_snapshot now pod)" and "list_all quiet_event evs"
  shows "collect_Pod cl ns name = Inr (pod_start cl (pod_ref ns name) pod)" "quiet_pod (pod_start cl (pod_ref ns name) pod)"
proof -
  show "quiet_pod (pod_start cl (pod_ref ns name) pod)"
    using assms(3) by (rule quiet_pod_events) (simp_all add: quiet_start(1) [OF assms(2)] quiet_dedup assms(4))
  then show "collect_Pod cl ns name = Inr (pod_start cl (pod_ref ns name) pod)"
    using assms(1) by (simp add: collect_Pod_Inr quiet_steps)
qed

text \<open>
  C7. No false alarm. A Pod that runs and is ready, has no failure of a container on record, was
  not evicted and not kept from being scheduled, and whose events are neither warnings nor of
  the two kinds the rules read regardless of their type, is reported without a finding, whatever
  the deadline; and it is called healthy unless an owner could not be read, which is then what
  the report says is missing.
\<close>

theorem no_false_alarm:
  assumes "get_Pod cl ns name = Inr pod" and "eventsFor cl (pod_ref ns name) (pod_UID pod) = Inr evs"
    and "quiet_pod (backend_snapshot now pod)" and "list_all quiet_event evs"
    and "degs = col_Degradations (snd (ownerChain cl collection0 ns (pod_OwnerReferences pod)))"
  shows "\<exists>r. Analyze lib cl ctx KindPod ns name = Inr r \<and> r_Diagnoses r = [] \<and> r_Degradations r = degs \<and>
           r_Status r = (if degs = [] then StatusHealthy else StatusUnknown)"
proof -
  let ?snap = "pod_start cl (pod_ref ns name) pod"
  note collected = quiet_collected [OF assms(1-4)] and start = quiet_start(2,3) [OF assms(2)]
  have "fst (pod_findings lib ctx ?snap) = []" by (rule quiet_findings [OF collected(2) start(1)])
  moreover have "col_Degradations (ps_Collection ?snap) = degs" by (simp add: start(2) [unfolded pod_ref_def] assms(5) pod_ref_def)
  moreover have "Analyze lib cl ctx KindPod ns name = Inr (PodReport lib ctx ?snap)"
    by (simp add: analyze_Pod_def collected(1))
  ultimately show ?thesis
    using pod_report.report_status [of lib ctx ?snap] by (simp add: pod_report.built)
qed

text \<open>The Pod the tests call ready is quiet, whatever it and its container are called.\<close>

definition ready_pod :: "string \<Rightarrow> string \<Rightarrow> 'q k_pod" where
  "ready_pod name c = PodBuilder_Build (PodBuilder_Ready (PodBuilder_Container (kt_Container c) (kt_Pod name)))"

lemmas pod_fixture_defs = kt_Pod_def kt_Container_def PodBuilder_Build_def PodBuilder_Ready_def PodBuilder_Condition_def
  PodBuilder_Container_def PodBuilder_Namespace_def PodBuilder_Phase_def

lemmas container_view_defs = Pod_Containers_def regular_container_def findStatus_def Container_Waiting_def
  Container_Terminated_def Container_LastTerminated_def Container_Restarts_def

lemma ready_pod_quiet: "quiet_pod (backend_snapshot now (ready_pod name c))"
  by (simp add: quiet_pod_def podLooksHealthy_def Pod_Condition_def find_condition_def quiet_container_def
      container_view_defs backend_snapshot_def ready_pod_def pod_fixture_defs pod0_def status0_def)

definition ready_client :: "(int, string) kube_client" where
  "ready_client = (sample_client [ready_pod ''web'' ''app''])
     \<lparr>list_Events := (\<lambda>ns sel limit. Inr [(replaced_event ''uid-web'' ''Started'')\<lparr>ke_Type := ''Normal''\<rparr>])\<rparr>"

lemma no_false_alarm_witness:
  "\<exists>r. Analyze int_lib ready_client None KindPod ''default'' ''web'' = Inr r \<and> r_Diagnoses r = [] \<and> r_Degradations r = [] \<and>
     r_Status r = StatusHealthy"
proof -
  let ?pod = "ready_pod ''web'' ''app'' :: int k_pod"
  have pod: "get_Pod ready_client ''default'' ''web'' = Inr ?pod"
    by (simp add: ready_client_def sample_client_def ready_pod_def pod_fixture_defs)
  have "case eventsFor ready_client (pod_ref ''default'' ''web'') (pod_UID ?pod) of
      Inl _ \<Rightarrow> False | Inr evs \<Rightarrow> list_all quiet_event evs"
    by code_simp
  then obtain evs where evs: "eventsFor ready_client (pod_ref ''default'' ''web'') (pod_UID ?pod) = Inr evs" "list_all quiet_event evs"
    by (auto split: sum.splits)
  have "col_Degradations (snd (ownerChain ready_client collection0 ''default'' (pod_OwnerReferences ?pod))) = []"
    by code_simp
  then show ?thesis
    using no_false_alarm [OF pod evs(1) ready_pod_quiet evs(2) refl, of int_lib None] by simp
qed

end
