(* ===== verification/Replicas.thy ===== *)
theory Replicas
  imports Quiet
begin

text \<open>
  StatefulSets from the cluster to the report: the Pods are examined in the order of their ordinals
  whatever order they are listed in, so the Pod the ordering rule blames is the first one that
  is not ready; and a StatefulSet with all it asks for gets no finding.
\<close>

section \<open>The order of the Pods\<close>

lemma ordinal_less_rank:
  "Ordinal (pod_Name p) = Some (rank p) \<Longrightarrow> Ordinal (pod_Name q) = Some (rank q) \<Longrightarrow> ordinal_less p q \<longleftrightarrow> rank p < rank q"
  by (simp add: ordinal_less_def)

interpretation ordinals: sort_order "\<lambda>p. Ordinal (pod_Name p) = Some (rank p)" ordinal_less for rank
  by unfold_locales (auto simp: ordinal_less_rank)

lemma slice_stable_ordinals:
  assumes "\<forall>p\<in>set pods. Ordinal (pod_Name p) = Some (rank p)"
  shows "slice_stable ordinal_less pods = sort_key rank pods"
proof (rule ordinals.slice_stable_unique [symmetric])
  show "\<forall>p\<in>set pods. Ordinal (pod_Name p) = Some (rank p)" by fact
  have "sorted_wrt (\<lambda>p q. rank p \<le> rank q) (sort_key rank pods)"
    using sorted_sort_key [of rank pods] by (simp add: sorted_wrt_map)
  then have "sorted_wrt (\<lambda>p q. \<not> ordinal_less q p) (sort_key rank pods)"
    by (rule sorted_wrt_mono_rel [rotated]) (use assms in \<open>auto simp: ordinal_less_rank\<close>)
  then show "ordered_by ordinal_less (sort_key rank pods)" by (simp add: ordered_by_def)
  fix k
  assume k: "Ordinal (pod_Name k) = Some (rank k)"
  have "filter (equivalent ordinal_less k) ps = filter (\<lambda>p. rank p = rank k) ps" if "set ps = set pods" for ps
    by (rule filter_cong) (use that assms k in \<open>auto simp: equivalent_def ordinal_less_rank\<close>)
  then show "filter (equivalent ordinal_less k) (sort_key rank pods) = filter (equivalent ordinal_less k) pods"
    by (simp add: sort_key_stable)
qed simp

lemma with_events_pod [simp]: "ps_Pod (with_events cl s) = ps_Pod s"
  by (simp add: with_events_def split: sum.split)

lemma fill_events_pods [simp]: "map ps_Pod (fill_events n cl ss) = map ps_Pod ss"
  by (induction n cl ss rule: fill_events.induct) (auto split: nat.split)

lemma collected_pods:
  assumes "LabelSelectorAsSelector cl (sts_Selector (st_StatefulSet snap)) = Inr selector"
    and "list_Pods cl (sts_Namespace (st_StatefulSet snap)) selector = Inr pods"
  shows "map ps_Pod (st_Pods (collectStatefulSetPods cl snap)) = slice_stable ordinal_less (owned_pods (st_StatefulSet snap) pods)"
  using assms
  by (simp add: collectStatefulSetPods_def Let_def case_prod_beta backendSnapshots_fst backend_snapshot_def comp_def)

lemma find_first:
  assumes "sorted_wrt R xs" and "reflp R" and "find P xs = Some x" and "y \<in> set xs" and "P y"
  shows "R x y"
  using assms(1,3-) by (induction xs) (auto split: if_splits intro: reflpD [OF assms(2)])

text \<open>
  C32. However the API server lists the Pods of a StatefulSet, they are collected in the order of
  their ordinals (the reference is the library's stable sort), and of the Pods the selector
  matches only those the StatefulSet owns. The Pod the ordering rule names as the blocker is
  therefore the one with the lowest ordinal of those that are not ready.
\<close>

theorem pods_in_ordinal_order:
  assumes "LabelSelectorAsSelector cl (sts_Selector (st_StatefulSet snap)) = Inr selector"
    and "list_Pods cl (sts_Namespace (st_StatefulSet snap)) selector = Inr pods"
    and "\<forall>p\<in>set (owned_pods (st_StatefulSet snap) pods). Ordinal (pod_Name p) = Some (rank p)"
  shows "map ps_Pod (st_Pods (collectStatefulSetPods cl snap)) = sort_key rank (owned_pods (st_StatefulSet snap) pods) \<and>
    (\<forall>b. StatefulSet_FirstUnready (collectStatefulSetPods cl snap) = Some b \<longrightarrow>
       ps_Pod b \<in> set (owned_pods (st_StatefulSet snap) pods) \<and> \<not> snapshot_podIsReady (ps_Pod b) \<and>
       (\<forall>p\<in>set (owned_pods (st_StatefulSet snap) pods). \<not> snapshot_podIsReady p \<longrightarrow> rank (ps_Pod b) \<le> rank p))"
proof -
  let ?owned = "owned_pods (st_StatefulSet snap) pods" and ?snaps = "st_Pods (collectStatefulSetPods cl snap)"
  have pods: "map ps_Pod ?snaps = sort_key rank ?owned"
    using collected_pods [OF assms(1,2)] slice_stable_ordinals [OF assms(3)] by simp
  have "sorted (map rank (map ps_Pod ?snaps))" by (simp only: pods sorted_sort_key)
  then have ranks: "sorted_wrt (\<lambda>a b. rank (ps_Pod a) \<le> rank (ps_Pod b)) ?snaps"
    by (simp add: sorted_wrt_map)
  have "set (map ps_Pod ?snaps) = set ?owned" by (simp only: pods set_sort)
  then have set: "ps_Pod ` set ?snaps = set ?owned" by simp
  have "ps_Pod b \<in> set ?owned \<and> \<not> snapshot_podIsReady (ps_Pod b) \<and>
      (\<forall>p\<in>set ?owned. \<not> snapshot_podIsReady p \<longrightarrow> rank (ps_Pod b) \<le> rank p)"
    if b: "find (\<lambda>p. \<not> snapshot_podIsReady (ps_Pod p)) ?snaps = Some b" for b
  proof -
    have "b \<in> set ?snaps" and "\<not> snapshot_podIsReady (ps_Pod b)" using b by (auto simp: find_Some_iff)
    moreover have "rank (ps_Pod b) \<le> rank (ps_Pod s)" if "s \<in> set ?snaps" and "\<not> snapshot_podIsReady (ps_Pod s)" for s
      using find_first [OF ranks _ b that] by (simp add: reflp_def)
    ultimately show ?thesis by (auto simp: set [symmetric])
  qed
  with pods show ?thesis by (simp add: StatefulSet_FirstUnready_def)
qed

text \<open>Replica 10 is listed before replica 2, and a Pod of somebody else between them.\<close>

definition fixture_set :: k_stateful_set where
  "fixture_set = StatefulSetBuilder_Build (kt_StatefulSet ''db'')"

definition replica :: "int \<Rightarrow> bool \<Rightarrow> int k_pod" where
  "replica n ready = ps_Pod (StatefulSetPod fixture_set n ready)"

definition listed_client :: "(int, string) kube_client" where
  "listed_client = sample_client [replica 10 False, PodBuilder_Build (kt_Pod ''db-1''), replica 2 False]"

lemma pods_in_ordinal_order_witness:
  "map pod_Name (map ps_Pod (st_Pods (collectStatefulSetPods listed_client (StatefulSetSnap fixture_set [])))) = [''db-2'', ''db-10'']"
proof -
  let ?snap = "StatefulSetSnap fixture_set [] :: int stateful_set_snap" and ?rank = "\<lambda>p :: int k_pod. the (Ordinal (pod_Name p))"
  have set: "st_StatefulSet ?snap = fixture_set" by (simp add: StatefulSetSnap_def)
  have names: "pod_Name (replica 10 False) = ''db-10''" "pod_Name (replica 2 False) = ''db-2''"
    "pod_Name (PodBuilder_Build (kt_Pod ''db-1'') :: int k_pod) = ''db-1''" by code_simp+
  have ordinals: "Ordinal ''db-10'' = Some 10" "Ordinal ''db-2'' = Some 2" by code_simp+
  have "map pod_Name (owned_pods fixture_set [replica 10 False, PodBuilder_Build (kt_Pod ''db-1''), replica 2 False]) = [''db-10'', ''db-2'']"
    by code_simp
  then have owned: "owned_pods fixture_set [replica 10 False, PodBuilder_Build (kt_Pod ''db-1''), replica 2 False] =
      [replica 10 False, replica 2 False]"
    by (auto simp: owned_pods_def names split: if_splits)
  have "LabelSelectorAsSelector listed_client (sts_Selector (st_StatefulSet ?snap)) = Inr []"
    and "list_Pods listed_client (sts_Namespace (st_StatefulSet ?snap)) [] =
      Inr [replica 10 False, PodBuilder_Build (kt_Pod ''db-1''), replica 2 False]"
    by (simp_all add: listed_client_def sample_client_def)
  from pods_in_ordinal_order [OF this, of ?rank] show ?thesis
    by (simp add: set owned names ordinals)
qed

text \<open>The comparison is only consistent because every name has an ordinal.\<close>

lemma ordinal_less_cycle:
  "\<exists>p q r :: int k_pod. ordinal_less p q \<and> ordinal_less q r \<and> ordinal_less r p"
proof -
  let ?pod = "\<lambda>name. pod0\<lparr>pod_Name := name\<rparr> :: int k_pod"
  have "ordinal_less (?pod ''b-1'') (?pod ''a-5'') \<and> ordinal_less (?pod ''a-5'') (?pod ''a-x'') \<and>
      ordinal_less (?pod ''a-x'') (?pod ''b-1'')"
    by code_simp
  then show ?thesis by blast
qed

section \<open>StatefulSets that have what they ask for\<close>

definition usable_claim :: "pvc_ref \<Rightarrow> bool" where
  "usable_claim c \<longleftrightarrow> pr_Exists c = Unknown \<or> pr_Exists c = Found \<and> pr_Phase c = ''Bound''"

definition quiet_statefulset :: "'q stateful_set_snap \<Rightarrow> bool" where
  "quiet_statefulset snap \<longleftrightarrow>
     0 < StatefulSet_DesiredReplicas snap \<and> StatefulSet_DesiredReplicas snap \<le> sts_ReadyReplicas (st_StatefulSet snap) \<and>
     \<not> StatefulSet_RolloutPending snap \<and> list_all (\<lambda>(_, c). usable_claim c) (st_Claims snap) \<and>
     (hs_Name (st_Service snap) = [] \<or> hs_Exists (st_Service snap) = Unknown \<or>
      hs_Exists (st_Service snap) = Found \<and> hs_Headless (st_Service snap)) \<and>
     list_all (\<lambda>p. quiet_pod p \<and> nothing_referenced p) (st_Pods snap)"

lemma quiet_ready: "quiet_pod p \<Longrightarrow> snapshot_podIsReady (ps_Pod p)"
  by (simp add: quiet_pod_def podLooksHealthy_def snapshot_podIsReady_def Pod_Condition_def)

lemma quiet_statefulset_rules:
  assumes "quiet_statefulset snap"
  shows "rule_findings statefulset_Rules snap = []"
proof -
  have "find (\<lambda>p. \<not> snapshot_podIsReady (ps_Pod p)) (st_Pods snap) = None"
    using assms by (auto simp: quiet_statefulset_def find_None_iff list_all_iff quiet_ready)
  then have "evaluateOrdering snap = []" by (simp add: evaluateOrdering_def StatefulSet_FirstUnready_def)
  moreover have "statefulset_claim_findings snap name = []" for name
    using assms by (auto simp: quiet_statefulset_def list_all_iff usable_claim_def statefulset_claim_findings_def
        dest!: map_of_SomeD split: option.split)
  then have "statefulset_evaluateClaims snap = []" by (simp add: statefulset_evaluateClaims_def)
  moreover have "evaluateService snap = []"
    using assms by (auto simp: quiet_statefulset_def evaluateService_def Let_def)
  moreover have "evaluateUpdateStrategy snap = []" "statefulset_evaluateAvailability snap = []"
    using assms by (auto simp: quiet_statefulset_def evaluateUpdateStrategy_def statefulset_evaluateAvailability_def)
  ultimately show ?thesis by (simp add: rule_findings_def statefulset_Rules_def statefulset_rule_defs)
qed

lemma quiet_evaluate: "rule_findings rules s = [] \<Longrightarrow> fst (Evaluate ctx rules s) = []"
  using Evaluate_subset [of ctx rules s] by simp

lemma quiet_pod_loop:
  assumes "list_all (\<lambda>p. quiet_pod p \<and> nothing_referenced p) pods"
  shows "fst (statefulset_pod_loop lib blocked ctx pods out) = out"
  using assms
proof (induction pods arbitrary: ctx out)
  case (Cons p pods)
  then have "fst (Evaluate ctx (pod_Rules lib) p) = []" and "Fallback p = []"
    by (simp_all add: quiet_evaluate quiet_rules quiet_fallback)
  with Cons show ?case by (simp add: case_prod_beta Let_def)
qed simp

lemma quiet_statefulset_diagnoses:
  assumes "quiet_statefulset snap"
  shows "statefulset_diagnoses lib ctx snap = []"
proof -
  have "fst (statefulset_pod_loop lib blocked c (st_Pods snap) []) = []" for blocked c
    using assms by (intro quiet_pod_loop) (simp add: quiet_statefulset_def)
  then have "fst (statefulset_PodFindings lib c snap) = []" for c
    by (simp add: statefulset_PodFindings_def case_prod_beta Let_def)
  moreover have "fst (Evaluate ctx statefulset_Rules snap) = []"
    by (rule quiet_evaluate) (rule quiet_statefulset_rules [OF assms])
  ultimately show ?thesis by (simp add: statefulset_diagnoses_def case_prod_beta Let_def link_cause_def)
qed

text \<open>
  C33. A StatefulSet that has all its replicas ready, no rollout pending, no claim known to be
  unusable and a governing Service that is headless, and whose Pods are quiet, is reported
  without a finding, whatever the deadline, and called healthy unless something could not be
  read.
\<close>

theorem statefulset_no_false_alarm:
  assumes "quiet_statefulset snap"
  shows "r_Diagnoses (StatefulSetReport lib ctx snap) = [] \<and>
    r_Status (StatefulSetReport lib ctx snap) =
      (if col_Degradations (st_Collection snap) = [] then StatusHealthy else StatusUnknown)"
  using quiet_statefulset_diagnoses [OF assms] statefulset_report.report_status [of lib ctx snap]
  by (simp add: statefulset_report.built)

text \<open>The snapshot the tests build for a StatefulSet of any size, with every replica ready.\<close>

lemma quiet_snap_iff: "quiet_pod (Snap pod) \<longleftrightarrow> quiet_pod (backend_snapshot now pod)"
  by (simp add: quiet_pod_def podLooksHealthy_def Pod_Condition_def Pod_Containers_def Let_def Snap_def backend_snapshot_def)

lemma ready_replica_quiet: "quiet_pod (StatefulSetPod sts n True)" "nothing_referenced (StatefulSetPod sts n True)"
  by (simp_all add: StatefulSetPod_def Let_def quiet_pod_def nothing_referenced_def podLooksHealthy_def Pod_Condition_def
      find_condition_def quiet_container_def container_view_defs Snap_def pod_fixture_defs pod0_def status0_def)

lemma all_ready_quiet:
  assumes "0 < n"
  shows "quiet_statefulset (StatefulSetSnap
    (StatefulSetBuilder_Build (StatefulSetBuilder_Status (int n) (int n) (int n) (StatefulSetBuilder_Replicas (int n) (kt_StatefulSet name))))
    (replicate n True))"
proof -
  have "list_all (\<lambda>p. quiet_pod p \<and> nothing_referenced p)
      (map (\<lambda>(i, ready). StatefulSetPod sts (int i) ready) (enumerate 0 (replicate n True)))" for sts
    by (auto simp: list_all_iff in_set_enumerate_eq ready_replica_quiet)
  then show ?thesis
    using assms by (simp add: quiet_statefulset_def StatefulSetSnap_def StatefulSet_DesiredReplicas_def
        StatefulSet_RolloutPending_def StatefulSetBuilder_Build_def StatefulSetBuilder_Status_def
        StatefulSetBuilder_Replicas_def kt_StatefulSet_def)
qed

lemma statefulset_no_false_alarm_witness:
  "r_Status (StatefulSetReport int_lib None (StatefulSetSnap
     (StatefulSetBuilder_Build (StatefulSetBuilder_Status 3 3 3 (StatefulSetBuilder_Replicas 3 (kt_StatefulSet ''db''))))
     (replicate 3 True))) = StatusHealthy"
  using statefulset_no_false_alarm [OF all_ready_quiet [of 3 "''db''"], of int_lib None]
  by (simp add: StatefulSetSnap_def collection0_def)

end
