(* ===== verification/Fixtures.thy ===== *)
theory Fixtures
  imports Replicas
begin

text \<open>
  What the tests' fixtures stand for: the snapshots package \<open>kubetest\<close> builds from an object are
  those the collectors make from it, so a test that starts from a fixture exercises the rules on
  input the program really produces.
\<close>

section \<open>Ingress paths\<close>

lemma snap_paths_rule: "snap_paths host paths = map (rule_path host) paths"
  by (simp add: snap_paths_def rule_path_def Let_def ingressPort_def split: option.split)

lemma foldl_append_paths:
  "foldl (\<lambda>paths rule. case f rule of None \<Rightarrow> paths | Some ps \<Rightarrow> paths @ g rule ps) acc rules =
   acc @ concat (map (\<lambda>rule. case f rule of None \<Rightarrow> [] | Some ps \<Rightarrow> g rule ps) rules)"
  by (induction rules arbitrary: acc) (auto split: option.split)

lemma IngressSnap_paths: "is_Paths (IngressSnap ingress) = ingressPaths ingress"
  by (simp add: IngressSnap_def ingressPaths_def Let_def foldl_append_paths snap_paths_rule ingressPort_def
      cong: option.case_cong split: option.split)

section \<open>Endpoints\<close>

lemma kt_endpoint_ready [simp]: "ep_Ready (kt_endpoint net ready i) = ready"
  by (simp add: kt_endpoint_def)

lemma ReadyEndpoints_counts:
  "EndpointSet_Ready (ReadyEndpoints ready notReady) = max 0 ready"
  "EndpointSet_NotReady (ReadyEndpoints ready notReady) = max 0 notReady"
  by (simp_all add: EndpointSet_Ready_eq EndpointSet_NotReady_eq ReadyEndpoints_def filter_map comp_def)

text \<open>
  The object of an EndpointSlice for an endpoint: its address comes first, its readiness is
  written down or, for a ready one, left out, it names no node, and it refers to the target.
\<close>

definition describes :: "k_slice_endpoint \<Rightarrow> endpoint \<Rightarrow> bool" where
  "describes obj e \<longleftrightarrow>
     (\<exists>more. se_Addresses obj = ep_Address e # more) \<and>
     (if ep_Ready e then se_Ready obj \<noteq> Some False else se_Ready obj = Some False) \<and>
     se_NodeName obj = None \<and> ep_Node e = [] \<and>
     se_TargetRef obj = Some \<lparr>kr_Kind = ref_Kind (ep_TargetRef e), kr_Namespace = ref_Namespace (ep_TargetRef e),
       kr_Name = ref_Name (ep_TargetRef e)\<rparr>"

lemma slice_endpoint_describes: "describes obj e \<Longrightarrow> slice_endpoint obj = e"
  by (cases "se_Ready obj")
    (auto simp: describes_def slice_endpoint_def derefBoolDefault_def derefString_def targetRef_def split: if_splits)

lemma collected_endpoints:
  assumes "list_EndpointSlices cl ns (''kubernetes.io/service-name='' @ name) = Inr slices"
    and "list_all2 describes (concat slices) (es_Addresses (ReadyEndpoints ready notReady))"
  shows "fst (endpointsFor cl coll ns name) = ReadyEndpoints ready notReady"
proof -
  have "map slice_endpoint (concat slices) = es_Addresses (ReadyEndpoints ready notReady)"
    using assms(2) by (induction rule: list_all2_induct) (simp_all add: slice_endpoint_describes)
  then have "fromEndpointSlices slices = ReadyEndpoints ready notReady"
    by (simp add: fromEndpointSlices_def ReadyEndpoints_def map_concat)
  then show ?thesis using assms(1) by (simp add: endpointsFor_def)
qed

text \<open>The last byte of an address is counted from the digit one, and after nine come no digits.\<close>

lemma tenth_endpoint: "map ep_Address (drop 8 (es_Addresses (ReadyEndpoints 10 0))) = [''10.1.0.9'', ''10.1.0.:'']"
  by code_simp

section \<open>Replicas\<close>

lemma int_str_nat: "int_str (int n) = nat_str n"
  by (simp add: int_str_def)

lemma StatefulSetPod_simps:
  "pod_Name (ps_Pod (StatefulSetPod sts n ready)) = sts_Name sts @ ''-'' @ int_str n"
  "pod_OwnerReferences (ps_Pod (StatefulSetPod sts n ready)) =
     [\<lparr>or_Kind = ''StatefulSet'', or_Name = sts_Name sts, or_UID = sts_UID sts, or_Controller = Some True\<rparr>]"
  by (simp_all add: StatefulSetPod_def Let_def Snap_def pod_fixture_defs pod0_def)

abbreviation fixture_replicas :: "k_stateful_set \<Rightarrow> bool list \<Rightarrow> 'q k_pod list" where
  "fixture_replicas sts readies \<equiv> map ps_Pod (st_Pods (StatefulSetSnap sts readies))"

abbreviation pod_rank :: "'q k_pod \<Rightarrow> int" where
  "pod_rank p \<equiv> the (Ordinal (pod_Name p))"

lemma fixture_ordinals:
  assumes "int (length readies) \<le> 2 ^ 63"
  shows "map (\<lambda>p. Ordinal (pod_Name p)) (fixture_replicas sts readies :: 'q k_pod list) = map (\<lambda>i. Some (int i)) [0..<length readies]"
proof -
  have "map (\<lambda>p. Ordinal (pod_Name p)) (fixture_replicas sts readies :: 'q k_pod list) =
      map (\<lambda>(i, _). Ordinal (sts_Name sts @ ''-'' @ nat_str i)) (enumerate 0 readies)"
    by (simp add: StatefulSetSnap_def StatefulSetPod_simps int_str_nat case_prod_beta comp_def)
  also have "\<dots> = map (\<lambda>(i, _). Some (int i)) (enumerate 0 readies)"
    by (rule map_cong [OF refl])
      (use assms Ordinal_suffix [of _ "sts_Name sts"] in \<open>auto simp: in_set_enumerate_eq\<close>)
  also have "\<dots> = map (\<lambda>i. Some (int i)) (map fst (enumerate 0 readies))"
    by (simp add: case_prod_beta comp_def del: map_fst_enumerate)
  finally show ?thesis by simp
qed

lemma fixture_ranks:
  assumes "int (length readies) \<le> 2 ^ 63"
  shows "map pod_rank (fixture_replicas sts readies :: 'q k_pod list) = map int [0..<length readies]"
    "\<forall>p\<in>set (fixture_replicas sts readies :: 'q k_pod list). Ordinal (pod_Name p) = Some (pod_rank p)"
proof -
  let ?pods = "fixture_replicas sts readies :: 'q k_pod list"
  note ords = fixture_ordinals [OF assms, of sts, where 'q = 'q]
  have "map pod_rank ?pods = map the (map (\<lambda>p. Ordinal (pod_Name p)) ?pods)" by simp
  then show "map pod_rank ?pods = map int [0..<length readies]" unfolding ords by simp
  have "Ordinal (pod_Name p) \<noteq> None" if "p \<in> set ?pods" for p
  proof -
    have "Ordinal (pod_Name p) \<in> set (map (\<lambda>p. Ordinal (pod_Name p)) ?pods)" using that by auto
    then show ?thesis unfolding ords by auto
  qed
  then show "\<forall>p\<in>set ?pods. Ordinal (pod_Name p) = Some (pod_rank p)" by auto
qed

lemma fixture_sorted:
  fixes pods :: "'q k_pod list"
  assumes "int (length readies) \<le> 2 ^ 63" and "mset pods = mset (fixture_replicas sts readies)"
  shows "slice_stable ordinal_less pods = fixture_replicas sts readies"
proof -
  let ?pods = "fixture_replicas sts readies :: 'q k_pod list"
  note ranks = fixture_ranks [OF assms(1), of sts, where 'q = 'q]
  have "set pods = set ?pods" using assms(2) by (rule mset_eq_setD)
  moreover have "distinct (map pod_rank ?pods)" unfolding ranks(1) by (simp add: distinct_map)
  ultimately have "inj_on pod_rank (set pods)" by (simp only: distinct_map)
  moreover have "sorted (map pod_rank ?pods)" unfolding ranks(1) by (simp add: sorted_map)
  ultimately have "sort_key pod_rank pods = ?pods" by (rule sort_key_inj_key_eq [OF assms(2)])
  moreover have "slice_stable ordinal_less pods = sort_key pod_rank pods"
    by (rule slice_stable_ordinals) (use ranks(2) \<open>set pods = set ?pods\<close> in simp)
  ultimately show ?thesis by simp
qed

section \<open>Fixtures and collectors\<close>

text \<open>
  C39. The tests' fixtures are what the collectors produce: a Pod snapshot is the one made for a
  backend Pod; the paths of an Ingress are the collector's; an endpoint set has the counts it is
  asked for and is the one the collector makes of EndpointSlices that describe its addresses,
  however they are spread over slices; and the Pods of a StatefulSet fixture are those the
  collector makes of a cluster that lists the same Pods in any order, among others the set does
  not own.
\<close>

theorem fixtures_match_collectors:
  fixes pod :: "'q k_pod"
  assumes "LabelSelectorAsSelector cl (sts_Selector (st_StatefulSet snap)) = Inr selector"
    and "list_Pods cl (sts_Namespace (st_StatefulSet snap)) selector = Inr pods"
    and "mset (owned_pods (st_StatefulSet snap) pods) = mset (map ps_Pod (st_Pods (StatefulSetSnap (st_StatefulSet snap) readies)))"
    and "int (length readies) \<le> 2 ^ 63"
    and "list_EndpointSlices cl ns (''kubernetes.io/service-name='' @ name) = Inr slices"
    and "list_all2 describes (concat slices) (es_Addresses (ReadyEndpoints ready notReady))"
  shows "Snap pod = backend_snapshot Now pod \<and>
    is_Paths (IngressSnap ingress) = ingressPaths ingress \<and>
    EndpointSet_Ready (ReadyEndpoints ready notReady) = max 0 ready \<and>
    EndpointSet_NotReady (ReadyEndpoints ready notReady) = max 0 notReady \<and>
    fst (endpointsFor cl coll ns name) = ReadyEndpoints ready notReady \<and>
    map ps_Pod (st_Pods (collectStatefulSetPods cl snap)) = map ps_Pod (st_Pods (StatefulSetSnap (st_StatefulSet snap) readies))"
  using collected_pods [OF assms(1,2)] fixture_sorted [OF assms(4,3)] collected_endpoints [OF assms(5,6)]
  by (simp add: Snap_def backend_snapshot_def IngressSnap_paths ReadyEndpoints_counts)

text \<open>
  Eleven replicas, the third not ready, listed backwards, and a Service with a ready endpoint in
  one slice and one that is not in another.
\<close>

definition eleven :: "bool list" where
  "eleven = map (\<lambda>i. i \<noteq> 2) [0..<11]"

definition slice_object :: "string \<Rightarrow> bool option \<Rightarrow> k_slice_endpoint" where
  "slice_object address ready = \<lparr>se_Addresses = [address], se_Ready = ready, se_NodeName = None,
     se_TargetRef = Some \<lparr>kr_Kind = ''Pod'', kr_Namespace = ''default'', kr_Name = []\<rparr>\<rparr>"

definition backwards_client :: "(int, string) kube_client" where
  "backwards_client = (sample_client (rev (map ps_Pod (st_Pods (StatefulSetSnap fixture_set eleven)))))
     \<lparr>list_EndpointSlices := (\<lambda>ns sel. Inr [[slice_object ''10.1.0.1'' None], [slice_object ''10.1.1.1'' (Some False)]])\<rparr>"

lemma fixtures_match_collectors_witness:
  "map ps_Pod (st_Pods (collectStatefulSetPods backwards_client (StatefulSetSnap fixture_set []))) =
   map ps_Pod (st_Pods (StatefulSetSnap fixture_set eleven)) \<and>
   fst (endpointsFor backwards_client collection0 ''default'' ''web'') = ReadyEndpoints 1 1"
proof -
  let ?snap = "StatefulSetSnap fixture_set [] :: int stateful_set_snap"
  let ?pods = "map ps_Pod (st_Pods (StatefulSetSnap fixture_set eleven)) :: int k_pod list"
  let ?slices = "[[slice_object ''10.1.0.1'' None], [slice_object ''10.1.1.1'' (Some False)]]"
  have set: "st_StatefulSet ?snap = fixture_set" by (simp add: StatefulSetSnap_def)
  have "owned_pods fixture_set (rev ?pods) = rev ?pods"
    by (auto simp: owned_pods_def filter_id_conv StatefulSetSnap_def StatefulSetPod_simps)
  then have owned: "mset (owned_pods (st_StatefulSet ?snap) (rev ?pods)) = mset (map ps_Pod (st_Pods (StatefulSetSnap (st_StatefulSet ?snap) eleven)))"
    by (simp add: set)
  have answers: "LabelSelectorAsSelector backwards_client (sts_Selector (st_StatefulSet ?snap)) = Inr []"
    "list_Pods backwards_client (sts_Namespace (st_StatefulSet ?snap)) [] = Inr (rev ?pods)"
    "list_EndpointSlices backwards_client ''default'' (''kubernetes.io/service-name='' @ ''web'') = Inr ?slices"
    by (simp_all add: backwards_client_def sample_client_def)
  have eps: "es_Addresses (ReadyEndpoints 1 1) = [kt_endpoint ''10.1.0.'' True 0, kt_endpoint ''10.1.1.'' False 0]"
    by (simp add: ReadyEndpoints_def)
  have "rune_str 49 = ''1''" by code_simp
  then have "list_all2 describes (concat ?slices) (es_Addresses (ReadyEndpoints 1 1))"
    unfolding eps by (simp add: describes_def slice_object_def kt_endpoint_def)
  moreover have "int (length eleven) \<le> 2 ^ 63" by (simp add: eleven_def)
  ultimately show ?thesis
    using fixtures_match_collectors [OF answers(1,2) owned _ answers(3), where coll = collection0 and ready = 1 and notReady = 1
        and pod = "hd ?pods" and ingress = "is_Ingress (sample_ingress Found)"]
    unfolding set by blast
qed

end
