(* ===== verification/Workloads.thy ===== *)
theory Workloads
  imports Replicas
begin

text \<open>
  A Deployment as a whole: when its report has nothing to say, and when it says that Pods are
  unavailable, how severe that is and which finding about the Pods is named as the cause. Before
  that, a Service as a whole: how severe the findings about its Pods are for it. After it, a claim
  as a whole: when its report has findings.
\<close>

section \<open>The Pods behind a Service\<close>

text \<open>
  C29. What is wrong with a Pod counts for the Service only as far as the Service is affected.
  With a ready endpoint the critical findings about its Pods become warnings; without one they
  stay critical, and no other severity, no other field of a finding and no finding changes. So
  while an endpoint is ready the Service is called unhealthy only when its own rules say that the
  selector matches no Pod or that no Pod declares a port it forwards to, never for the state of
  its Pods.
\<close>

theorem BackendFindings_relative:
  "fst (BackendFindings lib ctx snap) =
     map (\<lambda>d. if d_Severity d = SeverityCritical \<and> EndpointSet_Ready (ss_Endpoints snap) > 0
       then d\<lparr>d_Severity := SeverityWarning\<rparr> else d) (fst (Aggregated lib ctx (backends snap))) \<and>
   (EndpointSet_Ready (ss_Endpoints snap) > 0 \<and> r_Status (ServiceReport lib ctx snap) = StatusUnhealthy \<longrightarrow>
     (\<exists>d\<in>set (r_Diagnoses (ServiceReport lib ctx snap)). d_Severity d = SeverityCritical \<and>
        d_ID d \<in> {service_IDNoMatchingPods, service_IDTargetPortNotFound}))"
proof (intro conjI impI)
  have "fst (Aggregated lib ctx []) = []" by (simp add: Aggregated_def)
  then show "fst (BackendFindings lib ctx snap) =
     map (\<lambda>d. if d_Severity d = SeverityCritical \<and> EndpointSet_Ready (ss_Endpoints snap) > 0
       then d\<lparr>d_Severity := SeverityWarning\<rparr> else d) (fst (Aggregated lib ctx (backends snap)))"
    by (simp add: BackendFindings_eq)
next
  assume "EndpointSet_Ready (ss_Endpoints snap) > 0 \<and> r_Status (ServiceReport lib ctx snap) = StatusUnhealthy"
  then have ready: "EndpointSet_Ready (ss_Endpoints snap) > 0" and "r_Status (ServiceReport lib ctx snap) = StatusUnhealthy"
    by blast+
  then obtain d where d: "d \<in> set (service_diagnoses lib ctx snap)" "d_Severity d = SeverityCritical"
    using service_report.report_status [of lib ctx snap]
    by (cases "service_diagnoses lib ctx snap") (auto simp: service_report.built split: severity.splits if_splits)
  have "d \<notin> set (fst (BackendFindings lib ctx' snap))" for ctx'
    using d(2) ready by (auto simp: BackendFindings_eq split: if_splits)
  then obtain d0 where "d0 \<in> set (fst (Evaluate ctx service_Rules snap))" "d_Severity d0 = d_Severity d" "d_ID d0 = d_ID d"
    using d(1) by (auto simp: service_diagnoses_def case_prod_beta Let_def split: option.splits if_splits)
  then have "d_ID d \<in> {service_IDNoMatchingPods, service_IDTargetPortNotFound}"
    using service_critical [of d0 ctx snap] ready d(2) by auto
  then show "\<exists>d\<in>set (r_Diagnoses (ServiceReport lib ctx snap)). d_Severity d = SeverityCritical \<and>
        d_ID d \<in> {service_IDNoMatchingPods, service_IDTargetPortNotFound}"
    using d by (auto simp: service_report.built)
qed


text \<open>A Service with a ready endpoint whose Pod was killed for memory, and a port the Pod does not declare.\<close>

definition undeclared_service :: "int service_snap" where
  "undeclared_service = (sample_service [True])\<lparr>ss_Service := (ss_Service (sample_service [True]))\<lparr>svc_Ports :=
     [\<lparr>sp_Name = ''http'', sp_Port = 80, sp_Protocol = ''TCP'', sp_TargetPort = StrVal ''web'', sp_NodePort = 0\<rparr>]\<rparr>\<rparr>"

lemma BackendFindings_relative_witness:
  "\<exists>d\<in>set (r_Diagnoses (ServiceReport int_lib None undeclared_service)).
     d_ID d \<in> {service_IDNoMatchingPods, service_IDTargetPortNotFound}"
proof -
  have "EndpointSet_Ready (ss_Endpoints undeclared_service) > 0 \<and>
      r_Status (ServiceReport int_lib None undeclared_service) = StatusUnhealthy"
    by code_simp
  then show ?thesis using BackendFindings_relative [of int_lib None undeclared_service] by blast
qed

section \<open>The findings of a Deployment\<close>

text \<open>The conditions a Deployment reports that become findings.\<close>

definition replica_failure :: "'q deployment_snap \<Rightarrow> bool" where
  "replica_failure snap \<longleftrightarrow>
     (case Deployment_Condition snap ''ReplicaFailure'' of None \<Rightarrow> False | Some c \<Rightarrow> cond_Status c = ''True'')"

definition rollout_unfinished :: "'q deployment_snap \<Rightarrow> bool" where
  "rollout_unfinished snap \<longleftrightarrow>
     (case Deployment_Condition snap ''Progressing'' of
        None \<Rightarrow> False
      | Some c \<Rightarrow> (cond_Status c, cond_Reason c) \<in> {(''False'', ''ProgressDeadlineExceeded''), (''True'', ''ReplicaSetUpdated'')})"

definition availability_gap :: "'q deployment_snap \<Rightarrow> bool" where
  "availability_gap snap \<longleftrightarrow>
     Deployment_DesiredReplicas snap \<noteq> 0 \<and> \<not> dep_Paused (ds_Deployment snap) \<and>
     dep_AvailableReplicas (ds_Deployment snap) < Deployment_DesiredReplicas snap"

lemma evaluateIntent_Nil: "evaluateIntent snap = [] \<longleftrightarrow> Deployment_DesiredReplicas snap \<noteq> 0 \<and> \<not> dep_Paused (ds_Deployment snap)"
  by (simp add: evaluateIntent_def Deployment_IsPaused_def)

lemma evaluateConditions_Nil: "evaluateConditions snap = [] \<longleftrightarrow> \<not> replica_failure snap \<and> \<not> rollout_unfinished snap"
  by (auto simp: evaluateConditions_def replica_failure_def rollout_unfinished_def split: option.split)

lemma deployment_availability: "deployment_evaluateAvailability snap = (if availability_gap snap then [unavailable_finding snap] else [])"
  by (simp add: deployment_evaluateAvailability_def availability_gap_def Deployment_IsPaused_def Let_def not_le)

lemma deployment_findings:
  "rule_findings deployment_Rules snap = evaluateIntent snap @ evaluateConditions snap @ deployment_evaluateAvailability snap"
  by (simp add: rule_findings_def deployment_Rules_def deployment_rule_defs)

lemma deployment_PodFindings_Nil:
  "fst (deployment_PodFindings lib None snap) = [] \<longleftrightarrow> (\<forall>p\<in>set (ds_Pods snap). fst (pod_findings lib None p) = [])"
  by (simp add: deployment_PodFindings_def Aggregated_None)

lemma deployment_diagnoses_None:
  "deployment_diagnoses lib None snap =
     Prioritize (link_cause [deployment_IDUnavailableReplicas, deployment_IDProgressDeadlineExceeded]
       (fst (deployment_PodFindings lib None snap)) (Prioritize (rule_findings deployment_Rules snap)) @
       fst (deployment_PodFindings lib None snap))"
  by (simp add: deployment_diagnoses_def Evaluate_None case_prod_beta Let_def)

section \<open>Who reports unavailable Pods\<close>

lemma unavailable_id:
  "deployment_IDUnavailableReplicas \<notin> set [deployment_IDScaledToZero, deployment_IDPaused]"
  "deployment_IDUnavailableReplicas \<notin>
     set [deployment_IDProgressDeadlineExceeded, deployment_IDReplicaFailure, deployment_IDRolloutInProgress]"
  "deployment_IDUnavailableReplicas \<notin> set (IDNotReadyUnexplained # pod_ids)"
  by code_simp+

lemma other_findings: "findings_ok ids ds \<Longrightarrow> i \<notin> set ids \<Longrightarrow> d \<in> set ds \<Longrightarrow> d_ID d \<noteq> i"
  using findings_okD by (force simp: finding_ok_def)

lemma unavailable_only:
  "d \<in> set (evaluateIntent snap) \<Longrightarrow> d_ID d \<noteq> deployment_IDUnavailableReplicas"
  "d \<in> set (evaluateConditions snap) \<Longrightarrow> d_ID d \<noteq> deployment_IDUnavailableReplicas"
  "d \<in> set (fst (deployment_PodFindings lib ctx snap)) \<Longrightarrow> d_ID d \<noteq> deployment_IDUnavailableReplicas"
  unfolding deployment_PodFindings_def
  by (erule other_findings [OF evaluateIntent_ok unavailable_id(1)] other_findings [OF evaluateConditions_ok unavailable_id(2)]
      other_findings [OF Aggregated_ok unavailable_id(3)])+

lemma unavailable_finding_simps:
  "d_ID (unavailable_finding snap) = deployment_IDUnavailableReplicas" "d_CausedBy (unavailable_finding snap) = []"
  "d_Severity (unavailable_finding snap) =
     (if dep_AvailableReplicas (ds_Deployment snap) > 0 then SeverityWarning else SeverityCritical)"
  by (simp_all add: unavailable_finding_def Let_def diagnosis0_def)

abbreviation is_unavailable :: "diagnosis \<Rightarrow> bool" where
  "is_unavailable d \<equiv> d_ID d = deployment_IDUnavailableReplicas"

lemma unavailable_rule_findings:
  "filter is_unavailable (rule_findings deployment_Rules snap) = (if availability_gap snap then [unavailable_finding snap] else [])"
  using unavailable_only(1,2) [of _ snap]
  by (simp add: deployment_findings deployment_availability unavailable_finding_simps filter_empty_conv)

text \<open>Ordering and linking findings keeps those with an identifier, one by one.\<close>

lemma filter_linked:
  assumes "\<And>d. d_ID (f d) = d_ID d" and "filter (\<lambda>d. d_ID d = i) ys = []"
  shows "mset (filter (\<lambda>d. d_ID d = i) (Prioritize (map f (Prioritize xs) @ ys))) = mset (map f (filter (\<lambda>d. d_ID d = i) xs))"
proof -
  have "mset (filter (\<lambda>d. d_ID d = i) (Prioritize (map f (Prioritize xs) @ ys))) =
      filter_mset (\<lambda>d. d_ID d = i) (image_mset f (mset xs)) + mset (filter (\<lambda>d. d_ID d = i) ys)"
    by simp
  also have "\<dots> = image_mset f (filter_mset (\<lambda>d. d_ID d = i) (mset xs))"
    by (simp only: assms(2) filter_mset_image_mset assms(1)) simp
  finally show ?thesis by simp
qed

lemma CausedBy_same: "d_CausedBy d = c \<Longrightarrow> d\<lparr>d_CausedBy := c\<rparr> = d"
  by (cases d) simp

text \<open>The first finding about the Pods, as a cause.\<close>

definition first_cause :: "diagnosis list \<Rightarrow> string" where
  "first_cause ds = (case ds of [] \<Rightarrow> [] | d # _ \<Rightarrow> d_ID d)"

lemma deployment_unavailable:
  "filter is_unavailable (deployment_diagnoses lib None snap) =
     (if availability_gap snap
      then [(unavailable_finding snap)\<lparr>d_CausedBy := first_cause (fst (deployment_PodFindings lib None snap))\<rparr>] else [])"
proof -
  let ?pf = "fst (deployment_PodFindings lib None snap)" and ?u = "unavailable_finding snap"
  let ?f = "\<lambda>d. if ?pf \<noteq> [] \<and> d_ID d \<in> set [deployment_IDUnavailableReplicas, deployment_IDProgressDeadlineExceeded]
    then d\<lparr>d_CausedBy := d_ID (hd ?pf)\<rparr> else d"
  have u: "?f ?u = ?u\<lparr>d_CausedBy := first_cause ?pf\<rparr>"
    by (cases ?pf) (simp_all add: unavailable_finding_simps first_cause_def CausedBy_same)
  have "filter is_unavailable ?pf = []" using unavailable_only(3) by (auto simp: filter_empty_conv)
  then have "mset (filter is_unavailable (deployment_diagnoses lib None snap)) =
      mset (map ?f (filter is_unavailable (rule_findings deployment_Rules snap)))"
    unfolding deployment_diagnoses_None link_cause_alt by (intro filter_linked) simp_all
  also have "map ?f (filter is_unavailable (rule_findings deployment_Rules snap)) =
      (if availability_gap snap then [?u\<lparr>d_CausedBy := first_cause ?pf\<rparr>] else [])"
    unfolding unavailable_rule_findings using u by simp
  finally show ?thesis
    by (cases "availability_gap snap") (simp_all only: if_True if_False mset_zero_iff mset.simps mset_single_iff)
qed

section \<open>The verdict\<close>

text \<open>
  C35. A Deployment analysed to the end is reported without a finding exactly when it is meant to
  run, has the replicas it asks for, its conditions report no rejected Pod and no unfinished
  rollout, and no Pod has a finding of its own. The report says that Pods are unavailable exactly
  when a Deployment that is meant to run has fewer than it asks for; it says so once, as critical
  exactly when none is available, and names the most frequent finding about the Pods as the cause
  when there is one.
\<close>

theorem deployment_verdict:
  "(r_Diagnoses (DeploymentReport lib None snap) = [] \<longleftrightarrow>
      Deployment_DesiredReplicas snap \<noteq> 0 \<and> \<not> dep_Paused (ds_Deployment snap) \<and> \<not> availability_gap snap \<and>
      \<not> replica_failure snap \<and> \<not> rollout_unfinished snap \<and>
      list_all (\<lambda>p. fst (pod_findings lib None p) = []) (ds_Pods snap)) \<and>
   filter (\<lambda>d. d_ID d = deployment_IDUnavailableReplicas) (r_Diagnoses (DeploymentReport lib None snap)) =
     (if availability_gap snap
      then [(unavailable_finding snap)\<lparr>d_CausedBy := first_cause (fst (deployment_PodFindings lib None snap))\<rparr>] else []) \<and>
   d_Severity (unavailable_finding snap) =
     (if dep_AvailableReplicas (ds_Deployment snap) > 0 then SeverityWarning else SeverityCritical)"
proof -
  have "rule_findings deployment_Rules snap = [] \<longleftrightarrow>
      Deployment_DesiredReplicas snap \<noteq> 0 \<and> \<not> dep_Paused (ds_Deployment snap) \<and> \<not> availability_gap snap \<and>
      \<not> replica_failure snap \<and> \<not> rollout_unfinished snap"
    by (auto simp: deployment_findings evaluateIntent_Nil evaluateConditions_Nil deployment_availability)
  then have "deployment_diagnoses lib None snap = [] \<longleftrightarrow>
      (Deployment_DesiredReplicas snap \<noteq> 0 \<and> \<not> dep_Paused (ds_Deployment snap) \<and> \<not> availability_gap snap \<and>
       \<not> replica_failure snap \<and> \<not> rollout_unfinished snap) \<and>
      list_all (\<lambda>p. fst (pod_findings lib None p) = []) (ds_Pods snap)"
    by (simp add: deployment_diagnoses_None link_cause_alt deployment_PodFindings_Nil list_all_iff)
  then show ?thesis
    by (simp only: deployment_report.built deployment_unavailable unavailable_finding_simps) blast
qed

text \<open>The tests' Deployment with all its replicas available, and one that lost one of two.\<close>

definition web_deployment :: "int \<Rightarrow> k_deployment" where
  "web_deployment available =
     DeploymentBuilder_Status available available 2 (DeploymentBuilder_Replicas 2 (kt_Deployment ''web''))"

definition web_snap :: "int \<Rightarrow> int deployment_snap" where
  "web_snap available = DeploymentSnap (web_deployment available) [ready_pod ''web-a'' ''app'', ready_pod ''web-b'' ''app'']"

lemma web_pods_quiet: "list_all (\<lambda>p. fst (pod_findings lib None p) = []) (ds_Pods (web_snap n))"
proof -
  have "fst (pod_findings lib None (Snap (ready_pod name c))) = []" for name c
  proof (rule quiet_findings)
    show "quiet_pod (Snap (ready_pod name c))" using ready_pod_quiet by (simp only: quiet_snap_iff [of _ 0])
  qed (simp add: nothing_referenced_def Snap_def)
  then show ?thesis by (simp add: web_snap_def DeploymentSnap_def)
qed

lemma deployment_verdict_witness:
  "r_Diagnoses (DeploymentReport int_lib None (web_snap 2)) = [] \<and>
   map d_Severity (filter is_unavailable (r_Diagnoses (DeploymentReport int_lib None (web_snap 1)))) = [SeverityWarning]"
proof -
  have "\<not> replica_failure (web_snap 2)" "\<not> rollout_unfinished (web_snap 2)" "\<not> availability_gap (web_snap 2)"
    "availability_gap (web_snap 1)" "Deployment_DesiredReplicas (web_snap 2) \<noteq> 0" "\<not> dep_Paused (ds_Deployment (web_snap 2))"
    "dep_AvailableReplicas (ds_Deployment (web_snap 1)) > 0"
    by code_simp+
  then show ?thesis
    using deployment_verdict [of int_lib "web_snap 2"] deployment_verdict [of int_lib "web_snap 1"] web_pods_quiet [of int_lib 2]
    by simp
qed

section \<open>A claim as a whole\<close>

text \<open>
  C30. When the report of a claim has findings, for every context. A bound claim has none. A
  claim that is neither bound nor lost always has one: a rule explains it, or the fallback
  reports how long it has been waiting, also when the context expires before any rule has run.
  A lost claim is found by the last of the four rules, so it is reported as lost whenever all of
  them run; but the fallback leaves lost claims to that rule, so when the context has expired
  before the rules run, the report of a lost claim has no finding.
\<close>

theorem claim_explained:
  "(PVC_IsBound snap \<longrightarrow> r_Diagnoses (PVCReport lib ctx snap) = []) \<and>
   (\<not> PVC_IsBound snap \<and> pvc_Phase (vs_Claim snap) \<noteq> ''Lost'' \<longrightarrow> r_Diagnoses (PVCReport lib ctx snap) \<noteq> []) \<and>
   (pvc_Phase (vs_Claim snap) = ''Lost'' \<and> (case ctx of None \<Rightarrow> True | Some n \<Rightarrow> 4 \<le> n) \<longrightarrow>
      pvc_IDLost \<in> d_ID ` set (r_Diagnoses (PVCReport lib ctx snap))) \<and>
   (pvc_Phase (vs_Claim snap) = ''Lost'' \<and> ctx = Some 0 \<longrightarrow> r_Diagnoses (PVCReport lib ctx snap) = [])"
proof (intro conjI impI)
  assume bound: "PVC_IsBound snap"
  then have "fst (Evaluate ctx pvc_Rules snap) = []"
    using Evaluate_subset [of ctx pvc_Rules snap] by (simp add: bound_silent)
  with bound show "r_Diagnoses (PVCReport lib ctx snap) = []"
    by (simp add: pvc_report.built pvc_diagnoses_def pvc_Fallback_def)
next
  assume "\<not> PVC_IsBound snap \<and> pvc_Phase (vs_Claim snap) \<noteq> ''Lost''"
  then show "r_Diagnoses (PVCReport lib ctx snap) \<noteq> []"
    by (simp add: pvc_report.built pvc_diagnoses_def pvc_Fallback_def Let_def)
next
  assume lost: "pvc_Phase (vs_Claim snap) = ''Lost'' \<and> (case ctx of None \<Rightarrow> True | Some n \<Rightarrow> 4 \<le> n)"
  have "\<exists>d\<in>set (fst (Evaluate ctx pvc_Rules snap)). d_ID d = pvc_IDLost"
    by (rule lost_found) (use lost in \<open>cases ctx; simp add: pvc_Rules_def\<close>)+
  then show "pvc_IDLost \<in> d_ID ` set (r_Diagnoses (PVCReport lib ctx snap))"
    by (auto simp: pvc_report.built pvc_diagnoses_def Let_def intro: rev_image_eqI)
next
  assume lost: "pvc_Phase (vs_Claim snap) = ''Lost'' \<and> ctx = Some 0"
  then show "r_Diagnoses (PVCReport lib ctx snap) = []"
    by (simp add: pvc_report.built pvc_diagnoses_def Evaluate_Some rule_findings_def pvc_Fallback_def)
qed

lemma claim_explained_witness:
  "r_Diagnoses (PVCReport int_lib (Some 0) (sample_pvc ''Bound'')) = [] \<and>
   r_Diagnoses (PVCReport int_lib (Some 0) (sample_pvc ''Pending'')) \<noteq> [] \<and>
   pvc_IDLost \<in> d_ID ` set (r_Diagnoses (PVCReport int_lib None (sample_pvc ''Lost''))) \<and>
   r_Diagnoses (PVCReport int_lib (Some 0) (sample_pvc ''Lost'')) = []"
  using claim_explained [of "sample_pvc ''Bound''" int_lib "Some 0"] claim_explained [of "sample_pvc ''Pending''" int_lib "Some 0"]
    claim_explained [of "sample_pvc ''Lost''" int_lib None] claim_explained [of "sample_pvc ''Lost''" int_lib "Some 0"]
  by (simp add: PVC_IsBound_def sample_pvc_def)

end
