(* ===== verification/Spec2Isabelle.thy ===== *)
theory Spec2Isabelle
  imports Cli Fixtures Workloads ReportContracts
begin

text \<open>
  \<^bold>\<open>KubeWhy, verified.\<close> KubeWhy (\<open>kubectl why RESOURCE NAME\<close>) explains why a Kubernetes resource is
  not working. It reads the resource and what is related to it, runs a set of rules over what it
  read, and prints a report of findings with their evidence. It never changes the cluster. This
  library models the program, from the reads to the exit code, and proves what its users rely
  on: what a finding asserts is what the API server said, nothing that could not be read turns
  into a verdict, the same cluster gives the same report, and the output loses nothing.

  \<^bold>\<open>The program and its model.\<close> An analysis runs through the parts in this order (sources under
  \<open>src/internal\<close>):

  \<^enum> \<open>cli\<close> (\<open>root.go\<close>, \<open>rules.go\<close>, \<open>version.go\<close>, \<open>exit.go\<close>) runs the command and turns the outcome
    into an exit code: theory Cli, \<open>newRootCommand\<close>, \<open>execute\<close>, \<open>root_RunE\<close>, \<open>cli_run\<close>, \<open>reportError\<close>, and
    \<open>cli_main\<close> for \<open>cmd/kubectl-why/main.go\<close>. The build metadata of \<open>version/version.go\<close> is in theory Version.
  \<^enum> \<open>kube\<close>: \<open>resolver.go\<close> turns an alias into a kind and \<open>errors.go\<close> classifies the errors of the
    API server (theory Kube, \<open>ResolveKind\<close>, \<open>Classify\<close>); \<open>client.go\<close> builds the client (theory
    KubeClient, \<open>kube_New\<close>).
  \<^enum> \<open>analyze\<close>: \<open>Analyze\<close> collects a snapshot and builds its report (theories Analyze and Reports,
    one report function per kind, each with all its sections).
  \<^enum> \<open>collect\<close>: one collector per kind (theory Collect) over the reads they share, such as events,
    endpoints, owners, storage classes and the Pods behind a workload (theory CollectReads). A
    collector returns a snapshot whose \<open>collection\<close> lists what was inspected and which reads
    failed.
  \<^enum> \<open>snapshot\<close>: events and bookkeeping (theory Events) and the six snapshot types with their
    accessors (theory Snapshots). The fields of Kubernetes objects the program reads are the
    records of theory KubeTypes.
  \<^enum> \<open>diagnosis\<close>: findings, rules and reports (theory Diagnosis), running a rule set, ordering and
    aggregating findings (theory Engine).
  \<^enum> \<open>diagnosis/rules\<close>: the rules. Those about Pods are split as the package is: PodHelpers
    (\<open>helpers.go\<close> and identifiers), PodContainers (\<open>oom.go\<close>, \<open>crashloop.go\<close>, \<open>terminated.go\<close>,
    \<open>restarts.go\<close>), PodImages (\<open>imagepull.go\<close>), PodScheduling (\<open>scheduling.go\<close>), PodProbes
    (\<open>probes.go\<close>), PodVolumes (\<open>config.go\<close>, \<open>mount.go\<close>, \<open>claim.go\<close>, \<open>node.go\<close>), PodRules (the rule
    set, the fallback, \<open>Aggregated\<close>). The other packages are ServiceRules, DeploymentRules,
    StatefulSetRules, IngressRules and PVCRules.
  \<^enum> \<open>output\<close>: symbols, colours and wrapping (theory Style: \<open>style.go\<close>, \<open>color.go\<close>, \<open>vt_windows.go\<close>,
    \<open>vt_other.go\<close>), the text renderer and JSON entry point (theory TextOutput: \<open>text.go\<close>,
    \<open>json.go\<close>). Durations and counts as text are in theory Format (\<open>format/format.go\<close>).
  \<^enum> \<open>kubetest\<close>: the builders of objects and snapshots the tests are written with, one section per
    file (theory KubeTest): \<open>PodBuilder_Ready\<close> is the method \<open>Ready\<close> of \<open>PodBuilder\<close>, and so on.

  Prelude holds the parts of the Go language and library the program uses, GoLoops the two loop
  shapes that recur in it (stable sorting and grouping by a key).

  \<^bold>\<open>How state and operations correspond.\<close> A Go struct is a record with the same fields, under a
  prefix; an enumeration is a datatype, with a constructor for other values where the Go type is
  a string. A function that mutates its argument returns it. A rule is its metadata with a
  function from a snapshot to findings. An error is a value of \<open>go_error\<close>, on the left of a
  sum. A function of the renderer is the list of lines it prints, and \<open>output_Text\<close> feeds them
  to the writer.
  Code outside the repository is a parameter: \<open>kube_lib\<close> (arithmetic and printing of resource
  quantities), \<open>kube_client\<close> (what each read of the API server answers, as a function of its
  arguments; the clock; the order in which goroutines finish), \<open>api_errors\<close> (what a client error
  is), \<open>client_lib\<close> (kubeconfig loading), \<open>world\<close> (what cobra makes of the arguments, the
  terminal, the JSON encoder, the build variables) and the writer. Every theorem holds for all
  of them, except where it names what it asks of one.

  \<^bold>\<open>Interfaces.\<close> Each contract between components is a locale, interpreted on the model itself.
  \<open>sort_order\<close> and \<open>total_sort_order\<close> say what a comparison must satisfy for \<open>sort.SliceStable\<close> to
  sort, stably and independently of the order of its input; \<open>keyed_group\<close> and \<open>keyed_group_view\<close>
  give grouping by a key its specification (\<open>sort_order\<close> also for the ordinals of replicas, where
  it holds only because every name has one); \<open>rule_set\<close> is what the engine asks of a rule set, with
  one interpretation per package of rules; \<open>growing\<close> is what every step of a collector keeps of
  the bookkeeping; \<open>report_builder\<close> is what every report promises, with one interpretation per
  kind.

  \<^bold>\<open>What is proved.\<close> In these groups, each in the theory of its component:
  \<^item> the process: the exit code for every command line (Cli), which read decides whether there is
    a report at all (Analyze), and that every finding is listed by the \<open>rules\<close> command (Cli);
  \<^item> reports: worst first with the verdict that follows (Analyze), every cause named is in the
    report, and a missing object is the server's own answer (Causes); a report that says healthy
    would be the same whatever a read that failed had answered (Verdicts);
  \<^item> reads: the events are those of the object itself, the concurrent reads give the same result
    in every order, the ownership walk ends (Reads); the bookkeeping only grows and a failed read
    is never an absence (CollectContracts);
  \<^item> engine: the verdict, the ordering, the aggregation (Diagnosis, Engine), deduplication of
    events (Events), the contracts every report inherits (ReportContracts);
  \<^item> rules: exact conditions of the findings, which rule owns a container, what is read back from
    the scheduler's message, the documented formula for requests, which broken link of an Ingress
    is reported, what a Service's own rules say of any Service, claims and ordinals of a
    StatefulSet, and that an unready Pod is never left without a finding;
  \<^item> no false alarms: a running and ready Pod with nothing on record, and a StatefulSet that has all
    it asks for, are reported without a finding, whatever the deadline (Quiet, Replicas);
  \<^item> workloads: the replicas of a StatefulSet are examined in ordinal order (Replicas), and exactly
    when and how a Deployment is reported, how far the state of its Pods makes a Service unhealthy,
    and that a claim that is not bound is explained or reported, context by context (Workloads);
  \<^item> fixtures: what the tests start from is what the collectors produce, Pods, routes, endpoints and
    replicas (Fixtures);
  \<^item> output: wrapping keeps every word and the width, colour is decoration only, and a report is
    written whole or an error is returned (Style, TextOutput); durations read back, exactly up to
    4096 hours and within 839 nanoseconds beyond (Format).
  Some theorems state what the code does where a reader may expect more: the cause linked to an
  unschedulable Pod depends on the iteration order of a map (\<open>claim_cause_order\<close>), and a blocked
  StatefulSet may be blamed on a Pod after the missing one or on a Pod whose name has no ordinal
  (\<open>evaluateOrdering_exact\<close>). Among the Pods
  that exist the blame falls on the lowest ordinal that is not ready (\<open>pods_in_ordinal_order\<close>).

  \<^bold>\<open>Bounds and fuel.\<close> No definition uses fuel. Loops over lists are recursive functions or folds;
  the loops that consume text have their termination proved by its length. The ownership walk
  recurses on the depth that \<open>maxOwnerDepth\<close> leaves, as the code does, and is compared with the
  unbounded walk \<open>climbs\<close>. The limits of the source are kept: eight backend Pods with events
  (\<open>maxBackendEvents\<close>), 200 events per list (\<open>eventLimit\<close>), 100 columns (\<open>maxWidth\<close>), \<open>int32\<close>
  counters (\<open>wrap32\<close>), 64-bit parsing of numbers, saturating time differences, and the wrap-around of a
  negated duration in the fixtures (\<open>wrap64\<close>).

  \<^bold>\<open>Modelling decisions.\<close>
  \<^item> A string is a list of bytes. Case mapping and white space are those of ASCII; runes are decoded
    where the program counts them.
  \<^item> A point in time is a number of nanoseconds, 0 the zero time; a duration is an integer within
    64 bits.
  \<^item> A Go map is an association list with distinct keys whose order is the iteration order; where
    the program depends on it, theorems quantify over all orders.
  \<^item> One analysis sees one answer per request: the client is a function. The clock is a function of
    what has been collected so far.
  \<^item> A cancelled context is seen through \<open>ctx.Err()\<close>: \<open>gocontext\<close> says after how many checks it
    expires.
  \<^item> A \<open>float64\<close> occurs only where a duration is printed. It is an integer number of \<open>2 ^ -100\<close>, and
    the quotient and the sum the library computes are rounded to 53 bits, ties to even
    (\<open>fl_round\<close>, \<open>Duration_in\<close> in theory Format).
  \<^item> A regular expression is modelled by the matching it performs.
  \<^item> A nil slice and an empty one are the same list.

  \<^item> A fixture method that panics, on a quantity that does not parse or a nil pointer, returns
    \<open>None\<close>; parsing a quantity is a parameter.

  \<^bold>\<open>Not modelled.\<close> The parsing of arguments by cobra, kubeconfig loading and HTTP (client-go), JSON
  encoding, the system calls behind the terminal, and subscribing to signals in
  \<open>cmd/kubectl-why/main.go\<close> are calls into libraries. The struct tags that name JSON fields have no
  counterpart, and the fields of Kubernetes objects that no code of the program reads are left
  out of the fixtures.
\<close>

end
